(* ===== verification/Prelude.thy ===== *)
theory Prelude
  imports Main "HOL-Library.Word" "HOL-Library.Char_ord" "HOL-Library.List_Lexorder"
begin

text \<open>
  Shared ground of the development: the theorem collections, the type synonyms for Go's
  machine-level types, and the parts of Go's standard packages \<open>strings\<close>,
  \<open>strconv\<close>, \<open>fmt\<close>, \<open>encoding/hex\<close>, \<open>encoding/base64\<close> and \<open>time\<close> that the
  node uses, on byte strings (a Go \<open>string\<close> is a sequence of bytes, and so is
  \<^typ>\<open>string\<close>). Case mapping and white space follow the ASCII rules.
\<close>

section \<open>Theorem collections\<close>

named_theorems repo_defs \<open>definitions of the repository operations\<close>
named_theorems row_simps \<open>effect of the SQL statements on the rows of a table\<close>
named_theorems inv_intros \<open>preservation lemmas of the table invariants\<close>
named_theorems codec_simps \<open>encode/decode equations\<close>

section \<open>Go's basic types\<close>

type_synonym int64 = "64 word"
type_synonym time = int \<comment> \<open>nanoseconds since the zero time of package time\<close>
type_synonym duration = int \<comment> \<open>nanoseconds\<close>

type_synonym disk = "string \<rightharpoonup> string" \<comment> \<open>the files the node reads and writes\<close>

definition second :: duration where "second = 1000000000"
definition millisecond :: duration where "millisecond = 1000000"
definition minute :: duration where "minute = 60 * second"
definition hour :: duration where "hour = 60 * minute"

lemma duration_pos [simp]: "0 < second" "0 < millisecond" "0 < minute" "0 < hour"
  by (simp_all add: second_def millisecond_def minute_def hour_def)

text \<open>\<open>t.IsZero()\<close>, \<open>t.After(u)\<close>, \<open>t.Before(u)\<close>.\<close>

definition is_zero_time :: "time \<Rightarrow> bool" where "is_zero_time t \<longleftrightarrow> t = 0"

section \<open>Package strings\<close>

definition has_prefix :: "string \<Rightarrow> string \<Rightarrow> bool" where
  "has_prefix s p \<longleftrightarrow> take (length p) s = p"

definition has_suffix :: "string \<Rightarrow> string \<Rightarrow> bool" where
  "has_suffix s p \<longleftrightarrow> length p \<le> length s \<and> drop (length s - length p) s = p"

definition trim_prefix :: "string \<Rightarrow> string \<Rightarrow> string" where
  "trim_prefix s p = (if has_prefix s p then drop (length p) s else s)"

fun contains_sub :: "string \<Rightarrow> string \<Rightarrow> bool" where
  "contains_sub [] p \<longleftrightarrow> p = []"
| "contains_sub (c # s) p \<longleftrightarrow> has_prefix (c # s) p \<or> contains_sub s p"

fun split_on :: "char \<Rightarrow> string \<Rightarrow> string list" where
  "split_on d [] = [[]]"
| "split_on d (c # s) =
     (if c = d then [] # split_on d s
      else (case split_on d s of [] \<Rightarrow> [[c]] | w # ws \<Rightarrow> (c # w) # ws))"

definition is_space :: "char \<Rightarrow> bool" where
  "is_space c \<longleftrightarrow> of_char c = (32::nat) \<or> (9 \<le> (of_char c :: nat) \<and> of_char c \<le> (13::nat))"

definition trim_space :: "string \<Rightarrow> string" where
  "trim_space s = rev (dropWhile is_space (rev (dropWhile is_space s)))"

definition upper_char :: "char \<Rightarrow> char" where
  "upper_char c = (if 97 \<le> (of_char c :: nat) \<and> of_char c \<le> (122::nat)
                   then char_of (of_char c - (32::nat)) else c)"

definition lower_char :: "char \<Rightarrow> char" where
  "lower_char c = (if 65 \<le> (of_char c :: nat) \<and> of_char c \<le> (90::nat)
                   then char_of (of_char c + (32::nat)) else c)"

definition to_upper :: "string \<Rightarrow> string" where "to_upper = map upper_char"
definition to_lower :: "string \<Rightarrow> string" where "to_lower = map lower_char"

lemma has_prefix_append [simp]: "has_prefix (p @ s) p"
  by (simp add: has_prefix_def)

lemma has_prefix_iff: "has_prefix s p \<longleftrightarrow> (\<exists>r. s = p @ r)"
  unfolding has_prefix_def by (metis append_take_drop_id append_eq_conv_conj)

lemma trim_prefix_append [simp]: "trim_prefix (p @ s) p = s"
  by (simp add: trim_prefix_def)

lemma contains_sub_iff: "contains_sub s p \<longleftrightarrow> (\<exists>a b. s = a @ p @ b)"
proof (induction s)
  case Nil
  then show ?case by auto
next
  case (Cons c s)
  have "contains_sub (c # s) p \<longleftrightarrow> (\<exists>r. c # s = p @ r) \<or> (\<exists>a b. s = a @ p @ b)"
    using Cons.IH by (simp add: has_prefix_iff)
  also have "\<dots> \<longleftrightarrow> (\<exists>a b. c # s = a @ p @ b)"
    by (metis append_Cons append_Nil list.exhaust list.inject)
  finally show ?case .
qed

lemma contains_sub_middle [simp]: "contains_sub (a @ p @ b) p"
  using contains_sub_iff by blast

lemma split_on_ne [simp]: "split_on d s \<noteq> []"
  by (induction s) (auto split: list.splits)

section \<open>Package strconv and the verbs of fmt\<close>

definition digit_char :: "nat \<Rightarrow> char" where
  "digit_char n = char_of (48 + n)"

fun show_nat :: "nat \<Rightarrow> string" where
  "show_nat n = (if n < 10 then [digit_char n] else show_nat (n div 10) @ [digit_char (n mod 10)])"

declare show_nat.simps [simp del]

definition show_int :: "int \<Rightarrow> string" where \<comment> \<open>the verb \<open>%d\<close>\<close>
  "show_int i = (if i < 0 then CHR ''-'' # show_nat (nat (- i)) else show_nat (nat i))"

definition is_digit :: "char \<Rightarrow> bool" where
  "is_digit c \<longleftrightarrow> 48 \<le> (of_char c :: nat) \<and> of_char c \<le> (57::nat)"

definition digit_val :: "char \<Rightarrow> nat" where
  "digit_val c = of_char c - 48"

definition digits_val :: "string \<Rightarrow> nat" where
  "digits_val s = foldl (\<lambda>n c. 10 * n + digit_val c) 0 s"

text \<open>\<open>strconv.Atoi\<close>: an optional sign, at least one decimal digit, in the range of int.\<close>

definition atoi :: "string \<Rightarrow> int option" where
  "atoi s =
     (let neg = (s \<noteq> [] \<and> hd s = CHR ''-'');
          body = (if s \<noteq> [] \<and> (hd s = CHR ''-'' \<or> hd s = CHR ''+'') then tl s else s);
          v = (if neg then - int (digits_val body) else int (digits_val body))
      in if body = [] \<or> \<not> list_all is_digit body then None
         else if v < - (2 ^ 63) \<or> 2 ^ 63 \<le> v then None
         else Some v)"

lemma digits_val_snoc: "digits_val (s @ [c]) = 10 * digits_val s + digit_val c"
  by (simp add: digits_val_def)

lemma digit_char_facts: "n < 10 \<Longrightarrow> is_digit (digit_char n) \<and> digit_val (digit_char n) = n"
  by (simp add: is_digit_def digit_val_def digit_char_def of_char_of take_bit_eq_mod)

lemma digits_val_show_nat: "list_all is_digit (show_nat n) \<and> digits_val (show_nat n) = n"
proof (induction n rule: show_nat.induct)
  case (1 n)
  show ?case
  proof (cases "n < 10")
    case True
    then show ?thesis using digit_char_facts [of n] by (simp add: show_nat.simps [of n] digits_val_def)
  next
    case False
    then show ?thesis
      using 1 digit_char_facts [of "n mod 10"] by (simp add: show_nat.simps [of n] digits_val_snoc)
  qed
qed

lemma atoi_show_int:
  assumes "0 \<le> i" and "i < 2 ^ 63"
  shows "atoi (show_int i) = Some i"
proof -
  have d: "list_all is_digit (show_nat (nat i))" "digits_val (show_nat (nat i)) = nat i"
    using digits_val_show_nat by auto
  have ne: "show_nat (nat i) \<noteq> []" by (simp add: show_nat.simps [of "nat i"])
  then have "is_digit (hd (show_nat (nat i)))" using d(1) by (cases "show_nat (nat i)") auto
  then have "hd (show_nat (nat i)) \<noteq> CHR ''-''" "hd (show_nat (nat i)) \<noteq> CHR ''+''"
    by (auto simp: is_digit_def)
  with d ne assms show ?thesis by (simp add: atoi_def show_int_def Let_def)
qed

text \<open>Zero-padded decimal numbers, as the layouts of \<open>time.Format\<close> print them.\<close>

definition pad_nat :: "nat \<Rightarrow> nat \<Rightarrow> string" where
  "pad_nat w n = (let s = show_nat n in replicate (w - length s) (CHR ''0'') @ s)"

definition hex_digit :: "nat \<Rightarrow> char" where
  "hex_digit n = (if n < 10 then char_of (48 + n) else char_of (87 + n))"

definition hex_byte :: "char \<Rightarrow> string" where
  "hex_byte c = [hex_digit (of_char c div 16), hex_digit (of_char c mod 16)]"

text \<open>\<open>hex.EncodeToString\<close>.\<close>

definition hex_encode :: "string \<Rightarrow> string" where
  "hex_encode s = concat (map hex_byte s)"

text \<open>The verb \<open>%q\<close>: a double-quoted Go string literal.\<close>

definition quote_char :: "char \<Rightarrow> string" where
  "quote_char c =
     (let n = (of_char c :: nat) in
      if n = 34 then [CHR 0x5C, CHR 0x22] else if n = 92 then [CHR 0x5C, CHR 0x5C]
      else if n = 7 then [CHR 0x5C, CHR ''a''] else if n = 8 then [CHR 0x5C, CHR ''b'']
      else if n = 12 then [CHR 0x5C, CHR ''f''] else if n = 10 then [CHR 0x5C, CHR ''n'']
      else if n = 13 then [CHR 0x5C, CHR ''r''] else if n = 9 then [CHR 0x5C, CHR ''t'']
      else if n = 11 then [CHR 0x5C, CHR ''v'']
      else if n < 32 \<or> n = 127 then [CHR 0x5C, CHR ''x''] @ hex_byte c else [c])"

definition quote_go :: "string \<Rightarrow> string" where
  "quote_go s = [CHR 0x22] @ concat (map quote_char s) @ [CHR 0x22]"

section \<open>Package encoding/base64\<close>

text \<open>
  The standard and the URL alphabet, with padding. A group of three bytes becomes four
  characters; a final group of one or two bytes is padded with \<open>=\<close>.
\<close>

definition b64_char :: "bool \<Rightarrow> nat \<Rightarrow> char" where
  "b64_char url n =
     (if n < 26 then char_of (65 + n) else if n < 52 then char_of (71 + n)
      else if n < 62 then char_of (n - 4)
      else if n = 62 then (if url then CHR ''-'' else CHR ''+'')
      else (if url then CHR ''_'' else CHR ''/''))"

fun b64_encode :: "bool \<Rightarrow> string \<Rightarrow> string" where
  "b64_encode url (a # b # c # s) =
     (let x = of_char a; y = of_char b; z = of_char c in
      [b64_char url (x div 4), b64_char url (x mod 4 * 16 + y div 16),
       b64_char url (y mod 16 * 4 + z div 64), b64_char url (z mod 64)] @ b64_encode url s)"
| "b64_encode url [a, b] =
     (let x = of_char a; y = of_char b in
      [b64_char url (x div 4), b64_char url (x mod 4 * 16 + y div 16),
       b64_char url (y mod 16 * 4), CHR ''=''])"
| "b64_encode url [a] =
     (let x = of_char a in
      [b64_char url (x div 4), b64_char url (x mod 4 * 16), CHR ''='', CHR ''=''])"
| "b64_encode url [] = []"

section \<open>Package time: layouts\<close>

text \<open>
  The proleptic Gregorian date of a number of days since 1 January of year 1, by the
  usual era arithmetic (400 years have 146097 days; the year is shifted to start in
  March).
\<close>

definition civil_date :: "int \<Rightarrow> int \<times> nat \<times> nat" where
  "civil_date days =
     (let z = days + 306; era = z div 146097; doe = z mod 146097;
          yoe = (doe - doe div 1460 + doe div 36524 - doe div 146096) div 365;
          y = yoe + era * 400;
          doy = doe - (365 * yoe + yoe div 4 - yoe div 100);
          mp = (5 * doy + 2) div 153;
          d = doy - (153 * mp + 2) div 5 + 1;
          m = (if mp < 10 then mp + 3 else mp - 9)
      in (if m \<le> 2 then y + 1 else y, nat m, nat d))"

definition clock_fields :: "time \<Rightarrow> int \<times> nat \<times> nat \<times> nat \<times> nat \<times> nat \<times> nat" where
  "clock_fields t =
     (let s = t div second; (y, mo, d) = civil_date (s div 86400); r = s mod 86400
      in (y, mo, d, nat (r div 3600), nat (r mod 3600 div 60), nat (r mod 60),
          nat (t mod second div millisecond)))"

definition date_part :: "time \<Rightarrow> string" where
  "date_part t = (let (y, mo, d, h, mi, s, ms) = clock_fields t in
     pad_nat 4 (nat y) @ ''-'' @ pad_nat 2 mo @ ''-'' @ pad_nat 2 d)"

definition clock_part :: "time \<Rightarrow> string" where
  "clock_part t = (let (y, mo, d, h, mi, s, ms) = clock_fields t in
     pad_nat 2 h @ '':'' @ pad_nat 2 mi @ '':'' @ pad_nat 2 s)"

text \<open>The layouts \<open>2006-01-02T15:04:05.000Z\<close>, RFC3339 (in UTC) and \<open>2006-01-02 15:04:05\<close>.\<close>

definition fmt_millis :: "time \<Rightarrow> string" where
  "fmt_millis t = (let (y, mo, d, h, mi, s, ms) = clock_fields t in
     date_part t @ ''T'' @ clock_part t @ ''.'' @ pad_nat 3 ms @ ''Z'')"

definition fmt_rfc3339 :: "time \<Rightarrow> string" where
  "fmt_rfc3339 t = date_part t @ ''T'' @ clock_part t @ ''Z''"

definition fmt_datetime :: "time \<Rightarrow> string" where
  "fmt_datetime t = date_part t @ '' '' @ clock_part t"

text \<open>The layout RFC3339Nano in UTC, which \<open>encoding/json\<close> prints: no trailing zeros in the
  fraction, and no fraction at all on a full second.\<close>

definition drop_trailing :: "char \<Rightarrow> string \<Rightarrow> string" where
  "drop_trailing c s = rev (dropWhile (\<lambda>x. x = c) (rev s))"

definition fmt_nano :: "time \<Rightarrow> string" where
  "fmt_nano t =
     (let f = drop_trailing (CHR ''0'') (pad_nat 9 (nat (t mod second)))
      in date_part t @ ''T'' @ clock_part t @ (if f = [] then [] else CHR ''.'' # f) @ ''Z'')"

text \<open>The layout of HTTP dates, \<open>Mon, 02 Jan 2006 15:04:05 GMT\<close>; day 0 is a Monday.\<close>

definition fmt_http :: "time \<Rightarrow> string" where
  "fmt_http t =
     (let (y, mo, d, h, mi, s, ms) = clock_fields t;
          wd = [''Mon'', ''Tue'', ''Wed'', ''Thu'', ''Fri'', ''Sat'', ''Sun''] ! nat (t div second div 86400 mod 7);
          mn = [''Jan'', ''Feb'', ''Mar'', ''Apr'', ''May'', ''Jun'', ''Jul'', ''Aug'', ''Sep'', ''Oct'', ''Nov'', ''Dec'']
               ! (mo - 1)
      in wd @ '', '' @ pad_nat 2 d @ '' '' @ mn @ '' '' @ pad_nat 4 (nat y) @ '' '' @ clock_part t @ '' GMT'')"

section \<open>Generic lemmas on lists and maps\<close>

lemma filter_fst_map_eq:
  "(\<And>x. x \<in> set xs \<Longrightarrow> P (f x) = P x) \<Longrightarrow> filter P (map f xs) = map f (filter P xs)"
  by (induction xs) auto

lemma distinct_map_filter: "distinct (map f xs) \<Longrightarrow> distinct (map f (filter P xs))"
  by (induction xs) auto

lemma distinct_map_upd:
  "(\<And>x. k (f x) = k x) \<Longrightarrow> map k (map f xs) = map k xs"
  by simp

lemma find_append: "List.find P (xs @ ys) = (case List.find P xs of None \<Rightarrow> List.find P ys | Some x \<Rightarrow> Some x)"
  by (induction xs) auto

lemma find_map_pres:
  "(\<And>x. x \<in> set xs \<Longrightarrow> P (f x) = P x) \<Longrightarrow> List.find P (map f xs) = map_option f (List.find P xs)"
  by (induction xs) auto

lemma find_None_iff_ex: "List.find P xs = None \<longleftrightarrow> \<not> list_ex P xs"
  by (induction xs) auto

lemma find_Some_in: "List.find P xs = Some x \<Longrightarrow> x \<in> set xs \<and> P x"
  by (induction xs) (auto split: if_splits)

lemma find_key_unique:
  assumes "distinct (map k xs)" and "x \<in> set xs"
  shows "List.find (\<lambda>y. k y = k x) xs = Some x"
  using assms by (induction xs) (auto simp: image_iff)

lemma find_filter_key:
  "(\<And>x. x \<in> set xs \<Longrightarrow> P x \<Longrightarrow> Q x) \<Longrightarrow> List.find P (filter Q xs) = List.find P xs"
  by (induction xs) auto

lemma find_filter_none:
  "(\<And>x. x \<in> set xs \<Longrightarrow> P x \<Longrightarrow> \<not> Q x) \<Longrightarrow> List.find P (filter Q xs) = None"
  by (induction xs) auto

section \<open>Machines with an invariant\<close>

text \<open>A step relation that preserves an invariant: so does every run, and a preorder that every step
  respects relates the ends of every run.\<close>

locale invariant_machine =
  fixes step :: "'s \<Rightarrow> 's \<Rightarrow> bool" and inv :: "'s \<Rightarrow> bool"
  assumes step_inv: "step s s' \<Longrightarrow> inv s \<Longrightarrow> inv s'"
begin

lemma run_inv: "step\<^sup>*\<^sup>* s s' \<Longrightarrow> inv s \<Longrightarrow> inv s'"
  by (induction rule: rtranclp_induct) (auto intro: step_inv)

lemma run_respects:
  assumes "step\<^sup>*\<^sup>* s s'" and "\<And>x. R x x" and "\<And>x y z. R x y \<Longrightarrow> R y z \<Longrightarrow> R x z"
    and "\<And>s s'. step s s' \<Longrightarrow> R (f s) (f s')"
  shows "R (f s) (f s')"
  using assms(1) by (induction rule: rtranclp_induct) (blast intro: assms(2-4))+

end

end
