(* ===== verification/Json.thy ===== *)
theory Json
  imports Prelude
begin

text \<open>
  The part of package \<open>encoding/json\<close> the node uses: JSON values, the compact text that
  \<open>json.Marshal\<close> prints (with its HTML-safe escapes), the scanner behind
  \<open>json.Unmarshal\<close> and \<open>json.Decoder\<close>, and the rules by which an object is stored into a
  struct (case-insensitive member names, \<open>null\<close> leaves the field, a wrong kind is a type
  error that does not stop the other fields). Numbers stay the text of their token; the
  trip through \<open>float64\<close> that a field of type \<open>interface{}\<close> takes is the parameter
  \<open>f64\<close> of \<open>canon\<close>. Strings are bytes of valid UTF-8; the nesting limit of 10000 of the
  scanner is not modelled.
\<close>

section \<open>Values and their text\<close>

datatype json =
    JNull
  | JBool bool
  | JNum string
  | JStr string
  | JArr "json list"
  | JObj "(string \<times> json) list"

definition esc_char :: "char \<Rightarrow> string" where
  "esc_char c =
     (let n = (of_char c :: nat) in
      if n = 34 then [CHR 0x5C, CHR 0x22] else if n = 92 then [CHR 0x5C, CHR 0x5C]
      else if n = 8 then [CHR 0x5C, CHR ''b''] else if n = 12 then [CHR 0x5C, CHR ''f'']
      else if n = 10 then [CHR 0x5C, CHR ''n''] else if n = 13 then [CHR 0x5C, CHR ''r'']
      else if n = 9 then [CHR 0x5C, CHR ''t'']
      else if n < 32 \<or> n = 60 \<or> n = 62 \<or> n = 38
        then [CHR 0x5C, CHR ''u'', CHR ''0'', CHR ''0''] @ hex_byte c
      else [c])"

definition esc_string :: "string \<Rightarrow> string" where
  "esc_string s = concat (map esc_char s)"

definition print_str :: "string \<Rightarrow> string" where
  "print_str s = CHR 0x22 # esc_string s @ [CHR 0x22]"

fun commas :: "string list \<Rightarrow> string" where
  "commas [] = []"
| "commas [x] = x"
| "commas (x # y # xs) = x @ CHR '','' # commas (y # xs)"

fun print_json :: "json \<Rightarrow> string" where
  "print_json JNull = ''null''"
| "print_json (JBool b) = (if b then ''true'' else ''false'')"
| "print_json (JNum t) = t"
| "print_json (JStr s) = print_str s"
| "print_json (JArr vs) = CHR ''['' # commas (map print_json vs) @ '']''"
| "print_json (JObj ms) =
     CHR ''{'' # commas (map (\<lambda>(k, v). print_str k @ CHR '':'' # print_json v) ms) @ ''}''"

text \<open>\<open>json.NewEncoder(w).Encode\<close> ends the text with a newline.\<close>

definition encode_line :: "json \<Rightarrow> string" where
  "encode_line v = print_json v @ [CHR 0x0A]"

section \<open>The scanner\<close>

definition json_ws :: "char \<Rightarrow> bool" where
  "json_ws c \<longleftrightarrow> c = CHR 0x20 \<or> c = CHR 0x09 \<or> c = CHR 0x0A \<or> c = CHR 0x0D"

definition skip_ws :: "string \<Rightarrow> string" where
  "skip_ws = dropWhile json_ws"

definition hex_val :: "char \<Rightarrow> nat option" where
  "hex_val c =
     (let n = (of_char c :: nat) in
      if 48 \<le> n \<and> n \<le> 57 then Some (n - 48)
      else if 97 \<le> n \<and> n \<le> 102 then Some (n - 87)
      else if 65 \<le> n \<and> n \<le> 70 then Some (n - 55) else None)"

definition hex4 :: "string \<Rightarrow> nat option" where
  "hex4 s =
     (if length s < 4 then None
      else (case (hex_val (s ! 0), hex_val (s ! 1), hex_val (s ! 2), hex_val (s ! 3)) of
              (Some a, Some b, Some c, Some d) \<Rightarrow> Some (a * 4096 + b * 256 + c * 16 + d)
            | _ \<Rightarrow> None))"

text \<open>\<open>utf8.EncodeRune\<close>.\<close>

definition rune_utf8 :: "nat \<Rightarrow> string" where
  "rune_utf8 r =
     (if r < 128 then [char_of r]
      else if r < 2048 then [char_of (192 + r div 64), char_of (128 + r mod 64)]
      else if r < 65536 then
        [char_of (224 + r div 4096), char_of (128 + r div 64 mod 64), char_of (128 + r mod 64)]
      else [char_of (240 + r div 262144), char_of (128 + r div 4096 mod 64),
            char_of (128 + r div 64 mod 64), char_of (128 + r mod 64)])"

definition simple_esc :: "char \<Rightarrow> char option" where
  "simple_esc c =
     (if c = CHR 0x22 \<or> c = CHR 0x5C \<or> c = CHR ''/'' then Some c
      else if c = CHR ''b'' then Some (CHR 0x08) else if c = CHR ''f'' then Some (CHR 0x0C)
      else if c = CHR ''n'' then Some (CHR 0x0A) else if c = CHR ''r'' then Some (CHR 0x0D)
      else if c = CHR ''t'' then Some (CHR 0x09) else None)"

text \<open>
  The text after a backslash: the decoded bytes and how many characters were read. A high
  surrogate joins a low surrogate that follows; a lone surrogate is U+FFFD.
\<close>

definition p_esc :: "string \<Rightarrow> (string \<times> nat) option" where
  "p_esc s =
     (case s of [] \<Rightarrow> None
      | e # t \<Rightarrow>
        (case simple_esc e of Some d \<Rightarrow> Some ([d], 1)
         | None \<Rightarrow>
           if e \<noteq> CHR ''u'' then None
           else (case hex4 t of None \<Rightarrow> None
                 | Some r \<Rightarrow>
                   if r < 55296 \<or> 57344 \<le> r then Some (rune_utf8 r, 5)
                   else if r < 56320 \<and> take 2 (drop 4 t) = [CHR 0x5C, CHR ''u''] then
                     (case hex4 (drop 6 t) of
                        Some r2 \<Rightarrow>
                          if 56320 \<le> r2 \<and> r2 < 57344
                          then Some (rune_utf8 ((r - 55296) * 1024 + (r2 - 56320) + 65536), 11)
                          else Some (rune_utf8 65533, 5)
                      | None \<Rightarrow> Some (rune_utf8 65533, 5))
                   else Some (rune_utf8 65533, 5))))"

lemma p_esc_pos: "p_esc s = Some (d, k) \<Longrightarrow> 0 < k"
  by (auto simp: p_esc_def split: list.splits option.splits if_splits)

function p_chars :: "string \<Rightarrow> (string \<times> string) option" where
  "p_chars s =
     (case s of [] \<Rightarrow> None
      | c # t \<Rightarrow>
        if c = CHR 0x22 then Some ([], t)
        else if c = CHR 0x5C then
          (case p_esc t of None \<Rightarrow> None
           | Some (d, k) \<Rightarrow> map_option (apfst ((@) d)) (p_chars (drop k t)))
        else if of_char c < (32 :: nat) then None
        else map_option (apfst ((#) c)) (p_chars t))"
  by pat_completeness auto
termination
  by (relation "measure length") (auto dest: p_esc_pos)

declare p_chars.simps [simp del]

lemma p_chars_Nil [simp]: "p_chars [] = None"
  by (subst p_chars.simps) simp

lemma p_chars_Cons:
  "p_chars (c # t) =
     (if c = CHR 0x22 then Some ([], t)
      else if c = CHR 0x5C then
        (case p_esc t of None \<Rightarrow> None
         | Some (d, k) \<Rightarrow> map_option (apfst ((@) d)) (p_chars (drop k t)))
      else if of_char c < (32 :: nat) then None
      else map_option (apfst ((#) c)) (p_chars t))"
  by (subst p_chars.simps) simp

definition int_part :: "string \<Rightarrow> (string \<times> string) option" where
  "int_part s =
     (case s of [] \<Rightarrow> None
      | c # t \<Rightarrow> if c = CHR ''0'' then Some ([c], t)
                 else if is_digit c then Some (takeWhile is_digit s, dropWhile is_digit s)
                 else None)"

definition frac_part :: "string \<Rightarrow> (string \<times> string) option" where
  "frac_part s =
     (case s of [] \<Rightarrow> Some ([], [])
      | c # t \<Rightarrow> if c = CHR ''.'' then
                   (if takeWhile is_digit t = [] then None
                    else Some (c # takeWhile is_digit t, dropWhile is_digit t))
                 else Some ([], s))"

definition exp_part :: "string \<Rightarrow> (string \<times> string) option" where
  "exp_part s =
     (case s of [] \<Rightarrow> Some ([], [])
      | c # t \<Rightarrow> if c = CHR ''e'' \<or> c = CHR ''E'' then
                   (let sg = (if t \<noteq> [] \<and> (hd t = CHR ''+'' \<or> hd t = CHR ''-'') then [hd t] else []);
                        u = drop (length sg) t
                    in if takeWhile is_digit u = [] then None
                       else Some (c # sg @ takeWhile is_digit u, dropWhile is_digit u))
                 else Some ([], s))"

definition p_num :: "string \<Rightarrow> (string \<times> string) option" where
  "p_num s =
     (let sg = (if s \<noteq> [] \<and> hd s = CHR ''-'' then ''-'' else []) in
      case int_part (drop (length sg) s) of None \<Rightarrow> None
      | Some (i, s1) \<Rightarrow>
        (case frac_part s1 of None \<Rightarrow> None
         | Some (f, s2) \<Rightarrow>
           (case exp_part s2 of None \<Rightarrow> None
            | Some (e, s3) \<Rightarrow> Some (sg @ i @ f @ e, s3))))"

text \<open>
  Values, the elements of an array after its bracket and the members of an object after
  its brace. A member keeps the text of its value, which a \<open>json.RawMessage\<close> field copies.
\<close>

fun p_value :: "nat \<Rightarrow> string \<Rightarrow> (json \<times> string) option"
  and p_elems :: "nat \<Rightarrow> string \<Rightarrow> (json list \<times> string) option"
  and p_members :: "nat \<Rightarrow> string \<Rightarrow> ((string \<times> json \<times> string) list \<times> string) option"
where
  "p_value 0 s = None"
| "p_value (Suc n) s =
     (case skip_ws s of [] \<Rightarrow> None
      | c # t \<Rightarrow>
        if c = CHR 0x22 then map_option (apfst JStr) (p_chars t)
        else if c = CHR ''['' then
          (if has_prefix (skip_ws t) '']'' then Some (JArr [], drop 1 (skip_ws t))
           else map_option (apfst JArr) (p_elems n t))
        else if c = CHR ''{'' then
          (if has_prefix (skip_ws t) ''}'' then Some (JObj [], drop 1 (skip_ws t))
           else map_option (apfst (\<lambda>ms. JObj (map (\<lambda>(k, v, r). (k, v)) ms))) (p_members n t))
        else if has_prefix (c # t) ''true'' then Some (JBool True, drop 4 (c # t))
        else if has_prefix (c # t) ''false'' then Some (JBool False, drop 5 (c # t))
        else if has_prefix (c # t) ''null'' then Some (JNull, drop 4 (c # t))
        else map_option (apfst JNum) (p_num (c # t)))"
| "p_elems 0 s = None"
| "p_elems (Suc n) s =
     (case p_value n s of None \<Rightarrow> None
      | Some (v, r) \<Rightarrow>
        (case skip_ws r of [] \<Rightarrow> None
         | c # u \<Rightarrow> if c = CHR '','' then map_option (apfst ((#) v)) (p_elems n u)
                    else if c = CHR '']'' then Some ([v], u) else None))"
| "p_members 0 s = None"
| "p_members (Suc n) s =
     (case skip_ws s of [] \<Rightarrow> None
      | q # t \<Rightarrow>
        if q \<noteq> CHR 0x22 then None
        else (case p_chars t of None \<Rightarrow> None
              | Some (k, r) \<Rightarrow>
                (case skip_ws r of [] \<Rightarrow> None
                 | c # u \<Rightarrow>
                   if c \<noteq> CHR '':'' then None
                   else (case p_value n u of None \<Rightarrow> None
                         | Some (v, r2) \<Rightarrow>
                           let raw = take (length (skip_ws u) - length r2) (skip_ws u) in
                           (case skip_ws r2 of [] \<Rightarrow> None
                            | d # w \<Rightarrow>
                              if d = CHR '','' then map_option (apfst ((#) (k, v, raw))) (p_members n w)
                              else if d = CHR ''}'' then Some ([(k, v, raw)], w) else None)))))"

text \<open>\<open>json.Unmarshal\<close> reads one value and nothing but white space after it; a
  \<open>json.Decoder\<close> leaves what follows the value in the stream.\<close>

definition json_fuel :: "string \<Rightarrow> nat" where
  "json_fuel s = 2 * length s + 2"

definition parse_json :: "string \<Rightarrow> json option" where
  "parse_json s =
     (case p_value (json_fuel s) s of None \<Rightarrow> None
      | Some (v, r) \<Rightarrow> if skip_ws r = [] then Some v else None)"

definition decode_json :: "string \<Rightarrow> json option" where
  "decode_json s = map_option fst (p_value (json_fuel s) s)"

text \<open>The top-level members of an object, each with the text of its value.\<close>

definition raw_members :: "string \<Rightarrow> (string \<times> json \<times> string) list" where
  "raw_members s =
     (case skip_ws s of [] \<Rightarrow> []
      | c # t \<Rightarrow> (case p_members (json_fuel s) t of None \<Rightarrow> [] | Some (ms, r) \<Rightarrow> ms))"

section \<open>Storing an object into a struct\<close>

definition key_match :: "string \<Rightarrow> string \<Rightarrow> bool" where
  "key_match f k \<longleftrightarrow> to_lower f = to_lower k"

text \<open>The members a JSON value offers to a struct; \<open>True\<close> when its kind is wrong.\<close>

definition obj_members :: "json \<Rightarrow> (string \<times> json) list \<times> bool" where
  "obj_members v = (case v of JObj ms \<Rightarrow> (ms, False) | JNull \<Rightarrow> ([], False) | _ \<Rightarrow> ([], True))"

text \<open>A string field: its final value and whether a type error was met.\<close>

fun dec_str_from :: "string \<times> bool \<Rightarrow> string \<Rightarrow> (string \<times> json) list \<Rightarrow> string \<times> bool" where
  "dec_str_from acc f [] = acc"
| "dec_str_from acc f ((k, v) # ms) =
     dec_str_from
       (if key_match f k
        then (case v of JStr s \<Rightarrow> (s, snd acc) | JNull \<Rightarrow> acc | _ \<Rightarrow> (fst acc, True))
        else acc) f ms"

definition dec_str :: "string \<Rightarrow> (string \<times> json) list \<Rightarrow> string \<times> bool" where
  "dec_str f ms = dec_str_from ([], False) f ms"

text \<open>A pointer to a string: \<open>null\<close> sets it to nil.\<close>

fun dec_ptr_from :: "string option \<times> bool \<Rightarrow> string \<Rightarrow> (string \<times> json) list \<Rightarrow> string option \<times> bool" where
  "dec_ptr_from acc f [] = acc"
| "dec_ptr_from acc f ((k, v) # ms) =
     dec_ptr_from
       (if key_match f k
        then (case v of JStr s \<Rightarrow> (Some s, snd acc) | JNull \<Rightarrow> (None, snd acc) | _ \<Rightarrow> (fst acc, True))
        else acc) f ms"

definition dec_ptr :: "string \<Rightarrow> (string \<times> json) list \<Rightarrow> string option \<times> bool" where
  "dec_ptr f ms = dec_ptr_from (None, False) f ms"

text \<open>A bool field.\<close>

fun dec_bool_from :: "bool \<times> bool \<Rightarrow> string \<Rightarrow> (string \<times> json) list \<Rightarrow> bool \<times> bool" where
  "dec_bool_from acc f [] = acc"
| "dec_bool_from acc f ((k, v) # ms) =
     dec_bool_from
       (if key_match f k
        then (case v of JBool b \<Rightarrow> (b, snd acc) | JNull \<Rightarrow> acc | _ \<Rightarrow> (fst acc, True))
        else acc) f ms"

definition dec_bool :: "string \<Rightarrow> (string \<times> json) list \<Rightarrow> bool \<times> bool" where
  "dec_bool f ms = dec_bool_from (False, False) f ms"

text \<open>A field of struct type: a second object under the same name adds to the first.\<close>

fun dec_obj :: "string \<Rightarrow> (string \<times> json) list \<Rightarrow> (string \<times> json) list \<times> bool" where
  "dec_obj f [] = ([], False)"
| "dec_obj f ((k, v) # ms) =
     (let (rest, bad) = dec_obj f ms in
      if key_match f k
      then (case obj_members v of (here, wrong) \<Rightarrow> (here @ rest, wrong \<or> bad))
      else (rest, bad))"

text \<open>A \<open>[]string\<close> field: an array replaces the slice, \<open>null\<close> makes it nil, a \<open>null\<close> element
  of an array is the empty string.\<close>

fun dec_elems :: "json list \<Rightarrow> string list \<times> bool" where
  "dec_elems [] = ([], False)"
| "dec_elems (v # vs) =
     (let (rest, bad) = dec_elems vs in
      case v of JStr s \<Rightarrow> (s # rest, bad) | JNull \<Rightarrow> ([] # rest, bad) | _ \<Rightarrow> ([] # rest, True))"

fun dec_strs_from :: "string list \<times> bool \<Rightarrow> string \<Rightarrow> (string \<times> json) list \<Rightarrow> string list \<times> bool" where
  "dec_strs_from acc f [] = acc"
| "dec_strs_from acc f ((k, v) # ms) =
     dec_strs_from
       (if key_match f k
        then (case v of JArr vs \<Rightarrow> (fst (dec_elems vs), snd acc \<or> snd (dec_elems vs))
              | JNull \<Rightarrow> ([], snd acc) | _ \<Rightarrow> (fst acc, True))
        else acc) f ms"

definition dec_strs :: "string \<Rightarrow> (string \<times> json) list \<Rightarrow> string list \<times> bool" where
  "dec_strs f ms = dec_strs_from ([], False) f ms"

text \<open>A \<open>json.RawMessage\<close> field: the text of the last member of that name.\<close>

fun dec_raw :: "string \<Rightarrow> (string \<times> json \<times> string) list \<Rightarrow> string" where
  "dec_raw f [] = []"
| "dec_raw f ((k, v, r) # ms) =
     (if key_match f k \<and> \<not> list_ex (\<lambda>(k', v', r'). key_match f k') ms then r else dec_raw f ms)"

section \<open>Values of type interface{}\<close>

text \<open>Maps are printed with sorted keys; a repeated key keeps its last value.\<close>

fun put_key :: "string \<Rightarrow> json \<Rightarrow> (string \<times> json) list \<Rightarrow> (string \<times> json) list" where
  "put_key k v [] = [(k, v)]"
| "put_key k v ((k', v') # ms) =
     (if k = k' then (k, v) # ms
      else if k < k' then (k, v) # (k', v') # ms
      else (k', v') # put_key k v ms)"

fun canon :: "(string \<Rightarrow> string option) \<Rightarrow> json \<Rightarrow> json option"
  and canon_list :: "(string \<Rightarrow> string option) \<Rightarrow> json list \<Rightarrow> json list option"
  and canon_members :: "(string \<Rightarrow> string option) \<Rightarrow> (string \<times> json) list \<Rightarrow> (string \<times> json) list
    \<Rightarrow> (string \<times> json) list option"
where
  "canon f64 JNull = Some JNull"
| "canon f64 (JBool b) = Some (JBool b)"
| "canon f64 (JNum t) = map_option JNum (f64 t)"
| "canon f64 (JStr s) = Some (JStr s)"
| "canon f64 (JArr vs) = map_option JArr (canon_list f64 vs)"
| "canon f64 (JObj ms) = map_option JObj (canon_members f64 [] ms)"
| "canon_list f64 [] = Some []"
| "canon_list f64 (v # vs) =
     (case canon f64 v of None \<Rightarrow> None | Some w \<Rightarrow> map_option ((#) w) (canon_list f64 vs))"
| "canon_members f64 acc [] = Some acc"
| "canon_members f64 acc ((k, v) # ms) =
     (case canon f64 v of None \<Rightarrow> None | Some w \<Rightarrow> canon_members f64 (put_key k w acc) ms)"

end
