(* ===== verification/AppErrors.thy ===== *)
theory AppErrors
  imports Json
begin

text \<open>
  Go error values and the application errors of \<open>internal/errors/errors.go\<close>. An \<open>error\<close>
  is a value of \<open>goerr\<close>: a plain text, a text that wraps another error (the verb \<open>%w\<close> of
  \<open>fmt.Errorf\<close>), the sentinel \<open>domain.ErrDuplicateMessageID\<close>, or an \<open>*AppError\<close>. A
  function returning \<open>(T, error)\<close> returns a sum here.
\<close>

datatype error_code =
    ErrCodeBadRequest | ErrCodeUnauthorized | ErrCodeForbidden | ErrCodeNotFound
  | ErrCodeConflict | ErrCodeValidation | ErrCodeRateLimited
  | ErrCodeInternal | ErrCodeDatabase | ErrCodeCrypto | ErrCodeNetwork | ErrCodeTimeout
  | ErrCodeUnavailable
  | ErrCodeMessageInvalid | ErrCodePartnerNotFound | ErrCodeKeyExpired
  | ErrCodeSignatureInvalid | ErrCodeEncryptionFailed

fun code_text :: "error_code \<Rightarrow> string" where
  "code_text ErrCodeBadRequest = ''BAD_REQUEST''"
| "code_text ErrCodeUnauthorized = ''UNAUTHORIZED''"
| "code_text ErrCodeForbidden = ''FORBIDDEN''"
| "code_text ErrCodeNotFound = ''NOT_FOUND''"
| "code_text ErrCodeConflict = ''CONFLICT''"
| "code_text ErrCodeValidation = ''VALIDATION_ERROR''"
| "code_text ErrCodeRateLimited = ''RATE_LIMITED''"
| "code_text ErrCodeInternal = ''INTERNAL_ERROR''"
| "code_text ErrCodeDatabase = ''DATABASE_ERROR''"
| "code_text ErrCodeCrypto = ''CRYPTO_ERROR''"
| "code_text ErrCodeNetwork = ''NETWORK_ERROR''"
| "code_text ErrCodeTimeout = ''TIMEOUT''"
| "code_text ErrCodeUnavailable = ''SERVICE_UNAVAILABLE''"
| "code_text ErrCodeMessageInvalid = ''MESSAGE_INVALID''"
| "code_text ErrCodePartnerNotFound = ''PARTNER_NOT_FOUND''"
| "code_text ErrCodeKeyExpired = ''KEY_EXPIRED''"
| "code_text ErrCodeSignatureInvalid = ''SIGNATURE_INVALID''"
| "code_text ErrCodeEncryptionFailed = ''ENCRYPTION_FAILED''"

datatype goerr =
    Errorf string
  | WrapErr string goerr
  | DuplicateMessageID
  | AppErr (ae_code: error_code) (ae_message: string) (ae_details: "(string \<times> json) list")
      (ae_status: nat) (ae_cause: "goerr option") (ae_retryable: bool)

type_synonym 'a result = "goerr + 'a"

text \<open>The method \<open>Error\<close>. \<open>WrapErr p e\<close> is \<open>fmt.Errorf\<close> with the format \<open>p\<close> followed by
  \<open>%w\<close>. The one text of the node that goes on after \<open>%w\<close>, in \<open>InitSchema\<close>, is an \<open>Errorf\<close>.\<close>

primrec err_text :: "goerr \<Rightarrow> string" where
  "err_text (Errorf s) = s"
| "err_text (WrapErr p e) = p @ err_text e"
| "err_text DuplicateMessageID = ''duplicate message_id''"
| "err_text (AppErr c m d s e r) =
     (case map_option err_text e of
        Some t \<Rightarrow> code_text c @ '': '' @ m @ '' (caused by: '' @ t @ '')''
      | None \<Rightarrow> code_text c @ '': '' @ m)"

text \<open>\<open>errors.Is(err, domain.ErrDuplicateMessageID)\<close> follows the chain of wrapped errors.\<close>

primrec is_duplicate :: "goerr \<Rightarrow> bool" where
  "is_duplicate (Errorf s) \<longleftrightarrow> False"
| "is_duplicate (WrapErr p e) \<longleftrightarrow> is_duplicate e"
| "is_duplicate DuplicateMessageID \<longleftrightarrow> True"
| "is_duplicate (AppErr c m d s e r) \<longleftrightarrow> (case map_option is_duplicate e of Some b \<Rightarrow> b | None \<Rightarrow> False)"

definition unwrap_err :: "goerr \<Rightarrow> goerr option" where \<comment> \<open>\<open>(*AppError).Unwrap\<close>\<close>
  "unwrap_err e = (case e of AppErr c m d s w r \<Rightarrow> w | _ \<Rightarrow> None)"

definition codeToHTTPStatus :: "error_code \<Rightarrow> nat" where
  "codeToHTTPStatus c =
     (case c of
        ErrCodeBadRequest \<Rightarrow> 400 | ErrCodeValidation \<Rightarrow> 400 | ErrCodeMessageInvalid \<Rightarrow> 400
      | ErrCodeUnauthorized \<Rightarrow> 401 | ErrCodeForbidden \<Rightarrow> 403
      | ErrCodeNotFound \<Rightarrow> 404 | ErrCodePartnerNotFound \<Rightarrow> 404
      | ErrCodeConflict \<Rightarrow> 409 | ErrCodeRateLimited \<Rightarrow> 429 | ErrCodeTimeout \<Rightarrow> 408
      | ErrCodeUnavailable \<Rightarrow> 503 | _ \<Rightarrow> 500)"

definition isRetryable :: "error_code \<Rightarrow> bool" where
  "isRetryable c =
     (case c of
        ErrCodeTimeout \<Rightarrow> True | ErrCodeUnavailable \<Rightarrow> True | ErrCodeNetwork \<Rightarrow> True
      | ErrCodeRateLimited \<Rightarrow> True
      | ErrCodeBadRequest \<Rightarrow> False | ErrCodeUnauthorized \<Rightarrow> False | ErrCodeForbidden \<Rightarrow> False
      | ErrCodeNotFound \<Rightarrow> False | ErrCodeValidation \<Rightarrow> False | _ \<Rightarrow> False)"

text \<open>\<open>WithDetail\<close> stores one key of the details map.\<close>

definition WithDetail :: "goerr \<Rightarrow> string \<Rightarrow> json \<Rightarrow> goerr" where
  "WithDetail e k v =
     (case e of AppErr c m d s w r \<Rightarrow> AppErr c m (put_key k v d) s w r | _ \<Rightarrow> e)"

section \<open>Constructors\<close>

definition NewErr :: "error_code \<Rightarrow> string \<Rightarrow> goerr" where
  "NewErr c m = AppErr c m [] (codeToHTTPStatus c) None (isRetryable c)"

definition Wrap :: "goerr \<Rightarrow> error_code \<Rightarrow> string \<Rightarrow> goerr" where
  "Wrap e c m = AppErr c m [] (codeToHTTPStatus c) (Some e) (isRetryable c)"

definition BadRequest :: "string \<Rightarrow> goerr" where "BadRequest m = NewErr ErrCodeBadRequest m"
definition Unauthorized :: "string \<Rightarrow> goerr" where "Unauthorized m = NewErr ErrCodeUnauthorized m"
definition Forbidden :: "string \<Rightarrow> goerr" where "Forbidden m = NewErr ErrCodeForbidden m"

definition NotFound :: "string \<Rightarrow> string \<Rightarrow> goerr" where
  "NotFound r i = NewErr ErrCodeNotFound (r @ '' not found: '' @ i)"

definition Conflict :: "string \<Rightarrow> goerr" where "Conflict m = NewErr ErrCodeConflict m"
definition Validation :: "string \<Rightarrow> goerr" where "Validation m = NewErr ErrCodeValidation m"
definition Internal :: "string \<Rightarrow> goerr" where "Internal m = NewErr ErrCodeInternal m"

definition InternalWrap :: "goerr \<Rightarrow> string \<Rightarrow> goerr" where
  "InternalWrap e m = Wrap e ErrCodeInternal m"

definition DatabaseErr :: "goerr \<Rightarrow> string \<Rightarrow> goerr" where
  "DatabaseErr e op = Wrap e ErrCodeDatabase (''database '' @ op @ '' failed'')"

definition CryptoErr :: "goerr \<Rightarrow> string \<Rightarrow> goerr" where
  "CryptoErr e op = Wrap e ErrCodeCrypto (''cryptography '' @ op @ '' failed'')"

definition Network :: "goerr \<Rightarrow> string \<Rightarrow> goerr" where
  "Network e op = Wrap e ErrCodeNetwork (''network '' @ op @ '' failed'')"

definition Timeout :: "string \<Rightarrow> goerr" where
  "Timeout op = NewErr ErrCodeTimeout (op @ '' timed out'')"

lemmas err_constructors = NewErr_def Wrap_def BadRequest_def Unauthorized_def Forbidden_def
  NotFound_def Conflict_def Validation_def Internal_def InternalWrap_def DatabaseErr_def
  CryptoErr_def Network_def Timeout_def

section \<open>Inspection\<close>

text \<open>The type assertion \<open>err.(*AppError)\<close> looks at the error itself, not at its chain.\<close>

definition IsAppError :: "goerr \<Rightarrow> bool" where
  "IsAppError e = (case e of AppErr c m d s w r \<Rightarrow> True | _ \<Rightarrow> False)"

definition GetStatusCode :: "goerr \<Rightarrow> nat" where
  "GetStatusCode e = (case e of AppErr c m d s w r \<Rightarrow> s | _ \<Rightarrow> 500)"

definition IsRetryable :: "goerr \<Rightarrow> bool" where
  "IsRetryable e = (case e of AppErr c m d s w r \<Rightarrow> r | _ \<Rightarrow> False)"

lemma IsRetryable_simps [simp]:
  "IsRetryable (NewErr c m) = isRetryable c"
  "IsRetryable (Wrap e c m) = isRetryable c"
  "IsRetryable (Validation m) = False"
  "IsRetryable (InternalWrap e m) = False"
  "IsRetryable (Network e m) = True"
  "IsRetryable (Errorf s) = False"
  "IsRetryable (WrapErr p e) = False"
  "IsRetryable DuplicateMessageID = False"
  by (simp_all add: IsRetryable_def err_constructors isRetryable_def)

text \<open>The error constructors of the package keep the status and the retry flag in step with
  the code.\<close>

definition consistent :: "goerr \<Rightarrow> bool" where
  "consistent e \<longleftrightarrow>
     (case e of AppErr c m d s w r \<Rightarrow> s = codeToHTTPStatus c \<and> r = isRetryable c | _ \<Rightarrow> True)"

lemma consistent_constructors:
  "consistent (NewErr c m)" "consistent (Wrap e c m)"
  "consistent e \<Longrightarrow> consistent (WithDetail e k v)"
  by (auto simp: consistent_def NewErr_def Wrap_def WithDetail_def split: goerr.splits)

lemma isRetryable_iff:
  "isRetryable c \<longleftrightarrow> c \<in> {ErrCodeTimeout, ErrCodeUnavailable, ErrCodeNetwork, ErrCodeRateLimited}"
  by (cases c) (simp_all add: isRetryable_def)

lemma status_range: "400 \<le> codeToHTTPStatus c \<and> codeToHTTPStatus c < 600"
  by (cases c) (simp_all add: codeToHTTPStatus_def)

end
