(* ===== verification/Domain.thy ===== *)
theory Domain
  imports AppErrors
begin

text \<open>
  The domain types of \<open>internal/domain\<close>, the route and job-type constants of
  \<open>internal/constants\<close>, and the shape of an HTTP exchange.
\<close>

section \<open>Messages, partners, users, sessions\<close>

type_synonym message_status = string
type_synonym message_direction = string

definition StatusQueued :: message_status where "StatusQueued = ''QUEUED''"
definition StatusSent :: message_status where "StatusSent = ''SENT''"
definition StatusDelivered :: message_status where "StatusDelivered = ''DELIVERED''"
definition StatusFailed :: message_status where "StatusFailed = ''FAILED''"
definition StatusQuarantined :: message_status where "StatusQuarantined = ''QUARANTINED''"

definition DirectionInbound :: message_direction where "DirectionInbound = ''INBOUND''"
definition DirectionOutbound :: message_direction where "DirectionOutbound = ''OUTBOUND''"

lemmas status_defs = StatusQueued_def StatusSent_def StatusDelivered_def StatusFailed_def
  StatusQuarantined_def

lemma status_distinct [simp]:
  "StatusQueued \<noteq> StatusDelivered" "StatusDelivered \<noteq> StatusQueued"
  "StatusQueued \<noteq> StatusFailed" "StatusFailed \<noteq> StatusQueued"
  "StatusQueued \<noteq> StatusQuarantined" "StatusQuarantined \<noteq> StatusQueued"
  "StatusDelivered \<noteq> StatusFailed" "StatusFailed \<noteq> StatusDelivered"
  "StatusDelivered \<noteq> StatusQuarantined" "StatusQuarantined \<noteq> StatusDelivered"
  "StatusFailed \<noteq> StatusQuarantined" "StatusQuarantined \<noteq> StatusFailed"
  by (simp_all add: status_defs)

lemma direction_distinct [simp]:
  "DirectionInbound \<noteq> DirectionOutbound" "DirectionOutbound \<noteq> DirectionInbound"
  by (simp_all add: DirectionInbound_def DirectionOutbound_def)

record message =
  ID :: int
  MessageID :: string
  Direction :: message_direction
  Status :: message_status
  Payload :: string
  JobType :: string
  RetryCount :: int64
  NextRetryAt :: "time option"
  LastError :: string
  CreatedAt :: time

record partner =
  P_ID :: int
  PartnerID :: string
  PName :: string
  JWKSUrl :: string
  MessageEndpoint :: string
  MDNReceiptEndpoint :: string
  PublicKeyJWKS :: string
  SupportedEncAlgs :: "string list"
  LastKeyRefresh :: "time option"
  PCreatedAt :: time
  PUpdatedAt :: time

record user =
  U_ID :: int
  Username :: string
  PasswordHash :: string
  UCreatedAt :: time

record session =
  SessionID :: string
  UserID :: int
  ExpiresAt :: time
  SCreatedAt :: time

section \<open>Envelopes and receipts\<close>

record routing_header =
  FidexVersion :: string
  RMessageID :: string
  SenderID :: string
  ReceiverID :: string
  DocumentType :: string
  Timestamp :: string
  ReceiptWebhook :: string

record fidex_envelope =
  Routing :: routing_header
  EncPayload :: string

record jmdn_receipt =
  OriginalMessageID :: string
  RStatus :: string
  HashVerification :: string
  RTimestamp :: string
  ErrorLog :: "string option"

section \<open>Job types\<close>

definition JobTypeProcessOutbound :: string where "JobTypeProcessOutbound = ''process_outbound''"
definition JobTypeSendJMDN :: string where "JobTypeSendJMDN = ''send_jmdn''"

definition IsKnownJobType :: "string \<Rightarrow> bool" where
  "IsKnownJobType j \<longleftrightarrow> j = JobTypeProcessOutbound \<or> j = JobTypeSendJMDN"

lemma job_types [simp]:
  "JobTypeProcessOutbound \<noteq> []" "JobTypeSendJMDN \<noteq> []"
  "JobTypeProcessOutbound \<noteq> JobTypeSendJMDN" "JobTypeSendJMDN \<noteq> JobTypeProcessOutbound"
  by (simp_all add: JobTypeProcessOutbound_def JobTypeSendJMDN_def)

section \<open>Routes\<close>

definition RouteHealth :: string where "RouteHealth = ''/health''"
definition RouteInbound :: string where "RouteInbound = ''/api/v1/inbound''"
definition RouteReceipt :: string where "RouteReceipt = ''/api/v1/receipt''"
definition RouteRegister :: string where "RouteRegister = ''/api/v1/register''"
definition RouteJWKS :: string where "RouteJWKS = ''/.well-known/jwks.json''"
definition RouteAS5Configuration :: string where
  "RouteAS5Configuration = ''/.well-known/as5-configuration''"

definition RouteRoot :: string where "RouteRoot = ''/''"
definition RouteLogin :: string where "RouteLogin = ''/login''"
definition RouteDashboard :: string where "RouteDashboard = ''/dashboard''"

definition APIAuth :: string where "APIAuth = ''/admin/auth''"
definition APIDashboard :: string where "APIDashboard = ''/admin/dashboard''"
definition APISettings :: string where "APISettings = ''/admin/settings''"
definition APIV1 :: string where "APIV1 = ''/api/v1''"

definition RouteTransmitRel :: string where "RouteTransmitRel = ''/transmit''"
definition RouteInboundRel :: string where "RouteInboundRel = ''/inbound''"
definition RouteReceiptRel :: string where "RouteReceiptRel = ''/receipt''"
definition RouteRegisterRel :: string where "RouteRegisterRel = ''/register''"

definition RouteJS :: string where "RouteJS = ''/js/*''"
definition RouteCSS :: string where "RouteCSS = ''/css/*''"
definition RouteComponents :: string where "RouteComponents = ''/components/*''"
definition RouteAuthLogin :: string where "RouteAuthLogin = ''/login''"
definition RouteAuthLogout :: string where "RouteAuthLogout = ''/logout''"
definition RouteAuthMe :: string where "RouteAuthMe = ''/me''"
definition RouteDashboardWS :: string where "RouteDashboardWS = ''/ws''"
definition RouteDashboardQR :: string where "RouteDashboardQR = ''/qr''"
definition RouteDashboardMetrics :: string where "RouteDashboardMetrics = ''/metrics''"
definition RouteDashboardMessages :: string where "RouteDashboardMessages = ''/messages''"
definition RouteDashboardPartners :: string where "RouteDashboardPartners = ''/partners''"
definition RouteDiscover :: string where "RouteDiscover = ''/partners/discover''"
definition RouteConfig :: string where "RouteConfig = ''/config''"
definition RouteRotateKeys :: string where "RouteRotateKeys = ''/rotate-keys''"
definition RouteUsers :: string where "RouteUsers = ''/users''"
definition RouteUserByID :: string where "RouteUserByID = ''/users/{id}''"
definition RoutePassword :: string where "RoutePassword = ''/password''"
definition RoutePartners :: string where "RoutePartners = ''/partners''"
definition RoutePartnerByID :: string where "RoutePartnerByID = ''/partners/{id}''"

lemmas subroute_defs = RouteJS_def RouteCSS_def RouteComponents_def RouteAuthLogin_def
  RouteAuthLogout_def RouteAuthMe_def RouteDashboardWS_def RouteDashboardQR_def
  RouteDashboardMetrics_def RouteDashboardMessages_def RouteDashboardPartners_def RouteDiscover_def
  RouteConfig_def RouteRotateKeys_def RouteUsers_def RouteUserByID_def
  RoutePassword_def RoutePartners_def RoutePartnerByID_def

lemmas route_defs = RouteHealth_def RouteInbound_def RouteReceipt_def RouteRegister_def RouteJWKS_def
  RouteAS5Configuration_def RouteRoot_def RouteLogin_def RouteDashboard_def APIAuth_def
  APIDashboard_def APISettings_def APIV1_def RouteTransmitRel_def RouteInboundRel_def
  RouteReceiptRel_def RouteRegisterRel_def

section \<open>HTTP\<close>

text \<open>
  A response a handler writes, a request the node sends, and what the network may answer:
  an error of the transport, or a status and a body.
\<close>

record response =
  r_code :: nat
  r_headers :: "(string \<times> string) list"
  r_body :: string

record http_request =
  q_method :: string
  q_url :: string
  q_headers :: "(string \<times> string) list"
  q_body :: string

type_synonym http_reply = "string + (nat \<times> string)"
type_synonym network = "http_request \<Rightarrow> http_reply"

definition json_response :: "nat \<Rightarrow> json \<Rightarrow> response" where
  "json_response c v =
     \<lparr>r_code = c, r_headers = [(''Content-Type'', ''application/json'')], r_body = encode_line v\<rparr>"

definition empty_response :: "nat \<Rightarrow> response" where
  "empty_response c = \<lparr>r_code = c, r_headers = [], r_body = []\<rparr>"

lemma response_code [simp]: "r_code (json_response c v) = c" "r_code (empty_response c) = c"
  by (simp_all add: json_response_def empty_response_def)

text \<open>Struct members marked \<open>omitempty\<close> are left out when empty.\<close>

definition opt_str :: "string \<Rightarrow> string \<Rightarrow> (string \<times> json) list" where
  "opt_str k s = (if s = [] then [] else [(k, JStr s)])"

definition opt_ptr :: "string \<Rightarrow> string option \<Rightarrow> (string \<times> json) list" where
  "opt_ptr k p = (case p of None \<Rightarrow> [] | Some s \<Rightarrow> [(k, JStr s)])"

end
