(* ===== verification/Json_Facts.thy ===== *)
theory Json_Facts
  imports Json
begin

text \<open>
  The laws of the JSON text: the scanner reads back what \<open>json.Marshal\<close> prints, for every
  value whose numbers are JSON numbers, and the fuel of the scanner never runs out.
\<close>

section \<open>Strings\<close>

lemma hex_val_digit: "n < 16 \<Longrightarrow> hex_val (hex_digit n) = Some n"
  by (auto simp: hex_val_def hex_digit_def of_char_of)

lemma hex4_byte: "hex4 (CHR ''0'' # CHR ''0'' # hex_byte c @ t) = Some (of_char c)"
proof -
  have d: "(of_char c :: nat) div 16 < 16"
    using nat_of_char_less_256 [of c] by (simp add: less_mult_imp_div_less del: nat_of_char_less_256)
  have z: "hex_val (CHR ''0'') = Some 0" by (simp add: hex_val_def)
  show ?thesis
    by (simp add: hex4_def hex_byte_def hex_val_digit d z)
qed

lemma p_esc_u00:
  assumes "(of_char c :: nat) < 128"
  shows "p_esc (CHR ''u'' # CHR ''0'' # CHR ''0'' # hex_byte c @ t) = Some ([c], 5)"
proof -
  have u: "simple_esc (CHR ''u'') = None" by (simp add: simple_esc_def)
  have "rune_utf8 (of_char c) = [c]" using assms by (simp add: rune_utf8_def)
  with assms show ?thesis by (simp add: p_esc_def u hex4_byte)
qed

lemma append_single: "(@) [c] = (#) c"
  by (simp add: fun_eq_iff)

lemma p_chars_simple:
  "simple_esc e = Some c \<Longrightarrow> p_chars (CHR 0x5C # e # t) = map_option (apfst ((#) c)) (p_chars t)"
  by (simp add: p_chars_Cons p_esc_def append_single)

lemma p_chars_u00:
  assumes "(of_char c :: nat) < 128"
  shows "p_chars (CHR 0x5C # CHR ''u'' # CHR ''0'' # CHR ''0'' # hex_byte c @ t)
    = map_option (apfst ((#) c)) (p_chars t)"
proof -
  have "drop 5 (CHR ''u'' # CHR ''0'' # CHR ''0'' # hex_byte c @ t) = t"
    by (simp add: hex_byte_def)
  then show ?thesis
    by (simp add: p_chars_Cons p_esc_u00 [OF assms] append_single)
qed

lemma of_char_inject: "of_char c = (of_char d :: nat) \<Longrightarrow> c = d"
  by (metis char_of_char)

lemma of_char_ne: "c \<noteq> d \<Longrightarrow> of_char c \<noteq> (of_char d :: nat)"
  using of_char_inject by blast

lemma p_chars_esc_char: "p_chars (esc_char c @ t) = map_option (apfst ((#) c)) (p_chars t)"
proof -
  let ?n = "of_char c :: nat"
  consider (q) "c = CHR 0x22" | (b) "c = CHR 0x5C" | (bs) "c = CHR 0x08" | (ff) "c = CHR 0x0C"
    | (nl) "c = CHR 0x0A" | (cr) "c = CHR 0x0D" | (tab) "c = CHR 0x09"
    | (other) "c \<noteq> CHR 0x22" "c \<noteq> CHR 0x5C" "c \<noteq> CHR 0x08" "c \<noteq> CHR 0x0C" "c \<noteq> CHR 0x0A"
        "c \<noteq> CHR 0x0D" "c \<noteq> CHR 0x09"
    by blast
  then show ?thesis
  proof cases
    case other
    note ne = other [THEN of_char_ne, simplified]
    show ?thesis
    proof (cases "?n < 32 \<or> ?n = 60 \<or> ?n = 62 \<or> ?n = 38")
      case True
      with ne have "esc_char c = [CHR 0x5C, CHR ''u'', CHR ''0'', CHR ''0''] @ hex_byte c"
        by (simp add: esc_char_def Let_def)
      moreover from True have "?n < 128" by auto
      ultimately show ?thesis by (simp add: p_chars_u00)
    next
      case False
      with ne have "esc_char c = [c]" by (simp add: esc_char_def Let_def)
      with False other show ?thesis by (simp add: p_chars_Cons)
    qed
  qed (simp_all add: esc_char_def p_chars_simple simple_esc_def)
qed

lemma p_chars_esc_string: "p_chars (esc_string s @ CHR 0x22 # r) = Some (s, r)"
proof (induction s)
  case Nil
  then show ?case by (simp add: esc_string_def p_chars_Cons)
next
  case (Cons c s)
  have "esc_string (c # s) = esc_char c @ esc_string s" by (simp add: esc_string_def)
  then show ?case by (simp add: p_chars_esc_char Cons.IH)
qed

section \<open>Numbers\<close>

definition valid_num :: "string \<Rightarrow> bool" where
  "valid_num t \<longleftrightarrow> p_num t = Some (t, [])"

definition stops :: "string \<Rightarrow> bool" where
  "stops r \<longleftrightarrow> r = [] \<or> hd r = CHR '','' \<or> hd r = CHR '']'' \<or> hd r = CHR ''}'' \<or> json_ws (hd r)"

lemma stops_simps [simp]:
  "stops []" "stops (CHR '','' # r)" "stops (CHR '']'' # r)" "stops (CHR ''}'' # r)"
  by (simp_all add: stops_def)

lemma stops_char:
  assumes "stops (c # r)"
  shows "\<not> is_digit c" and "c \<noteq> CHR ''.''" and "c \<noteq> CHR ''e''" and "c \<noteq> CHR ''E''"
  using assms by (auto simp: stops_def json_ws_def is_digit_def)

lemma takeWhile_stop:
  "stops r \<Longrightarrow> takeWhile is_digit (s @ r) = takeWhile is_digit s"
  "stops r \<Longrightarrow> dropWhile is_digit (s @ r) = dropWhile is_digit s @ r"
proof -
  assume r: "stops r"
  have nil: "takeWhile is_digit r = [] \<and> dropWhile is_digit r = r"
    using stops_char(1) r by (cases r) auto
  show "takeWhile is_digit (s @ r) = takeWhile is_digit s"
    by (induction s) (auto simp: nil)
  show "dropWhile is_digit (s @ r) = dropWhile is_digit s @ r"
    by (induction s) (auto simp: nil)
qed

lemma int_part_stop:
  "int_part s = Some (i, s1) \<Longrightarrow> stops r \<Longrightarrow> int_part (s @ r) = Some (i, s1 @ r)"
  by (cases s) (auto simp: int_part_def takeWhile_stop split: if_splits)

lemma frac_part_stop:
  "frac_part s = Some (f, s1) \<Longrightarrow> stops r \<Longrightarrow> frac_part (s @ r) = Some (f, s1 @ r)"
  by (cases s; cases r)
    (auto simp: frac_part_def takeWhile_stop dest: stops_char split: if_splits)

lemma exp_part_stop:
  assumes e: "exp_part s = Some (e, s1)" and r: "stops r"
  shows "exp_part (s @ r) = Some (e, s1 @ r)"
proof (cases s)
  case Nil
  with e r show ?thesis
    by (cases r) (auto simp: exp_part_def dest: stops_char)
next
  case (Cons c t)
  show ?thesis
  proof (cases "c = CHR ''e'' \<or> c = CHR ''E''")
    case True
    show ?thesis
    proof (cases t)
      case Nil
      with e True Cons show ?thesis by (auto simp: exp_part_def Let_def split: if_splits)
    next
      case (Cons d u)
      with \<open>s = c # t\<close> True e r show ?thesis
        by (auto simp: exp_part_def Let_def takeWhile_stop split: if_splits)
    qed
  next
    case False
    with e Cons show ?thesis by (auto simp: exp_part_def)
  qed
qed

lemma int_part_Nil [simp]: "int_part [] = None"
  by (simp add: int_part_def)

lemma p_num_stop:
  assumes "p_num s = Some (t, s1)" and "stops r"
  shows "p_num (s @ r) = Some (t, s1 @ r)"
proof (cases s)
  case Nil
  with assms show ?thesis by (simp add: p_num_def Let_def)
next
  case (Cons c u)
  define sg where "sg = (if c = CHR ''-'' then ''-'' else ([] :: string))"
  from assms Cons obtain i a f b e where
    i: "int_part (drop (length sg) s) = Some (i, a)" and f: "frac_part a = Some (f, b)"
    and e: "exp_part b = Some (e, s1)" and t: "t = sg @ i @ f @ e"
    by (auto simp: p_num_def sg_def Let_def split: option.splits)
  have "drop (length sg) (s @ r) = drop (length sg) s @ r"
    using Cons by (simp add: sg_def)
  with i f e t Cons assms(2) show ?thesis
    by (simp add: p_num_def Let_def sg_def int_part_stop frac_part_stop exp_part_stop split: if_splits)
qed

lemma is_digit_ne:
  assumes "is_digit c"
  shows "\<not> json_ws c" "c \<noteq> CHR 0x22" "c \<noteq> CHR ''[''" "c \<noteq> CHR ''{''" "c \<noteq> CHR ''t''"
    "c \<noteq> CHR ''f''" "c \<noteq> CHR ''n''" "c \<noteq> CHR '']''" "c \<noteq> CHR ''}''" "c \<noteq> CHR '',''"
  using assms by (auto simp: json_ws_def is_digit_def)

lemma valid_num_stop: "valid_num t \<Longrightarrow> stops r \<Longrightarrow> p_num (t @ r) = Some (t, r)"
  using p_num_stop [of t t "[]" r] by (simp add: valid_num_def)

lemma valid_num_head:
  assumes "valid_num t"
  obtains c u where "t = c # u" and "is_digit c \<or> c = CHR ''-''"
proof (cases t)
  case Nil
  with assms show ?thesis by (simp add: valid_num_def p_num_def)
next
  case (Cons c u)
  have "is_digit (CHR ''0'')" by (simp add: is_digit_def)
  with assms Cons have "is_digit c \<or> c = CHR ''-''"
    by (auto simp: valid_num_def p_num_def int_part_def Let_def split: if_splits option.splits)
  with Cons that show ?thesis by blast
qed

section \<open>The round trip\<close>

fun wf_json :: "json \<Rightarrow> bool" where
  "wf_json (JNum t) \<longleftrightarrow> valid_num t"
| "wf_json (JArr vs) \<longleftrightarrow> list_all wf_json vs"
| "wf_json (JObj ms) \<longleftrightarrow> list_all (\<lambda>(k, v). wf_json v) ms"
| "wf_json _ \<longleftrightarrow> True"

lemma skip_ws_stop [simp]: "\<not> json_ws c \<Longrightarrow> skip_ws (c # s) = c # s"
  by (simp add: skip_ws_def)

lemma skip_ws_Nil [simp]: "skip_ws [] = []"
  by (simp add: skip_ws_def)

lemma json_ws_simps [simp]:
  "\<not> json_ws CHR 0x22" "\<not> json_ws CHR ''[''" "\<not> json_ws CHR ''{''" "\<not> json_ws CHR '']''"
  "\<not> json_ws CHR ''}''" "\<not> json_ws CHR '',''" "\<not> json_ws CHR '':''" "\<not> json_ws CHR ''t''"
  "\<not> json_ws CHR ''f''" "\<not> json_ws CHR ''n''"
  by (simp_all add: json_ws_def)

lemma print_json_head:
  assumes "wf_json v"
  obtains c u where "print_json v = c # u" and "\<not> json_ws c" and "c \<noteq> CHR '']''" and "c \<noteq> CHR ''}''"
    and "c \<noteq> CHR '',''"
proof (cases v)
  case (JNum t)
  with assms obtain c u where "t = c # u" "is_digit c \<or> c = CHR ''-''"
    using valid_num_head by (metis wf_json.simps(1))
  moreover from this(2) have "\<not> json_ws c" "c \<noteq> CHR '']''" "c \<noteq> CHR ''}''" "c \<noteq> CHR '',''"
    by (auto dest: is_digit_ne simp: json_ws_def)
  ultimately show ?thesis using JNum that by auto
next
  case (JBool b)
  with that show ?thesis by (cases b) auto
qed (use that in \<open>auto simp: print_str_def\<close>)

lemma p_value_num:
  assumes "valid_num t" and "stops r"
  shows "p_value (Suc n) (t @ r) = Some (JNum t, r)"
proof -
  obtain c u where t: "t = c # u" and c: "is_digit c \<or> c = CHR ''-''"
    using valid_num_head [OF assms(1)] .
  then have ne: "\<not> json_ws c" "c \<noteq> CHR 0x22" "c \<noteq> CHR ''[''" "c \<noteq> CHR ''{''" "c \<noteq> CHR ''t''"
    "c \<noteq> CHR ''f''" "c \<noteq> CHR ''n''"
    by (auto dest: is_digit_ne simp: json_ws_def)
  have "p_num (c # u @ r) = Some (c # u, r)"
    using valid_num_stop [OF assms] t by simp
  with ne show ?thesis by (simp add: t has_prefix_def skip_ws_def)
qed

lemma commas_Cons: "xs \<noteq> [] \<Longrightarrow> commas (x # xs) = x @ CHR '','' # commas xs"
  by (cases xs) auto

lemma p_elems_print:
  assumes "\<And>v n r. v \<in> set vs \<Longrightarrow> stops r \<Longrightarrow> length (print_json v) \<le> n \<Longrightarrow>
      p_value n (print_json v @ r) = Some (v, r)"
    and "vs \<noteq> []" and "length (commas (map print_json vs)) < n"
  shows "p_elems n (commas (map print_json vs) @ CHR '']'' # r) = Some (vs, r)"
  using assms
proof (induction vs arbitrary: n)
  case Nil
  then show ?case by simp
next
  case (Cons v vs)
  then obtain m where n: "n = Suc m" by (cases n) auto
  show ?case
  proof (cases "vs = []")
    case True
    with Cons.prems n have "p_value m (print_json v @ CHR '']'' # r) = Some (v, CHR '']'' # r)" by simp
    with True n show ?thesis by simp
  next
    case False
    let ?rest = "commas (map print_json vs)"
    have "p_value m (print_json v @ CHR '','' # ?rest @ CHR '']'' # r)
        = Some (v, CHR '','' # ?rest @ CHR '']'' # r)"
      using Cons.prems n False by (intro Cons.prems(1)) (auto simp: commas_Cons)
    moreover have "p_elems m (?rest @ CHR '']'' # r) = Some (vs, r)"
      using Cons.prems n False by (intro Cons.IH) (auto simp: commas_Cons)
    ultimately show ?thesis using False n by (simp add: commas_Cons)
  qed
qed

definition print_member :: "string \<times> json \<Rightarrow> string" where
  "print_member m = print_str (fst m) @ CHR '':'' # print_json (snd m)"

lemma print_member_pair [simp]: "print_member (k, v) = print_str k @ CHR '':'' # print_json v"
  by (simp add: print_member_def)

lemma print_json_obj: "print_json (JObj ms) = CHR ''{'' # commas (map print_member ms) @ ''}''"
  by (simp add: print_member_def [abs_def] case_prod_beta')

lemma p_members_print:
  assumes "\<And>k v n r. (k, v) \<in> set ms \<Longrightarrow> stops r \<Longrightarrow> length (print_json v) \<le> n \<Longrightarrow>
      p_value n (print_json v @ r) = Some (v, r)"
    and "\<forall>m \<in> set ms. wf_json (snd m)"
    and "ms \<noteq> []" and "length (commas (map print_member ms)) < n"
  shows "p_members n (commas (map print_member ms) @ CHR ''}'' # r)
    = Some (map (\<lambda>(k, v). (k, v, print_json v)) ms, r)"
  using assms
proof (induction ms arbitrary: n)
  case Nil
  then show ?case by simp
next
  case (Cons m ms)
  obtain k v where m: "m = (k, v)" by (cases m)
  from Cons.prems obtain l where n: "n = Suc l" by (cases n) auto
  from Cons.prems(2) m have wf: "wf_json v" by auto
  have raw: "skip_ws (print_json v @ s) = print_json v @ s" for s
    using print_json_head [OF wf] by (metis append_Cons skip_ws_stop)
  show ?case
  proof (cases "ms = []")
    case True
    have "p_value l (print_json v @ CHR ''}'' # r) = Some (v, CHR ''}'' # r)"
      using Cons.prems m n True by (intro Cons.prems(1)) (auto simp: print_member_def)
    with True n m show ?thesis
      by (simp add: print_member_def print_str_def p_chars_esc_string raw)
  next
    case False
    let ?rest = "commas (map print_member ms)"
    have "p_value l (print_json v @ CHR '','' # ?rest @ CHR ''}'' # r)
        = Some (v, CHR '','' # ?rest @ CHR ''}'' # r)"
      using Cons.prems m n False by (intro Cons.prems(1)) (auto simp: commas_Cons print_member_def)
    moreover have "p_members l (?rest @ CHR ''}'' # r) = Some (map (\<lambda>(k, v). (k, v, print_json v)) ms, r)"
      using Cons.prems n False by (intro Cons.IH) (auto simp: commas_Cons)
    ultimately show ?thesis using False n m
      by (simp add: commas_Cons print_str_def p_chars_esc_string raw)
  qed
qed

lemma skip_ws_commas:
  assumes "ps \<noteq> []" and "hd ps = c # u" and "\<not> json_ws c"
  shows "\<exists>w. skip_ws (commas ps @ r) = c # w"
  using assms by (cases ps rule: commas.cases) auto

lemma p_value_print:
  "wf_json v \<Longrightarrow> stops r \<Longrightarrow> length (print_json v) \<le> n \<Longrightarrow> p_value n (print_json v @ r) = Some (v, r)"
proof (induction v arbitrary: n r)
  case (JNum t)
  then obtain m where "n = Suc m" by (cases n) (auto elim: valid_num_head)
  with JNum show ?case by (metis p_value_num print_json.simps(3) wf_json.simps(1))
next
  case (JStr s)
  then obtain m where "n = Suc m" by (cases n) (auto simp: print_str_def)
  then show ?case by (simp add: print_str_def p_chars_esc_string)
next
  case (JArr vs)
  then obtain m where n: "n = Suc m" by (cases n) auto
  show ?case
  proof (cases "vs = []")
    case True
    with n show ?thesis by (simp add: has_prefix_def)
  next
    case False
    then obtain v ws where vs: "vs = v # ws" by (cases vs) auto
    with JArr.prems have wf: "wf_json v" by simp
    obtain c u where h: "print_json v = c # u" "\<not> json_ws c" "c \<noteq> CHR '']''"
      using print_json_head [OF wf] by metis
    obtain w where w: "skip_ws (commas (map print_json vs) @ CHR '']'' # r) = c # w"
      using skip_ws_commas [of "map print_json vs" c u] h vs by fastforce
    have "p_elems m (commas (map print_json vs) @ CHR '']'' # r) = Some (vs, r)"
      using JArr n False by (intro p_elems_print) (auto simp: list_all_iff)
    with n w h show ?thesis by (simp add: has_prefix_def)
  qed
next
  case (JObj ms)
  then obtain m where n: "n = Suc m" by (cases n) auto
  show ?case
  proof (cases "ms = []")
    case True
    with n show ?thesis by (simp add: has_prefix_def)
  next
    case False
    then obtain k v ws where ms: "ms = (k, v) # ws" by (cases ms) auto
    obtain w where w: "skip_ws (commas (map print_member ms) @ CHR ''}'' # r) = CHR 0x22 # w"
      using skip_ws_commas [of "map print_member ms" "CHR 0x22"] ms
      by (fastforce simp: print_member_def print_str_def)
    have "p_members m (commas (map print_member ms) @ CHR ''}'' # r)
      = Some (map (\<lambda>(k, v). (k, v, print_json v)) ms, r)"
      using JObj n False
      by (intro p_members_print) (auto simp: list_all_iff print_json_obj simp del: print_json.simps)
    with n w show ?thesis
      by (simp add: has_prefix_def print_json_obj comp_def case_prod_beta del: print_json.simps)
  qed
next
  case (JBool b)
  then show ?case by (cases n; cases b) (auto simp: has_prefix_def)
next
  case JNull
  then show ?case by (cases n) (auto simp: has_prefix_def)
qed

lemma parse_print: "wf_json v \<Longrightarrow> parse_json (print_json v) = Some v"
  using p_value_print [of v "[]" "json_fuel (print_json v)"]
  by (simp add: parse_json_def json_fuel_def)

lemma decode_print: "wf_json v \<Longrightarrow> stops r \<Longrightarrow> decode_json (print_json v @ r) = Some v"
  using p_value_print [of v r "json_fuel (print_json v @ r)"]
  by (simp add: decode_json_def json_fuel_def)

lemma decode_encode_line: "wf_json v \<Longrightarrow> decode_json (encode_line v) = Some v"
  by (simp add: encode_line_def decode_print stops_def json_ws_def)

lemma raw_members_print:
  assumes "wf_json (JObj ms)"
  shows "raw_members (print_json (JObj ms)) = map (\<lambda>(k, v). (k, v, print_json v)) ms"
proof (cases "ms = []")
  case True
  then show ?thesis by (simp add: raw_members_def json_fuel_def numeral_eq_Suc)
next
  case False
  let ?s = "print_json (JObj ms)"
  have "p_members (json_fuel ?s) (commas (map print_member ms) @ CHR ''}'' # [])
      = Some (map (\<lambda>(k, v). (k, v, print_json v)) ms, [])"
    using assms False
    by (intro p_members_print)
      (auto simp: list_all_iff print_json_obj json_fuel_def intro!: p_value_print
        simp del: print_json.simps(6))
  then show ?thesis by (simp add: raw_members_def print_json_obj del: print_json.simps)
qed

section \<open>The fuel is enough\<close>

lemma length_skip_ws: "length (skip_ws s) \<le> length s"
  by (simp add: skip_ws_def length_dropWhile_le)

lemma skip_ws_Cons_length: "skip_ws s = c # t \<Longrightarrow> length t < length s"
  using length_skip_ws [of s] by simp

lemma p_chars_length: "p_chars s = Some (d, r) \<Longrightarrow> length r < length s"
proof (induction s arbitrary: d r rule: p_chars.induct)
  case (1 s)
  show ?case
  proof (cases s)
    case Nil
    with 1 show ?thesis by simp
  next
    case (Cons c t)
    consider (esc) "c = CHR 0x5C" | (plain) "c \<noteq> CHR 0x5C" by blast
    then show ?thesis
    proof cases
      case esc
      with 1 Cons obtain x k e where "p_esc t = Some (x, k)" "p_chars (drop k t) = Some (e, r)"
        by (auto simp: p_chars_Cons split: option.splits)
      with 1(1) [OF Cons _ esc] esc Cons have "length r < length (drop k t)" by simp
      with Cons show ?thesis by simp
    next
      case plain
      with 1 Cons show ?thesis by (fastforce simp: p_chars_Cons split: if_splits)
    qed
  qed
qed

lemma int_part_length: "int_part s = Some (i, r) \<Longrightarrow> length r < length s"
  by (auto simp: int_part_def le_imp_less_Suc length_dropWhile_le split: list.splits if_splits)

lemma frac_part_length: "frac_part s = Some (i, r) \<Longrightarrow> length r \<le> length s"
  by (auto simp: frac_part_def le_SucI length_dropWhile_le split: list.splits if_splits)

lemma exp_part_length:
  assumes "exp_part s = Some (i, r)"
  shows "length r \<le> length s"
proof (cases s)
  case Nil
  with assms show ?thesis by (simp add: exp_part_def)
next
  case (Cons c t)
  have "length (dropWhile is_digit (drop k t)) \<le> length t" for k
    by (rule order_trans [OF length_dropWhile_le]) simp
  from this [of 0] this [of 1] assms Cons show ?thesis
    by (auto simp: exp_part_def Let_def le_SucI split: if_splits)
qed

lemma p_num_length: "p_num s = Some (t, r) \<Longrightarrow> length r < length s"
proof -
  assume "p_num s = Some (t, r)"
  then obtain k i a f b e where "int_part (drop k s) = Some (i, a)" "frac_part a = Some (f, b)"
    "exp_part b = Some (e, r)"
    by (auto simp: p_num_def Let_def split: option.splits)
  then have "length a < length (drop k s)" "length b \<le> length a" "length r \<le> length b"
    by (auto dest: int_part_length frac_part_length exp_part_length)
  then show ?thesis by simp
qed

lemma p_length:
  "p_value n s = Some (v, r) \<Longrightarrow> length r < length s"
  "p_elems n s = Some (vs, r) \<Longrightarrow> length r < length s"
  "p_members n s = Some (ms, r) \<Longrightarrow> length r < length s"
proof (induction n s and n s and n s arbitrary: v r and vs r and ms r
    rule: p_value_p_elems_p_members.induct)
  case (2 n s)
  obtain c t where ct: "skip_ws s = c # t"
    using "2.prems" by (cases "skip_ws s") auto
  note lt = skip_ws_Cons_length [OF ct]
  have le: "length (drop k (skip_ws t)) \<le> length t" for k
    using length_skip_ws [of t] by simp
  have "length r < length (c # t)"
    using "2.prems" "2.IH"(1) [OF ct] "2.IH"(2) [OF ct] le [of 1]
    by (auto simp: ct le_imp_less_Suc less_SucI dest: p_chars_length p_num_length split: if_splits)
  with lt show ?case by simp
next
  case (4 n s)
  then obtain v r1 c u where v: "p_value n s = Some (v, r1)" and c: "skip_ws r1 = c # u"
    by (auto split: option.splits list.splits)
  have "length u < length s"
    using "4.IH"(1) [OF v] skip_ws_Cons_length [OF c] by simp
  moreover have "length r \<le> length u"
    using "4.prems" "4.IH"(2) [OF v refl c] v c by (fastforce split: if_splits)
  ultimately show ?case by simp
next
  case (6 n s)
  obtain q t where q: "skip_ws s = q # t" using "6.prems" by (cases "skip_ws s") auto
  with "6.prems" have quote: "q = CHR 0x22" by (auto split: if_splits)
  with "6.prems" q obtain k r1 where k: "p_chars t = Some (k, r1)" by (auto split: option.splits)
  with "6.prems" q quote obtain c u where c: "skip_ws r1 = c # u" by (auto split: list.splits)
  with "6.prems" q quote k have colon: "c = CHR '':''" by (auto split: if_splits)
  with "6.prems" q quote k c obtain v r2 where v: "p_value n u = Some (v, r2)"
    by (auto split: option.splits)
  with "6.prems" q quote k c colon obtain d w where d: "skip_ws r2 = d # w"
    by (auto simp: Let_def split: list.splits)
  have "length r2 < length u"
    using "6.IH"(1) [OF q _ k refl c] quote colon v by auto
  then have "length w < length s"
    using skip_ws_Cons_length [OF q] p_chars_length [OF k] skip_ws_Cons_length [OF c]
      skip_ws_Cons_length [OF d] by simp
  moreover have "length r \<le> length w"
    using "6.prems" "6.IH"(2) [OF q _ k refl c _ v refl refl d] quote colon q k c v d
    by (fastforce simp: Let_def split: if_splits)
  ultimately show ?case by simp
qed auto

text \<open>The three functions agree for all fuel above twice the length of the text.\<close>

lemma p_fuel:
  "2 * length s < n \<Longrightarrow> 2 * length s < m \<Longrightarrow> p_value n s = p_value m s"
  "2 * length s + 1 < n \<Longrightarrow> 2 * length s + 1 < m \<Longrightarrow> p_elems n s = p_elems m s"
  "2 * length s + 1 < n \<Longrightarrow> 2 * length s + 1 < m \<Longrightarrow> p_members n s = p_members m s"
proof (induction n s and n s and n s arbitrary: m and m and m rule: p_value_p_elems_p_members.induct)
  case (2 n s)
  from "2.prems" obtain l where m: "m = Suc l" by (cases m) auto
  show ?case
  proof (cases "skip_ws s")
    case Nil
    with m show ?thesis by simp
  next
    case (Cons c t)
    have "length t < length s" by (rule skip_ws_Cons_length [OF Cons])
    with "2.prems" m have "2 * length t + 1 < n" "2 * length t + 1 < l" by auto
    note lt = this
    have "p_elems n t = p_elems l t" if "c = CHR ''[''" "\<not> has_prefix (skip_ws t) '']''"
      by (rule "2.IH"(1) [OF Cons _ that lt]) (simp add: that)
    moreover have "p_members n t = p_members l t" if "c = CHR ''{''" "\<not> has_prefix (skip_ws t) ''}''"
      by (rule "2.IH"(2) [OF Cons _ _ that lt]) (simp_all add: that)
    ultimately show ?thesis unfolding m by (simp add: Cons)
  qed
next
  case (4 n s)
  from "4.prems" obtain l where m: "m = Suc l" by (cases m) auto
  have v: "p_value n s = p_value l s" by (rule "4.IH"(1)) (use "4.prems" m in auto)
  show ?case
  proof (cases "p_value n s")
    case None
    with v m show ?thesis by simp
  next
    case (Some a)
    obtain x r where x: "a = (x, r)" by (cases a)
    have "p_elems n u = p_elems l u" if "skip_ws r = c # u" "c = CHR '',''" for c u
    proof -
      have "length u < length s"
        using p_length(1) [of n s x r] Some x skip_ws_Cons_length [OF that(1)] by simp
      with "4.prems" m that Some x show ?thesis by (intro "4.IH"(2) [OF Some x [symmetric]]) auto
    qed
    moreover have "p_value l s = Some (x, r)" using v Some x by simp
    ultimately show ?thesis using Some x unfolding m by (simp split: list.split)
  qed
next
  case (6 n s)
  from "6.prems" obtain l where m: "m = Suc l" by (cases m) auto
  show ?case
  proof (cases "\<exists>t k r u. skip_ws s = CHR 0x22 # t \<and> p_chars t = Some (k, r) \<and> skip_ws r = CHR '':'' # u")
    case False
    then show ?thesis by (auto simp: m split: list.split option.split)
  next
    case True
    then obtain t k r u where q: "skip_ws s = CHR 0x22 # t" and k: "p_chars t = Some (k, r)"
      and c: "skip_ws r = CHR '':'' # u" by blast
    have u: "length u < length s"
      using skip_ws_Cons_length [OF q] p_chars_length [OF k] skip_ws_Cons_length [OF c] by simp
    with "6.prems" m have v: "p_value n u = p_value l u"
      by (intro "6.IH"(1) [OF q _ k refl c]) auto
    show ?thesis
    proof (cases "p_value n u")
      case None
      with v m q k c show ?thesis by simp
    next
      case (Some a)
      obtain x r2 where x: "a = (x, r2)" by (cases a)
      have "p_members n w = p_members l w" if "skip_ws r2 = d # w" "d = CHR '',''" for d w
      proof -
        have "length w < length s"
          using p_length(1) [of n u x r2] Some x skip_ws_Cons_length [OF that(1)] u by simp
        with "6.prems" m that show ?thesis
          by (intro "6.IH"(2) [OF q _ k refl c _ Some x [symmetric] refl that(1)]) auto
      qed
      moreover have "p_value l u = Some (x, r2)" using v Some x by simp
      ultimately show ?thesis using q k c Some x unfolding m by (simp add: Let_def split: list.split)
    qed
  qed
qed auto

lemma parse_json_fuel:
  assumes "2 * length s < n"
  shows "parse_json s =
     (case p_value n s of None \<Rightarrow> None | Some (v, r) \<Rightarrow> if skip_ws r = [] then Some v else None)"
  using p_fuel(1) [OF assms, of "json_fuel s"] by (simp add: parse_json_def json_fuel_def)

section \<open>Lower-case member names\<close>

text \<open>
  The struct tags of the program are lower-case names, and two of them match exactly when
  they are equal. With \<open>dec_eval\<close> the simplifier reads the fields of a literal object.
\<close>

definition low :: "string \<Rightarrow> bool" where "low s \<longleftrightarrow> to_lower s = s"

lemma key_match_low: "low f \<Longrightarrow> low k \<Longrightarrow> key_match f k \<longleftrightarrow> f = k"
  by (simp add: low_def key_match_def)

lemma key_match_refl [simp]: "key_match f f"
  by (simp add: key_match_def)

lemma low_keys [simp]:
  "low ''conformance_profile''" "low ''message_endpoint''" "low ''mdn_receipt_endpoint''"
  "low ''algorithms_supported''" "low ''webhook_registration_endpoint''"
  "low ''original_message_id''" "low ''status''" "low ''hash_verification''"
  "low ''timestamp''" "low ''error_log''" "low ''job_type''" "low ''message''"
  "low ''message_id''" "low ''destination_partner_id''" "low ''document_type''"
  "low ''receipt_webhook''" "low ''payload''" "low ''recipient_partner_id''"
  "low ''original_payload''" "low ''routing_header''" "low ''encrypted_payload''"
  "low ''fidex_version''" "low ''sender_id''" "low ''receiver_id''" "low ''signature''"
  "low ''username''" "low ''password''" "low ''current_password''" "low ''new_password''"
  "low ''discovery_url''" "low ''security_token''" "low ''node_id''"
  "low ''organization_name''" "low ''public_domain''" "low ''endpoints''"
  "low ''receive_message''" "low ''receive_receipt''" "low ''register''" "low ''jwks''"
  "low ''security''" "low ''supported_encryption_algorithms''" "low ''encryption_algorithm''"
  "low ''signature_algorithm''" "low ''content_encryption''" "low ''minimum_key_size''"
  "low ''jwks_uri''" "low ''supported_versions''" "low ''supported_document_types''"
  "low ''supported_message_formats''" "low ''version''" "low ''name''" "low ''success''"
  "low ''error''" "low ''data''" "low ''code''" "low ''details''" "low ''id''"
  by code_simp+

lemmas dec_eval = key_match_low obj_members_def dec_str_def dec_ptr_def dec_bool_def dec_strs_def

section \<open>The interface of a message format\<close>

text \<open>
  One component writes a text, another reads it, often into another type: \<open>view\<close> is what the
  reader should see of a value the writer is \<open>ok\<close> with.
\<close>

locale codec =
  fixes ok :: "'a \<Rightarrow> bool" and enc :: "'a \<Rightarrow> string" and dec :: "string \<Rightarrow> 'b option" and view :: "'a \<Rightarrow> 'b"
  assumes dec_enc: "ok x \<Longrightarrow> dec (enc x) = Some (view x)"
    and dec_empty: "dec [] = None"
begin

lemma enc_nonempty: "ok x \<Longrightarrow> enc x \<noteq> []"
  using dec_enc [of x] dec_empty by auto

lemma enc_determines_view: "ok x \<Longrightarrow> ok y \<Longrightarrow> enc x = enc y \<Longrightarrow> view x = view y"
  using dec_enc [of x] dec_enc [of y] by simp

end

lemma parse_json_Nil [simp]: "parse_json [] = None"
  by (simp add: parse_json_def json_fuel_def numeral_2_eq_2)

end
