(* ===== verification/Config.thy ===== *)
theory Config
  imports Domain Json_Facts
begin

text \<open>
  \<open>internal/config/config.go\<close>: the node's configuration from defaults, a JSON file, the
  environment and the command line, and its random API key. The environment is a function
  (an unset variable is the empty string), the file system a function from paths to an error
  text or contents, and \<open>package flag\<close> the values of the flags after \<open>flag.Parse\<close>.
\<close>

record config =
  NodeID :: string
  OrganizationName :: string
  PublicDomain :: string
  InternalAPIPort :: int
  PublicAPIPort :: int
  InternalAPIKey :: string
  AllowedIPAddresses :: "string list"
  EnableIPAllowlist :: bool
  PrivateKeyPath :: string
  PublicKeyPath :: string
  DatabasePath :: string

definition default_config :: config where
  "default_config = \<lparr>NodeID = ''fidex-edge-node'', OrganizationName = ''FideX Edge Node'',
     PublicDomain = ''localhost'', InternalAPIPort = 8080, PublicAPIPort = 8443, InternalAPIKey = [],
     AllowedIPAddresses = [''127.0.0.1'', ''::1''], EnableIPAllowlist = True,
     PrivateKeyPath = ''./keys/private_key.pem'', PublicKeyPath = ''./keys/public_key.pem'',
     DatabasePath = ''./fidex_local.db''\<rparr>"

record flag_values =
  f_config :: string
  f_node_id :: string
  f_org_name :: string
  f_domain :: string
  f_internal_port :: int
  f_public_port :: int
  f_api_key :: string
  f_enable_ip_allowlist :: bool
  f_private_key :: string
  f_public_key :: string
  f_db :: string

definition default_flags :: flag_values where
  "default_flags = \<lparr>f_config = [], f_node_id = NodeID default_config, f_org_name = OrganizationName default_config,
     f_domain = PublicDomain default_config, f_internal_port = InternalAPIPort default_config,
     f_public_port = PublicAPIPort default_config, f_api_key = InternalAPIKey default_config,
     f_enable_ip_allowlist = EnableIPAllowlist default_config, f_private_key = PrivateKeyPath default_config,
     f_public_key = PublicKeyPath default_config, f_db = DatabasePath default_config\<rparr>"

section \<open>The JSON file\<close>

text \<open>\<open>json.Unmarshal\<close> into a struct that already holds values: a member that is absent or
  \<open>null\<close> leaves its field, an integer must be a plain integer in range, and the elements of
  an array are decoded over those of the slice.\<close>

definition over_str :: "string \<Rightarrow> string \<Rightarrow> (string \<times> json) list \<Rightarrow> string \<times> bool" where
  "over_str old f ms = dec_str_from (old, False) f ms"

fun over_int_from :: "int \<times> bool \<Rightarrow> string \<Rightarrow> (string \<times> json) list \<Rightarrow> int \<times> bool" where
  "over_int_from acc f [] = acc"
| "over_int_from acc f ((k, v) # ms) =
     over_int_from
       (if key_match f k
        then (case v of JNum t \<Rightarrow> (case atoi t of Some i \<Rightarrow> (i, snd acc) | None \<Rightarrow> (fst acc, True))
              | JNull \<Rightarrow> acc | _ \<Rightarrow> (fst acc, True))
        else acc) f ms"

definition over_bool :: "bool \<Rightarrow> string \<Rightarrow> (string \<times> json) list \<Rightarrow> bool \<times> bool" where
  "over_bool old f ms = dec_bool_from (old, False) f ms"

fun over_elems :: "string list \<Rightarrow> json list \<Rightarrow> string list \<times> bool" where
  "over_elems old [] = ([], False)"
| "over_elems old (v # vs) =
     (let (rest, bad) = over_elems (tl old) vs; o1 = (if old = [] then [] else hd old) in
      case v of JStr s \<Rightarrow> (s # rest, bad) | JNull \<Rightarrow> (o1 # rest, bad) | _ \<Rightarrow> (o1 # rest, True))"

fun over_strs_from :: "string list \<times> bool \<Rightarrow> string \<Rightarrow> (string \<times> json) list \<Rightarrow> string list \<times> bool" where
  "over_strs_from acc f [] = acc"
| "over_strs_from acc f ((k, v) # ms) =
     over_strs_from
       (if key_match f k
        then (case v of JArr vs \<Rightarrow> (fst (over_elems (fst acc) vs), snd acc \<or> snd (over_elems (fst acc) vs))
              | JNull \<Rightarrow> ([], snd acc) | _ \<Rightarrow> (fst acc, True))
        else acc) f ms"

text \<open>The struct after the members, and whether a type error was met.\<close>

definition config_fields :: "config \<Rightarrow> json \<Rightarrow> config \<times> bool" where
  "config_fields cfg v =
     (let (ms, b0) = obj_members v;
          (nid, b1) = over_str (NodeID cfg) ''node_id'' ms;
          (org, b2) = over_str (OrganizationName cfg) ''organization_name'' ms;
          (dom, b3) = over_str (PublicDomain cfg) ''public_domain'' ms;
          (ip, b4) = over_int_from (InternalAPIPort cfg, False) ''internal_api_port'' ms;
          (pp, b5) = over_int_from (PublicAPIPort cfg, False) ''public_api_port'' ms;
          (key, b6) = over_str (InternalAPIKey cfg) ''internal_api_key'' ms;
          (ips, b7) = over_strs_from (AllowedIPAddresses cfg, False) ''allowed_ip_addresses'' ms;
          (en, b8) = over_bool (EnableIPAllowlist cfg) ''enable_ip_allowlist'' ms;
          (prk, b9) = over_str (PrivateKeyPath cfg) ''private_key_path'' ms;
          (puk, b10) = over_str (PublicKeyPath cfg) ''public_key_path'' ms;
          (db, b11) = over_str (DatabasePath cfg) ''database_path'' ms
      in (\<lparr>NodeID = nid, OrganizationName = org, PublicDomain = dom, InternalAPIPort = ip, PublicAPIPort = pp,
           InternalAPIKey = key, AllowedIPAddresses = ips, EnableIPAllowlist = en, PrivateKeyPath = prk,
           PublicKeyPath = puk, DatabasePath = db\<rparr>,
          b0 \<or> b1 \<or> b2 \<or> b3 \<or> b4 \<or> b5 \<or> b6 \<or> b7 \<or> b8 \<or> b9 \<or> b10 \<or> b11))"

type_synonym file_system = "string \<Rightarrow> string + string"

definition loadFromFile :: "(string \<Rightarrow> string) \<Rightarrow> file_system \<Rightarrow> string \<Rightarrow> config \<Rightarrow> config result" where
  "loadFromFile json_err fs path cfg =
     (case fs path of Inl e \<Rightarrow> Inl (WrapErr ''failed to read config file: '' (Errorf e))
      | Inr data \<Rightarrow>
        (case parse_json data of
           None \<Rightarrow> Inl (WrapErr ''failed to parse config file: '' (Errorf (json_err data)))
         | Some v \<Rightarrow>
           (if snd (config_fields cfg v)
            then Inl (WrapErr ''failed to parse config file: '' (Errorf (json_err data)))
            else Inr (fst (config_fields cfg v)))))"

section \<open>The environment\<close>

definition env_str :: "(string \<Rightarrow> string) \<Rightarrow> string \<Rightarrow> string \<Rightarrow> string" where
  "env_str env name old = (if env name \<noteq> [] then env name else old)"

definition env_int :: "(string \<Rightarrow> string) \<Rightarrow> string \<Rightarrow> int \<Rightarrow> int" where
  "env_int env name old =
     (if env name \<noteq> [] then (case atoi (env name) of Some i \<Rightarrow> i | None \<Rightarrow> old) else old)"

definition loadFromEnv :: "(string \<Rightarrow> string) \<Rightarrow> config \<Rightarrow> config" where
  "loadFromEnv env cfg = \<lparr>
     NodeID = env_str env ''FIDEX_NODE_ID'' (NodeID cfg),
     OrganizationName = env_str env ''FIDEX_ORG_NAME'' (OrganizationName cfg),
     PublicDomain = env_str env ''FIDEX_PUBLIC_DOMAIN'' (PublicDomain cfg),
     InternalAPIPort = env_int env ''FIDEX_INTERNAL_PORT'' (InternalAPIPort cfg),
     PublicAPIPort = env_int env ''FIDEX_PUBLIC_PORT'' (PublicAPIPort cfg),
     InternalAPIKey = env_str env ''FIDEX_API_KEY'' (InternalAPIKey cfg),
     AllowedIPAddresses = (if env ''FIDEX_ALLOWED_IPS'' \<noteq> [] then split_on (CHR '','') (env ''FIDEX_ALLOWED_IPS'')
                           else AllowedIPAddresses cfg),
     EnableIPAllowlist = (if env ''FIDEX_ENABLE_IP_ALLOWLIST'' \<noteq> []
                          then env ''FIDEX_ENABLE_IP_ALLOWLIST'' = ''true'' \<or> env ''FIDEX_ENABLE_IP_ALLOWLIST'' = ''1''
                          else EnableIPAllowlist cfg),
     PrivateKeyPath = env_str env ''FIDEX_PRIVATE_KEY_PATH'' (PrivateKeyPath cfg),
     PublicKeyPath = env_str env ''FIDEX_PUBLIC_KEY_PATH'' (PublicKeyPath cfg),
     DatabasePath = env_str env ''FIDEX_DB_PATH'' (DatabasePath cfg)\<rparr>"

section \<open>The flags, and Load\<close>

text \<open>A flag counts when its value differs from its default.\<close>

definition flag_or :: "'a \<Rightarrow> 'a \<Rightarrow> 'a \<Rightarrow> 'a" where
  "flag_or val def old = (if val \<noteq> def then val else old)"

definition apply_flags :: "flag_values \<Rightarrow> config \<Rightarrow> config" where
  "apply_flags f cfg = cfg\<lparr>
     NodeID := flag_or (f_node_id f) (f_node_id default_flags) (NodeID cfg),
     OrganizationName := flag_or (f_org_name f) (f_org_name default_flags) (OrganizationName cfg),
     PublicDomain := flag_or (f_domain f) (f_domain default_flags) (PublicDomain cfg),
     InternalAPIPort := flag_or (f_internal_port f) (f_internal_port default_flags) (InternalAPIPort cfg),
     PublicAPIPort := flag_or (f_public_port f) (f_public_port default_flags) (PublicAPIPort cfg),
     InternalAPIKey := flag_or (f_api_key f) (f_api_key default_flags) (InternalAPIKey cfg),
     EnableIPAllowlist := flag_or (f_enable_ip_allowlist f) (f_enable_ip_allowlist default_flags) (EnableIPAllowlist cfg),
     PrivateKeyPath := flag_or (f_private_key f) (f_private_key default_flags) (PrivateKeyPath cfg),
     PublicKeyPath := flag_or (f_public_key f) (f_public_key default_flags) (PublicKeyPath cfg),
     DatabasePath := flag_or (f_db f) (f_db default_flags) (DatabasePath cfg)\<rparr>"

definition charset :: string where
  "charset = ''abcdefghijklmnopqrstuvwxyzABCDEFGHIJKLMNOPQRSTUVWXYZ0123456789''"

text \<open>\<open>rand.Int\<close> answers an index below the size of the set, or fails.\<close>

definition generateAPIKey :: "(nat \<Rightarrow> nat option) \<Rightarrow> string" where
  "generateAPIKey rand =
     map (\<lambda>i. case rand i of None \<Rightarrow> charset ! (i mod length charset)
              | Some r \<Rightarrow> charset ! (r mod length charset)) [0..<32]"

definition Load ::
  "(string \<Rightarrow> string) \<Rightarrow> file_system \<Rightarrow> (string \<Rightarrow> string) \<Rightarrow> flag_values \<Rightarrow> (nat \<Rightarrow> nat option) \<Rightarrow> config result" where
  "Load json_err fs env flags rand =
     (case (if f_config flags \<noteq> [] then loadFromFile json_err fs (f_config flags) default_config
            else Inr default_config) of
        Inl e \<Rightarrow> Inl (WrapErr ''failed to load config file: '' e)
      | Inr cfg1 \<Rightarrow>
        let cfg = apply_flags flags (loadFromEnv env cfg1)
        in Inr (if InternalAPIKey cfg = [] then cfg\<lparr>InternalAPIKey := generateAPIKey rand\<rparr> else cfg))"

section \<open>Saving\<close>

text \<open>\<open>json.MarshalIndent\<close> with an indentation of two spaces.\<close>

definition newline_indent :: "nat \<Rightarrow> string" where
  "newline_indent d = CHR 0x0A # replicate (2 * d) (CHR 0x20)"

fun comma_lines :: "string \<Rightarrow> string list \<Rightarrow> string" where
  "comma_lines nl [] = []"
| "comma_lines nl [x] = nl @ x"
| "comma_lines nl (x # y # xs) = nl @ x @ '','' @ comma_lines nl (y # xs)"

fun print_indent :: "nat \<Rightarrow> json \<Rightarrow> string" where
  "print_indent d (JArr vs) =
     (if vs = [] then ''[]''
      else ''['' @ comma_lines (newline_indent (d + 1)) (map (print_indent (d + 1)) vs) @ newline_indent d @ '']'')"
| "print_indent d (JObj ms) =
     (if ms = [] then ''{}''
      else ''{'' @ comma_lines (newline_indent (d + 1))
             (map (\<lambda>(k, v). print_str k @ '': '' @ print_indent (d + 1) v) ms) @ newline_indent d @ ''}'')"
| "print_indent d v = print_json v"

definition config_json :: "config \<Rightarrow> json" where
  "config_json c = JObj
     [(''node_id'', JStr (NodeID c)), (''organization_name'', JStr (OrganizationName c)),
      (''public_domain'', JStr (PublicDomain c)), (''internal_api_port'', JNum (show_int (InternalAPIPort c))),
      (''public_api_port'', JNum (show_int (PublicAPIPort c))), (''internal_api_key'', JStr (InternalAPIKey c)),
      (''allowed_ip_addresses'', JArr (map JStr (AllowedIPAddresses c))),
      (''enable_ip_allowlist'', JBool (EnableIPAllowlist c)), (''private_key_path'', JStr (PrivateKeyPath c)),
      (''public_key_path'', JStr (PublicKeyPath c)), (''database_path'', JStr (DatabasePath c))]"

definition Save :: "config \<Rightarrow> string" where \<comment> \<open>the bytes written to the file\<close>
  "Save c = print_indent 0 (config_json c)"

text \<open>A nil slice prints as \<open>null\<close> instead of \<open>[]\<close>; the reader of this text treats both as the
  empty list.\<close>

definition AllowedIPsString :: "config \<Rightarrow> string" where
  "AllowedIPsString c = print_json (JArr (map JStr (AllowedIPAddresses c)))"

section \<open>Properties\<close>

lemma Load_no_file:
  "f_config flags = [] \<Longrightarrow> Load je fs env flags rand =
    Inr (let cfg = apply_flags flags (loadFromEnv env default_config)
         in if InternalAPIKey cfg = [] then cfg\<lparr>InternalAPIKey := generateAPIKey rand\<rparr> else cfg)"
  by (simp add: Load_def Let_def)

lemma length_generateAPIKey [simp]: "length (generateAPIKey rand) = 32"
  by (simp add: generateAPIKey_def)



text \<open>A setting given explicitly on the command line with the value that happens to be the
  default is overridden by the environment.\<close>

theorem explicit_default_flag_ignored:
  assumes "f_config flags = []" and "f_enable_ip_allowlist flags = True"
    and "env ''FIDEX_ENABLE_IP_ALLOWLIST'' = ''0''"
  shows "\<exists>c. Load je fs env flags rand = Inr c \<and> \<not> EnableIPAllowlist c"
  using assms(2,3) by (simp add: Load_no_file [OF assms(1)] Let_def apply_flags_def loadFromEnv_def
      default_flags_def default_config_def flag_or_def)

theorem explicit_default_flag_ignored_witness:
  "\<exists>c. Load (\<lambda>s. s) (\<lambda>p. Inl []) (\<lambda>v. if v = ''FIDEX_ENABLE_IP_ALLOWLIST'' then ''0'' else [])
    default_flags (\<lambda>i. None) = Inr c \<and> \<not> EnableIPAllowlist c"
  by (rule explicit_default_flag_ignored) (simp_all add: default_flags_def default_config_def)

end
