(* ===== verification/Extern.thy ===== *)
theory Extern
  imports Domain
begin

text \<open>
  Code outside the repository, as one record of functions that the definitions using it take
  as an argument: \<open>go-jose\<close>, the key formats of \<open>crypto/x509\<close> and \<open>encoding/pem\<close>, RSA key
  generation, bcrypt, the QR encoder, and the error texts of \<open>encoding/json\<close> and
  \<open>net/http\<close> where the program shows them. \<open>jose_ok\<close> states what the documentation of
  \<open>go-jose\<close> promises: what a key signs or encrypts, its counterpart verifies or decrypts.
  \<open>demo_libs\<close> is a concrete instance for which that holds.
\<close>

section \<open>Keys\<close>

type_synonym rsa_pub = "nat \<times> nat" \<comment> \<open>modulus and exponent\<close>

record rsa_priv =
  PublicKey :: rsa_pub
  PrivExp :: nat

datatype KeyAlgorithm = RSA_OAEP | RSA_OAEP_256

text \<open>The dynamic type behind the field \<open>Key\<close> of a \<open>jose.JSONWebKey\<close>, and behind the
  \<open>any\<close> that \<open>x509\<close> returns.\<close>

datatype any_key = RSAPublic rsa_pub | RSAPrivate rsa_priv | OtherKey string

record jwk =
  Key :: any_key
  KeyID :: string
  JAlgorithm :: string
  Use :: string

section \<open>The functions\<close>

record libs =
  new_signer :: "rsa_priv \<Rightarrow> string option"
  jws_sign :: "rsa_priv \<Rightarrow> string \<Rightarrow> string + string"
  jws_compact :: "string \<Rightarrow> string + string"
  parse_signed :: "string \<Rightarrow> string + string"
  jws_verify :: "rsa_pub \<Rightarrow> string \<Rightarrow> string + string"
  new_encrypter :: "KeyAlgorithm \<Rightarrow> rsa_pub \<Rightarrow> string option"
  jwe_encrypt :: "KeyAlgorithm \<Rightarrow> rsa_pub \<Rightarrow> nat \<Rightarrow> string \<Rightarrow> string + string"
  jwe_compact :: "string \<Rightarrow> string + string"
  parse_encrypted :: "KeyAlgorithm list \<Rightarrow> string \<Rightarrow> string + string"
  jwe_decrypt :: "rsa_priv \<Rightarrow> string \<Rightarrow> string + string"
  unmarshal_jwks :: "string \<Rightarrow> string + jwk list"
  marshal_jwks :: "jwk list \<Rightarrow> string + string"
  pem_decode :: "string \<Rightarrow> string option"
  pem_encode :: "string \<Rightarrow> string \<Rightarrow> string"
  parse_pkcs1 :: "string \<Rightarrow> string + rsa_priv"
  parse_pkcs8 :: "string \<Rightarrow> string + any_key"
  parse_pkix :: "string \<Rightarrow> string + any_key"
  marshal_pkcs1 :: "rsa_priv \<Rightarrow> string"
  marshal_pkix :: "rsa_pub \<Rightarrow> string + string"
  generate_rsa :: "nat \<Rightarrow> nat \<Rightarrow> string + rsa_priv"
  json_error :: "string \<Rightarrow> string"
  new_request :: "string \<Rightarrow> string option"
  bcrypt_hash :: "nat \<Rightarrow> nat \<Rightarrow> string \<Rightarrow> string + string"
  bcrypt_check :: "string \<Rightarrow> string \<Rightarrow> bool"
  float64 :: "string \<Rightarrow> string option"

text \<open>
  \<open>jwe_encrypt\<close> takes the randomness it draws, \<open>generate_rsa\<close> and \<open>bcrypt_hash\<close> too. A
  signature or ciphertext object is the string that stands for it between two calls;
  \<open>new_request u\<close> is the error of \<open>http.NewRequestWithContext\<close> on the URL \<open>u\<close>.
\<close>

section \<open>What the documentation of go-jose promises\<close>

definition signs_ok :: "libs \<Rightarrow> rsa_priv \<Rightarrow> bool" where
  "signs_ok L sk \<longleftrightarrow> new_signer L sk = None \<and>
     (\<forall>m. \<exists>sig c h. jws_sign L sk m = Inr sig \<and> jws_compact L sig = Inr c
        \<and> parse_signed L c = Inr h \<and> jws_verify L (PublicKey sk) h = Inr m)"

definition encrypts_ok :: "libs \<Rightarrow> rsa_priv \<Rightarrow> bool" where
  "encrypts_ok L sk \<longleftrightarrow>
     (\<forall>alg. new_encrypter L alg (PublicKey sk) = None) \<and>
     (\<forall>alg rnd m. \<exists>enc c. jwe_encrypt L alg (PublicKey sk) rnd m = Inr enc \<and> jwe_compact L enc = Inr c
        \<and> c \<noteq> [] \<and> (\<forall>algs. alg \<in> set algs \<longrightarrow>
             (\<exists>h. parse_encrypted L algs c = Inr h \<and> jwe_decrypt L sk h = Inr m)))"

definition jose_ok :: "libs \<Rightarrow> rsa_priv \<Rightarrow> bool" where
  "jose_ok L sk \<longleftrightarrow> signs_ok L sk \<and> encrypts_ok L sk"

section \<open>A concrete instance\<close>

definition demo_tag :: "rsa_pub \<Rightarrow> string" where
  "demo_tag pk = show_nat (fst pk) @ '':''"

definition demo_open :: "rsa_pub \<Rightarrow> string \<Rightarrow> string + string" where
  "demo_open pk s =
     (if has_prefix s (demo_tag pk) then Inr (trim_prefix s (demo_tag pk)) else Inl ''wrong key'')"

definition alg_tag :: "KeyAlgorithm \<Rightarrow> string" where
  "alg_tag a = (case a of RSA_OAEP \<Rightarrow> ''1:'' | RSA_OAEP_256 \<Rightarrow> ''2:'')"

definition demo_parse :: "KeyAlgorithm list \<Rightarrow> string \<Rightarrow> string + string" where
  "demo_parse algs s =
     (if list_ex (\<lambda>a. has_prefix s (alg_tag a)) algs then Inr (drop 2 s)
      else Inl ''unexpected algorithm'')"

definition demo_pub :: rsa_pub where "demo_pub = (77, 3)"
definition demo_key :: rsa_priv where "demo_key = \<lparr>PublicKey = demo_pub, PrivExp = 7\<rparr>"

definition demo_jwks :: "string \<Rightarrow> string + jwk list" where
  "demo_jwks s =
     (if s = ''keys''
      then Inr [\<lparr>Key = OtherKey ''EC'', KeyID = ''e'', JAlgorithm = ''ES256'', Use = ''enc''\<rparr>,
                \<lparr>Key = RSAPublic demo_pub, KeyID = ''s'', JAlgorithm = ''RS256'', Use = ''sig''\<rparr>,
                \<lparr>Key = RSAPublic demo_pub, KeyID = ''k'', JAlgorithm = ''RSA-OAEP'', Use = ''enc''\<rparr>]
      else Inl ''unexpected end of JSON input'')"

definition demo_libs :: libs where
  "demo_libs = \<lparr>
     new_signer = (\<lambda>sk. None), jws_sign = (\<lambda>sk m. Inr (demo_tag (PublicKey sk) @ m)),
     jws_compact = Inr, parse_signed = Inr, jws_verify = demo_open,
     new_encrypter = (\<lambda>a pk. None),
     jwe_encrypt = (\<lambda>a pk rnd m. Inr (alg_tag a @ demo_tag pk @ m)), jwe_compact = Inr,
     parse_encrypted = demo_parse, jwe_decrypt = (\<lambda>sk. demo_open (PublicKey sk)),
     unmarshal_jwks = demo_jwks, marshal_jwks = (\<lambda>ks. Inr ''keys''),
     pem_decode = Some, pem_encode = (\<lambda>ty b. b),
     parse_pkcs1 = (\<lambda>b. if b = ''pkcs1'' then Inr demo_key else Inl ''asn1''),
     parse_pkcs8 = (\<lambda>b. if b = ''pkcs8'' then Inr (RSAPrivate demo_key)
                        else if b = ''ec'' then Inr (OtherKey ''EC'') else Inl ''asn1''),
     parse_pkix = (\<lambda>b. if b = ''pkix'' then Inr (RSAPublic demo_pub) else Inl ''asn1''),
     marshal_pkcs1 = (\<lambda>sk. ''pkcs1''), marshal_pkix = (\<lambda>pk. Inr ''pkix''),
     generate_rsa = (\<lambda>rnd bits. Inr demo_key),
     json_error = (\<lambda>s. ''invalid character''),
     new_request = (\<lambda>u. if u = '':'' then Some ''missing protocol scheme'' else None),
     bcrypt_hash = (\<lambda>rnd cost p. if length p \<le> 72 then Inr (CHR ''h'' # p) else Inl ''password too long''),
     bcrypt_check = (\<lambda>h p. h = CHR ''h'' # p),
     float64 = Some \<rparr>"

lemma demo_open_tag [simp]: "demo_open pk (demo_tag pk @ m) = Inr m"
  by (simp add: demo_open_def)

lemma alg_tag_length [simp]: "length (alg_tag a) = 2"
  by (cases a) (simp_all add: alg_tag_def)

lemma demo_parse_tag: "a \<in> set algs \<Longrightarrow> demo_parse algs (alg_tag a @ s) = Inr s"
  by (auto simp: demo_parse_def list_ex_iff intro!: bexI [of _ a])

lemma alg_tag_nonempty [simp]: "alg_tag a \<noteq> []"
  by (cases a) (simp_all add: alg_tag_def)

lemma demo_jose_ok: "jose_ok demo_libs sk"
  by (auto simp: jose_ok_def signs_ok_def encrypts_ok_def demo_libs_def demo_parse_tag)

end
