(* ===== verification/Sha256.thy ===== *)
theory Sha256
  imports Prelude
begin

text \<open>
  Package \<open>crypto/sha256\<close>: SHA-256 (FIPS 180-4) on byte strings, with 32-bit words. The
  receipts carry the digest of the payload they acknowledge.
\<close>

unbundle bit_operations_syntax

type_synonym w32 = "32 word"

definition sha_init :: "w32 list" where
  "sha_init =
    [1779033703, 3144134277, 1013904242, 2773480762, 1359893119, 2600822924,
     528734635, 1541459225]"

definition sha_k :: "w32 list" where
  "sha_k =
    [1116352408, 1899447441, 3049323471, 3921009573, 961987163, 1508970993,
     2453635748, 2870763221, 3624381080, 310598401, 607225278, 1426881987,
     1925078388, 2162078206, 2614888103, 3248222580, 3835390401, 4022224774,
     264347078, 604807628, 770255983, 1249150122, 1555081692, 1996064986,
     2554220882, 2821834349, 2952996808, 3210313671, 3336571891, 3584528711,
     113926993, 338241895, 666307205, 773529912, 1294757372, 1396182291,
     1695183700, 1986661051, 2177026350, 2456956037, 2730485921, 2820302411,
     3259730800, 3345764771, 3516065817, 3600352804, 4094571909, 275423344,
     430227734, 506948616, 659060556, 883997877, 958139571, 1322822218,
     1537002063, 1747873779, 1955562222, 2024104815, 2227730452, 2361852424,
     2428436474, 2756734187, 3204031479, 3329325298]"

definition rotr :: "nat \<Rightarrow> w32 \<Rightarrow> w32" where
  "rotr n x = (drop_bit n x OR push_bit (32 - n) x)"

definition big0 :: "w32 \<Rightarrow> w32" where "big0 x = (rotr 2 x XOR rotr 13 x XOR rotr 22 x)"
definition big1 :: "w32 \<Rightarrow> w32" where "big1 x = (rotr 6 x XOR rotr 11 x XOR rotr 25 x)"
definition small0 :: "w32 \<Rightarrow> w32" where "small0 x = (rotr 7 x XOR rotr 18 x XOR drop_bit 3 x)"
definition small1 :: "w32 \<Rightarrow> w32" where "small1 x = (rotr 17 x XOR rotr 19 x XOR drop_bit 10 x)"

definition choice :: "w32 \<Rightarrow> w32 \<Rightarrow> w32 \<Rightarrow> w32" where
  "choice x y z = ((x AND y) XOR ((NOT x) AND z))"

definition majority :: "w32 \<Rightarrow> w32 \<Rightarrow> w32 \<Rightarrow> w32" where
  "majority x y z = ((x AND y) XOR (x AND z) XOR (y AND z))"

text \<open>Padding: the byte 0x80, zeros up to 56 modulo 64, the length in bits on eight bytes.\<close>

definition be_bytes :: "nat \<Rightarrow> nat \<Rightarrow> string" where
  "be_bytes k n = map (\<lambda>i. char_of (n div 256 ^ i)) (rev [0..<k])"

definition sha_pad :: "string \<Rightarrow> string" where
  "sha_pad s = s @ [CHR 0x80] @ replicate ((119 - length s mod 64) mod 64) (CHR 0x00)
     @ be_bytes 8 (8 * length s)"

fun be_words :: "string \<Rightarrow> w32 list" where
  "be_words (a # b # c # d # s) =
     word_of_nat (((of_char a * 256 + of_char b) * 256 + of_char c) * 256 + of_char d) # be_words s"
| "be_words _ = []"

text \<open>The message schedule, newest word first.\<close>

fun sha_schedule :: "nat \<Rightarrow> w32 list \<Rightarrow> w32 list" where
  "sha_schedule 0 w = w"
| "sha_schedule (Suc n) w =
     sha_schedule n ((small1 (w ! 1) + w ! 6 + small0 (w ! 14) + w ! 15) # w)"

fun sha_rounds :: "(w32 \<times> w32) list \<Rightarrow> w32 list \<Rightarrow> w32 list" where
  "sha_rounds ((k, w) # kws) [a, b, c, d, e, f, g, h] =
     (let t1 = h + big1 e + choice e f g + k + w; t2 = big0 a + majority a b c
      in sha_rounds kws [t1 + t2, a, b, c, d + t1, e, f, g])"
| "sha_rounds _ st = st"

definition sha_block :: "w32 list \<Rightarrow> w32 list \<Rightarrow> w32 list" where
  "sha_block st blk =
     map2 (+) st (sha_rounds (zip sha_k (rev (sha_schedule 48 (rev blk)))) st)"

fun sha_blocks :: "nat \<Rightarrow> w32 list \<Rightarrow> w32 list \<Rightarrow> w32 list" where
  "sha_blocks 0 st ws = st"
| "sha_blocks (Suc n) st ws = sha_blocks n (sha_block st (take 16 ws)) (drop 16 ws)"

definition sha256 :: "string \<Rightarrow> string" where
  "sha256 s = (let p = sha_pad s in
     concat (map (\<lambda>w. be_bytes 4 (unat w))
       (sha_blocks (length p div 64) sha_init (be_words p))))"


end
