(* ===== verification/Crypto.thy ===== *)
theory Crypto
  imports Extern Sha256 Json_Facts
begin

text \<open>
  \<open>internal/crypto/as5_engine.go\<close>: the sign-then-encrypt workflow of the protocol, the
  negotiation of the key-encryption algorithm, receipts (J-MDN) and the publication and
  selection of keys in a JWKS. The engine is a record of its three fields; \<open>L\<close> is the
  record of the external functions, \<open>rnd\<close> the randomness of one encryption and \<open>now\<close> the
  clock.
\<close>

record as5_engine =
  privateKey :: rsa_priv
  publicKey :: rsa_pub
  nodeID :: string

definition AlgRSAOAEP :: string where "AlgRSAOAEP = ''RSA-OAEP''"
definition AlgRSAOAEP256 :: string where "AlgRSAOAEP256 = ''RSA-OAEP-256''"

lemma algs_distinct [simp]:
  "AlgRSAOAEP \<noteq> AlgRSAOAEP256" "AlgRSAOAEP256 \<noteq> AlgRSAOAEP" "AlgRSAOAEP \<noteq> []" "AlgRSAOAEP256 \<noteq> []"
  by (simp_all add: AlgRSAOAEP_def AlgRSAOAEP256_def)

definition joseKeyAlgorithm :: "string \<Rightarrow> KeyAlgorithm result" where
  "joseKeyAlgorithm alg =
     (if alg = [] \<or> alg = AlgRSAOAEP then Inr RSA_OAEP
      else if alg = AlgRSAOAEP256 then Inr RSA_OAEP_256
      else Inl (Errorf (''unsupported encryption algorithm '' @ quote_go alg @ '' (want ''
             @ AlgRSAOAEP @ '' or '' @ AlgRSAOAEP256 @ '')'')))"

text \<open>Go's \<open>if err != nil { return fmt.Errorf("...: %w", err) }\<close>.\<close>

definition wrapped :: "string \<Rightarrow> string + 'a \<Rightarrow> 'a result" where
  "wrapped p r = (case r of Inl e \<Rightarrow> Inl (WrapErr p (Errorf e)) | Inr x \<Rightarrow> Inr x)"

definition bind_result :: "'a result \<Rightarrow> ('a \<Rightarrow> 'b result) \<Rightarrow> 'b result" where
  "bind_result r f = (case r of Inl e \<Rightarrow> Inl e | Inr x \<Rightarrow> f x)"

lemma result_simps [simp]:
  "wrapped p (Inr x) = Inr x" "wrapped p (Inl e) = Inl (WrapErr p (Errorf e))"
  "bind_result (Inr x) f = f x" "bind_result (Inl e') f = Inl e'"
  by (simp_all add: wrapped_def bind_result_def)

lemma bind_result_Inr: "bind_result r f = Inr y \<longleftrightarrow> (\<exists>x. r = Inr x \<and> f x = Inr y)"
  by (cases r) simp_all

lemma wrapped_Inr: "wrapped p r = Inr y \<longleftrightarrow> r = Inr y"
  by (cases r) simp_all

section \<open>Construction and key generation\<close>

definition engine_of :: "rsa_priv \<Rightarrow> string \<Rightarrow> as5_engine" where
  "engine_of sk nid = \<lparr>privateKey = sk, publicKey = PublicKey sk, nodeID = nid\<rparr>"

definition NewAS5Engine :: "libs \<Rightarrow> string \<Rightarrow> string \<Rightarrow> as5_engine result" where
  "NewAS5Engine L privateKeyPEM nid =
     (case pem_decode L privateKeyPEM of None \<Rightarrow> Inl (Errorf ''failed to decode PEM block'')
      | Some bytes \<Rightarrow>
        (case parse_pkcs1 L bytes of Inr sk \<Rightarrow> Inr (engine_of sk nid)
         | Inl _ \<Rightarrow>
           (case parse_pkcs8 L bytes of
              Inl e \<Rightarrow> Inl (WrapErr ''failed to parse private key: '' (Errorf e))
            | Inr k \<Rightarrow>
              (case k of RSAPrivate sk \<Rightarrow> Inr (engine_of sk nid)
               | _ \<Rightarrow> Inl (Errorf ''key is not RSA private key'')))))"

definition GenerateKeyPair :: "libs \<Rightarrow> nat \<Rightarrow> (string \<times> string) result" where
  "GenerateKeyPair L rnd =
     bind_result (wrapped ''failed to generate key: '' (generate_rsa L rnd 2048)) (\<lambda>sk.
       let privateKeyPEM = pem_encode L ''RSA PRIVATE KEY'' (marshal_pkcs1 L sk) in
       bind_result (wrapped ''failed to marshal public key: '' (marshal_pkix L (PublicKey sk))) (\<lambda>pb.
         Inr (privateKeyPEM, pem_encode L ''PUBLIC KEY'' pb)))"

section \<open>Sign, then encrypt\<close>

definition new_signer_checked :: "libs \<Rightarrow> rsa_priv \<Rightarrow> unit result" where
  "new_signer_checked L sk =
     (case new_signer L sk of Some e \<Rightarrow> Inl (WrapErr ''failed to create signer: '' (Errorf e))
      | None \<Rightarrow> Inr ())"

definition SignAndEncryptWithAlg ::
  "libs \<Rightarrow> nat \<Rightarrow> as5_engine \<Rightarrow> string \<Rightarrow> rsa_pub \<Rightarrow> string \<Rightarrow> string result" where
  "SignAndEncryptWithAlg L rnd e payload receiver alg =
     bind_result (joseKeyAlgorithm alg) (\<lambda>keyAlg.
     bind_result (new_signer_checked L (privateKey e)) (\<lambda>_.
     bind_result (wrapped ''failed to sign payload: '' (jws_sign L (privateKey e) payload)) (\<lambda>jws.
     bind_result (wrapped ''failed to serialize JWS: '' (jws_compact L jws)) (\<lambda>jwsCompact.
     case new_encrypter L keyAlg receiver of
       Some x \<Rightarrow> Inl (WrapErr ''failed to create encrypter: '' (Errorf x))
     | None \<Rightarrow>
       bind_result (wrapped ''failed to encrypt JWS: '' (jwe_encrypt L keyAlg receiver rnd jwsCompact)) (\<lambda>jwe.
       wrapped ''failed to serialize JWE: '' (jwe_compact L jwe))))))"

definition SignAndEncrypt :: "libs \<Rightarrow> nat \<Rightarrow> as5_engine \<Rightarrow> string \<Rightarrow> rsa_pub \<Rightarrow> string result" where
  "SignAndEncrypt L rnd e payload receiver = SignAndEncryptWithAlg L rnd e payload receiver AlgRSAOAEP"

definition DecryptAndVerify :: "libs \<Rightarrow> as5_engine \<Rightarrow> string \<Rightarrow> rsa_pub \<Rightarrow> string result" where
  "DecryptAndVerify L e jweText sender =
     bind_result (wrapped ''failed to parse JWE: '' (parse_encrypted L [RSA_OAEP, RSA_OAEP_256] jweText)) (\<lambda>jwe.
     bind_result (wrapped ''failed to decrypt JWE: '' (jwe_decrypt L (privateKey e) jwe)) (\<lambda>jwsBytes.
     bind_result (wrapped ''failed to parse JWS: '' (parse_signed L jwsBytes)) (\<lambda>jws.
     wrapped ''failed to verify JWS signature: '' (jws_verify L sender jws))))"

section \<open>Negotiation of the key-encryption algorithm\<close>

text \<open>The verb \<open>%v\<close> on a \<open>[]string\<close>.\<close>

fun spaced :: "string list \<Rightarrow> string" where
  "spaced [] = []"
| "spaced [x] = x"
| "spaced (x # y # xs) = x @ '' '' @ spaced (y # xs)"

definition show_strings :: "string list \<Rightarrow> string" where
  "show_strings xs = ''['' @ spaced xs @ '']''"

definition has_alg :: "string list \<Rightarrow> string \<Rightarrow> bool" where
  "has_alg xs want \<longleftrightarrow> list_ex (\<lambda>a. a = want) xs"

definition NegotiateEncryptionAlgorithm :: "string list \<Rightarrow> string list \<Rightarrow> string result" where
  "NegotiateEncryptionAlgorithm ours theirs =
     (if length theirs = 0 then
        (if has_alg ours AlgRSAOAEP then Inr AlgRSAOAEP
         else Inl (Errorf (''peer advertised no encryption algorithms and local node does not support ''
                @ AlgRSAOAEP)))
      else if has_alg ours AlgRSAOAEP256 \<and> has_alg theirs AlgRSAOAEP256 then Inr AlgRSAOAEP256
      else if has_alg ours AlgRSAOAEP \<and> has_alg theirs AlgRSAOAEP then Inr AlgRSAOAEP
      else Inl (Errorf (''no mutually supported encryption algorithm (ours='' @ show_strings ours
             @ '', theirs='' @ show_strings theirs @ '')'')))"

definition LocalSupportedEncryptionAlgorithms :: "string list" where
  "LocalSupportedEncryptionAlgorithms = [AlgRSAOAEP, AlgRSAOAEP256]"

section \<open>Envelopes\<close>

definition CreateFidexEnvelope ::
  "libs \<Rightarrow> nat \<Rightarrow> time \<Rightarrow> as5_engine \<Rightarrow> string \<Rightarrow> string \<Rightarrow> string \<Rightarrow> string \<Rightarrow> string \<Rightarrow> rsa_pub
    \<Rightarrow> fidex_envelope result" where
  "CreateFidexEnvelope L rnd now e messageID receiverID documentType receiptWebhook doc receiver =
     (let routing = \<lparr>FidexVersion = ''1.0'', RMessageID = messageID, SenderID = nodeID e,
            ReceiverID = receiverID, DocumentType = documentType, Timestamp = fmt_rfc3339 now,
            ReceiptWebhook = receiptWebhook\<rparr>
      in case SignAndEncrypt L rnd e doc receiver of
           Inl x \<Rightarrow> Inl (WrapErr ''failed to encrypt payload: '' x)
         | Inr jwePayload \<Rightarrow> Inr \<lparr>Routing = routing, EncPayload = jwePayload\<rparr>)"

definition ProcessInboundEnvelope :: "libs \<Rightarrow> as5_engine \<Rightarrow> fidex_envelope \<Rightarrow> rsa_pub \<Rightarrow> string result" where
  "ProcessInboundEnvelope L e env sender =
     (case DecryptAndVerify L e (EncPayload env) sender of
        Inl x \<Rightarrow> Inl (WrapErr ''failed to decrypt envelope: '' x) | Inr doc \<Rightarrow> Inr doc)"

text \<open>The JSON text of an envelope: \<open>json.Marshal\<close> on the struct above.\<close>

definition routing_json :: "routing_header \<Rightarrow> json" where
  "routing_json r = JObj
     ([(''fidex_version'', JStr (FidexVersion r)), (''message_id'', JStr (RMessageID r)),
       (''sender_id'', JStr (SenderID r)), (''receiver_id'', JStr (ReceiverID r))]
      @ opt_str ''document_type'' (DocumentType r) @ [(''timestamp'', JStr (Timestamp r))]
      @ opt_str ''receipt_webhook'' (ReceiptWebhook r))"

definition envelope_json :: "fidex_envelope \<Rightarrow> json" where
  "envelope_json e = JObj [(''routing_header'', routing_json (Routing e)), (''encrypted_payload'', JStr (EncPayload e))]"

section \<open>Receipts\<close>

definition receipt_json :: "jmdn_receipt \<Rightarrow> json" where
  "receipt_json r = JObj
     ([(''original_message_id'', JStr (OriginalMessageID r)), (''status'', JStr (RStatus r)),
       (''hash_verification'', JStr (HashVerification r)), (''timestamp'', JStr (RTimestamp r))]
      @ opt_ptr ''error_log'' (ErrorLog r))"

definition CreateJMDN ::
  "libs \<Rightarrow> time \<Rightarrow> as5_engine \<Rightarrow> string \<Rightarrow> string \<Rightarrow> string \<Rightarrow> string option \<Rightarrow> string result" where
  "CreateJMDN L now e originalMessageID status originalPayload errorLog =
     (let receipt = \<lparr>OriginalMessageID = originalMessageID, RStatus = status,
            HashVerification = b64_encode False (sha256 originalPayload),
            RTimestamp = fmt_rfc3339 now, ErrorLog = errorLog\<rparr>
      in bind_result (new_signer_checked L (privateKey e)) (\<lambda>_.
         bind_result (wrapped ''failed to sign J-MDN: ''
             (jws_sign L (privateKey e) (print_json (receipt_json receipt)))) (\<lambda>jws.
         wrapped ''failed to serialize J-MDN: '' (jws_compact L jws))))"

definition unmarshal_receipt :: "string \<Rightarrow> jmdn_receipt option" where
  "unmarshal_receipt s =
     (case parse_json s of None \<Rightarrow> None
      | Some v \<Rightarrow>
        let (ms, wrong) = obj_members v;
            (i, b1) = dec_str ''original_message_id'' ms; (st, b2) = dec_str ''status'' ms;
            (h, b3) = dec_str ''hash_verification'' ms; (ts, b4) = dec_str ''timestamp'' ms;
            (el, b5) = dec_ptr ''error_log'' ms
        in if wrong \<or> b1 \<or> b2 \<or> b3 \<or> b4 \<or> b5 then None
           else Some \<lparr>OriginalMessageID = i, RStatus = st, HashVerification = h, RTimestamp = ts,
                  ErrorLog = el\<rparr>)"

definition VerifyJMDN :: "libs \<Rightarrow> string \<Rightarrow> rsa_pub \<Rightarrow> jmdn_receipt result" where
  "VerifyJMDN L jwsText sender =
     bind_result (wrapped ''failed to parse J-MDN JWS: '' (parse_signed L jwsText)) (\<lambda>jws.
     bind_result (wrapped ''failed to verify J-MDN signature: '' (jws_verify L sender jws)) (\<lambda>receiptJSON.
     case unmarshal_receipt receiptJSON of
       None \<Rightarrow> Inl (WrapErr ''failed to unmarshal J-MDN: '' (Errorf (json_error L receiptJSON)))
     | Some r \<Rightarrow> Inr r))"

section \<open>Key sets\<close>

definition ExportJWKS :: "libs \<Rightarrow> as5_engine \<Rightarrow> string \<Rightarrow> string result" where
  "ExportJWKS L e keyIDBase =
     wrapped ''failed to marshal JWKS: '' (marshal_jwks L
       [\<lparr>Key = RSAPublic (publicKey e), KeyID = keyIDBase @ ''-sig'', JAlgorithm = ''RS256'', Use = ''sig''\<rparr>,
        \<lparr>Key = RSAPublic (publicKey e), KeyID = keyIDBase @ ''-enc'', JAlgorithm = ''RSA-OAEP'', Use = ''enc''\<rparr>])"

definition ParsePublicKeyFromPEM :: "libs \<Rightarrow> string \<Rightarrow> rsa_pub result" where
  "ParsePublicKeyFromPEM L text =
     (case pem_decode L text of None \<Rightarrow> Inl (Errorf ''failed to decode PEM block'')
      | Some bytes \<Rightarrow>
        (case parse_pkix L bytes of
           Inl e \<Rightarrow> Inl (WrapErr ''failed to parse public key: '' (Errorf e))
         | Inr k \<Rightarrow> (case k of RSAPublic pk \<Rightarrow> Inr pk
                    | _ \<Rightarrow> Inl (Errorf ''key is not RSA public key''))))"

definition ParsePublicKeyFromJWKS :: "libs \<Rightarrow> string \<Rightarrow> rsa_pub result" where
  "ParsePublicKeyFromJWKS L text =
     (case unmarshal_jwks L text of
        Inl e \<Rightarrow> Inl (WrapErr ''failed to unmarshal JWKS: '' (Errorf e))
      | Inr keys \<Rightarrow>
        (case keys of [] \<Rightarrow> Inl (Errorf ''no keys found in JWKS'')
         | k # ks \<Rightarrow> (case Key k of RSAPublic pk \<Rightarrow> Inr pk
                     | _ \<Rightarrow> Inl (Errorf ''key is not RSA public key''))))"

text \<open>The two loops: the first RSA key declared for the use, then the first RSA key.\<close>

fun first_rsa :: "(jwk \<Rightarrow> bool) \<Rightarrow> jwk list \<Rightarrow> rsa_pub option" where
  "first_rsa P [] = None"
| "first_rsa P (k # ks) =
     (if P k then (case Key k of RSAPublic pk \<Rightarrow> Some pk | _ \<Rightarrow> first_rsa P ks) else first_rsa P ks)"

definition ParsePublicKeyFromJWKSByUse :: "libs \<Rightarrow> string \<Rightarrow> string \<Rightarrow> rsa_pub result" where
  "ParsePublicKeyFromJWKSByUse L text usage =
     (case unmarshal_jwks L text of
        Inl e \<Rightarrow> Inl (WrapErr ''failed to unmarshal JWKS: '' (Errorf e))
      | Inr keys \<Rightarrow>
        if keys = [] then Inl (Errorf ''no keys found in JWKS'')
        else (case first_rsa (\<lambda>k. Use k = usage) keys of Some pk \<Rightarrow> Inr pk
              | None \<Rightarrow>
                (case first_rsa (\<lambda>k. True) keys of Some pk \<Rightarrow> Inr pk
                 | None \<Rightarrow> Inl (Errorf ''no RSA public key found in JWKS''))))"

section \<open>Facts\<close>

lemma joseKeyAlgorithm_simps [simp]:
  "joseKeyAlgorithm AlgRSAOAEP = Inr RSA_OAEP" "joseKeyAlgorithm AlgRSAOAEP256 = Inr RSA_OAEP_256"
  by (simp_all add: joseKeyAlgorithm_def)

lemma NewAS5Engine_public: "NewAS5Engine L pem nid = Inr e \<Longrightarrow> publicKey e = PublicKey (privateKey e) \<and> nodeID e = nid"
  by (auto simp: NewAS5Engine_def engine_of_def split: option.splits sum.splits any_key.splits)

lemma new_signer_checked_ok: "signs_ok L sk \<Longrightarrow> new_signer_checked L sk = Inr ()"
  by (simp add: signs_ok_def new_signer_checked_def)

lemma SignAndEncryptWithAlg_ok:
  assumes "signs_ok L (privateKey a)" and "encrypts_ok L sk" and "joseKeyAlgorithm alg = Inr ka"
  shows "\<exists>c. SignAndEncryptWithAlg L rnd a p (PublicKey sk) alg = Inr c \<and> c \<noteq> [] \<and>
    (\<forall>b. privateKey b = sk \<longrightarrow> DecryptAndVerify L b c (PublicKey (privateKey a)) = Inr p)"
proof -
  from assms(1) obtain sig j h where s: "jws_sign L (privateKey a) p = Inr sig" "jws_compact L sig = Inr j"
    "parse_signed L j = Inr h" "jws_verify L (PublicKey (privateKey a)) h = Inr p"
    unfolding signs_ok_def by blast
  from assms(2) obtain enc c where e: "jwe_encrypt L ka (PublicKey sk) rnd j = Inr enc" "jwe_compact L enc = Inr c"
    "c \<noteq> []" "\<forall>algs. ka \<in> set algs \<longrightarrow> (\<exists>h. parse_encrypted L algs c = Inr h \<and> jwe_decrypt L sk h = Inr j)"
    unfolding encrypts_ok_def by blast
  have "ka \<in> set [RSA_OAEP, RSA_OAEP_256]" by (cases ka) simp_all
  with e(4) obtain h' where h': "parse_encrypted L [RSA_OAEP, RSA_OAEP_256] c = Inr h'" "jwe_decrypt L sk h' = Inr j"
    by blast
  have "new_encrypter L ka (PublicKey sk) = None" using assms(2) by (simp add: encrypts_ok_def)
  then have "SignAndEncryptWithAlg L rnd a p (PublicKey sk) alg = Inr c"
    using s e assms by (simp add: SignAndEncryptWithAlg_def new_signer_checked_ok)
  moreover have "DecryptAndVerify L b c (PublicKey (privateKey a)) = Inr p" if "privateKey b = sk" for b
    using that s h' by (simp add: DecryptAndVerify_def)
  ultimately show ?thesis using e(3) by blast
qed

lemma opt_ptr_wf [simp]: "list_all (\<lambda>(k, v). wf_json v) (opt_ptr k p)"
  by (cases p) (simp_all add: opt_ptr_def)

lemma opt_str_wf [simp]: "list_all (\<lambda>(k, v). wf_json v) (opt_str k p)"
  by (simp add: opt_str_def)

lemma unmarshal_receipt_json: "unmarshal_receipt (print_json (receipt_json r)) = Some r"
proof -
  have wf: "wf_json (receipt_json r)" by (simp add: receipt_json_def)
  show ?thesis
    unfolding unmarshal_receipt_def parse_print [OF wf] option.case
    by (cases "ErrorLog r"; simp add: receipt_json_def opt_ptr_def dec_eval)
qed

interpretation receipt_text: codec "\<lambda>r. True" "\<lambda>r. print_json (receipt_json r)" unmarshal_receipt "\<lambda>r. r"
  by unfold_locales (simp_all add: unmarshal_receipt_json, simp add: unmarshal_receipt_def)

text \<open>The choice among the keys of a set, as an index.\<close>

definition is_rsa :: "jwk \<Rightarrow> bool" where
  "is_rsa k \<longleftrightarrow> (case Key k of RSAPublic pk \<Rightarrow> True | _ \<Rightarrow> False)"

lemma is_rsa_key: "is_rsa k \<longleftrightarrow> (\<exists>pk. Key k = RSAPublic pk)"
  by (auto simp: is_rsa_def split: any_key.splits)

lemma first_rsa_None: "first_rsa P ks = None \<longleftrightarrow> \<not> list_ex (\<lambda>k. P k \<and> is_rsa k) ks"
  by (induction ks) (auto simp: is_rsa_def split: any_key.splits)

lemma first_rsa_Some:
  "first_rsa P ks = Some pk \<Longrightarrow>
     \<exists>i < length ks. P (ks ! i) \<and> Key (ks ! i) = RSAPublic pk \<and> \<not> list_ex (\<lambda>k. P k \<and> is_rsa k) (take i ks)"
proof (induction ks)
  case (Cons k ks)
  show ?case
  proof (cases "P k \<and> is_rsa k")
    case True
    with Cons.prems have "Key k = RSAPublic pk" by (auto simp: is_rsa_key)
    with True show ?thesis by (intro exI [of _ 0]) simp
  next
    case False
    with Cons.prems have "first_rsa P ks = Some pk"
      by (auto simp: is_rsa_def split: if_splits any_key.splits)
    from Cons.IH [OF this] obtain i where "i < length ks" "P (ks ! i)" "Key (ks ! i) = RSAPublic pk"
      "\<not> list_ex (\<lambda>k. P k \<and> is_rsa k) (take i ks)" by blast
    with False show ?thesis by (intro exI [of _ "Suc i"]) auto
  qed
qed simp

text \<open>The strength order of the negotiation, and the algorithms two advertisements share (a
  peer that advertises nothing stands for RSA-OAEP).\<close>

definition strength :: "string \<Rightarrow> nat" where
  "strength a = (if a = AlgRSAOAEP256 then 2 else 1)"

definition common_algs :: "string list \<Rightarrow> string list \<Rightarrow> string set" where
  "common_algs ours theirs =
     set ours \<inter> set (if theirs = [] then [AlgRSAOAEP] else theirs) \<inter> {AlgRSAOAEP, AlgRSAOAEP256}"

lemma has_alg_set [simp]: "has_alg xs a \<longleftrightarrow> a \<in> set xs"
  by (auto simp: has_alg_def list_ex_iff)

lemma Negotiate_cases:
  "NegotiateEncryptionAlgorithm ours theirs = Inr alg \<longleftrightarrow>
     (if AlgRSAOAEP256 \<in> common_algs ours theirs then alg = AlgRSAOAEP256
      else AlgRSAOAEP \<in> common_algs ours theirs \<and> alg = AlgRSAOAEP)"
  by (auto simp: NegotiateEncryptionAlgorithm_def common_algs_def)

lemma Max_strength:
  assumes "common_algs ours theirs \<noteq> {}"
  shows "Max (strength ` common_algs ours theirs) = (if AlgRSAOAEP256 \<in> common_algs ours theirs then 2 else 1)"
proof -
  have "common_algs ours theirs \<subseteq> {AlgRSAOAEP, AlgRSAOAEP256}" by (auto simp: common_algs_def)
  with assms consider "common_algs ours theirs = {AlgRSAOAEP}" | "common_algs ours theirs = {AlgRSAOAEP256}"
    | "common_algs ours theirs = {AlgRSAOAEP, AlgRSAOAEP256}" by blast
  then show ?thesis by cases (simp_all only: strength_def image_insert image_empty, simp_all)
qed

section \<open>Properties\<close>

text \<open>C1: A document that one node signs and encrypts for another, with any algorithm the
  engine knows, is accepted by the other node's \<open>DecryptAndVerify\<close> and comes out unchanged,
  for engines loaded from any two PEM files.\<close>

theorem sign_encrypt_roundtrip:
  assumes "NewAS5Engine L pemA idA = Inr a" and "NewAS5Engine L pemB idB = Inr b"
    and "jose_ok L (privateKey a)" and "jose_ok L (privateKey b)"
    and "alg \<in> {[], AlgRSAOAEP, AlgRSAOAEP256}"
  shows "\<exists>jwe. SignAndEncryptWithAlg L rnd a doc (publicKey b) alg = Inr jwe
    \<and> DecryptAndVerify L b jwe (publicKey a) = Inr doc"
proof -
  obtain ka where "joseKeyAlgorithm alg = Inr ka"
    using assms(5) by (auto simp: joseKeyAlgorithm_def)
  then show ?thesis
    using SignAndEncryptWithAlg_ok [of L a "privateKey b" alg ka rnd doc] assms(3,4)
      NewAS5Engine_public [OF assms(1)] NewAS5Engine_public [OF assms(2)]
    by (auto simp: jose_ok_def)
qed

theorem sign_encrypt_roundtrip_witness:
  "\<exists>jwe. SignAndEncryptWithAlg demo_libs 5 (engine_of demo_key ''urn:a'') ''<doc/>''
      (publicKey (engine_of demo_key ''urn:b'')) AlgRSAOAEP256 = Inr jwe
    \<and> DecryptAndVerify demo_libs (engine_of demo_key ''urn:b'') jwe
        (publicKey (engine_of demo_key ''urn:a'')) = Inr ''<doc/>''"
  by (rule sign_encrypt_roundtrip [where pemA = "''pkcs1''" and idA = "''urn:a''" and pemB = "''pkcs8''" and idB = "''urn:b''"])
    (simp_all add: demo_jose_ok, simp_all add: NewAS5Engine_def demo_libs_def)

text \<open>C14: \<open>NegotiateEncryptionAlgorithm\<close> returns the strongest algorithm both sides support
  (a silent peer supports RSA-OAEP), one that the engine can use, and fails exactly when
  nothing is shared.\<close>

theorem negotiate_strongest:
  "case NegotiateEncryptionAlgorithm ours theirs of
     Inl e \<Rightarrow> common_algs ours theirs = {}
   | Inr alg \<Rightarrow> alg \<in> common_algs ours theirs
       \<and> strength alg = Max (strength ` common_algs ours theirs)
       \<and> joseKeyAlgorithm alg = Inr (if alg = AlgRSAOAEP256 then RSA_OAEP_256 else RSA_OAEP)"
proof (cases "NegotiateEncryptionAlgorithm ours theirs")
  case (Inl e)
  have "common_algs ours theirs \<subseteq> {AlgRSAOAEP, AlgRSAOAEP256}" by (auto simp: common_algs_def)
  moreover have "AlgRSAOAEP256 \<notin> common_algs ours theirs" "AlgRSAOAEP \<notin> common_algs ours theirs"
    using Inl Negotiate_cases [of ours theirs AlgRSAOAEP256] Negotiate_cases [of ours theirs AlgRSAOAEP]
    by (auto split: if_splits)
  ultimately have "common_algs ours theirs = {}" by blast
  with Inl show ?thesis by simp
next
  case (Inr alg)
  then have cases: "alg \<in> common_algs ours theirs"
      "alg = (if AlgRSAOAEP256 \<in> common_algs ours theirs then AlgRSAOAEP256 else AlgRSAOAEP)"
    using Negotiate_cases [of ours theirs alg] by (auto split: if_splits)
  then have "common_algs ours theirs \<noteq> {}" by blast
  moreover have "strength alg = (if AlgRSAOAEP256 \<in> common_algs ours theirs then 2 else 1)"
    using cases(2) by (simp add: strength_def)
  ultimately show ?thesis using Inr cases by (simp add: Max_strength)
qed

text \<open>Two nodes that both advertise their algorithms settle on the same one, whichever of
  them sends.\<close>

theorem negotiate_symmetric:
  assumes "a \<noteq> []" and "b \<noteq> []"
  shows "NegotiateEncryptionAlgorithm a b = Inr alg \<longleftrightarrow> NegotiateEncryptionAlgorithm b a = Inr alg"
  using assms by (simp add: Negotiate_cases common_algs_def) blast

theorem negotiate_symmetric_witness:
  "NegotiateEncryptionAlgorithm [AlgRSAOAEP256, AlgRSAOAEP] [''X'', AlgRSAOAEP] = Inr AlgRSAOAEP \<longleftrightarrow>
   NegotiateEncryptionAlgorithm [''X'', AlgRSAOAEP] [AlgRSAOAEP256, AlgRSAOAEP] = Inr AlgRSAOAEP"
  by (rule negotiate_symmetric) simp_all

text \<open>\<open>ParsePublicKeyFromJWKSByUse\<close> on a parsed set answers the first RSA key declared for
  the use; only when there is none, the first RSA key of any use; and an error exactly when
  the set has no RSA public key.\<close>

theorem jwks_by_use:
  assumes "unmarshal_jwks L text = Inr keys"
  shows "case ParsePublicKeyFromJWKSByUse L text usage of
      Inl e \<Rightarrow> \<not> list_ex is_rsa keys
    | Inr pk \<Rightarrow> (\<exists>i < length keys. Key (keys ! i) = RSAPublic pk \<and>
        (if list_ex (\<lambda>k. Use k = usage \<and> is_rsa k) keys
         then Use (keys ! i) = usage \<and> \<not> list_ex (\<lambda>k. Use k = usage \<and> is_rsa k) (take i keys)
         else \<not> list_ex is_rsa (take i keys)))"
proof (cases "first_rsa (\<lambda>k. Use k = usage) keys")
  case (Some pk)
  have ex: "list_ex (\<lambda>k. Use k = usage \<and> is_rsa k) keys"
    using Some first_rsa_None [of "\<lambda>k. Use k = usage" keys] by simp
  then have "ParsePublicKeyFromJWKSByUse L text usage = Inr pk"
    using assms Some by (auto simp: ParsePublicKeyFromJWKSByUse_def)
  then show ?thesis using first_rsa_Some [OF Some] ex by auto
next
  case None
  note unused = None [unfolded first_rsa_None]
  show ?thesis
  proof (cases "first_rsa (\<lambda>k. True) keys")
    case None': None
    have "\<not> list_ex is_rsa keys" using None' first_rsa_None [of "\<lambda>k. True" keys] by simp
    with None None' assms show ?thesis by (simp add: ParsePublicKeyFromJWKSByUse_def)
  next
    case (Some pk)
    then have "ParsePublicKeyFromJWKSByUse L text usage = Inr pk"
      using assms None by (auto simp: ParsePublicKeyFromJWKSByUse_def)
    then show ?thesis using first_rsa_Some [OF Some] unused by auto
  qed
qed

theorem jwks_by_use_witness:
  "case ParsePublicKeyFromJWKSByUse demo_libs ''keys'' ''enc'' of
      Inl e \<Rightarrow> \<not> list_ex is_rsa (projr (demo_jwks ''keys''))
    | Inr pk \<Rightarrow> (\<exists>i < length (projr (demo_jwks ''keys'')). Key (projr (demo_jwks ''keys'') ! i) = RSAPublic pk \<and>
        (if list_ex (\<lambda>k. Use k = ''enc'' \<and> is_rsa k) (projr (demo_jwks ''keys''))
         then Use (projr (demo_jwks ''keys'') ! i) = ''enc''
           \<and> \<not> list_ex (\<lambda>k. Use k = ''enc'' \<and> is_rsa k) (take i (projr (demo_jwks ''keys'')))
         else \<not> list_ex is_rsa (take i (projr (demo_jwks ''keys'')))))"
  by (rule jwks_by_use) (simp add: demo_libs_def demo_jwks_def)

text \<open>C15: A receipt made by \<open>CreateJMDN\<close> verifies under the signer's public key and gives back
  the message id, the status and the error log, with the base64 SHA-256 digest of the payload.\<close>

theorem jmdn_roundtrip:
  assumes "signs_ok L (privateKey e)"
  shows "\<exists>jws. CreateJMDN L now e mid st payload el = Inr jws \<and>
    VerifyJMDN L jws (PublicKey (privateKey e)) = Inr
      \<lparr>OriginalMessageID = mid, RStatus = st, HashVerification = b64_encode False (sha256 payload),
       RTimestamp = fmt_rfc3339 now, ErrorLog = el\<rparr>"
proof -
  let ?r = "\<lparr>OriginalMessageID = mid, RStatus = st, HashVerification = b64_encode False (sha256 payload),
       RTimestamp = fmt_rfc3339 now, ErrorLog = el\<rparr>"
  from assms obtain sig j h where "jws_sign L (privateKey e) (print_json (receipt_json ?r)) = Inr sig"
    "jws_compact L sig = Inr j" "parse_signed L j = Inr h"
    "jws_verify L (PublicKey (privateKey e)) h = Inr (print_json (receipt_json ?r))"
    unfolding signs_ok_def by blast
  with assms show ?thesis
    by (simp add: CreateJMDN_def VerifyJMDN_def new_signer_checked_ok unmarshal_receipt_json)
qed

theorem jmdn_roundtrip_witness:
  "\<exists>jws. CreateJMDN demo_libs 0 (engine_of demo_key ''urn:a'') ''m-1'' ''DELIVERED'' ''x'' None = Inr jws \<and>
    VerifyJMDN demo_libs jws (PublicKey (privateKey (engine_of demo_key ''urn:a''))) = Inr
      \<lparr>OriginalMessageID = ''m-1'', RStatus = ''DELIVERED'',
       HashVerification = b64_encode False (sha256 ''x''), RTimestamp = fmt_rfc3339 0, ErrorLog = None\<rparr>"
  by (rule jmdn_roundtrip) (use demo_jose_ok in \<open>simp add: jose_ok_def\<close>)

end
