(* ===== verification/SqlTable.thy ===== *)
theory SqlTable
  imports Domain
begin

text \<open>
  The effect of the node's SQL statements on one table: an INSERT into a table whose key
  column is UNIQUE and whose numeric id is AUTOINCREMENT, an UPDATE or DELETE with a
  condition, and SELECT with its order. A table is the list of its rows in the order of
  their row ids. Two locales state what the repositories rely on: \<open>keyed_table\<close> (rows
  found by their key) and \<open>rowid_table\<close> (rows that also carry the generated id).
\<close>

record 'r table =
  rows :: "'r list"
  next_id :: int

definition empty_table :: "'r table" where
  "empty_table = \<lparr>rows = [], next_id = 1\<rparr>"

definition tbl_find :: "('r \<Rightarrow> 'k) \<Rightarrow> 'k \<Rightarrow> 'r table \<Rightarrow> 'r option" where
  "tbl_find key k t = List.find (\<lambda>r. key r = k) (rows t)"

definition tbl_has :: "('r \<Rightarrow> 'k) \<Rightarrow> 'k \<Rightarrow> 'r table \<Rightarrow> bool" where
  "tbl_has key k t = list_ex (\<lambda>r. key r = k) (rows t)"

definition tbl_insert :: "(int \<Rightarrow> 'r \<Rightarrow> 'r) \<Rightarrow> 'r \<Rightarrow> 'r table \<Rightarrow> 'r table" where
  "tbl_insert setid r t = t\<lparr>rows := rows t @ [setid (next_id t) r], next_id := next_id t + 1\<rparr>"

definition tbl_update :: "('r \<Rightarrow> bool) \<Rightarrow> ('r \<Rightarrow> 'r) \<Rightarrow> 'r table \<Rightarrow> 'r table" where
  "tbl_update P f t = t\<lparr>rows := map (\<lambda>r. if P r then f r else r) (rows t)\<rparr>"

definition tbl_delete :: "('r \<Rightarrow> bool) \<Rightarrow> 'r table \<Rightarrow> 'r table" where
  "tbl_delete P t = t\<lparr>rows := filter (\<lambda>r. \<not> P r) (rows t)\<rparr>"

definition tbl_count :: "('r \<Rightarrow> bool) \<Rightarrow> 'r table \<Rightarrow> nat" where
  "tbl_count P t = length (filter P (rows t))"

text \<open>\<open>ORDER BY c ASC\<close> and \<open>ORDER BY c DESC\<close>; rows that agree stay in row order.\<close>

definition order_asc :: "('r \<Rightarrow> int) \<Rightarrow> 'r list \<Rightarrow> 'r list" where
  "order_asc c xs = sort_key c xs"

definition order_desc :: "('r \<Rightarrow> int) \<Rightarrow> 'r list \<Rightarrow> 'r list" where
  "order_desc c xs = sort_key (\<lambda>r. - c r) xs"

lemma set_order [simp]: "set (order_asc c xs) = set xs" "set (order_desc c xs) = set xs"
  by (simp_all add: order_asc_def order_desc_def)

lemma length_order [simp]: "length (order_asc c xs) = length xs" "length (order_desc c xs) = length xs"
  by (simp_all add: order_asc_def order_desc_def)

lemma distinct_order:
  "distinct (map k xs) \<Longrightarrow> distinct (map k (order_asc c xs))"
  "distinct (map k xs) \<Longrightarrow> distinct (map k (order_desc c xs))"
  by (simp_all add: order_asc_def order_desc_def distinct_map)

section \<open>Rows of a table\<close>

lemma rows_simps [row_simps]:
  "rows (tbl_insert f r t) = rows t @ [f (next_id t) r]"
  "rows (tbl_update P g t) = map (\<lambda>r. if P r then g r else r) (rows t)"
  "rows (tbl_delete P t) = filter (\<lambda>r. \<not> P r) (rows t)"
  "next_id (tbl_insert f r t) = next_id t + 1"
  "next_id (tbl_update P g t) = next_id t"
  "next_id (tbl_delete P t) = next_id t"
  by (simp_all add: tbl_insert_def tbl_update_def tbl_delete_def)

lemma tbl_count_none: "tbl_count (\<lambda>r. key r = k) t = 0 \<longleftrightarrow> tbl_find key k t = None"
  by (auto simp: tbl_count_def tbl_find_def find_None_iff_ex filter_empty_conv list_ex_iff)

lemma tbl_has_find: "tbl_has key k t \<longleftrightarrow> tbl_find key k t \<noteq> None"
  by (simp add: tbl_has_def tbl_find_def find_None_iff_ex)

lemma tbl_find_in: "tbl_find key k t = Some r \<Longrightarrow> r \<in> set (rows t) \<and> key r = k"
  unfolding tbl_find_def by (rule find_Some_in)

lemma tbl_update_id: "(\<And>r. r \<in> set (rows t) \<Longrightarrow> \<not> P r) \<Longrightarrow> tbl_update P f t = t"
proof -
  assume "\<And>r. r \<in> set (rows t) \<Longrightarrow> \<not> P r"
  then have "map (\<lambda>r. if P r then f r else r) (rows t) = rows t"
    by (intro map_idI) simp
  then show ?thesis by (simp add: tbl_update_def)
qed

section \<open>Tables found by a key\<close>

locale keyed_table =
  fixes key :: "'r \<Rightarrow> 'k" and setid :: "int \<Rightarrow> 'r \<Rightarrow> 'r"
  assumes key_setid: "key (setid i r) = key r"
begin

lemma find_insert:
  assumes "tbl_find key (key r) t = None"
  shows "tbl_find key k (tbl_insert setid r t)
    = (if k = key r then Some (setid (next_id t) r) else tbl_find key k t)"
  using assms by (auto simp: tbl_find_def row_simps find_append key_setid split: option.split)

lemma find_update:
  assumes "\<And>r. key (f r) = key r"
  shows "tbl_find key k (tbl_update (\<lambda>r. key r = j) f t)
    = (if k = j then map_option f (tbl_find key k t) else tbl_find key k t)"
proof -
  have "tbl_find key k (tbl_update (\<lambda>r. key r = j) f t)
      = map_option (\<lambda>r. if key r = j then f r else r) (tbl_find key k t)"
    unfolding tbl_find_def rows_simps by (intro find_map_pres) (simp add: assms)
  also have "\<dots> = (if k = j then map_option f (tbl_find key k t) else tbl_find key k t)"
    by (cases "tbl_find key k t") (auto dest: tbl_find_in)
  finally show ?thesis .
qed

lemma find_update_where:
  assumes "\<And>r. key (f r) = key r"
  shows "tbl_find key k (tbl_update P f t)
    = map_option (\<lambda>r. if P r then f r else r) (tbl_find key k t)"
  unfolding tbl_find_def rows_simps by (intro find_map_pres) (simp add: assms)

lemma find_delete:
  "tbl_find key k (tbl_delete (\<lambda>r. key r = j) t) = (if k = j then None else tbl_find key k t)"
  by (auto simp: tbl_find_def row_simps intro!: find_filter_none find_filter_key)

lemma find_row:
  assumes "distinct (map key (rows t))" and "r \<in> set (rows t)"
  shows "tbl_find key (key r) t = Some r"
  using find_key_unique [OF assms] by (simp add: tbl_find_def)

lemma distinct_insert:
  assumes "distinct (map key (rows t))" and "tbl_find key (key r) t = None"
  shows "distinct (map key (rows (tbl_insert setid r t)))"
  using assms by (auto simp: row_simps key_setid tbl_find_def find_None_iff_ex list_ex_iff)

lemma distinct_update:
  assumes "distinct (map key (rows t))" and "\<And>r. key (f r) = key r"
  shows "distinct (map key (rows (tbl_update P f t)))"
proof -
  have "map key (map (\<lambda>r. if P r then f r else r) (rows t)) = map key (rows t)"
    by (simp add: assms(2))
  with assms(1) show ?thesis by (simp only: row_simps)
qed

lemma distinct_delete:
  "distinct (map key (rows t)) \<Longrightarrow> distinct (map key (rows (tbl_delete P t)))"
  by (simp add: row_simps Prelude.distinct_map_filter)

end

section \<open>Tables with a generated numeric id\<close>

locale rowid_table = keyed_table key setid
  for key :: "'r \<Rightarrow> 'k" and setid :: "int \<Rightarrow> 'r \<Rightarrow> 'r" +
  fixes idf :: "'r \<Rightarrow> int"
  assumes id_setid: "idf (setid i r) = i"
begin

definition ids_ok :: "'r table \<Rightarrow> bool" where
  "ids_ok t \<longleftrightarrow> distinct (map idf (rows t)) \<and> (\<forall>r \<in> set (rows t). 1 \<le> idf r \<and> idf r < next_id t)
     \<and> 1 \<le> next_id t"

lemma ids_insert: "ids_ok t \<Longrightarrow> ids_ok (tbl_insert setid r t)"
  by (fastforce simp: ids_ok_def row_simps id_setid)

lemma ids_update:
  assumes "ids_ok t" and "\<And>r. idf (f r) = idf r"
  shows "ids_ok (tbl_update P f t)"
proof -
  have ids: "map idf (rows (tbl_update P f t)) = map idf (rows t)"
    by (simp add: row_simps assms(2))
  have "\<forall>r \<in> set (rows (tbl_update P f t)). 1 \<le> idf r \<and> idf r < next_id t"
    using assms by (auto simp: ids_ok_def row_simps)
  with assms(1) show ?thesis unfolding ids_ok_def ids by (simp add: rows_simps(5))
qed

lemma ids_delete: "ids_ok t \<Longrightarrow> ids_ok (tbl_delete P t)"
  by (simp add: ids_ok_def row_simps Prelude.distinct_map_filter)

lemma ids_empty: "ids_ok empty_table"
  by (simp add: ids_ok_def empty_table_def)

end

text \<open>The same invariant at the top level, for any key and id.\<close>

definition table_ok :: "('r \<Rightarrow> 'k) \<Rightarrow> ('r \<Rightarrow> int) \<Rightarrow> 'r table \<Rightarrow> bool" where
  "table_ok key idf t \<longleftrightarrow>
     distinct (map key (rows t)) \<and> distinct (map idf (rows t))
     \<and> (\<forall>r \<in> set (rows t). 1 \<le> idf r \<and> idf r < next_id t) \<and> 1 \<le> next_id t"

context rowid_table begin

lemma table_ok_iff: "table_ok key idf t \<longleftrightarrow> distinct (map key (rows t)) \<and> ids_ok t"
  by (auto simp: table_ok_def ids_ok_def)

lemma table_ok_insert:
  "table_ok key idf t \<Longrightarrow> tbl_find key (key r) t = None \<Longrightarrow> table_ok key idf (tbl_insert setid r t)"
  by (simp add: table_ok_iff distinct_insert ids_insert)

lemma table_ok_update:
  "table_ok key idf t \<Longrightarrow> (\<And>r. key (f r) = key r) \<Longrightarrow> (\<And>r. idf (f r) = idf r)
    \<Longrightarrow> table_ok key idf (tbl_update P f t)"
  by (simp add: table_ok_iff distinct_update ids_update)

lemma table_ok_delete: "table_ok key idf t \<Longrightarrow> table_ok key idf (tbl_delete P t)"
  by (simp add: table_ok_iff distinct_delete ids_delete)

lemma table_ok_empty: "table_ok key idf empty_table"
  by (simp add: table_ok_def empty_table_def)

text \<open>A numeric id addresses at most one row.\<close>

lemma id_unique:
  assumes "table_ok key idf t" and "r \<in> set (rows t)" and "s \<in> set (rows t)" and "idf r = idf s"
  shows "r = s"
  using assms by (auto simp: table_ok_def distinct_map inj_on_def)

end

section \<open>Errors of the database driver\<close>

text \<open>
  A statement can fail for a reason outside the model (a closed or locked database): each
  operation takes the driver's error text as an argument, \<open>None\<close> when the statement
  runs. A violated UNIQUE constraint is reported with SQLite's text.
\<close>

type_synonym fault = "string option"

definition unique_failed :: "string \<Rightarrow> string" where
  "unique_failed column = ''constraint failed: UNIQUE constraint failed: '' @ column @ '' (2067)''"

definition isUniqueConstraint :: "string \<Rightarrow> bool" where
  "isUniqueConstraint msg \<longleftrightarrow>
     contains_sub msg ''UNIQUE constraint failed'' \<or> contains_sub msg ''constraint failed: UNIQUE''"

lemma isUnique_unique_failed [simp]: "isUniqueConstraint (unique_failed c)"
proof -
  have "unique_failed c = ''constraint failed: '' @ ''UNIQUE constraint failed'' @ ('': '' @ c @ '' (2067)'')"
    by (simp add: unique_failed_def)
  then show ?thesis by (simp only: isUniqueConstraint_def contains_sub_middle simp_thms)
qed

end
