(* ===== verification/MessageRepo.thy ===== *)
theory MessageRepo
  imports SqlTable
begin

text \<open>
  The \<open>messages\<close> table and the operations of \<open>internal/repository/message_repository.go\<close>:
  the state is the table, each operation returns Go's \<open>(T, error)\<close> as a sum beside the new
  table. The interface \<open>domain.MessageRepository\<close> as its clients use it is the locale
  \<open>message_store\<close>, interpreted on these operations.
\<close>

type_synonym msg_table = "message table"

definition set_msg_id :: "int \<Rightarrow> message \<Rightarrow> message" where
  "set_msg_id i m = m\<lparr>ID := i\<rparr>"

abbreviation find_msg :: "string \<Rightarrow> msg_table \<Rightarrow> message option" where
  "find_msg \<equiv> tbl_find MessageID"

interpretation msgs: rowid_table MessageID set_msg_id ID
  by unfold_locales (simp_all add: set_msg_id_def)

section \<open>Resolving the job type\<close>

text \<open>The anonymous struct with the one field \<open>job_type\<close>: its value after
  \<open>json.Unmarshal\<close>, and whether that returned an error.\<close>

definition probe_job_type :: "string \<Rightarrow> string \<times> bool" where
  "probe_job_type payload =
     (case parse_json payload of None \<Rightarrow> ([], True)
      | Some v \<Rightarrow>
        let (ms, wrong) = obj_members v; (s, bad) = dec_str ''job_type'' ms in (s, wrong \<or> bad))"

definition resolveJobType :: "string \<Rightarrow> string \<Rightarrow> string" where
  "resolveJobType explicit payload =
     (if explicit \<noteq> [] then explicit
      else if payload \<noteq> [] \<and> \<not> snd (probe_job_type payload) \<and> fst (probe_job_type payload) \<noteq> []
      then fst (probe_job_type payload)
      else JobTypeProcessOutbound)"

lemma resolveJobType_nonempty: "resolveJobType e p \<noteq> []"
  by (simp add: resolveJobType_def)

section \<open>Operations\<close>

text \<open>\<open>Create\<close> fills in \<open>CreatedAt\<close>, \<open>JobType\<close> and \<open>ID\<close> of the message it is handed; the
  message of a success is the one the caller sees afterwards.\<close>

definition Msg_Create :: "fault \<Rightarrow> time \<Rightarrow> message option \<Rightarrow> msg_table \<Rightarrow> message result \<times> msg_table" where
  "Msg_Create flt now arg t =
     (case arg of None \<Rightarrow> (Inl (Errorf ''message cannot be nil''), t)
      | Some msg0 \<Rightarrow>
        if MessageID msg0 = [] then (Inl (Errorf ''message_id cannot be empty''), t)
        else if Payload msg0 = [] then (Inl (Errorf ''payload cannot be empty''), t)
        else
          let msg1 = (if is_zero_time (CreatedAt msg0) then msg0\<lparr>CreatedAt := now\<rparr> else msg0);
              msg2 = msg1\<lparr>JobType := resolveJobType (JobType msg1) (Payload msg1)\<rparr>;
              err = (case flt of Some e \<Rightarrow> Some e
                     | None \<Rightarrow> if tbl_has MessageID (MessageID msg2) t
                               then Some (unique_failed ''messages.message_id'') else None)
          in case err of
               Some e \<Rightarrow>
                 (if isUniqueConstraint e
                  then (Inl (WrapErr (''message_id '' @ quote_go (MessageID msg2) @ '' already exists: '')
                              DuplicateMessageID), t)
                  else (Inl (WrapErr ''failed to insert message: '' (Errorf e)), t))
             | None \<Rightarrow> (Inr (set_msg_id (next_id t) msg2), tbl_insert set_msg_id msg2 t))"

definition Msg_GetByID :: "fault \<Rightarrow> string \<Rightarrow> msg_table \<Rightarrow> message result" where
  "Msg_GetByID flt mid t =
     (if mid = [] then Inl (Errorf ''message_id cannot be empty'')
      else case flt of Some e \<Rightarrow> Inl (WrapErr ''failed to get message: '' (Errorf e))
      | None \<Rightarrow>
        (case find_msg mid t of None \<Rightarrow> Inl (Errorf (''message not found: '' @ mid))
         | Some m \<Rightarrow> Inr m))"

definition Msg_UpdateStatus ::
  "fault \<Rightarrow> string \<Rightarrow> message_status \<Rightarrow> msg_table \<Rightarrow> goerr option \<times> msg_table" where
  "Msg_UpdateStatus flt mid st t =
     (if mid = [] then (Some (Errorf ''message_id cannot be empty''), t)
      else case flt of Some e \<Rightarrow> (Some (WrapErr ''failed to update message status: '' (Errorf e)), t)
      | None \<Rightarrow>
        let t' = tbl_update (\<lambda>m. MessageID m = mid) (\<lambda>m. m\<lparr>Status := st\<rparr>) t;
            rowsAffected = tbl_count (\<lambda>m. MessageID m = mid) t
        in if rowsAffected = 0 then (Some (Errorf (''message not found: '' @ mid)), t') else (None, t'))"

definition set_retry :: "int64 \<Rightarrow> time option \<Rightarrow> string \<Rightarrow> message \<Rightarrow> message" where
  "set_retry n next_at err m = m\<lparr>RetryCount := n, NextRetryAt := next_at, LastError := err\<rparr>"

definition Msg_UpdateRetryInfo ::
  "fault \<Rightarrow> string \<Rightarrow> int64 \<Rightarrow> time option \<Rightarrow> string \<Rightarrow> msg_table \<Rightarrow> goerr option \<times> msg_table" where
  "Msg_UpdateRetryInfo flt mid n next_at err t =
     (if mid = [] then (Some (Errorf ''message_id cannot be empty''), t)
      else case flt of
        Some e \<Rightarrow> (Some (WrapErr ''failed to update message retry info: '' (Errorf e)), t)
      | None \<Rightarrow> (None, tbl_update (\<lambda>m. MessageID m = mid) (set_retry n next_at err) t))"

definition Msg_ListByStatus :: "fault \<Rightarrow> message_status \<Rightarrow> msg_table \<Rightarrow> message list result" where
  "Msg_ListByStatus flt st t =
     (case flt of Some e \<Rightarrow> Inl (WrapErr ''failed to query messages by status: '' (Errorf e))
      | None \<Rightarrow> Inr (order_asc CreatedAt (filter (\<lambda>m. Status m = st) (rows t))))"

definition Msg_ListByStatusAndJobType ::
  "fault \<Rightarrow> message_status \<Rightarrow> string \<Rightarrow> msg_table \<Rightarrow> message list result" where
  "Msg_ListByStatusAndJobType flt st jt t =
     (if jt = [] then Inl (Errorf ''job_type cannot be empty'')
      else case flt of
        Some e \<Rightarrow> Inl (WrapErr ''failed to query messages by status+job_type: '' (Errorf e))
      | None \<Rightarrow> Inr (order_asc CreatedAt (filter (\<lambda>m. Status m = st \<and> JobType m = jt) (rows t))))"

text \<open>\<open>ListPaginated\<close> runs two statements, the count first.\<close>

definition matches_filter :: "message_status option \<Rightarrow> message \<Rightarrow> bool" where
  "matches_filter f m = (case f of None \<Rightarrow> True | Some st \<Rightarrow> Status m = st)"

definition Msg_ListPaginated ::
  "fault \<Rightarrow> fault \<Rightarrow> message_status option \<Rightarrow> int \<Rightarrow> int \<Rightarrow> msg_table \<Rightarrow> (message list \<times> nat) result" where
  "Msg_ListPaginated flt1 flt2 f limit0 offset0 t =
     (let limit = (if limit0 \<le> 0 then 20 else limit0);
          offset = (if offset0 < 0 then 0 else offset0)
      in case flt1 of Some e \<Rightarrow> Inl (WrapErr ''failed to count messages: '' (Errorf e))
         | None \<Rightarrow>
           let total = tbl_count (matches_filter f) t in
           (case flt2 of Some e \<Rightarrow> Inl (WrapErr ''failed to query messages: '' (Errorf e))
            | None \<Rightarrow>
              Inr (take (nat limit) (drop (nat offset)
                     (order_desc CreatedAt (filter (matches_filter f) (rows t)))), total)))"

text \<open>\<open>GROUP BY status\<close> yields a row per status present; the loop stores each into the map.\<close>

definition status_groups :: "message list \<Rightarrow> (message_status \<times> nat) list" where
  "status_groups ms =
     map (\<lambda>st. (st, length (filter (\<lambda>m. Status m = st) ms))) (remdups (map Status ms))"

definition Msg_CountByStatusSince ::
  "fault \<Rightarrow> time \<Rightarrow> msg_table \<Rightarrow> (message_status \<rightharpoonup> nat) result" where
  "Msg_CountByStatusSince flt since t =
     (case flt of Some e \<Rightarrow> Inl (WrapErr ''failed to query message counts: '' (Errorf e))
      | None \<Rightarrow>
        Inr (fold (\<lambda>(st, n) m. m(st \<mapsto> n))
               (status_groups (filter (\<lambda>m. since \<le> CreatedAt m) (rows t))) Map.empty))"

definition Msg_Delete :: "fault \<Rightarrow> string \<Rightarrow> msg_table \<Rightarrow> goerr option \<times> msg_table" where
  "Msg_Delete flt mid t =
     (if mid = [] then (Some (Errorf ''message_id cannot be empty''), t)
      else case flt of Some e \<Rightarrow> (Some (WrapErr ''failed to delete message: '' (Errorf e)), t)
      | None \<Rightarrow>
        let t' = tbl_delete (\<lambda>m. MessageID m = mid) t;
            rowsAffected = tbl_count (\<lambda>m. MessageID m = mid) t
        in if rowsAffected = 0 then (Some (Errorf (''message not found: '' @ mid)), t') else (None, t'))"

section \<open>The table invariant\<close>

definition row_ok :: "message \<Rightarrow> bool" where
  "row_ok m \<longleftrightarrow> MessageID m \<noteq> [] \<and> Payload m \<noteq> [] \<and> JobType m \<noteq> []"

definition msgs_ok :: "msg_table \<Rightarrow> bool" where
  "msgs_ok t \<longleftrightarrow> table_ok MessageID ID t \<and> list_all row_ok (rows t)"

lemma msgs_ok_empty: "msgs_ok empty_table"
  by (simp add: msgs_ok_def msgs.table_ok_empty) (simp add: empty_table_def)

text \<open>A successful \<open>Create\<close> in one step: what is stored, and what the caller sees.\<close>

definition stored_form :: "time \<Rightarrow> message \<Rightarrow> message" where
  "stored_form now m =
     m\<lparr>CreatedAt := (if is_zero_time (CreatedAt m) then now else CreatedAt m),
       JobType := resolveJobType (JobType m) (Payload m)\<rparr>"

lemma stored_form_simps [simp]:
  "MessageID (stored_form now m) = MessageID m" "Direction (stored_form now m) = Direction m"
  "Status (stored_form now m) = Status m" "Payload (stored_form now m) = Payload m"
  "JobType (stored_form now m) = resolveJobType (JobType m) (Payload m)"
  "RetryCount (stored_form now m) = RetryCount m" "NextRetryAt (stored_form now m) = NextRetryAt m"
  by (simp_all add: stored_form_def)

lemma Msg_Create_Some:
  "Msg_Create flt now (Some m) t =
     (if MessageID m = [] then (Inl (Errorf ''message_id cannot be empty''), t)
      else if Payload m = [] then (Inl (Errorf ''payload cannot be empty''), t)
      else case flt of
        Some e \<Rightarrow>
          (if isUniqueConstraint e
           then (Inl (WrapErr (''message_id '' @ quote_go (MessageID m) @ '' already exists: '')
                        DuplicateMessageID), t)
           else (Inl (WrapErr ''failed to insert message: '' (Errorf e)), t))
      | None \<Rightarrow>
          (if find_msg (MessageID m) t \<noteq> None
           then (Inl (WrapErr (''message_id '' @ quote_go (MessageID m) @ '' already exists: '')
                        DuplicateMessageID), t)
           else (Inr (set_msg_id (next_id t) (stored_form now m)),
                 tbl_insert set_msg_id (stored_form now m) t)))"
proof -
  have sf: "(if is_zero_time (CreatedAt m) then m\<lparr>CreatedAt := now\<rparr> else m)
      \<lparr>JobType := resolveJobType
         (JobType (if is_zero_time (CreatedAt m) then m\<lparr>CreatedAt := now\<rparr> else m))
         (Payload (if is_zero_time (CreatedAt m) then m\<lparr>CreatedAt := now\<rparr> else m))\<rparr>
    = stored_form now m"
    by (simp add: stored_form_def)
  show ?thesis
    unfolding Msg_Create_def option.case Let_def sf
    by (auto simp: tbl_has_find split: option.split)
qed

lemma Msg_Create_None: "Msg_Create flt now None t = (Inl (Errorf ''message cannot be nil''), t)"
  by (simp add: Msg_Create_def)

lemma Msg_Create_ok:
  assumes "Msg_Create flt now (Some m) t = (Inr m', t')"
  shows "flt = None" and "MessageID m \<noteq> []" and "Payload m \<noteq> []"
    and "find_msg (MessageID m) t = None"
    and "m' = set_msg_id (next_id t) (stored_form now m)"
    and "t' = tbl_insert set_msg_id (stored_form now m) t"
  using assms by (auto simp: Msg_Create_Some split: if_splits option.splits)

lemma Msg_Create_err:
  assumes "Msg_Create flt now arg t = (Inl e, t')"
  shows "t' = t"
  using assms by (cases arg) (auto simp: Msg_Create_Some Msg_Create_None split: if_splits option.splits)

lemma Msg_Create_duplicate:
  "find_msg (MessageID m) t = Some r \<Longrightarrow> MessageID m \<noteq> [] \<Longrightarrow> Payload m \<noteq> [] \<Longrightarrow>
    \<exists>e. Msg_Create None now (Some m) t = (Inl e, t) \<and> is_duplicate e"
  by (simp add: Msg_Create_Some)

lemma Msg_UpdateStatus_eq:
  "Msg_UpdateStatus None mid st t =
     (if mid = [] then (Some (Errorf ''message_id cannot be empty''), t)
      else if find_msg mid t = None then (Some (Errorf (''message not found: '' @ mid)), t)
      else (None, tbl_update (\<lambda>m. MessageID m = mid) (\<lambda>m. m\<lparr>Status := st\<rparr>) t))"
proof -
  have "tbl_update (\<lambda>m. MessageID m = mid) f t = t" if "find_msg mid t = None" for f
    using that by (intro tbl_update_id) (auto simp: tbl_find_def find_None_iff_ex list_ex_iff)
  then show ?thesis by (simp add: Msg_UpdateStatus_def tbl_count_none Let_def)
qed

lemma Msg_UpdateStatus_table:
  "snd (Msg_UpdateStatus flt mid st t) =
     (if mid = [] \<or> flt \<noteq> None then t
      else tbl_update (\<lambda>m. MessageID m = mid) (\<lambda>m. m\<lparr>Status := st\<rparr>) t)"
  by (auto simp: Msg_UpdateStatus_def Let_def split: option.split)

lemma Msg_UpdateRetryInfo_table:
  "snd (Msg_UpdateRetryInfo flt mid n a e t) =
     (if mid = [] \<or> flt \<noteq> None then t else tbl_update (\<lambda>m. MessageID m = mid) (set_retry n a e) t)"
  by (auto simp: Msg_UpdateRetryInfo_def split: option.split)

lemma Msg_Delete_table:
  "snd (Msg_Delete flt mid t) =
     (if mid = [] \<or> flt \<noteq> None then t else tbl_delete (\<lambda>m. MessageID m = mid) t)"
  by (auto simp: Msg_Delete_def Let_def split: option.split)

lemma msgs_ok_Create [inv_intros]: "msgs_ok t \<Longrightarrow> msgs_ok (snd (Msg_Create flt now arg t))"
proof -
  assume ok: "msgs_ok t"
  show ?thesis
  proof (cases "Msg_Create flt now arg t")
    case (Pair r t')
    show ?thesis
    proof (cases r)
      case (Inl e)
      with Pair ok show ?thesis by (auto dest: Msg_Create_err)
    next
      case (Inr m')
      with Pair obtain m where arg: "arg = Some m" by (cases arg) (auto simp: Msg_Create_None)
      note c = Msg_Create_ok [OF Pair [unfolded Inr arg]]
      from ok c(4) have "table_ok MessageID ID (tbl_insert set_msg_id (stored_form now m) t)"
        by (intro msgs.table_ok_insert) (simp_all add: msgs_ok_def)
      with ok c Pair show ?thesis
        by (simp add: msgs_ok_def row_simps row_ok_def set_msg_id_def resolveJobType_nonempty)
    qed
  qed
qed

lemma msgs_ok_tbl_update:
  assumes "msgs_ok t" and "\<And>m. MessageID (f m) = MessageID m" and "\<And>m. ID (f m) = ID m"
    and "\<And>m. row_ok (f m) = row_ok m"
  shows "msgs_ok (tbl_update P f t)"
  using assms msgs.table_ok_update [of t f P] by (auto simp: msgs_ok_def row_simps list_all_iff)

lemma msgs_ok_UpdateStatus [inv_intros]: "msgs_ok t \<Longrightarrow> msgs_ok (snd (Msg_UpdateStatus flt mid st t))"
  by (simp add: Msg_UpdateStatus_table msgs_ok_tbl_update row_ok_def)

lemma msgs_ok_UpdateRetryInfo [inv_intros]:
  "msgs_ok t \<Longrightarrow> msgs_ok (snd (Msg_UpdateRetryInfo flt mid n a e t))"
  by (simp add: Msg_UpdateRetryInfo_table msgs_ok_tbl_update row_ok_def set_retry_def)

lemma msgs_ok_Delete [inv_intros]: "msgs_ok t \<Longrightarrow> msgs_ok (snd (Msg_Delete flt mid t))"
  using msgs.table_ok_delete [of t]
  by (auto simp: Msg_Delete_table msgs_ok_def row_simps list_all_iff)

section \<open>The interface its clients use\<close>

text \<open>
  \<open>domain.MessageRepository\<close> for a client that changes one message by its id: \<open>lookup\<close>
  reads, \<open>create\<close>, \<open>upd\<close> (the status) and \<open>retry\<close> (the retry columns) write. A failed
  operation leaves the store alone, a write to one id leaves the others alone.
\<close>

locale message_store =
  fixes lookup :: "string \<Rightarrow> 'db \<Rightarrow> message option"
    and create :: "fault \<Rightarrow> time \<Rightarrow> message \<Rightarrow> 'db \<Rightarrow> message result \<times> 'db"
    and upd :: "fault \<Rightarrow> string \<Rightarrow> message_status \<Rightarrow> 'db \<Rightarrow> goerr option \<times> 'db"
    and retry :: "fault \<Rightarrow> string \<Rightarrow> int64 \<Rightarrow> time option \<Rightarrow> string \<Rightarrow> 'db \<Rightarrow> goerr option \<times> 'db"
  assumes create_fresh: "create flt now m d = (Inr m', d') \<Longrightarrow> lookup (MessageID m) d = None"
    and create_lookup: "create flt now m d = (Inr m', d') \<Longrightarrow>
      lookup k d' = (if k = MessageID m then Some m' else lookup k d)"
    and create_failed: "create flt now m d = (Inl x, d') \<Longrightarrow> d' = d"
    and create_taken: "lookup (MessageID m) d \<noteq> None \<Longrightarrow> MessageID m \<noteq> [] \<Longrightarrow> Payload m \<noteq> [] \<Longrightarrow>
      \<exists>x. create None now m d = (Inl x, d) \<and> is_duplicate x"
    and upd_lookup: "k \<noteq> [] \<Longrightarrow> lookup j (snd (upd None k st d))
      = (if j = k then map_option (\<lambda>m. m\<lparr>Status := st\<rparr>) (lookup j d) else lookup j d)"
    and upd_fault: "snd (upd (Some g) k st d) = d"
    and retry_lookup: "k \<noteq> [] \<Longrightarrow> lookup j (snd (retry None k n a e d))
      = (if j = k then map_option (set_retry n a e) (lookup j d) else lookup j d)"
    and retry_fault: "snd (retry (Some g) k n a e d) = d"
begin

lemma upd_frame: "k \<noteq> [] \<Longrightarrow> j \<noteq> k \<Longrightarrow> lookup j (snd (upd flt k st d)) = lookup j d"
  by (cases flt) (simp_all add: upd_lookup upd_fault)

lemma retry_frame: "k \<noteq> [] \<Longrightarrow> j \<noteq> k \<Longrightarrow> lookup j (snd (retry flt k n a e d)) = lookup j d"
  by (cases flt) (simp_all add: retry_lookup retry_fault)

text \<open>Setting the status and then the retry columns of one message.\<close>

lemma upd_then_retry:
  assumes "k \<noteq> []" and "lookup k d = Some m"
  shows "lookup k (snd (retry f2 k n a e (snd (upd f1 k st d))))
    = Some (let m1 = (if f1 = None then m\<lparr>Status := st\<rparr> else m)
            in if f2 = None then set_retry n a e m1 else m1)"
  using assms
  by (cases f1; cases f2) (simp_all add: upd_lookup upd_fault retry_lookup retry_fault)

text \<open>A second insert of the same id is refused as a duplicate, whatever the client changed in
  between without deleting.\<close>

lemma create_twice:
  assumes "create flt now m d = (Inr m', d')" and "MessageID m2 = MessageID m"
    and "MessageID m2 \<noteq> []" and "Payload m2 \<noteq> []"
  shows "\<exists>e. create None now2 m2 d' = (Inl e, d') \<and> is_duplicate e"
  using assms create_lookup [OF assms(1), of "MessageID m"] by (intro create_taken) simp_all

end

interpretation store: message_store find_msg "\<lambda>flt now m. Msg_Create flt now (Some m)"
  Msg_UpdateStatus Msg_UpdateRetryInfo
proof unfold_locales
  fix flt now and m m' :: message and k and d d' :: msg_table
  assume c: "Msg_Create flt now (Some m) d = (Inr m', d')"
  show "find_msg (MessageID m) d = None" by (rule Msg_Create_ok(4) [OF c])
  show "find_msg k d' = (if k = MessageID m then Some m' else find_msg k d)"
    using Msg_Create_ok [OF c] msgs.find_insert [of "stored_form now m" d k] by simp
next
  fix flt now and m :: message and e and d d' :: msg_table
  assume "Msg_Create flt now (Some m) d = (Inl e, d')"
  then show "d' = d" by (rule Msg_Create_err)
next
  fix m :: message and now and d :: msg_table
  assume "find_msg (MessageID m) d \<noteq> None" "MessageID m \<noteq> []" "Payload m \<noteq> []"
  then show "\<exists>e. Msg_Create None now (Some m) d = (Inl e, d) \<and> is_duplicate e"
    using Msg_Create_duplicate by blast
qed (simp_all add: Msg_UpdateStatus_table Msg_UpdateRetryInfo_table msgs.find_update set_retry_def)

section \<open>Facts about the queries\<close>

lemma Msg_ListByStatus_sorted:
  "Msg_ListByStatus None st t = Inr ms \<Longrightarrow>
    sorted (map CreatedAt ms) \<and> set ms = {m \<in> set (rows t). Status m = st}"
  by (auto simp: Msg_ListByStatus_def order_asc_def)

lemma fold_map_upd_assoc:
  "distinct (map fst xs) \<Longrightarrow> fold (\<lambda>(k, v) m. m(k \<mapsto> v)) xs m0 k
    = (case map_of xs k of Some v \<Rightarrow> Some v | None \<Rightarrow> m0 k)"
proof (induction xs arbitrary: m0)
  case Nil
  then show ?case by simp
next
  case (Cons x xs)
  then have "fst x \<notin> set (map fst xs)" by simp
  then have "map_of xs (fst x) = None" by (simp add: map_of_eq_None_iff)
  with Cons show ?case by (cases x) (auto split: option.split)
qed

lemma map_of_status_groups:
  "map_of (status_groups ms) st
    = (if st \<in> Status ` set ms then Some (length (filter (\<lambda>m. Status m = st) ms)) else None)"
proof -
  have "map_of (map (\<lambda>s. (s, g s)) xs) st = (if st \<in> set xs then Some (g st) else None)"
    for xs :: "string list" and g :: "string \<Rightarrow> nat"
    by (induction xs) auto
  then show ?thesis by (simp add: status_groups_def)
qed

lemma CountByStatusSince_counts:
  "Msg_CountByStatusSince None since t = Inr cs \<Longrightarrow>
    cs st = (let n = tbl_count (\<lambda>m. since \<le> CreatedAt m \<and> Status m = st) t
             in if n = 0 then None else Some n)"
proof -
  assume "Msg_CountByStatusSince None since t = Inr cs"
  then have cs: "cs = fold (\<lambda>(st, n) m. m(st \<mapsto> n))
      (status_groups (filter (\<lambda>m. since \<le> CreatedAt m) (rows t))) Map.empty"
    by (simp add: Msg_CountByStatusSince_def)
  have "distinct (map fst (status_groups ms))" for ms
    by (simp add: status_groups_def comp_def)
  then have "cs st = map_of (status_groups (filter (\<lambda>m. since \<le> CreatedAt m) (rows t))) st"
    by (simp add: cs fold_map_upd_assoc split: option.split)
  then show ?thesis
    by (auto simp: map_of_status_groups tbl_count_def Let_def image_iff filter_empty_conv conj_commute)
qed

end
