(* ===== verification/PartnerRepo.thy ===== *)
theory PartnerRepo
  imports SqlTable
begin

text \<open>
  The \<open>trading_partners\<close> table and \<open>internal/repository/partner_repository.go\<close>. The table
  has no column for \<open>SupportedEncryptionAlgorithms\<close>: what an operation writes is the row
  without it, and a row read back has it empty.
\<close>

type_synonym partner_table = "partner table"

definition set_partner_id :: "int \<Rightarrow> partner \<Rightarrow> partner" where
  "set_partner_id i p = p\<lparr>P_ID := i\<rparr>"

text \<open>The columns of the row: the in-memory capability list is not one of them.\<close>

definition to_row :: "partner \<Rightarrow> partner" where
  "to_row p = p\<lparr>SupportedEncAlgs := []\<rparr>"

abbreviation find_partner :: "string \<Rightarrow> partner_table \<Rightarrow> partner option" where
  "find_partner \<equiv> tbl_find PartnerID"

interpretation partners: rowid_table PartnerID set_partner_id P_ID
  by unfold_locales (simp_all add: set_partner_id_def)

definition Partner_Create ::
  "fault \<Rightarrow> time \<Rightarrow> partner option \<Rightarrow> partner_table \<Rightarrow> partner result \<times> partner_table" where
  "Partner_Create flt now arg t =
     (case arg of None \<Rightarrow> (Inl (Errorf ''partner cannot be nil''), t)
      | Some p0 \<Rightarrow>
        if PartnerID p0 = [] then (Inl (Errorf ''partner_id cannot be empty''), t)
        else if PName p0 = [] then (Inl (Errorf ''name cannot be empty''), t)
        else if JWKSUrl p0 = [] then (Inl (Errorf ''jwks_url cannot be empty''), t)
        else
          let p1 = (if is_zero_time (PCreatedAt p0) then p0\<lparr>PCreatedAt := now\<rparr> else p0);
              p2 = (if is_zero_time (PUpdatedAt p1) then p1\<lparr>PUpdatedAt := now\<rparr> else p1);
              err = (case flt of Some e \<Rightarrow> Some e
                     | None \<Rightarrow> if tbl_has PartnerID (PartnerID p2) t
                               then Some (unique_failed ''trading_partners.partner_id'') else None)
          in case err of Some e \<Rightarrow> (Inl (WrapErr ''failed to insert partner: '' (Errorf e)), t)
             | None \<Rightarrow> (Inr (set_partner_id (next_id t) p2), tbl_insert set_partner_id (to_row p2) t))"

definition Partner_GetByID :: "fault \<Rightarrow> string \<Rightarrow> partner_table \<Rightarrow> partner result" where
  "Partner_GetByID flt pid t =
     (if pid = [] then Inl (Errorf ''partner_id cannot be empty'')
      else case flt of Some e \<Rightarrow> Inl (WrapErr ''failed to get partner: '' (Errorf e))
      | None \<Rightarrow>
        (case find_partner pid t of None \<Rightarrow> Inl (Errorf (''partner not found: '' @ pid))
         | Some p \<Rightarrow> Inr p))"

text \<open>\<open>UPDATE ... SET name, jwks_url, message_endpoint, mdn_receipt_endpoint,
  public_key_jwks, last_key_refresh, updated_at\<close>: the id and the creation time stay.\<close>

definition overwrite :: "partner \<Rightarrow> partner \<Rightarrow> partner" where
  "overwrite p r = r\<lparr>PName := PName p, JWKSUrl := JWKSUrl p, MessageEndpoint := MessageEndpoint p,
     MDNReceiptEndpoint := MDNReceiptEndpoint p, PublicKeyJWKS := PublicKeyJWKS p,
     LastKeyRefresh := LastKeyRefresh p, PUpdatedAt := PUpdatedAt p\<rparr>"

definition Partner_Update ::
  "fault \<Rightarrow> time \<Rightarrow> partner option \<Rightarrow> partner_table \<Rightarrow> goerr option \<times> partner_table" where
  "Partner_Update flt now arg t =
     (case arg of None \<Rightarrow> (Some (Errorf ''partner cannot be nil''), t)
      | Some p0 \<Rightarrow>
        if PartnerID p0 = [] then (Some (Errorf ''partner_id cannot be empty''), t)
        else case flt of Some e \<Rightarrow> (Some (WrapErr ''failed to update partner: '' (Errorf e)), t)
        | None \<Rightarrow>
          let p = p0\<lparr>PUpdatedAt := now\<rparr>;
              t' = tbl_update (\<lambda>r. PartnerID r = PartnerID p) (overwrite p) t
          in if tbl_count (\<lambda>r. PartnerID r = PartnerID p) t = 0
             then (Some (Errorf (''partner not found: '' @ PartnerID p)), t') else (None, t'))"

definition Partner_Upsert ::
  "fault \<Rightarrow> time \<Rightarrow> partner option \<Rightarrow> partner_table \<Rightarrow> goerr option \<times> partner_table" where
  "Partner_Upsert flt now arg t =
     (case arg of None \<Rightarrow> (Some (Errorf ''partner cannot be nil''), t)
      | Some p0 \<Rightarrow>
        if PartnerID p0 = [] then (Some (Errorf ''partner_id cannot be empty''), t)
        else
          let p1 = (if is_zero_time (PCreatedAt p0) then p0\<lparr>PCreatedAt := now\<rparr> else p0);
              p = p1\<lparr>PUpdatedAt := now\<rparr>
          in case flt of Some e \<Rightarrow> (Some (WrapErr ''failed to upsert partner: '' (Errorf e)), t)
             | None \<Rightarrow>
               (None, if tbl_has PartnerID (PartnerID p) t
                      then tbl_update (\<lambda>r. PartnerID r = PartnerID p) (overwrite p) t
                      else tbl_insert set_partner_id (to_row p) t))"

definition Partner_Delete :: "fault \<Rightarrow> string \<Rightarrow> partner_table \<Rightarrow> goerr option \<times> partner_table" where
  "Partner_Delete flt pid t =
     (if pid = [] then (Some (Errorf ''partner_id cannot be empty''), t)
      else case flt of Some e \<Rightarrow> (Some (WrapErr ''failed to delete partner: '' (Errorf e)), t)
      | None \<Rightarrow>
        let t' = tbl_delete (\<lambda>r. PartnerID r = pid) t
        in if tbl_count (\<lambda>r. PartnerID r = pid) t = 0
           then (Some (Errorf (''partner not found: '' @ pid)), t') else (None, t'))"

definition Partner_DeleteByDBID :: "fault \<Rightarrow> int \<Rightarrow> partner_table \<Rightarrow> goerr option \<times> partner_table" where
  "Partner_DeleteByDBID flt i t =
     (case flt of Some e \<Rightarrow> (Some (WrapErr ''failed to delete partner: '' (Errorf e)), t)
      | None \<Rightarrow>
        let t' = tbl_delete (\<lambda>r. P_ID r = i) t
        in if tbl_count (\<lambda>r. P_ID r = i) t = 0
           then (Some (Errorf (''partner not found: id='' @ show_int i)), t') else (None, t'))"

text \<open>\<open>updated_at = CURRENT_TIMESTAMP\<close> is the database's clock.\<close>

definition Partner_UpdateNameByDBID ::
  "fault \<Rightarrow> time \<Rightarrow> int \<Rightarrow> string \<Rightarrow> partner_table \<Rightarrow> goerr option \<times> partner_table" where
  "Partner_UpdateNameByDBID flt now i name t =
     (if name = [] then (Some (Errorf ''name cannot be empty''), t)
      else case flt of Some e \<Rightarrow> (Some (WrapErr ''failed to update partner name: '' (Errorf e)), t)
      | None \<Rightarrow>
        let t' = tbl_update (\<lambda>r. P_ID r = i) (\<lambda>r. r\<lparr>PName := name, PUpdatedAt := now\<rparr>) t
        in if tbl_count (\<lambda>r. P_ID r = i) t = 0
           then (Some (Errorf (''partner not found: id='' @ show_int i)), t') else (None, t'))"

definition Partner_Count :: "fault \<Rightarrow> partner_table \<Rightarrow> nat result" where
  "Partner_Count flt t =
     (case flt of Some e \<Rightarrow> Inl (WrapErr ''failed to count partners: '' (Errorf e))
      | None \<Rightarrow> Inr (length (rows t)))"

definition Partner_List :: "fault \<Rightarrow> partner_table \<Rightarrow> partner list result" where
  "Partner_List flt t =
     (case flt of Some e \<Rightarrow> Inl (WrapErr ''failed to query partners: '' (Errorf e))
      | None \<Rightarrow> Inr (order_desc PCreatedAt (rows t)))"

section \<open>The table invariant\<close>

text \<open>Every stored row has an id and no capability list.\<close>

definition prow_ok :: "partner \<Rightarrow> bool" where
  "prow_ok p \<longleftrightarrow> PartnerID p \<noteq> [] \<and> SupportedEncAlgs p = []"

definition partners_ok :: "partner_table \<Rightarrow> bool" where
  "partners_ok t \<longleftrightarrow> table_ok PartnerID P_ID t \<and> list_all prow_ok (rows t)"

lemma partners_ok_empty: "partners_ok empty_table"
  by (simp add: partners_ok_def partners.table_ok_empty) (simp add: empty_table_def)

lemma overwrite_simps [simp]:
  "PartnerID (overwrite p r) = PartnerID r" "P_ID (overwrite p r) = P_ID r"
  "SupportedEncAlgs (overwrite p r) = SupportedEncAlgs r" "PCreatedAt (overwrite p r) = PCreatedAt r"
  "PName (overwrite p r) = PName p" "PublicKeyJWKS (overwrite p r) = PublicKeyJWKS p"
  "MessageEndpoint (overwrite p r) = MessageEndpoint p"
  "MDNReceiptEndpoint (overwrite p r) = MDNReceiptEndpoint p" "JWKSUrl (overwrite p r) = JWKSUrl p"
  by (simp_all add: overwrite_def)

lemma to_row_simps [simp]:
  "PartnerID (to_row p) = PartnerID p" "SupportedEncAlgs (to_row p) = []"
  by (simp_all add: to_row_def)

lemma partners_ok_insert:
  "partners_ok t \<Longrightarrow> PartnerID p \<noteq> [] \<Longrightarrow> find_partner (PartnerID p) t = None
    \<Longrightarrow> partners_ok (tbl_insert set_partner_id (to_row p) t)"
  using partners.table_ok_insert [of t "to_row p"]
  by (simp add: partners_ok_def row_simps prow_ok_def set_partner_id_def)

lemma partners_ok_tbl_update:
  assumes "partners_ok t" and "\<And>p. PartnerID (f p) = PartnerID p" and "\<And>p. P_ID (f p) = P_ID p"
    and "\<And>p. prow_ok (f p) = prow_ok p"
  shows "partners_ok (tbl_update P f t)"
  using assms partners.table_ok_update [of t f P] by (auto simp: partners_ok_def row_simps list_all_iff)

lemma partners_ok_tbl_delete: "partners_ok t \<Longrightarrow> partners_ok (tbl_delete P t)"
  using partners.table_ok_delete [of t P] by (auto simp: partners_ok_def row_simps list_all_iff)

lemma partners_ok_Create [inv_intros]: "partners_ok t \<Longrightarrow> partners_ok (snd (Partner_Create flt now arg t))"
  by (auto simp: Partner_Create_def Let_def tbl_has_find intro!: partners_ok_insert split: option.split)

lemma partners_ok_Update [inv_intros]: "partners_ok t \<Longrightarrow> partners_ok (snd (Partner_Update flt now arg t))"
  by (auto simp: Partner_Update_def Let_def prow_ok_def intro!: partners_ok_tbl_update split: option.split)

lemma partners_ok_Upsert [inv_intros]: "partners_ok t \<Longrightarrow> partners_ok (snd (Partner_Upsert flt now arg t))"
  by (auto simp: Partner_Upsert_def Let_def tbl_has_find prow_ok_def
      intro!: partners_ok_insert partners_ok_tbl_update split: option.split)

lemma partners_ok_Delete [inv_intros]: "partners_ok t \<Longrightarrow> partners_ok (snd (Partner_Delete flt pid t))"
  by (auto simp: Partner_Delete_def Let_def intro!: partners_ok_tbl_delete split: option.split)

lemma partners_ok_DeleteByDBID [inv_intros]:
  "partners_ok t \<Longrightarrow> partners_ok (snd (Partner_DeleteByDBID flt i t))"
  by (auto simp: Partner_DeleteByDBID_def Let_def intro!: partners_ok_tbl_delete split: option.split)

lemma partners_ok_UpdateName [inv_intros]:
  "partners_ok t \<Longrightarrow> partners_ok (snd (Partner_UpdateNameByDBID flt now i name t))"
  by (auto simp: Partner_UpdateNameByDBID_def Let_def prow_ok_def intro!: partners_ok_tbl_update
      split: option.split)

lemma Partner_GetByID_ok:
  "Partner_GetByID flt pid t = Inr p \<Longrightarrow> flt = None \<and> pid \<noteq> [] \<and> find_partner pid t = Some p"
  by (auto simp: Partner_GetByID_def split: if_splits option.splits)

lemma Partner_GetByID_capabilities:
  assumes "partners_ok t" and "Partner_GetByID flt pid t = Inr p"
  shows "SupportedEncAlgs p = []"
  using assms Partner_GetByID_ok [OF assms(2)]
  by (auto simp: partners_ok_def list_all_iff prow_ok_def dest: tbl_find_in)

lemma Partner_Upsert_find:
  assumes "PartnerID p \<noteq> []"
  shows "find_partner k (snd (Partner_Upsert None now (Some p) t)) =
    (if k = PartnerID p
     then Some (let q = p\<lparr>PCreatedAt := (if is_zero_time (PCreatedAt p) then now else PCreatedAt p),
                          PUpdatedAt := now\<rparr>
                in case find_partner k t of
                     Some r \<Rightarrow> overwrite q r
                   | None \<Rightarrow> set_partner_id (next_id t) (to_row q))
     else find_partner k t)"
proof -
  let ?q = "p\<lparr>PCreatedAt := (if is_zero_time (PCreatedAt p) then now else PCreatedAt p), PUpdatedAt := now\<rparr>"
  have q: "(if is_zero_time (PCreatedAt p) then p\<lparr>PCreatedAt := now\<rparr> else p)\<lparr>PUpdatedAt := now\<rparr> = ?q"
    by simp
  have t': "snd (Partner_Upsert None now (Some p) t) =
    (if find_partner (PartnerID p) t \<noteq> None
     then tbl_update (\<lambda>r. PartnerID r = PartnerID p) (overwrite ?q) t
     else tbl_insert set_partner_id (to_row ?q) t)"
    unfolding Partner_Upsert_def option.case Let_def q using assms by (simp add: tbl_has_find)
  show ?thesis
  proof (cases "find_partner (PartnerID p) t")
    case None
    then show ?thesis
      using partners.find_insert [of "to_row ?q" t k] by (simp add: t' Let_def)
  next
    case (Some r)
    then show ?thesis
      using partners.find_update [of "overwrite ?q" k "PartnerID p" t] by (simp add: t' Let_def)
  qed
qed

end
