(* ===== verification/UserRepo.thy ===== *)
theory UserRepo
  imports SqlTable
begin

text \<open>
  The \<open>users\<close> and \<open>sessions\<close> tables with \<open>internal/repository/user_repository.go\<close> and
  \<open>internal/repository/session_repository.go\<close>. The two tables are one state, because a
  session refers to a user: on a connection where \<open>PRAGMA foreign_keys\<close> is on (the
  argument \<open>fk\<close>) a session of an unknown user is refused and the deletion of a user
  deletes the user's sessions. \<open>OpenSQLite\<close> sets the pragma on one connection of the pool
  only, so both values of \<open>fk\<close> occur.
\<close>

record auth_db =
  users :: "user table"
  sessions :: "session table"

definition empty_auth_db :: auth_db where
  "empty_auth_db = \<lparr>users = empty_table, sessions = empty_table\<rparr>"

definition set_user_id :: "int \<Rightarrow> user \<Rightarrow> user" where
  "set_user_id i u = u\<lparr>U_ID := i\<rparr>"

definition set_session_rowid :: "int \<Rightarrow> session \<Rightarrow> session" where
  "set_session_rowid i s = s"

interpretation user_rows: rowid_table Username set_user_id U_ID
  by unfold_locales (simp_all add: set_user_id_def)

interpretation session_rows: keyed_table SessionID set_session_rowid
  by unfold_locales (simp add: set_session_rowid_def)

section \<open>Users\<close>

definition User_Create :: "fault \<Rightarrow> time \<Rightarrow> string \<Rightarrow> string \<Rightarrow> auth_db \<Rightarrow> user result \<times> auth_db" where
  "User_Create flt now username hash db =
     (if username = [] then (Inl (Errorf ''username cannot be empty''), db)
      else if hash = [] then (Inl (Errorf ''password hash cannot be empty''), db)
      else
        let u = \<lparr>U_ID = 0, Username = username, PasswordHash = hash, UCreatedAt = now\<rparr>;
            err = (case flt of Some e \<Rightarrow> Some e
                   | None \<Rightarrow> if tbl_has Username username (users db)
                             then Some (unique_failed ''users.username'') else None)
        in case err of Some e \<Rightarrow> (Inl (WrapErr ''failed to create user: '' (Errorf e)), db)
           | None \<Rightarrow>
             (Inr (set_user_id (next_id (users db)) u),
              db\<lparr>users := tbl_insert set_user_id u (users db)\<rparr>))"

definition User_GetByID :: "fault \<Rightarrow> int \<Rightarrow> auth_db \<Rightarrow> user result" where
  "User_GetByID flt i db =
     (case flt of Some e \<Rightarrow> Inl (WrapErr ''failed to get user: '' (Errorf e))
      | None \<Rightarrow>
        (case tbl_find U_ID i (users db) of
           None \<Rightarrow> Inl (Errorf (''user not found: '' @ show_int i)) | Some u \<Rightarrow> Inr u))"

definition User_GetByUsername :: "fault \<Rightarrow> string \<Rightarrow> auth_db \<Rightarrow> user result" where
  "User_GetByUsername flt username db =
     (if username = [] then Inl (Errorf ''username cannot be empty'')
      else case flt of Some e \<Rightarrow> Inl (WrapErr ''failed to get user: '' (Errorf e))
      | None \<Rightarrow>
        (case tbl_find Username username (users db) of
           None \<Rightarrow> Inl (Errorf (''user not found: '' @ username)) | Some u \<Rightarrow> Inr u))"

definition User_List :: "fault \<Rightarrow> auth_db \<Rightarrow> user list result" where
  "User_List flt db =
     (case flt of Some e \<Rightarrow> Inl (WrapErr ''failed to query users: '' (Errorf e))
      | None \<Rightarrow> Inr (order_desc UCreatedAt (rows (users db))))"

definition User_Delete :: "bool \<Rightarrow> fault \<Rightarrow> int \<Rightarrow> auth_db \<Rightarrow> goerr option \<times> auth_db" where
  "User_Delete fk flt i db =
     (case flt of Some e \<Rightarrow> (Some (WrapErr ''failed to delete user: '' (Errorf e)), db)
      | None \<Rightarrow>
        if tbl_count (\<lambda>u. U_ID u = i) (users db) = 0
        then (Some (Errorf (''user not found: '' @ show_int i)), db)
        else (None,
              db\<lparr>users := tbl_delete (\<lambda>u. U_ID u = i) (users db),
                 sessions := (if fk then tbl_delete (\<lambda>s. UserID s = i) (sessions db) else sessions db)\<rparr>))"

definition User_UpdatePassword :: "fault \<Rightarrow> int \<Rightarrow> string \<Rightarrow> auth_db \<Rightarrow> goerr option \<times> auth_db" where
  "User_UpdatePassword flt i hash db =
     (if hash = [] then (Some (Errorf ''password hash cannot be empty''), db)
      else case flt of Some e \<Rightarrow> (Some (WrapErr ''failed to update password: '' (Errorf e)), db)
      | None \<Rightarrow>
        let db' = db\<lparr>users := tbl_update (\<lambda>u. U_ID u = i) (\<lambda>u. u\<lparr>PasswordHash := hash\<rparr>) (users db)\<rparr>
        in if tbl_count (\<lambda>u. U_ID u = i) (users db) = 0
           then (Some (Errorf (''user not found: '' @ show_int i)), db') else (None, db'))"

section \<open>Sessions\<close>

definition foreign_key_failed :: string where
  "foreign_key_failed = ''constraint failed: FOREIGN KEY constraint failed (787)''"

definition Session_Create ::
  "bool \<Rightarrow> fault \<Rightarrow> time \<Rightarrow> session option \<Rightarrow> auth_db \<Rightarrow> goerr option \<times> auth_db" where
  "Session_Create fk flt now arg db =
     (case arg of None \<Rightarrow> (Some (Errorf ''session cannot be nil''), db)
      | Some s0 \<Rightarrow>
        if SessionID s0 = [] then (Some (Errorf ''session_id cannot be empty''), db)
        else
          let s = (if is_zero_time (SCreatedAt s0) then s0\<lparr>SCreatedAt := now\<rparr> else s0);
              err = (case flt of Some e \<Rightarrow> Some e
                     | None \<Rightarrow>
                       if tbl_has SessionID (SessionID s) (sessions db)
                       then Some (unique_failed ''sessions.session_id'')
                       else if fk \<and> \<not> tbl_has U_ID (UserID s) (users db)
                       then Some foreign_key_failed else None)
          in case err of Some e \<Rightarrow> (Some (WrapErr ''failed to create session: '' (Errorf e)), db)
             | None \<Rightarrow> (None, db\<lparr>sessions := tbl_insert set_session_rowid s (sessions db)\<rparr>))"

definition Session_GetByID :: "fault \<Rightarrow> string \<Rightarrow> auth_db \<Rightarrow> session result" where
  "Session_GetByID flt sid db =
     (if sid = [] then Inl (Errorf ''session_id cannot be empty'')
      else case flt of Some e \<Rightarrow> Inl (WrapErr ''failed to get session: '' (Errorf e))
      | None \<Rightarrow>
        (case tbl_find SessionID sid (sessions db) of
           None \<Rightarrow> Inl (Errorf (''session not found: '' @ sid)) | Some s \<Rightarrow> Inr s))"

definition Session_Delete :: "fault \<Rightarrow> string \<Rightarrow> auth_db \<Rightarrow> goerr option \<times> auth_db" where
  "Session_Delete flt sid db =
     (if sid = [] then (Some (Errorf ''session_id cannot be empty''), db)
      else case flt of Some e \<Rightarrow> (Some (WrapErr ''failed to delete session: '' (Errorf e)), db)
      | None \<Rightarrow>
        let db' = db\<lparr>sessions := tbl_delete (\<lambda>s. SessionID s = sid) (sessions db)\<rparr>
        in if tbl_count (\<lambda>s. SessionID s = sid) (sessions db) = 0
           then (Some (Errorf (''session not found: '' @ sid)), db') else (None, db'))"

definition Session_DeleteByUserID :: "fault \<Rightarrow> int \<Rightarrow> auth_db \<Rightarrow> goerr option \<times> auth_db" where
  "Session_DeleteByUserID flt i db =
     (case flt of Some e \<Rightarrow> (Some (WrapErr ''failed to delete sessions by user_id: '' (Errorf e)), db)
      | None \<Rightarrow> (None, db\<lparr>sessions := tbl_delete (\<lambda>s. UserID s = i) (sessions db)\<rparr>))"

definition Session_DeleteExpired :: "fault \<Rightarrow> time \<Rightarrow> auth_db \<Rightarrow> goerr option \<times> auth_db" where
  "Session_DeleteExpired flt now db =
     (case flt of Some e \<Rightarrow> (Some (WrapErr ''failed to delete expired sessions: '' (Errorf e)), db)
      | None \<Rightarrow> (None, db\<lparr>sessions := tbl_delete (\<lambda>s. ExpiresAt s < now) (sessions db)\<rparr>))"

section \<open>The invariant of the two tables\<close>

definition auth_ok :: "auth_db \<Rightarrow> bool" where
  "auth_ok db \<longleftrightarrow>
     table_ok Username U_ID (users db)
     \<and> distinct (map SessionID (rows (sessions db)))
     \<and> list_all (\<lambda>u. Username u \<noteq> [] \<and> PasswordHash u \<noteq> []) (rows (users db))
     \<and> list_all (\<lambda>s. SessionID s \<noteq> []) (rows (sessions db))"

text \<open>Every session belongs to a user: kept only where the foreign key is enforced.\<close>

definition no_dangling :: "auth_db \<Rightarrow> bool" where
  "no_dangling db \<longleftrightarrow> (\<forall>s \<in> set (rows (sessions db)). tbl_has U_ID (UserID s) (users db))"

lemma auth_ok_empty: "auth_ok empty_auth_db"
  by (simp add: auth_ok_def empty_auth_db_def user_rows.table_ok_empty) (simp add: empty_table_def)

lemma auth_ok_users:
  "auth_ok db \<Longrightarrow> table_ok Username U_ID t \<Longrightarrow>
    list_all (\<lambda>u. Username u \<noteq> [] \<and> PasswordHash u \<noteq> []) (rows t) \<Longrightarrow> auth_ok (db\<lparr>users := t\<rparr>)"
  by (simp add: auth_ok_def)

lemma auth_ok_sessions_delete:
  "auth_ok db \<Longrightarrow> auth_ok (db\<lparr>sessions := tbl_delete P (sessions db)\<rparr>)"
  using session_rows.distinct_delete [of "sessions db" P]
  by (auto simp: auth_ok_def row_simps list_all_iff)

lemma auth_ok_users_delete: "auth_ok db \<Longrightarrow> auth_ok (db\<lparr>users := tbl_delete P (users db)\<rparr>)"
  using user_rows.table_ok_delete [of "users db" P]
  by (auto simp: auth_ok_def row_simps list_all_iff)

lemma auth_ok_User_Create [inv_intros]: "auth_ok db \<Longrightarrow> auth_ok (snd (User_Create flt now n h db))"
  by (auto simp: User_Create_def Let_def tbl_has_find auth_ok_def row_simps set_user_id_def
      intro!: user_rows.table_ok_insert split: option.split)

lemma auth_ok_User_Delete [inv_intros]:
  assumes "auth_ok db"
  shows "auth_ok (snd (User_Delete fk flt i db))"
proof -
  let ?du = "db\<lparr>users := tbl_delete (\<lambda>u. U_ID u = i) (users db)\<rparr>"
  have "auth_ok ?du" using assms by (rule auth_ok_users_delete)
  moreover from this have "auth_ok (?du\<lparr>sessions := tbl_delete (\<lambda>s. UserID s = i) (sessions ?du)\<rparr>)"
    by (rule auth_ok_sessions_delete)
  ultimately show ?thesis
    using assms by (auto simp: User_Delete_def auth_ok_def split: option.split)
qed

lemma auth_ok_User_UpdatePassword [inv_intros]:
  assumes "auth_ok db"
  shows "auth_ok (snd (User_UpdatePassword flt i h db))"
proof -
  have "auth_ok (db\<lparr>users := tbl_update (\<lambda>u. U_ID u = i) (\<lambda>u. u\<lparr>PasswordHash := h\<rparr>) (users db)\<rparr>)"
    if "h \<noteq> []"
    using assms that user_rows.table_ok_update [of "users db" "\<lambda>u. u\<lparr>PasswordHash := h\<rparr>"]
    by (auto simp: auth_ok_def row_simps list_all_iff)
  with assms show ?thesis by (auto simp: User_UpdatePassword_def Let_def split: option.split)
qed

lemma auth_ok_Session_Create [inv_intros]:
  assumes "auth_ok db"
  shows "auth_ok (snd (Session_Create fk flt now arg db))"
proof -
  have ins: "auth_ok (db\<lparr>sessions := tbl_insert set_session_rowid s (sessions db)\<rparr>)"
    if "SessionID s \<noteq> []" and "tbl_find SessionID (SessionID s) (sessions db) = None" for s
    using assms that session_rows.distinct_insert [of "sessions db" s]
    by (simp add: auth_ok_def row_simps set_session_rowid_def)
  with assms show ?thesis
    by (auto simp: Session_Create_def Let_def tbl_has_find intro!: ins split: option.split)
qed

lemma auth_ok_Session_Delete [inv_intros]: "auth_ok db \<Longrightarrow> auth_ok (snd (Session_Delete flt sid db))"
  by (auto simp: Session_Delete_def Let_def intro!: auth_ok_sessions_delete split: option.split)

lemma auth_ok_Session_DeleteByUserID [inv_intros]:
  "auth_ok db \<Longrightarrow> auth_ok (snd (Session_DeleteByUserID flt i db))"
  by (auto simp: Session_DeleteByUserID_def intro!: auth_ok_sessions_delete split: option.split)

lemma auth_ok_Session_DeleteExpired [inv_intros]:
  "auth_ok db \<Longrightarrow> auth_ok (snd (Session_DeleteExpired flt now db))"
  by (auto simp: Session_DeleteExpired_def intro!: auth_ok_sessions_delete split: option.split)

lemma User_GetByID_ok: "User_GetByID flt i db = Inr u \<Longrightarrow> flt = None \<and> tbl_find U_ID i (users db) = Some u"
  by (auto simp: User_GetByID_def split: option.splits)

lemma Session_GetByID_ok:
  "Session_GetByID flt sid db = Inr s \<Longrightarrow>
    flt = None \<and> sid \<noteq> [] \<and> tbl_find SessionID sid (sessions db) = Some s"
  by (auto simp: Session_GetByID_def split: if_splits option.splits)

lemma tbl_has_delete_other:
  "tbl_has U_ID j (tbl_delete (\<lambda>u. U_ID u = i) t) \<longleftrightarrow> j \<noteq> i \<and> tbl_has U_ID j t"
  by (auto simp: tbl_has_def row_simps list_ex_iff)

text \<open>Where foreign keys are enforced, deleting a user leaves no session behind.\<close>

lemma no_dangling_User_Delete:
  assumes "no_dangling db"
  shows "no_dangling (snd (User_Delete True flt i db))"
  using assms
  by (auto simp: User_Delete_def no_dangling_def row_simps tbl_has_delete_other split: option.split)

lemma no_dangling_Session_Create:
  assumes "no_dangling db"
  shows "no_dangling (snd (Session_Create True flt now arg db))"
  using assms
  by (auto simp: Session_Create_def Let_def no_dangling_def row_simps set_session_rowid_def
      split: option.split)

end
