(* ===== verification/NetIP.thy ===== *)
theory NetIP
  imports Prelude
begin

text \<open>
  The part of package \<open>net\<close> behind the IP allowlist: \<open>net.ParseIP\<close>, \<open>net.ParseCIDR\<close>,
  \<open>IPNet.Contains\<close>, \<open>IP.Equal\<close> and \<open>net.SplitHostPort\<close>. An address is its sixteen bytes
  (an IPv4 address in the mapped form ::ffff:a.b.c.d), as a parsed \<open>net.IP\<close> holds it.
\<close>

type_synonym ip = "nat list"

section \<open>Addresses\<close>

text \<open>Four decimal fields of at most 255, without leading zeros, separated by dots.\<close>

definition v4_field :: "string \<Rightarrow> nat option" where
  "v4_field f =
     (if f = [] \<or> \<not> list_all is_digit f \<or> (1 < length f \<and> hd f = CHR ''0'') \<or> 255 < digits_val f
      then None else Some (digits_val f))"

definition parse_v4 :: "string \<Rightarrow> nat list option" where
  "parse_v4 s =
     (case map v4_field (split_on (CHR ''.'') s) of
        [Some a, Some b, Some c, Some d] \<Rightarrow> Some [a, b, c, d] | _ \<Rightarrow> None)"

definition hex_digit_val :: "char \<Rightarrow> nat option" where
  "hex_digit_val c =
     (let n = (of_char c :: nat) in
      if 48 \<le> n \<and> n \<le> 57 then Some (n - 48) else if 97 \<le> n \<and> n \<le> 102 then Some (n - 87)
      else if 65 \<le> n \<and> n \<le> 70 then Some (n - 55) else None)"

definition hex_val_of :: "string \<Rightarrow> nat" where
  "hex_val_of s = foldl (\<lambda>n c. 16 * n + the (hex_digit_val c)) 0 s"

text \<open>
  The loop of \<open>netip.parseIPv6\<close> over the colon-separated groups: \<open>ip\<close> are the bytes so far,
  \<open>ell\<close> the position of the ellipsis. The result is the bytes, the position and what is left.
\<close>

function v6_loop :: "string \<Rightarrow> nat list \<Rightarrow> nat option \<Rightarrow> (nat list \<times> nat option \<times> string) option" where
  "v6_loop s bs ell =
     (if 16 \<le> length bs then Some (bs, ell, s)
      else
        let grp = takeWhile (\<lambda>c. hex_digit_val c \<noteq> None) s; rest = drop (length grp) s in
        if grp = [] \<or> 4 < length grp then None
        else if rest \<noteq> [] \<and> hd rest = CHR ''.'' then
          (if (ell = None \<and> length bs \<noteq> 12) \<or> 16 < length bs + 4 then None
           else case parse_v4 s of None \<Rightarrow> None | Some q \<Rightarrow> Some (bs @ q, ell, []))
        else
          let v = hex_val_of grp; bs' = bs @ [v div 256, v mod 256] in
          (case rest of [] \<Rightarrow> Some (bs', ell, [])
           | c # more \<Rightarrow>
             if c \<noteq> CHR '':'' \<or> more = [] then None
             else if hd more = CHR '':'' then
               (if ell \<noteq> None then None
                else if tl more = [] then Some (bs', Some (length bs'), [])
                else v6_loop (tl more) bs' (Some (length bs')))
             else v6_loop more bs' ell))"
  by pat_completeness auto
termination by (relation "measure (\<lambda>(s, bs, ell). 16 - length bs)") auto

definition v6_finish :: "(nat list \<times> nat option \<times> string) option \<Rightarrow> nat list option" where
  "v6_finish r =
     (case r of None \<Rightarrow> None
      | Some (bs, ell, rest) \<Rightarrow>
        if rest \<noteq> [] then None
        else if length bs < 16 then
          (case ell of None \<Rightarrow> None
           | Some e \<Rightarrow> Some (take e bs @ replicate (16 - length bs) 0 @ drop e bs))
        else if ell \<noteq> None then None else Some bs)"

definition parse_v6 :: "string \<Rightarrow> nat list option" where
  "parse_v6 s =
     (if CHR 0x25 \<in> set s then None
      else if take 2 s = ''::'' then
        (if drop 2 s = [] then Some (replicate 16 0) else v6_finish (v6_loop (drop 2 s) [] (Some 0)))
      else v6_finish (v6_loop s [] None))"

definition mapped_prefix :: "nat list" where
  "mapped_prefix = replicate 10 0 @ [255, 255]"

text \<open>\<open>netip.ParseAddr\<close>: the first dot, colon or percent sign decides the family. The flag
  is \<open>True\<close> for an IPv4 text. A zone makes \<open>net.ParseIP\<close> fail.\<close>

definition parse_addr :: "string \<Rightarrow> (bool \<times> ip) option" where
  "parse_addr s =
     (case dropWhile (\<lambda>c. c \<noteq> CHR ''.'' \<and> c \<noteq> CHR '':'' \<and> c \<noteq> CHR 0x25) s of
        [] \<Rightarrow> None
      | c # _ \<Rightarrow>
        if c = CHR ''.'' then map_option (\<lambda>q. (True, mapped_prefix @ q)) (parse_v4 s)
        else if c = CHR '':'' then map_option (\<lambda>q. (False, q)) (parse_v6 s)
        else None)"

definition ParseIP :: "string \<Rightarrow> ip option" where
  "ParseIP s = map_option snd (parse_addr s)"

definition To4 :: "ip \<Rightarrow> nat list option" where
  "To4 p = (if take 12 p = mapped_prefix then Some (drop 12 p) else None)"

section \<open>Networks\<close>

text \<open>\<open>CIDRMask\<close>, and the bytewise conjunction with a mask.\<close>

definition mask_byte :: "nat \<Rightarrow> nat" where
  "mask_byte k = (if 8 \<le> k then 255 else 256 - 2 ^ (8 - k))"

definition cidr_mask :: "nat \<Rightarrow> nat \<Rightarrow> nat list" where
  "cidr_mask ones len = map (\<lambda>i. mask_byte (ones - 8 * i)) [0..<len]"

definition and_byte :: "nat \<Rightarrow> nat \<Rightarrow> nat" where
  "and_byte a b = unat (Bit_Operations.and (word_of_nat a :: 8 word) (word_of_nat b))"

record ip_net =
  net_ip :: "nat list"
  net_mask :: "nat list"

definition ParseCIDR :: "string \<Rightarrow> ip_net option" where
  "ParseCIDR s =
     (let addr = takeWhile (\<lambda>c. c \<noteq> CHR ''/'') s; rest = dropWhile (\<lambda>c. c \<noteq> CHR ''/'') s in
      case rest of [] \<Rightarrow> None
      | _ # bits \<Rightarrow>
        (case parse_addr addr of None \<Rightarrow> None
         | Some (v4, p) \<Rightarrow>
           if bits = [] \<or> \<not> list_all is_digit bits \<or> (if v4 then 32 else 128) < digits_val bits then None
           else let len = (if v4 then 4 else 16); m = cidr_mask (digits_val bits) len;
                    q = (if v4 then drop 12 p else p)
                in Some \<lparr>net_ip = map2 and_byte q m, net_mask = m\<rparr>))"

text \<open>\<open>IPNet.Contains\<close> compares in four bytes whenever both sides have such a form.\<close>

definition net_Contains :: "ip_net \<Rightarrow> ip \<Rightarrow> bool" where
  "net_Contains n p =
     (let (nn, m) = (if length (net_ip n) = 4 then (net_ip n, net_mask n)
            else case To4 (net_ip n) of
              Some q \<Rightarrow> (q, if length (net_mask n) = 16 then drop 12 (net_mask n) else net_mask n)
            | None \<Rightarrow> (net_ip n, net_mask n));
          x = (case To4 p of Some q \<Rightarrow> q | None \<Rightarrow> p)
      in length x = length nn \<and> map2 and_byte nn m = map2 and_byte x m)"

section \<open>Host and port\<close>

text \<open>\<open>net.SplitHostPort\<close>: the host before the last colon; a host in brackets loses them; too
  many colons, or stray brackets, are errors.\<close>

definition last_colon :: "string \<Rightarrow> nat option" where
  "last_colon s =
     (if CHR '':'' \<in> set s then Some (length s - 1 - length (takeWhile (\<lambda>c. c \<noteq> CHR '':'') (rev s))) else None)"

definition SplitHost :: "string \<Rightarrow> string option" where
  "SplitHost s =
     (case last_colon s of None \<Rightarrow> None
      | Some i \<Rightarrow>
        if s \<noteq> [] \<and> hd s = CHR ''['' then
          (let e = length (takeWhile (\<lambda>c. c \<noteq> CHR '']'') s) in
           if e = length s \<or> e + 1 \<noteq> i then None
           else if CHR ''['' \<in> set (drop 1 s) \<or> CHR '']'' \<in> set (drop (e + 1) s) then None
           else Some (drop 1 (take e s)))
        else if CHR '':'' \<in> set (take i s) \<or> CHR ''['' \<in> set s \<or> CHR '']'' \<in> set s then None
        else Some (take i s))"

end
