(* ===== verification/ApiCore.thy ===== *)
theory ApiCore
  imports Config Crypto MessageRepo PartnerRepo UserRepo NetIP
begin

text \<open>
  What the HTTP handlers of \<open>internal/api\<close> share: the request they see, the dependencies of
  \<open>Handlers\<close>, the request types with their validation (\<open>types.go\<close>), the responses
  (\<open>response.go\<close>), the request id and user of a context (\<open>context.go\<close>), and the middleware of
  the internal router (\<open>middleware.go\<close>): the IP allowlist and the API key.
\<close>

section \<open>Requests\<close>

record request =
  rq_method :: string
  rq_path :: string
  rq_remote :: string \<comment> \<open>\<open>RemoteAddr\<close>\<close>
  rq_host :: string
  rq_tls :: bool
  rq_headers :: "(string \<times> string) list"
  rq_cookies :: "(string \<times> string) list"
  rq_query :: "(string \<times> string) list"
  rq_param :: string \<comment> \<open>the \<open>{id}\<close> of the route\<close>
  rq_body :: "string + string" \<comment> \<open>the error of reading it, or the bytes\<close>
  rq_user :: "user option" \<comment> \<open>\<open>UserContextKey\<close>\<close>
  rq_request_id :: "string option" \<comment> \<open>\<open>RequestIDKey\<close>\<close>

text \<open>\<open>Header.Get\<close> ignores the case of the name; a missing header is the empty string.\<close>

definition header_get :: "request \<Rightarrow> string \<Rightarrow> string" where
  "header_get r name =
     (case List.find (\<lambda>(k, v). to_lower k = to_lower name) (rq_headers r) of None \<Rightarrow> [] | Some (k, v) \<Rightarrow> v)"

definition cookie_get :: "request \<Rightarrow> string \<Rightarrow> string option" where
  "cookie_get r name = map_of (rq_cookies r) name"

text \<open>\<open>json.NewDecoder(r.Body).Decode\<close> on a body that may fail to be read: the value, if there is one.\<close>

definition body_json :: "request \<Rightarrow> json option" where
  "body_json r = (case rq_body r of Inl e \<Rightarrow> None | Inr b \<Rightarrow> decode_json b)"

definition body_error :: "libs \<Rightarrow> request \<Rightarrow> string" where
  "body_error L r = (case rq_body r of Inl e \<Rightarrow> e | Inr b \<Rightarrow> json_error L b)"

definition getBaseURL :: "request \<Rightarrow> string" where
  "getBaseURL r =
     (let scheme0 = (if rq_tls r then ''https'' else ''http'');
          proto = header_get r ''X-Forwarded-Proto'';
          scheme = (if proto \<noteq> [] then proto else scheme0);
          fwd = header_get r ''X-Forwarded-Host'';
          host = (if fwd \<noteq> [] then fwd else rq_host r)
      in scheme @ ''://'' @ host)"

section \<open>The dependencies of the handlers\<close>

record handlers =
  h_config :: "config option"
  h_crypto :: "as5_engine option"
  h_has_discovery :: bool
  h_has_hub :: bool

section \<open>Responses\<close>

definition respondWithError :: "nat \<Rightarrow> string \<Rightarrow> string option \<Rightarrow> response" where
  "respondWithError code message err =
     json_response code (JObj ([(''error'', JStr message)]
       @ opt_str ''message'' (case err of None \<Rightarrow> [] | Some e \<Rightarrow> e)))"

definition respondWithJSON :: "nat \<Rightarrow> json \<Rightarrow> response" where
  "respondWithJSON code payload = json_response code payload"

definition respondWithJSONError :: "nat \<Rightarrow> string \<Rightarrow> response" where
  "respondWithJSONError code message =
     json_response code (JObj [(''message'', JStr message), (''success'', JBool False)])"

text \<open>\<open>http.Error\<close>.\<close>

definition http_error :: "nat \<Rightarrow> string \<Rightarrow> response" where
  "http_error code msg = \<lparr>r_code = code,
     r_headers = [(''Content-Type'', ''text/plain; charset=utf-8''), (''X-Content-Type-Options'', ''nosniff'')],
     r_body = msg @ [CHR 0x0A]\<rparr>"

text \<open>\<open>http.Redirect\<close>: the HTML link is written for a GET only. \<open>http.SetCookie\<close> adds a header to
  those of the response that follows.\<close>

definition http_redirect :: "request \<Rightarrow> string \<Rightarrow> nat \<Rightarrow> string \<Rightarrow> response" where
  "http_redirect r url code text =
     \<lparr>r_code = code,
      r_headers = (''Location'', url) # (if rq_method r = ''GET'' \<or> rq_method r = ''HEAD''
        then [(''Content-Type'', ''text/html; charset=utf-8'')] else []),
      r_body = (if rq_method r = ''GET''
        then ''<a href='' @ [CHR 0x22] @ url @ [CHR 0x22] @ ''>'' @ text @ ''</a>.'' @ [CHR 0x0A, CHR 0x0A] else [])\<rparr>"

definition add_header :: "string \<Rightarrow> string \<Rightarrow> response \<Rightarrow> response" where
  "add_header k v resp = resp\<lparr>r_headers := (k, v) # r_headers resp\<rparr>"

lemma add_header_simps [simp]:
  "r_code (add_header k v resp) = r_code resp" "r_body (add_header k v resp) = r_body resp"
  "r_code (http_redirect r u c t) = c"
  by (simp_all add: add_header_def http_redirect_def)

text \<open>The envelope \<open>JSONResponse\<close>: nil data and a nil error are left out.\<close>

definition RespondJSON :: "nat \<Rightarrow> json option \<Rightarrow> response" where
  "RespondJSON code data =
     json_response code (JObj ([(''success'', JBool (200 \<le> code \<and> code < 300))]
       @ (case data of None \<Rightarrow> [] | Some d \<Rightarrow> [(''data'', d)])))"

definition RespondSuccess :: "json option \<Rightarrow> response" where "RespondSuccess d = RespondJSON 200 d"
definition RespondCreated :: "json option \<Rightarrow> response" where "RespondCreated d = RespondJSON 201 d"
definition RespondNoContent :: response where "RespondNoContent = empty_response 204"

definition error_info :: "goerr \<Rightarrow> json" where
  "error_info e =
     (case e of AppErr c m d s w rt \<Rightarrow>
        JObj ([(''code'', JStr (code_text c)), (''message'', JStr m)]
          @ (if d = [] then [] else [(''details'', JObj d)]) @ [(''retryable'', JBool rt)])
      | _ \<Rightarrow> JNull)"

definition RespondAppError :: "goerr \<Rightarrow> response" where
  "RespondAppError e =
     json_response (GetStatusCode e) (JObj [(''success'', JBool False), (''error'', error_info e)])"

definition RespondError :: "goerr \<Rightarrow> response" where
  "RespondError e =
     (if IsAppError e then RespondAppError e
      else RespondAppError (InternalWrap e ''An unexpected error occurred''))"

definition RespondBadRequest :: "string \<Rightarrow> response" where
  "RespondBadRequest m = RespondAppError (BadRequest m)"
definition RespondUnauthorized :: "string \<Rightarrow> response" where
  "RespondUnauthorized m = RespondAppError (Unauthorized m)"
definition RespondForbidden :: "string \<Rightarrow> response" where
  "RespondForbidden m = RespondAppError (Forbidden m)"
definition RespondNotFound :: "string \<Rightarrow> string \<Rightarrow> response" where
  "RespondNotFound r i = RespondAppError (NotFound r i)"
definition RespondInternalError :: "goerr \<Rightarrow> string \<Rightarrow> response" where
  "RespondInternalError e m = RespondAppError (InternalWrap e m)"

lemma respond_codes [simp]:
  "r_code (respondWithError c m x) = c" "r_code (respondWithJSON c v) = c"
  "r_code (respondWithJSONError c m) = c" "r_code (http_error c m) = c" "r_code (RespondJSON c d) = c"
  "r_code (RespondAppError e) = GetStatusCode e"
  by (simp_all add: respondWithError_def respondWithJSON_def respondWithJSONError_def http_error_def
      RespondJSON_def RespondAppError_def)

section \<open>Request types and their validation\<close>

record transmit_request =
  T_DestinationPartnerID :: string
  T_DocumentType :: string
  T_ReceiptWebhook :: string
  T_Payload :: "(string \<times> json) list" \<comment> \<open>the map, keys sorted\<close>

definition validateTransmitRequest :: "transmit_request option \<Rightarrow> string option" where
  "validateTransmitRequest arg =
     (case arg of None \<Rightarrow> Some ''request cannot be nil''
      | Some req \<Rightarrow>
        if T_DestinationPartnerID req = [] then Some ''destination_partner_id is required''
        else if T_DocumentType req = [] then Some ''document_type is required''
        else if T_Payload req = [] then Some ''payload is required and cannot be empty''
        else None)"

definition validateFidexEnvelope :: "fidex_envelope option \<Rightarrow> string option" where
  "validateFidexEnvelope arg =
     (case arg of None \<Rightarrow> Some ''envelope cannot be nil''
      | Some e \<Rightarrow>
        if FidexVersion (Routing e) = [] then Some ''routing_header.fidex_version is required''
        else if RMessageID (Routing e) = [] then Some ''routing_header.message_id is required''
        else if SenderID (Routing e) = [] then Some ''routing_header.sender_id is required''
        else if ReceiverID (Routing e) = [] then Some ''routing_header.receiver_id is required''
        else if EncPayload e = [] then Some ''encrypted_payload is required''
        else None)"

definition validateJmdnEnvelope :: "fidex_envelope option \<Rightarrow> string option" where
  "validateJmdnEnvelope arg =
     (case arg of None \<Rightarrow> Some ''envelope cannot be nil''
      | Some e \<Rightarrow>
        if RMessageID (Routing e) = [] then Some ''routing_header.message_id is required''
        else if EncPayload e = [] then Some ''encrypted_payload is required''
        else None)"

text \<open>\<open>json.Unmarshal\<close> into the envelope struct: the fields that could be stored, and whether a
  type error was met.\<close>

definition envelope_fields :: "json \<Rightarrow> fidex_envelope \<times> bool" where
  "envelope_fields v =
     (let (ms, b0) = obj_members v; (rm, b1) = dec_obj ''routing_header'' ms;
          (pl, b2) = dec_str ''encrypted_payload'' ms;
          (fv, b3) = dec_str ''fidex_version'' rm; (mi, b4) = dec_str ''message_id'' rm;
          (si, b5) = dec_str ''sender_id'' rm; (ri, b6) = dec_str ''receiver_id'' rm;
          (dt, b7) = dec_str ''document_type'' rm; (ts, b8) = dec_str ''timestamp'' rm;
          (wh, b9) = dec_str ''receipt_webhook'' rm
      in (\<lparr>Routing = \<lparr>FidexVersion = fv, RMessageID = mi, SenderID = si, ReceiverID = ri, DocumentType = dt,
            Timestamp = ts, ReceiptWebhook = wh\<rparr>, EncPayload = pl\<rparr>,
          b0 \<or> b1 \<or> b2 \<or> b3 \<or> b4 \<or> b5 \<or> b6 \<or> b7 \<or> b8 \<or> b9))"

definition decode_envelope :: "json option \<Rightarrow> fidex_envelope option" where
  "decode_envelope p =
     (case p of None \<Rightarrow> None
      | Some v \<Rightarrow> if snd (envelope_fields v) then None else Some (fst (envelope_fields v)))"

text \<open>The same struct printed by this package: here \<open>timestamp\<close> is left out when empty too.\<close>

definition api_envelope_json :: "fidex_envelope \<Rightarrow> json" where
  "api_envelope_json e = JObj
     [(''routing_header'', JObj
        ([(''fidex_version'', JStr (FidexVersion (Routing e))), (''message_id'', JStr (RMessageID (Routing e))),
          (''sender_id'', JStr (SenderID (Routing e))), (''receiver_id'', JStr (ReceiverID (Routing e)))]
         @ opt_str ''document_type'' (DocumentType (Routing e)) @ opt_str ''timestamp'' (Timestamp (Routing e))
         @ opt_str ''receipt_webhook'' (ReceiptWebhook (Routing e)))),
      (''encrypted_payload'', JStr (EncPayload e))]"

section \<open>Context values\<close>

definition RequestIDMiddleware :: "string \<Rightarrow> request \<Rightarrow> request \<times> (string \<times> string)" where
  "RequestIDMiddleware fresh r =
     (let h = header_get r ''X-Request-ID''; i = (if h = [] then fresh else h)
      in (r\<lparr>rq_request_id := Some i\<rparr>, (''X-Request-ID'', i)))"

definition GetRequestID :: "request \<Rightarrow> string" where
  "GetRequestID r = (case rq_request_id r of Some i \<Rightarrow> i | None \<Rightarrow> ''unknown'')"

text \<open>The user id is put into the context only together with the user, by the authentication
  middleware.\<close>

definition GetUserID :: "request \<Rightarrow> int" where
  "GetUserID r = (case rq_user r of Some u \<Rightarrow> U_ID u | None \<Rightarrow> 0)"

section \<open>The IP allowlist\<close>

definition getClientIP :: "request \<Rightarrow> string" where
  "getClientIP r =
     (let forwarded = header_get r ''X-Forwarded-For'' in
      if forwarded \<noteq> [] then trim_space (hd (split_on (CHR '','') forwarded))
      else
        let realIP = header_get r ''X-Real-IP'' in
        if realIP \<noteq> [] then realIP
        else (case SplitHost (rq_remote r) of None \<Rightarrow> rq_remote r | Some ip \<Rightarrow> ip))"

definition allows :: "ip \<Rightarrow> string \<Rightarrow> bool" where
  "allows client entry =
     (if contains_sub entry ''/''
      then (case ParseCIDR entry of None \<Rightarrow> False | Some n \<Rightarrow> net_Contains n client)
      else (case ParseIP entry of None \<Rightarrow> False | Some p \<Rightarrow> client = p))"

definition isIPAllowed :: "string \<Rightarrow> string list \<Rightarrow> bool" where
  "isIPAllowed clientIP allowedIPs =
     (case ParseIP clientIP of None \<Rightarrow> False | Some p \<Rightarrow> list_ex (allows p) allowedIPs)"

text \<open>A middleware either answers itself or lets the next handler answer.\<close>

definition IPAllowlistMiddleware :: "string list \<Rightarrow> (request \<Rightarrow> 's \<Rightarrow> response \<times> 's) \<Rightarrow> request \<Rightarrow> 's \<Rightarrow> response \<times> 's" where
  "IPAllowlistMiddleware allowedIPs next r s =
     (if \<not> isIPAllowed (getClientIP r) allowedIPs
      then (respondWithError 403 ''Access denied'' (Some ''IP address not authorized''), s)
      else next r s)"

definition APIKeyMiddleware :: "string \<Rightarrow> (request \<Rightarrow> 's \<Rightarrow> response \<times> 's) \<Rightarrow> request \<Rightarrow> 's \<Rightarrow> response \<times> 's" where
  "APIKeyMiddleware expectedKey next r s =
     (let authHeader = header_get r ''Authorization'' in
      if authHeader = [] then (respondWithError 401 ''Unauthorized'' (Some ''missing authorization header''), s)
      else if \<not> has_prefix authHeader ''Bearer ''
      then (respondWithError 401 ''Unauthorized'' (Some ''invalid authorization format''), s)
      else if trim_prefix authHeader ''Bearer '' \<noteq> expectedKey
      then (respondWithError 401 ''Unauthorized'' (Some ''invalid API key''), s)
      else next r s)"

text \<open>A JSON array of strings, or a comma-separated list. A \<open>json.Unmarshal\<close> that meets a type
  error has stored the elements it could before the list is appended to.\<close>

definition ParseAllowedIPs :: "string \<Rightarrow> string list result" where
  "ParseAllowedIPs input =
     (let decoded = (case parse_json input of None \<Rightarrow> ([], True)
             | Some v \<Rightarrow> (case v of JArr vs \<Rightarrow> dec_elems vs | JNull \<Rightarrow> ([], False) | _ \<Rightarrow> ([], True)))
      in if \<not> snd decoded then Inr (fst decoded)
         else
           let ips = fst decoded @ filter (\<lambda>s. s \<noteq> []) (map trim_space (split_on (CHR '','') input))
           in if ips \<noteq> [] then Inr ips
              else if input = [] then Inr []
              else Inl (Errorf ''failed to parse allowed IPs: invalid format''))"

section \<open>Facts about the middleware\<close>

lemma trim_space_id: "\<not> is_space (hd s) \<Longrightarrow> \<not> is_space (last s) \<Longrightarrow> trim_space s = s"
proof (cases s)
  case (Cons c t)
  assume h: "\<not> is_space (hd s)" and l: "\<not> is_space (last s)"
  from h Cons have "dropWhile is_space s = s" by simp
  moreover have "dropWhile is_space (rev s) = rev s"
    using l Cons by (cases "rev s") (auto simp: hd_rev [symmetric])
  ultimately show ?thesis by (simp add: trim_space_def)
qed (simp add: trim_space_def)

lemma split_on_no_sep: "d \<notin> set s \<Longrightarrow> split_on d s = [s]"
  by (induction s) auto

end
