(* ===== verification/Worker.thy ===== *)
theory Worker
  imports Crypto MessageRepo PartnerRepo
begin

text \<open>
  \<open>internal/queue/worker.go\<close>: the queue worker. One pass over the queue
  (\<open>processQueue\<close>) reads the queued rows once and handles them in order; every row meets
  its own clock readings, network, database faults and partner table, and the rest of the
  node may change the message table while a request is on the wire. All of that is the
  record \<open>attempt_env\<close>, one per position of the queue.
\<close>

record WorkerConfig =
  PollInterval :: duration
  MaxRetries :: int64
  RequestTimeout :: duration

definition DefaultWorkerConfig :: WorkerConfig where
  "DefaultWorkerConfig =
     \<lparr>PollInterval = 10 * second, MaxRetries = 5, RequestTimeout = 30 * second\<rparr>"

record worker =
  w_engine :: "as5_engine option"
  w_client_timeout :: duration
  w_config :: WorkerConfig
  w_nodeID :: string

definition NewWorker :: "as5_engine option \<Rightarrow> worker" where
  "NewWorker engine = \<lparr>w_engine = engine, w_client_timeout = 30 * second,
     w_config = DefaultWorkerConfig, w_nodeID = []\<rparr>"

definition NewWorkerWithConfig :: "as5_engine option \<Rightarrow> WorkerConfig \<Rightarrow> worker" where
  "NewWorkerWithConfig engine cfg = \<lparr>w_engine = engine, w_client_timeout = RequestTimeout cfg,
     w_config = cfg, w_nodeID = []\<rparr>"

definition SetNodeID :: "string \<Rightarrow> worker \<Rightarrow> worker" where
  "SetNodeID nid w = w\<lparr>w_nodeID := nid\<rparr>"

record attempt_env =
  now_check :: time
  now_build :: time
  now_fail :: time
  rnd :: nat
  net :: network
  the_partners :: partner_table
  partner_fault :: fault
  status_fault :: fault
  retry_fault :: fault
  meanwhile :: "msg_table \<Rightarrow> msg_table"

section \<open>The queued payloads\<close>

record queuedOutboundPayload =
  DestinationPartnerID :: string
  QDocumentType :: string
  QReceiptWebhook :: string
  QPayload :: string \<comment> \<open>a \<open>json.RawMessage\<close>\<close>

definition unmarshal_outbound :: "string \<Rightarrow> queuedOutboundPayload option" where
  "unmarshal_outbound s =
     (case parse_json s of None \<Rightarrow> None
      | Some v \<Rightarrow>
        let (ms, wrong) = obj_members v;
            (d, b1) = dec_str ''destination_partner_id'' ms; (ty, b2) = dec_str ''document_type'' ms;
            (wh, b3) = dec_str ''receipt_webhook'' ms
        in if wrong \<or> b1 \<or> b2 \<or> b3 then None
           else Some \<lparr>DestinationPartnerID = d, QDocumentType = ty, QReceiptWebhook = wh,
                  QPayload = dec_raw ''payload'' (raw_members s)\<rparr>)"

text \<open>The writers of the two kinds of payload: \<open>json.Marshal\<close> on the \<open>TransmitRequest\<close> of the
  internal API, and on the map the inbound handler builds (whose keys come out sorted).\<close>

definition outbound_json :: "string \<Rightarrow> string \<Rightarrow> string \<Rightarrow> json \<Rightarrow> json" where
  "outbound_json dest ty webhook doc = JObj
     ([(''destination_partner_id'', JStr dest), (''document_type'', JStr ty)]
      @ opt_str ''receipt_webhook'' webhook @ [(''payload'', doc)])"

definition jmdn_job_json :: "string \<Rightarrow> string \<Rightarrow> string \<Rightarrow> string \<Rightarrow> json" where
  "jmdn_job_json original recipient status payload = JObj
     [(''job_type'', JStr ''send_jmdn''), (''original_message_id'', JStr original),
      (''original_payload'', JStr payload), (''recipient_partner_id'', JStr recipient),
      (''status'', JStr status)]"

record queuedJMDNJob =
  J_JobType :: string
  J_OriginalMessageID :: string
  J_RecipientPartnerID :: string
  J_Status :: string
  J_OriginalPayload :: string

definition unmarshal_jmdn_job :: "string \<Rightarrow> queuedJMDNJob option" where
  "unmarshal_jmdn_job s =
     (case parse_json s of None \<Rightarrow> None
      | Some v \<Rightarrow>
        let (ms, wrong) = obj_members v;
            (jt, b1) = dec_str ''job_type'' ms; (om, b2) = dec_str ''original_message_id'' ms;
            (rp, b3) = dec_str ''recipient_partner_id'' ms; (st, b4) = dec_str ''status'' ms;
            (pl, b5) = dec_str ''original_payload'' ms
        in if wrong \<or> b1 \<or> b2 \<or> b3 \<or> b4 \<or> b5 then None
           else Some \<lparr>J_JobType = jt, J_OriginalMessageID = om, J_RecipientPartnerID = rp,
                  J_Status = st, J_OriginalPayload = pl\<rparr>)"

definition outbound_view :: "string \<times> string \<times> string \<times> json \<Rightarrow> queuedOutboundPayload" where
  "outbound_view = (\<lambda>(dest, ty, webhook, doc). \<lparr>DestinationPartnerID = dest, QDocumentType = ty,
     QReceiptWebhook = webhook, QPayload = print_json doc\<rparr>)"

definition jmdn_view :: "string \<times> string \<times> string \<times> string \<Rightarrow> queuedJMDNJob" where
  "jmdn_view = (\<lambda>(original, recipient, status, payload). \<lparr>J_JobType = JobTypeSendJMDN,
     J_OriginalMessageID = original, J_RecipientPartnerID = recipient, J_Status = status,
     J_OriginalPayload = payload\<rparr>)"

lemma unmarshal_outbound_json:
  assumes "wf_json doc"
  shows "unmarshal_outbound (print_json (outbound_json dest ty webhook doc)) = Some (outbound_view (dest, ty, webhook, doc))"
proof -
  have wf: "wf_json (outbound_json dest ty webhook doc)" using assms by (simp add: outbound_json_def)
  have raw: "raw_members (print_json (outbound_json dest ty webhook doc))
    = map (\<lambda>(k, v). (k, v, print_json v)) ([(''destination_partner_id'', JStr dest), (''document_type'', JStr ty)]
      @ opt_str ''receipt_webhook'' webhook @ [(''payload'', doc)])"
    using wf unfolding outbound_json_def by (rule raw_members_print)
  show ?thesis
    unfolding unmarshal_outbound_def parse_print [OF wf] option.case raw
    by (simp add: outbound_json_def outbound_view_def opt_str_def dec_eval)
qed

lemma unmarshal_jmdn_job_json:
  "unmarshal_jmdn_job (print_json (jmdn_job_json original recipient status payload))
    = Some (jmdn_view (original, recipient, status, payload))"
proof -
  have wf: "wf_json (jmdn_job_json original recipient status payload)" by (simp add: jmdn_job_json_def)
  show ?thesis
    unfolding unmarshal_jmdn_job_def parse_print [OF wf] option.case
    by (simp add: jmdn_job_json_def jmdn_view_def dec_eval JobTypeSendJMDN_def)
qed

lemma unmarshal_empty [simp]: "unmarshal_outbound [] = None" "unmarshal_jmdn_job [] = None"
  by (simp_all add: unmarshal_outbound_def unmarshal_jmdn_job_def)

interpretation outbound_text: codec "\<lambda>(dest, ty, webhook, doc). wf_json doc"
  "\<lambda>(dest, ty, webhook, doc). print_json (outbound_json dest ty webhook doc)" unmarshal_outbound outbound_view
  by unfold_locales (auto simp: unmarshal_outbound_json)

interpretation jmdn_job_text: codec "\<lambda>job. True"
  "\<lambda>(original, recipient, status, payload). print_json (jmdn_job_json original recipient status payload)"
  unmarshal_jmdn_job jmdn_view
  by unfold_locales (auto simp: unmarshal_jmdn_job_json)

lemma probe_jmdn_job: "probe_job_type (print_json (jmdn_job_json o' r s p)) = (JobTypeSendJMDN, False)"
proof -
  have wf: "wf_json (jmdn_job_json o' r s p)" by (simp add: jmdn_job_json_def)
  show ?thesis
    unfolding probe_job_type_def parse_print [OF wf] option.case
    by (simp add: jmdn_job_json_def dec_eval JobTypeSendJMDN_def)
qed

lemma probe_outbound:
  assumes "wf_json doc"
  shows "probe_job_type (print_json (outbound_json d ty wh doc)) = ([], False)"
proof -
  have wf: "wf_json (outbound_json d ty wh doc)" using assms by (simp add: outbound_json_def)
  show ?thesis
    unfolding probe_job_type_def parse_print [OF wf] option.case
    by (simp add: outbound_json_def opt_str_def dec_eval)
qed

record jmdnReceiptBody =
  B_OriginalMessageID :: string
  B_Status :: string
  B_ReceiverID :: string
  B_HashVerification :: string
  B_Timestamp :: string
  B_ErrorLog :: string
  B_Signature :: string

definition jmdn_body_json :: "jmdnReceiptBody \<Rightarrow> json" where
  "jmdn_body_json b = JObj
     ([(''original_message_id'', JStr (B_OriginalMessageID b)), (''status'', JStr (B_Status b)),
       (''receiver_id'', JStr (B_ReceiverID b)), (''hash_verification'', JStr (B_HashVerification b)),
       (''timestamp'', JStr (B_Timestamp b))]
      @ opt_str ''error_log'' (B_ErrorLog b) @ [(''signature'', JStr (B_Signature b))])"

section \<open>Delivery\<close>

text \<open>
  A delivery sends at most one request: the result is that request, when one was sent, and
  the error, \<open>None\<close> for success. \<open>post\<close> is the common end of the two paths, from
  \<open>http.NewRequestWithContext\<close> on; \<open>what\<close> and \<open>on\<close> are the words of its error texts.
\<close>

type_synonym delivery = "http_request option \<times> goerr option"

definition post ::
  "libs \<Rightarrow> network \<Rightarrow> string \<Rightarrow> string \<Rightarrow> (string \<times> string) list \<Rightarrow> string \<Rightarrow> string \<Rightarrow> string \<Rightarrow> delivery" where
  "post L nw url body headers mkfail what on =
     (case new_request L url of
        Some e \<Rightarrow> (None, Some (InternalWrap (Errorf e) mkfail))
      | None \<Rightarrow>
        let req = \<lparr>q_method = ''POST'', q_url = url, q_headers = headers, q_body = body\<rparr>
        in case nw req of
             Inl e \<Rightarrow> (Some req, Some (Network (Errorf e) what))
           | Inr (code, reply) \<Rightarrow>
             if code < 200 \<or> 300 \<le> code
             then (Some req, Some (NewErr ErrCodeNetwork
                     (''partner returned status '' @ show_nat code @ on @ '': '' @ reply)))
             else (Some req, None))"

definition em_dash :: string where "em_dash = [CHR 0xE2, CHR 0x80, CHR 0x94]"

definition deliverBusinessDocument :: "libs \<Rightarrow> worker \<Rightarrow> attempt_env \<Rightarrow> message \<Rightarrow> delivery" where
  "deliverBusinessDocument L w E msg =
     (case unmarshal_outbound (Payload msg) of
        None \<Rightarrow> (None, Some (Validation ''invalid queued payload format''))
      | Some queued \<Rightarrow>
        if DestinationPartnerID queued = [] then (None, Some (Validation ''destination_partner_id is empty''))
        else if QPayload queued = [] then (None, Some (Validation ''payload (business document) is empty''))
        else case Partner_GetByID (partner_fault E) (DestinationPartnerID queued) (the_partners E) of
          Inl e \<Rightarrow> (None, Some (Wrap e ErrCodePartnerNotFound
                     (''partner '' @ DestinationPartnerID queued @ '' not found'')))
        | Inr p \<Rightarrow>
          if MessageEndpoint p = [] then (None, Some (Validation ''partner has no message endpoint configured''))
          else if PublicKeyJWKS p = []
          then (None, Some (Validation (''partner has no cached JWKS '' @ em_dash @ '' cannot encrypt envelope'')))
          else case ParsePublicKeyFromJWKSByUse L (PublicKeyJWKS p) ''enc'' of
            Inl e \<Rightarrow> (None, Some (Wrap e ErrCodeValidation
                       ''failed to parse partner encryption key from cached JWKS''))
          | Inr encKey \<Rightarrow>
            (case w_engine w of
               None \<Rightarrow> (None, Some (Validation ''crypto engine not configured on worker''))
             | Some engine \<Rightarrow>
               (case NegotiateEncryptionAlgorithm LocalSupportedEncryptionAlgorithms (SupportedEncAlgs p) of
                  Inl e \<Rightarrow> (None, Some (Wrap e ErrCodeValidation
                             ''failed to negotiate encryption algorithm with partner''))
                | Inr negotiatedAlg \<Rightarrow>
                  (case SignAndEncryptWithAlg L (rnd E) engine (QPayload queued) encKey negotiatedAlg of
                     Inl e \<Rightarrow> (None, Some (InternalWrap e ''failed to sign+encrypt business document''))
                   | Inr jwePayload \<Rightarrow>
                     let envelope = \<lparr>Routing = \<lparr>FidexVersion = ''1.0'', RMessageID = MessageID msg,
                             SenderID = w_nodeID w, ReceiverID = DestinationPartnerID queued,
                             DocumentType = QDocumentType queued, Timestamp = fmt_millis (now_build E),
                             ReceiptWebhook = QReceiptWebhook queued\<rparr>, EncPayload = jwePayload\<rparr>
                     in post L (net E) (MessageEndpoint p) (print_json (envelope_json envelope))
                          [(''Content-Type'', ''application/json''), (''User-Agent'', ''FideX-Node/1.0''),
                           (''X-FideX-Message-ID'', MessageID msg), (''X-FideX-Sender'', w_nodeID w)]
                          ''failed to create HTTP request'' ''message delivery'' []))))"

definition buildJMDN ::
  "libs \<Rightarrow> worker \<Rightarrow> as5_engine \<Rightarrow> time \<Rightarrow> string \<Rightarrow> string \<Rightarrow> string \<Rightarrow> jmdnReceiptBody" where
  "buildJMDN L w engine now originalMessageID status originalPayload =
     (let receipt = \<lparr>B_OriginalMessageID = originalMessageID, B_Status = status,
            B_ReceiverID = w_nodeID w,
            B_HashVerification = ''sha256:'' @ hex_encode (sha256 originalPayload),
            B_Timestamp = fmt_millis now, B_ErrorLog = [], B_Signature = []\<rparr>
      in case CreateJMDN L now engine originalMessageID status (print_json (jmdn_body_json receipt)) None of
           Inr jws \<Rightarrow> receipt\<lparr>B_Signature := jws\<rparr>
         | Inl _ \<Rightarrow> receipt)"

definition disposition :: "string \<Rightarrow> string" where
  "disposition st =
     (let status = to_upper st in
      if status = ''DELIVERED'' \<or> status = ''FAILED'' then status else ''DELIVERED'')"

definition deliverJMDN :: "libs \<Rightarrow> worker \<Rightarrow> attempt_env \<Rightarrow> message \<Rightarrow> delivery" where
  "deliverJMDN L w E msg =
     (case unmarshal_jmdn_job (Payload msg) of
        None \<Rightarrow> (None, Some (Validation ''invalid send_jmdn job payload''))
      | Some job \<Rightarrow>
        if J_OriginalMessageID job = []
        then (None, Some (Validation ''send_jmdn job has empty original_message_id''))
        else if J_RecipientPartnerID job = []
        then (None, Some (Validation ''send_jmdn job has empty recipient_partner_id''))
        else case w_engine w of
          None \<Rightarrow> (None, Some (Validation ''crypto engine not configured on worker''))
        | Some engine \<Rightarrow>
          (case Partner_GetByID (partner_fault E) (J_RecipientPartnerID job) (the_partners E) of
             Inl e \<Rightarrow> (None, Some (Wrap e ErrCodePartnerNotFound
                        (''partner '' @ J_RecipientPartnerID job @ '' not found for J-MDN delivery'')))
           | Inr p \<Rightarrow>
             let receiptURL = (if MDNReceiptEndpoint p = [] then MessageEndpoint p else MDNReceiptEndpoint p)
             in if receiptURL = [] then (None, Some (Validation ''partner has no receipt endpoint configured''))
                else
                  let receipt = buildJMDN L w engine (now_build E) (J_OriginalMessageID job)
                                  (disposition (J_Status job)) (J_OriginalPayload job)
                  in post L (net E) receiptURL (print_json (jmdn_body_json receipt))
                       [(''Content-Type'', ''application/json''), (''User-Agent'', ''FideX-Node/1.0''),
                        (''X-FideX-Message-ID'', MessageID msg), (''X-FideX-Sender'', w_nodeID w),
                        (''X-FideX-Receipt-For'', J_OriginalMessageID job)]
                       ''failed to create J-MDN HTTP request'' ''J-MDN delivery'' '' on J-MDN''))"

definition deliverMessage :: "libs \<Rightarrow> worker \<Rightarrow> attempt_env \<Rightarrow> message \<Rightarrow> delivery" where
  "deliverMessage L w E msg =
     (let jobType = (if JobType msg \<noteq> [] then JobType msg
             else let probed = fst (probe_job_type (Payload msg))
                  in if probed = [] then JobTypeProcessOutbound else probed)
      in if jobType = JobTypeSendJMDN then deliverJMDN L w E msg
         else if jobType = JobTypeProcessOutbound then deliverBusinessDocument L w E msg
         else (None, Some (Validation (''unknown job_type '' @ quote_go jobType))))"

section \<open>After the delivery\<close>

definition handleSuccess :: "attempt_env \<Rightarrow> message \<Rightarrow> msg_table \<Rightarrow> msg_table" where
  "handleSuccess E msg t = snd (Msg_UpdateStatus (status_fault E) (MessageID msg) StatusDelivered t)"

text \<open>\<open>time.Duration(n) * d\<close> on 64 bits.\<close>

definition dur_times :: "int64 \<Rightarrow> duration \<Rightarrow> duration" where
  "dur_times n d = sint (n * word_of_int d)"

definition backoff_minutes :: "int64 \<Rightarrow> int64" where
  "backoff_minutes n = (if (60 :: int64) <s n * n then 60 else n * n)"

definition last_error_text :: "goerr \<Rightarrow> string" where
  "last_error_text e = (case e of AppErr c m d s w r \<Rightarrow> m | _ \<Rightarrow> err_text e)"

definition handleFailure :: "WorkerConfig \<Rightarrow> attempt_env \<Rightarrow> message \<Rightarrow> goerr \<Rightarrow> msg_table \<Rightarrow> msg_table" where
  "handleFailure cfg E msg deliveryErr t =
     (let n = RetryCount msg + 1;
          lastError = last_error_text deliveryErr;
          shouldRetry = (IsRetryable deliveryErr \<and> n <s MaxRetries cfg)
      in if \<not> shouldRetry
         then let t1 = snd (Msg_UpdateStatus (status_fault E) (MessageID msg) StatusFailed t)
              in snd (Msg_UpdateRetryInfo (retry_fault E) (MessageID msg) n None lastError t1)
         else let nextRetry = now_fail E + dur_times (backoff_minutes n) minute
              in snd (Msg_UpdateRetryInfo (retry_fault E) (MessageID msg) n (Some nextRetry) lastError t))"

section \<open>One pass over the queue, and the worker's loop\<close>

definition due :: "attempt_env \<Rightarrow> message \<Rightarrow> bool" where
  "due E msg = (case NextRetryAt msg of None \<Rightarrow> True | Some at \<Rightarrow> \<not> now_check E < at)"

definition process_one ::
  "libs \<Rightarrow> worker \<Rightarrow> attempt_env \<Rightarrow> message \<Rightarrow> msg_table \<Rightarrow> msg_table \<times> http_request list" where
  "process_one L w E msg t =
     (if \<not> due E msg then (meanwhile E t, [])
      else case deliverMessage L w E msg of (sent, err) \<Rightarrow>
        let t' = meanwhile E t;
            log = (case sent of None \<Rightarrow> [] | Some q \<Rightarrow> [q])
        in case err of Some e \<Rightarrow> (handleFailure (w_config w) E msg e t', log)
           | None \<Rightarrow> (handleSuccess E msg t', log))"

fun process_all ::
  "libs \<Rightarrow> worker \<Rightarrow> attempt_env list \<Rightarrow> message list \<Rightarrow> msg_table \<Rightarrow> msg_table \<times> http_request list" where
  "process_all L w (E # Es) (msg # msgs) t =
     (let (t1, log1) = process_one L w E msg t; (t2, log2) = process_all L w Es msgs t1
      in (t2, log1 @ log2))"
| "process_all L w _ _ t = (t, [])"

definition processQueue ::
  "libs \<Rightarrow> worker \<Rightarrow> fault \<Rightarrow> (nat \<Rightarrow> attempt_env) \<Rightarrow> msg_table \<Rightarrow> msg_table \<times> http_request list" where
  "processQueue L w flt Es t =
     (case Msg_ListByStatus flt StatusQueued t of Inl e \<Rightarrow> (t, [])
      | Inr messages \<Rightarrow>
        if messages = [] then (t, [])
        else process_all L w (map Es [0..<length messages]) messages t)"

text \<open>
  \<open>Start\<close> processes the queue once, then on every tick until \<open>stopChan\<close> is closed; a second
  \<open>Stop\<close> panics. Between two passes the node may change the table.
\<close>

datatype worker_event =
    Tick fault "nat \<Rightarrow> attempt_env" "msg_table \<Rightarrow> msg_table"
  | StopSignal

fun worker_loop ::
  "libs \<Rightarrow> worker \<Rightarrow> worker_event list \<Rightarrow> msg_table \<Rightarrow> msg_table \<times> http_request list" where
  "worker_loop L w [] t = (t, [])"
| "worker_loop L w (StopSignal # evs) t = (t, [])"
| "worker_loop L w (Tick flt Es between # evs) t =
     (let (t1, log1) = processQueue L w flt Es (between t); (t2, log2) = worker_loop L w evs t1
      in (t2, log1 @ log2))"

definition Start ::
  "libs \<Rightarrow> worker \<Rightarrow> fault \<Rightarrow> (nat \<Rightarrow> attempt_env) \<Rightarrow> worker_event list \<Rightarrow> msg_table
    \<Rightarrow> msg_table \<times> http_request list" where
  "Start L w flt Es evs t =
     (let (t1, log1) = processQueue L w flt Es t; (t2, log2) = worker_loop L w evs t1
      in (t2, log1 @ log2))"

text \<open>\<open>Stop\<close> on the channel: \<open>None\<close> is the panic of closing it again.\<close>

definition Stop :: "bool \<Rightarrow> bool option" where
  "Stop closed = (if closed then None else Some True)"

end
