(* ===== verification/ApiExternal.thy ===== *)
theory ApiExternal
  imports ApiCore Worker
begin

text \<open>
  The B2B handlers of \<open>internal/api/external_handlers.go\<close> (inbound envelopes, receipts, the
  JWKS, health) and the ERP-facing \<open>transmitHandler\<close> of \<open>internal_handlers.go\<close>. A handler is a
  function of the request and the message table, to the response and the new table; the
  partner table is read only (\<open>None\<close> stands for a nil \<open>PartnerRepo\<close>). Faults of the two
  statements, clock readings and fresh UUIDs are arguments.
\<close>

definition errCodeBadEnvelope :: string where "errCodeBadEnvelope = ''BAD_ENVELOPE''"
definition errCodeUnknownPartner :: string where "errCodeUnknownPartner = ''UNKNOWN_PARTNER''"
definition errCodeSignatureInvalid :: string where "errCodeSignatureInvalid = ''SIGNATURE_INVALID''"
definition errCodeDecryptFailed :: string where "errCodeDecryptFailed = ''DECRYPT_FAILED''"
definition errCodeDuplicateMessage :: string where "errCodeDuplicateMessage = ''DUPLICATE_MESSAGE''"

record inboundRejection =
  IR_Status :: string
  IR_ErrorCode :: string
  IR_Message :: string
  IR_MessageID :: string

definition writeInboundRejection :: "nat \<Rightarrow> inboundRejection \<Rightarrow> response" where
  "writeInboundRejection code b =
     json_response code (JObj (opt_str ''status'' (IR_Status b) @ [(''error_code'', JStr (IR_ErrorCode b))]
       @ opt_str ''message'' (IR_Message b) @ opt_str ''message_id'' (IR_MessageID b)))"

definition healthHandler :: response where
  "healthHandler = json_response 200 (JObj [(''node'', JStr ''fidex-edge''), (''status'', JStr ''healthy'')])"

definition containsAny :: "string \<Rightarrow> string list \<Rightarrow> bool" where
  "containsAny s subs \<longleftrightarrow> list_ex (\<lambda>sub. sub \<noteq> [] \<and> contains_sub s sub) subs"

definition new_message :: "string \<Rightarrow> message_direction \<Rightarrow> message_status \<Rightarrow> string \<Rightarrow> time \<Rightarrow> message" where
  "new_message mid dir st payload now = \<lparr>ID = 0, MessageID = mid, Direction = dir, Status = st,
     Payload = payload, JobType = [], RetryCount = 0, NextRetryAt = None, LastError = [], CreatedAt = now\<rparr>"

section \<open>Inbound envelopes\<close>

text \<open>Admission control: the decrypted document, or the HTTP status and body of the rejection
  whose envelope is quarantined.\<close>

definition quarantine :: "fidex_envelope \<Rightarrow> string \<Rightarrow> string \<Rightarrow> (nat \<times> inboundRejection) + string" where
  "quarantine envelope code message =
     Inl (401, \<lparr>IR_Status = ''QUARANTINED'', IR_ErrorCode = code, IR_Message = message,
            IR_MessageID = RMessageID (Routing envelope)\<rparr>)"

definition admit ::
  "libs \<Rightarrow> handlers \<Rightarrow> partner_table option \<Rightarrow> fault \<Rightarrow> fidex_envelope \<Rightarrow> (nat \<times> inboundRejection) + string" where
  "admit L h ps pflt envelope =
     (case (h_crypto h, ps) of
        (Some engine, Some partners) \<Rightarrow>
          (case Partner_GetByID pflt (SenderID (Routing envelope)) partners of
             Inl e \<Rightarrow> quarantine envelope errCodeUnknownPartner ''sender_id is not a registered partner''
           | Inr p \<Rightarrow>
             if PublicKeyJWKS p = []
             then quarantine envelope errCodeUnknownPartner ''sender has no cached signing key''
             else
               (case ParsePublicKeyFromJWKSByUse L (PublicKeyJWKS p) ''sig'' of
                  Inl e \<Rightarrow> quarantine envelope errCodeSignatureInvalid
                             ''sender JWKS does not contain a usable signing key''
                | Inr senderSigKey \<Rightarrow>
                  (case DecryptAndVerify L engine (EncPayload envelope) senderSigKey of
                     Inl e \<Rightarrow>
                       quarantine envelope
                         (if containsAny (err_text e) [''failed to parse JWE'', ''failed to decrypt JWE'']
                          then errCodeDecryptFailed else errCodeSignatureInvalid)
                         ''envelope failed signature/decryption check''
                   | Inr decrypted \<Rightarrow> Inr decrypted)))
      | _ \<Rightarrow> Inr [])"

record inbound_env =
  ie_partner_fault :: fault
  ie_create_fault :: fault
  ie_receipt_fault :: fault
  ie_now :: time
  ie_now2 :: time
  ie_uuid :: string

definition inboundHandler ::
  "libs \<Rightarrow> handlers \<Rightarrow> partner_table option \<Rightarrow> inbound_env \<Rightarrow> request \<Rightarrow> msg_table \<Rightarrow> response \<times> msg_table" where
  "inboundHandler L h ps E r t =
     (case decode_envelope (body_json r) of
        None \<Rightarrow>
          (writeInboundRejection 400 \<lparr>IR_Status = ''REJECTED'', IR_ErrorCode = errCodeBadEnvelope,
             IR_Message = ''request body is not valid JSON'', IR_MessageID = []\<rparr>, t)
      | Some envelope \<Rightarrow>
        (case validateFidexEnvelope (Some envelope) of
           Some err \<Rightarrow>
             (writeInboundRejection 400 \<lparr>IR_Status = ''REJECTED'', IR_ErrorCode = errCodeBadEnvelope,
                IR_Message = err, IR_MessageID = RMessageID (Routing envelope)\<rparr>, t)
         | None \<Rightarrow>
           let verdict = admit L h ps (ie_partner_fault E) envelope;
               status = (case verdict of Inl _ \<Rightarrow> StatusQuarantined | Inr _ \<Rightarrow> StatusDelivered);
               document = (case verdict of Inl _ \<Rightarrow> [] | Inr d \<Rightarrow> d);
               storedPayload = (if document = [] then print_json (api_envelope_json envelope) else document);
               msg = new_message (RMessageID (Routing envelope)) DirectionInbound status storedPayload (ie_now E)
           in case Msg_Create (ie_create_fault E) (ie_now E) (Some msg) t of
                (Inl e, t1) \<Rightarrow>
                  if is_duplicate e
                  then (writeInboundRejection 409 \<lparr>IR_Status = ''REJECTED'', IR_ErrorCode = errCodeDuplicateMessage,
                          IR_Message = ''message_id has already been received'',
                          IR_MessageID = RMessageID (Routing envelope)\<rparr>, t1)
                  else (respondWithError 500 ''Failed to store message'' (Some (err_text e)), t1)
              | (Inr _, t1) \<Rightarrow>
                (case verdict of
                   Inl (code, rejection) \<Rightarrow> (writeInboundRejection code rejection, t1)
                 | Inr _ \<Rightarrow>
                   if DocumentType (Routing envelope) = ''receipt'' then (empty_response 202, t1)
                   else
                     let job = print_json (jmdn_job_json (RMessageID (Routing envelope)) (SenderID (Routing envelope))
                                 ''processed'' (EncPayload envelope));
                         receiptMsg = new_message (ie_uuid E) DirectionOutbound StatusQueued job (ie_now2 E)
                     in (empty_response 202,
                         snd (Msg_Create (ie_receipt_fault E) (ie_now2 E) (Some receiptMsg) t1)))))"

section \<open>Receipts\<close>

record flat_receipt =
  F_OriginalMessageID :: string
  F_Status :: string
  F_ReceiverID :: string
  F_HashVerification :: string
  F_Timestamp :: string
  F_ErrorLog :: "string option"
  F_Signature :: string

definition unmarshal_flat :: "string \<Rightarrow> flat_receipt option" where
  "unmarshal_flat s =
     (case parse_json s of None \<Rightarrow> None
      | Some v \<Rightarrow>
        let (ms, b0) = obj_members v;
            (om, b1) = dec_str ''original_message_id'' ms; (st, b2) = dec_str ''status'' ms;
            (ri, b3) = dec_str ''receiver_id'' ms; (hv, b4) = dec_str ''hash_verification'' ms;
            (ts, b5) = dec_str ''timestamp'' ms; (el, b6) = dec_ptr ''error_log'' ms;
            (sg, b7) = dec_str ''signature'' ms
        in if b0 \<or> b1 \<or> b2 \<or> b3 \<or> b4 \<or> b5 \<or> b6 \<or> b7 then None
           else Some \<lparr>F_OriginalMessageID = om, F_Status = st, F_ReceiverID = ri, F_HashVerification = hv,
                  F_Timestamp = ts, F_ErrorLog = el, F_Signature = sg\<rparr>)"

text \<open>\<open>_ = json.Unmarshal(payload, &disposition)\<close>: what could be stored is kept, the error is not
  looked at.\<close>

definition empty_receipt :: jmdn_receipt where
  "empty_receipt = \<lparr>OriginalMessageID = [], RStatus = [], HashVerification = [], RTimestamp = [], ErrorLog = None\<rparr>"

definition receipt_best_effort :: "string \<Rightarrow> jmdn_receipt" where
  "receipt_best_effort s =
     (case parse_json s of None \<Rightarrow> empty_receipt
      | Some v \<Rightarrow>
        let ms = fst (obj_members v)
        in \<lparr>OriginalMessageID = fst (dec_str ''original_message_id'' ms), RStatus = fst (dec_str ''status'' ms),
            HashVerification = fst (dec_str ''hash_verification'' ms), RTimestamp = fst (dec_str ''timestamp'' ms),
            ErrorLog = fst (dec_ptr ''error_log'' ms)\<rparr>)"

text \<open>The cached signing key of a signer, when the node can look it up.\<close>

definition signer_key :: "libs \<Rightarrow> handlers \<Rightarrow> partner_table option \<Rightarrow> fault \<Rightarrow> string \<Rightarrow> rsa_pub option" where
  "signer_key L h ps pflt signerID =
     (case (h_crypto h, ps) of
        (Some engine, Some partners) \<Rightarrow>
          if signerID = [] then None
          else (case Partner_GetByID pflt signerID partners of Inl e \<Rightarrow> None
                | Inr p \<Rightarrow>
                  if PublicKeyJWKS p = [] then None
                  else (case ParsePublicKeyFromJWKSByUse L (PublicKeyJWKS p) ''sig'' of
                          Inl e \<Rightarrow> None | Inr k \<Rightarrow> Some k))
      | _ \<Rightarrow> None)"

text \<open>Whether the warning about a bad signature is logged: the only effect of the check.\<close>

definition bestEffortVerifyJWS ::
  "libs \<Rightarrow> handlers \<Rightarrow> partner_table option \<Rightarrow> fault \<Rightarrow> string \<Rightarrow> string \<Rightarrow> bool" where
  "bestEffortVerifyJWS L h ps pflt jws signerID =
     (case signer_key L h ps pflt signerID of None \<Rightarrow> False
      | Some k \<Rightarrow> (case VerifyJMDN L jws k of Inl e \<Rightarrow> True | Inr x \<Rightarrow> False))"

definition tryVerifyJWSPayload ::
  "libs \<Rightarrow> handlers \<Rightarrow> partner_table option \<Rightarrow> fault \<Rightarrow> string \<Rightarrow> string \<Rightarrow> jmdn_receipt option" where
  "tryVerifyJWSPayload L h ps pflt signerID payload =
     (case signer_key L h ps pflt signerID of None \<Rightarrow> None
      | Some k \<Rightarrow> (case VerifyJMDN L payload k of Inl e \<Rightarrow> None | Inr j \<Rightarrow> Some j))"

record receipt_env =
  re_partner_fault :: fault
  re_create_fault :: fault
  re_update_fault :: fault
  re_now :: time

definition new_status :: "string \<Rightarrow> message_status" where
  "new_status s = (if to_upper s = ''FAILED'' \<or> to_upper s = ''ERROR'' then StatusFailed else StatusDelivered)"

text \<open>The end of the handler: the receipt is stored under its id, then the message it names gets
  its new status. The flag tells whether a failed signature check was logged.\<close>

definition reconcile ::
  "receipt_env \<Rightarrow> string \<Rightarrow> string \<Rightarrow> jmdn_receipt \<Rightarrow> bool \<Rightarrow> msg_table \<Rightarrow> response \<times> msg_table \<times> bool" where
  "reconcile E receiptMessageID rawBody disp warned t =
     (let receiptMsg = new_message receiptMessageID DirectionInbound StatusDelivered rawBody (re_now E);
          finish = (\<lambda>t1.
            if OriginalMessageID disp \<noteq> []
            then (empty_response 202,
                  snd (Msg_UpdateStatus (re_update_fault E) (OriginalMessageID disp) (new_status (RStatus disp)) t1),
                  warned)
            else (empty_response 202, t1, warned))
      in case Msg_Create (re_create_fault E) (re_now E) (Some receiptMsg) t of
           (Inl e, t1) \<Rightarrow>
             if is_duplicate e then finish t1
             else (respondWithError 500 ''Failed to store receipt'' (Some (err_text e)), t1, False)
         | (Inr _, t1) \<Rightarrow> finish t1)"

definition receiptHandler ::
  "libs \<Rightarrow> handlers \<Rightarrow> partner_table option \<Rightarrow> receipt_env \<Rightarrow> request \<Rightarrow> msg_table \<Rightarrow> response \<times> msg_table \<times> bool" where
  "receiptHandler L h ps E r t =
     (case rq_body r of
        Inl e \<Rightarrow> (respondWithError 400 ''Failed to read request body'' (Some e), t, False)
      | Inr rawBody \<Rightarrow>
        let flat = (case unmarshal_flat rawBody of None \<Rightarrow> None
              | Some f \<Rightarrow> if F_OriginalMessageID f \<noteq> [] then Some f else None)
        in case flat of
             Some f \<Rightarrow>
               reconcile E (''jmdn:'' @ F_OriginalMessageID f @ '':'' @ F_Timestamp f) rawBody
                 \<lparr>OriginalMessageID = F_OriginalMessageID f, RStatus = F_Status f,
                  HashVerification = F_HashVerification f, RTimestamp = F_Timestamp f, ErrorLog = F_ErrorLog f\<rparr>
                 (F_Signature f \<noteq> [] \<and>
                  bestEffortVerifyJWS L h ps (re_partner_fault E) (F_Signature f) (F_ReceiverID f)) t
           | None \<Rightarrow>
             (case decode_envelope (parse_json rawBody) of
                None \<Rightarrow> (respondWithError 400 ''Invalid JSON in request body'' (Some (json_error L rawBody)), t, False)
              | Some envelope \<Rightarrow>
                (case validateJmdnEnvelope (Some envelope) of
                   Some err \<Rightarrow> (respondWithError 400 ''Invalid receipt envelope'' (Some err), t, False)
                 | None \<Rightarrow>
                   reconcile E (RMessageID (Routing envelope)) rawBody
                     (case tryVerifyJWSPayload L h ps (re_partner_fault E) (SenderID (Routing envelope))
                             (EncPayload envelope) of
                        Some j \<Rightarrow> j | None \<Rightarrow> receipt_best_effort (EncPayload envelope))
                     False t)))"

section \<open>Keys\<close>

text \<open>A nil configuration is a nil dereference, which the \<open>Recoverer\<close> middleware answers with 500.\<close>

definition jwksHandler :: "libs \<Rightarrow> handlers \<Rightarrow> response" where
  "jwksHandler L h =
     (case h_crypto h of None \<Rightarrow> http_error 503 ''Service unavailable''
      | Some engine \<Rightarrow>
        (case h_config h of None \<Rightarrow> empty_response 500
         | Some cfg \<Rightarrow>
           (case ExportJWKS L engine (NodeID cfg @ '':enc'') of
              Inl e \<Rightarrow> http_error 500 ''Internal Server Error''
            | Inr jwks \<Rightarrow>
              \<lparr>r_code = 200, r_headers = [(''Content-Type'', ''application/json'')], r_body = jwks\<rparr>)))"

section \<open>Transmit\<close>

text \<open>The request body is decoded into a struct whose \<open>payload\<close> is a \<open>map[string]interface{}\<close>:
  numbers pass through \<open>float64\<close> and keys come out sorted when the request is stored. A
  \<open>payload\<close> member given twice adds to the same map, and \<open>null\<close> makes it nil.\<close>

fun payload_map :: "(string \<Rightarrow> string option) \<Rightarrow> (string \<times> json) list \<Rightarrow> (string \<times> json) list \<Rightarrow>
    (string \<times> json) list \<times> bool" where
  "payload_map f64 acc [] = (acc, False)"
| "payload_map f64 acc ((k, v) # ms) =
     (if key_match ''payload'' k
      then (case v of
              JObj kvs \<Rightarrow> (case canon_members f64 acc kvs of
                  Some acc' \<Rightarrow> payload_map f64 acc' ms | None \<Rightarrow> (fst (payload_map f64 acc ms), True))
            | JNull \<Rightarrow> payload_map f64 [] ms
            | _ \<Rightarrow> (fst (payload_map f64 acc ms), True))
      else payload_map f64 acc ms)"

definition decode_transmit :: "libs \<Rightarrow> json option \<Rightarrow> transmit_request option" where
  "decode_transmit L p =
     (case p of None \<Rightarrow> None
      | Some v \<Rightarrow>
        let (ms, b0) = obj_members v;
            (d, b1) = dec_str ''destination_partner_id'' ms; (ty, b2) = dec_str ''document_type'' ms;
            (wh, b3) = dec_str ''receipt_webhook'' ms; (pl, b4) = payload_map (float64 L) [] ms
        in if b0 \<or> b1 \<or> b2 \<or> b3 \<or> b4 then None
           else Some \<lparr>T_DestinationPartnerID = d, T_DocumentType = ty, T_ReceiptWebhook = wh, T_Payload = pl\<rparr>)"

definition transmit_json :: "transmit_request \<Rightarrow> json" where
  "transmit_json req = outbound_json (T_DestinationPartnerID req) (T_DocumentType req) (T_ReceiptWebhook req)
     (JObj (T_Payload req))"

definition transmitHandler ::
  "libs \<Rightarrow> fault \<Rightarrow> time \<Rightarrow> string \<Rightarrow> request \<Rightarrow> msg_table \<Rightarrow> response \<times> msg_table" where
  "transmitHandler L flt now messageID r t =
     (case decode_transmit L (body_json r) of
        None \<Rightarrow> (respondWithError 400 ''Invalid JSON in request body'' (Some (body_error L r)), t)
      | Some req \<Rightarrow>
        (case validateTransmitRequest (Some req) of
           Some err \<Rightarrow> (respondWithError 400 ''Validation failed'' (Some err), t)
         | None \<Rightarrow>
           let msg = new_message messageID DirectionOutbound StatusQueued (print_json (transmit_json req)) now
           in case Msg_Create flt now (Some msg) t of
                (Inl e, t1) \<Rightarrow> (respondWithError 500 ''Failed to queue message'' (Some (err_text e)), t1)
              | (Inr _, t1) \<Rightarrow>
                (json_response 202 (JObj [(''message_id'', JStr messageID), (''status'', JStr StatusQueued)]), t1)))"

end
