(* ===== verification/Worker_Facts.thy ===== *)
theory Worker_Facts
  imports Worker
begin

text \<open>
  What the queue worker guarantees: the outcome of one delivery, the arithmetic of the
  backoff, what one pass does to every row of the table (the function \<open>row_after\<close>, a
  functional refinement of \<open>processQueue\<close>), and the number of requests a message can cause.
\<close>

section \<open>One delivery\<close>

lemma post_cases:
  obtains (bad_url) e where "post L nw u b h x y z = (None, Some (InternalWrap (Errorf e) x))"
  | (no_reply) q e where "post L nw u b h x y z = (Some q, Some (Network (Errorf e) y))"
      "q = \<lparr>q_method = ''POST'', q_url = u, q_headers = h, q_body = b\<rparr>" "nw q = Inl e"
  | (refused) q code reply m where "post L nw u b h x y z = (Some q, Some (NewErr ErrCodeNetwork m))"
      "q = \<lparr>q_method = ''POST'', q_url = u, q_headers = h, q_body = b\<rparr>" "nw q = Inr (code, reply)"
      "code < 200 \<or> 300 \<le> code"
  | (accepted) q code reply where "post L nw u b h x y z = (Some q, None)"
      "q = \<lparr>q_method = ''POST'', q_url = u, q_headers = h, q_body = b\<rparr>" "nw q = Inr (code, reply)"
      "200 \<le> code" "code < 300"
  unfolding post_def Let_def by (fastforce split: option.splits sum.splits if_splits prod.splits)

definition outcome_ok :: "network \<Rightarrow> delivery \<Rightarrow> bool" where
  "outcome_ok nw d =
     (case d of (None, err) \<Rightarrow> (case err of None \<Rightarrow> False | Some e \<Rightarrow> \<not> IsRetryable e)
      | (Some q, err) \<Rightarrow>
        (case nw q of Inl x \<Rightarrow> (case err of None \<Rightarrow> False | Some e \<Rightarrow> IsRetryable e)
         | Inr (code, reply) \<Rightarrow>
           (case err of None \<Rightarrow> 200 \<le> code \<and> code < 300 | Some e \<Rightarrow> IsRetryable e \<and> (code < 200 \<or> 300 \<le> code))))"

lemma outcome_post [simp]: "outcome_ok nw (post L nw u b h x y z)"
  by (rule post_cases [of L nw u b h x y z])
    (auto simp: outcome_ok_def isRetryable_def)

lemma outcome_not_sent [simp]: "outcome_ok nw (None, Some e) \<longleftrightarrow> \<not> IsRetryable e"
  by (simp add: outcome_ok_def)

lemma outcome_business: "outcome_ok (net E) (deliverBusinessDocument L w E msg)"
  by (auto simp: deliverBusinessDocument_def Let_def isRetryable_def split: option.split sum.split)

lemma outcome_jmdn: "outcome_ok (net E) (deliverJMDN L w E msg)"
  by (auto simp: deliverJMDN_def Let_def isRetryable_def split: option.split sum.split)

lemma outcome_deliver: "outcome_ok (net E) (deliverMessage L w E msg)"
  by (simp add: deliverMessage_def Let_def outcome_business outcome_jmdn)

definition names_message :: "string \<Rightarrow> http_request \<Rightarrow> bool" where
  "names_message k q \<longleftrightarrow> (''X-FideX-Message-ID'', k) \<in> set (q_headers q)"

lemma post_names:
  "fst (post L nw u b [(''Content-Type'', ct), (''User-Agent'', ua), (''X-FideX-Message-ID'', i), (''X-FideX-Sender'', sd)] x y z)
     = Some q \<Longrightarrow> names_message k q \<longleftrightarrow> k = i"
  "fst (post L nw u b [(''Content-Type'', ct), (''User-Agent'', ua), (''X-FideX-Message-ID'', i), (''X-FideX-Sender'', sd),
      (''X-FideX-Receipt-For'', rf)] x y z)
     = Some q \<Longrightarrow> names_message k q \<longleftrightarrow> k = i"
  by (auto simp: post_def Let_def names_message_def split: option.splits sum.splits prod.splits if_splits)

lemma deliver_names: "fst (deliverMessage L w E msg) = Some q \<Longrightarrow> names_message k q \<longleftrightarrow> k = MessageID msg"
  by (auto simp: deliverMessage_def deliverBusinessDocument_def deliverJMDN_def Let_def
      dest!: post_names [where k = k] split: if_splits option.splits sum.splits)

section \<open>The arithmetic of the backoff\<close>

lemma sint_bounds: "- (2 ^ 63) \<le> sint (n :: int64)" "sint (n :: int64) < 2 ^ 63"
  using sint_greater_eq [of n] sint_less [of n] by simp_all

lemma sint_in_range: "- (2 ^ 63) \<le> i \<Longrightarrow> i < 2 ^ 63 \<Longrightarrow> signed_take_bit 63 i = (i :: int)"
  by (rule signed_take_bit_int_eq_self) simp_all

lemma sint_plus_one: "sint (n :: int64) < sint (m :: int64) \<Longrightarrow> sint (n + 1) = sint n + 1"
  using sint_bounds [of n] sint_bounds [of m] by (simp add: sint_word_ariths sint_in_range)

lemma less_sint: "n <s m \<longleftrightarrow> sint n < sint m"
  by (simp add: word_sless_alt)

lemma sint_square:
  assumes "0 \<le> sint (n :: int64)" and "sint n \<le> 2 ^ 31"
  shows "sint (n * n) = (sint n)\<^sup>2"
proof -
  have "(sint n)\<^sup>2 \<le> (2 ^ 31)\<^sup>2" using assms by (intro power_mono) simp_all
  then have "(sint n)\<^sup>2 < 2 ^ 63" by simp
  moreover have "(0 :: int) \<le> (sint n)\<^sup>2" by simp
  ultimately show ?thesis
    unfolding sint_word_ariths power2_eq_square by (simp add: sint_in_range order_trans [OF _ zero_le_square])
qed

lemma sint_backoff_minutes:
  assumes "0 \<le> sint n" and "sint n \<le> 2 ^ 31"
  shows "sint (backoff_minutes n) = min 60 ((sint n)\<^sup>2)"
  using sint_square [OF assms] by (simp add: backoff_minutes_def less_sint)

lemma dur_times_minutes:
  assumes "0 \<le> sint n" and "sint n \<le> 60"
  shows "dur_times n minute = sint n * minute"
proof -
  have m: "sint (word_of_int minute :: int64) = minute"
    by (simp add: minute_def second_def)
  have "sint n * minute < 2 ^ 63" "0 \<le> sint n * minute" using assms by (simp_all add: minute_def second_def)
  then show ?thesis
    by (simp add: dur_times_def sint_word_ariths m sint_in_range)
qed

lemma backoff_value:
  assumes "1 \<le> sint n" and "sint n \<le> 2 ^ 31"
  shows "dur_times (backoff_minutes n) minute = min 60 ((sint n)\<^sup>2) * minute"
  using assms by (simp add: sint_backoff_minutes dur_times_minutes)

section \<open>What a pass does to a row\<close>

definition row_after :: "libs \<Rightarrow> worker \<Rightarrow> attempt_env \<Rightarrow> message \<Rightarrow> message" where
  "row_after L w E m =
     (if Status m \<noteq> StatusQueued \<or> \<not> due E m then m
      else case snd (deliverMessage L w E m) of None \<Rightarrow> m\<lparr>Status := StatusDelivered\<rparr>
      | Some e \<Rightarrow>
        let n = RetryCount m + 1 in
        if IsRetryable e \<and> n <s MaxRetries (w_config w)
        then set_retry n (Some (now_fail E + dur_times (backoff_minutes n) minute)) (last_error_text e) m
        else set_retry n None (last_error_text e) (m\<lparr>Status := StatusFailed\<rparr>))"

definition sent_for :: "libs \<Rightarrow> worker \<Rightarrow> attempt_env \<Rightarrow> message \<Rightarrow> http_request list" where
  "sent_for L w E m =
     (if due E m then (case fst (deliverMessage L w E m) of None \<Rightarrow> [] | Some q \<Rightarrow> [q]) else [])"

text \<open>No database fault, and nothing else writes while the request is out.\<close>

definition quiet :: "attempt_env \<Rightarrow> bool" where
  "quiet E \<longleftrightarrow> meanwhile E = id \<and> status_fault E = None \<and> retry_fault E = None"

lemma process_one_sent: "snd (process_one L w E m t) = sent_for L w E m"
  by (auto simp: process_one_def sent_for_def Let_def split: prod.split option.split)

lemma process_all_sent:
  "length Es = length ms \<Longrightarrow> snd (process_all L w Es ms t) = concat (map2 (sent_for L w) Es ms)"
  by (induction Es ms arbitrary: t rule: list_induct2)
    (simp_all add: case_prod_beta' process_one_sent Let_def)

lemma process_one_find:
  assumes "quiet E" and "MessageID m \<noteq> []" and "find_msg (MessageID m) t = Some m" and "Status m = StatusQueued"
  shows "find_msg k (fst (process_one L w E m t))
    = (if k = MessageID m then Some (row_after L w E m) else find_msg k t)"
proof (cases "due E m")
  case False
  with assms show ?thesis by (simp add: process_one_def quiet_def row_after_def)
next
  case True
  obtain q err where d: "deliverMessage L w E m = (q, err)" by fastforce
  show ?thesis
    using assms True
    by (cases err) (auto simp: process_one_def d quiet_def row_after_def Let_def handleSuccess_def handleFailure_def
        store.upd_lookup store.retry_lookup)
qed

lemma process_all_find:
  assumes "length Es = length ms" and "\<forall>E \<in> set Es. quiet E" and "distinct (map MessageID ms)"
    and "\<forall>m \<in> set ms. MessageID m \<noteq> [] \<and> Status m = StatusQueued \<and> find_msg (MessageID m) t = Some m"
  shows "(\<forall>i < length ms. find_msg (MessageID (ms ! i)) (fst (process_all L w Es ms t))
             = Some (row_after L w (Es ! i) (ms ! i))) \<and>
         (k \<notin> MessageID ` set ms \<longrightarrow> find_msg k (fst (process_all L w Es ms t)) = find_msg k t)"
  using assms
proof (induction Es ms arbitrary: t k rule: list_induct2)
  case Nil
  then show ?case by simp
next
  case (Cons E Es m ms)
  let ?t = "fst (process_one L w E m t)"
  have find: "find_msg j ?t = (if j = MessageID m then Some (row_after L w E m) else find_msg j t)" for j
    using Cons.prems by (intro process_one_find) simp_all
  have pa: "fst (process_all L w (E # Es) (m # ms) t) = fst (process_all L w Es ms ?t)"
    by (simp add: case_prod_beta' Let_def)
  have ne: "MessageID m' \<noteq> MessageID m" if "m' \<in> set ms" for m'
    using Cons.prems(2) that by (force simp: image_iff)
  have IH: "(\<forall>i < length ms. find_msg (MessageID (ms ! i)) (fst (process_all L w Es ms ?t))
             = Some (row_after L w (Es ! i) (ms ! i))) \<and>
         (j \<notin> MessageID ` set ms \<longrightarrow> find_msg j (fst (process_all L w Es ms ?t)) = find_msg j ?t)" for j
    using Cons.prems ne by (intro Cons.IH) (auto simp: find)
  have fresh: "MessageID m \<notin> MessageID ` set ms" using Cons.prems(2) by simp
  show ?case
    unfolding pa using IH [of "MessageID m"] IH [of k] fresh
    by (auto simp: find nth_Cons split: nat.split)
qed

lemma queued_rows:
  assumes "msgs_ok t" and "Msg_ListByStatus None StatusQueued t = Inr ms"
  shows "distinct (map MessageID ms)"
    and "\<forall>m \<in> set ms. MessageID m \<noteq> [] \<and> Status m = StatusQueued \<and> find_msg (MessageID m) t = Some m"
    and "find_msg k t = Some m \<Longrightarrow> Status m = StatusQueued \<Longrightarrow> m \<in> set ms"
proof -
  have ms: "ms = order_asc CreatedAt (filter (\<lambda>m. Status m = StatusQueued) (rows t))"
    using assms(2) by (simp add: Msg_ListByStatus_def)
  show "distinct (map MessageID ms)"
    unfolding ms using assms(1)
    by (intro distinct_order Prelude.distinct_map_filter) (simp add: msgs_ok_def table_ok_def)
  show "\<forall>m \<in> set ms. MessageID m \<noteq> [] \<and> Status m = StatusQueued \<and> find_msg (MessageID m) t = Some m"
    using assms(1) by (auto simp: ms msgs_ok_def table_ok_def list_all_iff row_ok_def intro: msgs.find_row)
  show "find_msg k t = Some m \<Longrightarrow> Status m = StatusQueued \<Longrightarrow> m \<in> set ms"
    by (auto simp: ms dest: tbl_find_in)
qed

text \<open>Every row of the table, with the requests sent in its name.\<close>

lemma sent_for_names:
  "filter (names_message k) (sent_for L w E m) = (if k = MessageID m then sent_for L w E m else [])"
proof (cases "fst (deliverMessage L w E m)")
  case (Some q)
  then show ?thesis using deliver_names [OF Some, of k] by (cases "due E m") (simp_all add: sent_for_def)
qed (cases "due E m"; simp add: sent_for_def)

lemma sent_none:
  "length Es = length ms \<Longrightarrow> k \<notin> MessageID ` set ms \<Longrightarrow>
    filter (names_message k) (concat (map2 (sent_for L w) Es ms)) = []"
  by (induction Es ms rule: list_induct2) (auto simp: sent_for_names)

lemma sent_one:
  "length Es = length ms \<Longrightarrow> distinct (map MessageID ms) \<Longrightarrow> i < length ms \<Longrightarrow>
    filter (names_message (MessageID (ms ! i))) (concat (map2 (sent_for L w) Es ms)) = sent_for L w (Es ! i) (ms ! i)"
proof (induction Es ms arbitrary: i rule: list_induct2)
  case (Cons E Es m ms)
  show ?case
  proof (cases i)
    case 0
    with Cons sent_none [of Es ms "MessageID m" L w] show ?thesis by (simp add: sent_for_names)
  next
    case (Suc j)
    with Cons.prems have "MessageID (ms ! j) \<noteq> MessageID m" by (force simp: image_iff dest: nth_mem)
    with Suc Cons show ?thesis by (simp add: sent_for_names)
  qed
qed simp

lemma processQueue_row:
  assumes "msgs_ok t" and "\<And>i. quiet (Es i)"
  shows "\<exists>i. find_msg k (fst (processQueue L w None Es t)) = map_option (row_after L w (Es i)) (find_msg k t)
    \<and> filter (names_message k) (snd (processQueue L w None Es t))
      = (case find_msg k t of None \<Rightarrow> []
         | Some m \<Rightarrow> if Status m = StatusQueued then sent_for L w (Es i) m else [])"
proof -
  obtain ms where ms: "Msg_ListByStatus None StatusQueued t = Inr ms" by (simp add: Msg_ListByStatus_def)
  note q = queued_rows [OF assms(1) ms]
  let ?Es = "map Es [0..<length ms]"
  have pq: "processQueue L w None Es t = process_all L w ?Es ms t"
    by (simp add: processQueue_def ms)
  have len: "length ?Es = length ms" and qs: "\<forall>E \<in> set ?Es. quiet E" using assms(2) by simp_all
  note find = process_all_find [of ?Es ms t L w k, OF len qs q(1,2)]
  show ?thesis
  proof (cases "\<exists>m. find_msg k t = Some m \<and> Status m = StatusQueued")
    case True
    then obtain m where m: "find_msg k t = Some m" "Status m = StatusQueued" by blast
    have k: "MessageID m = k" using tbl_find_in [OF m(1)] by blast
    from q(3) [OF m] obtain i where i: "i < length ms" "ms ! i = m" by (auto simp: in_set_conv_nth)
    then have Es: "?Es ! i = Es i" by simp
    have "find_msg k (fst (process_all L w ?Es ms t)) = Some (row_after L w (Es i) m)"
      using conjunct1 [OF find, rule_format, OF i(1)] unfolding i(2) Es k .
    moreover have "filter (names_message k) (concat (map2 (sent_for L w) ?Es ms)) = sent_for L w (Es i) m"
      using sent_one [OF len q(1) i(1), of L w] unfolding i(2) Es k .
    ultimately show ?thesis
      by (intro exI [of _ i]) (simp only: pq m option.simps process_all_sent [OF len] simp_thms if_True)
  next
    case False
    then have k: "k \<notin> MessageID ` set ms" using q(2) by force
    have "find_msg k (fst (process_all L w ?Es ms t)) = find_msg k t" using find k by blast
    moreover have "map_option (row_after L w (Es 0)) (find_msg k t) = find_msg k t"
      using False by (cases "find_msg k t") (auto simp: row_after_def)
    moreover have "(case find_msg k t of None \<Rightarrow> []
         | Some m \<Rightarrow> if Status m = StatusQueued then sent_for L w (Es 0) m else []) = []"
      using False by (auto split: option.split)
    ultimately show ?thesis
      using sent_none [OF len k, of L w] by (intro exI [of _ 0]) (simp only: pq process_all_sent [OF len])
  qed
qed

lemma msgs_ok_processQueue:
  assumes "msgs_ok t" and "\<And>i t. msgs_ok t \<Longrightarrow> msgs_ok (meanwhile (Es i) t)"
  shows "msgs_ok (fst (processQueue L w flt Es t))"
proof -
  have one: "msgs_ok (fst (process_one L w (Es i) m t))" if "msgs_ok t" for i m t
    using that assms(2)
    by (auto simp: process_one_def handleSuccess_def handleFailure_def Let_def
        intro!: inv_intros split: prod.split option.split)
  have all: "msgs_ok (fst (process_all L w (map Es is) ms t))" if "msgs_ok t" for "is" ms t
    using that
  proof (induction "is" arbitrary: ms t)
    case (Cons i "is")
    then show ?case by (cases ms) (simp_all add: case_prod_beta' Let_def one)
  qed simp
  show ?thesis
    using assms(1) by (auto simp: processQueue_def all split: sum.split)
qed

section \<open>Several passes\<close>

fun passes ::
  "libs \<Rightarrow> worker \<Rightarrow> (nat \<Rightarrow> attempt_env) list \<Rightarrow> msg_table \<Rightarrow> msg_table \<times> http_request list" where
  "passes L w [] t = (t, [])"
| "passes L w (Es # Ess) t =
     (let (t1, log1) = processQueue L w None Es t; (t2, log2) = passes L w Ess t1
      in (t2, log1 @ log2))"

definition may_retry :: "worker \<Rightarrow> message \<Rightarrow> bool" where
  "may_retry w m \<longleftrightarrow> (Status m = StatusQueued \<longrightarrow> RetryCount m <s MaxRetries (w_config w))"

definition budget :: "worker \<Rightarrow> message \<Rightarrow> int" where
  "budget w m = (if Status m = StatusQueued then sint (MaxRetries (w_config w)) - sint (RetryCount m) else 0)"

lemma set_retry_simps [simp]:
  "Status (set_retry n a e m) = Status m" "RetryCount (set_retry n a e m) = n"
  "MessageID (set_retry n a e m) = MessageID m" "Payload (set_retry n a e m) = Payload m"
  "JobType (set_retry n a e m) = JobType m" "NextRetryAt (set_retry n a e m) = a"
  "LastError (set_retry n a e m) = e"
  by (simp_all add: set_retry_def)

lemma sent_for_short: "length (sent_for L w E m) \<le> 1"
  by (simp add: sent_for_def split: option.split)

lemma row_after_budget:
  assumes "may_retry w m"
  shows "may_retry w (row_after L w E m)"
    and "int (length (if Status m = StatusQueued then sent_for L w E m else [])) + budget w (row_after L w E m)
      \<le> budget w m"
proof -
  show mr: "may_retry w (row_after L w E m)"
    using assms by (auto simp: may_retry_def row_after_def Let_def split: option.split)
  consider (same) "Status m \<noteq> StatusQueued \<or> \<not> due E m" | (go) "Status m = StatusQueued" "due E m" by blast
  then show "int (length (if Status m = StatusQueued then sent_for L w E m else [])) + budget w (row_after L w E m)
      \<le> budget w m"
  proof cases
    case same
    then show ?thesis by (auto simp: row_after_def sent_for_def)
  next
    case go
    then have lt: "sint (RetryCount m) < sint (MaxRetries (w_config w))"
      using assms by (simp add: may_retry_def less_sint)
    have "budget w (row_after L w E m) \<le> budget w m - 1"
      using go lt sint_plus_one [OF lt]
      by (auto simp: row_after_def budget_def Let_def split: option.split)
    with go sent_for_short [of L w E m] show ?thesis by simp
  qed
qed

lemma passes_budget:
  assumes "msgs_ok t" and "\<forall>Es \<in> set Ess. \<forall>i. quiet (Es i)" and "find_msg k t = Some m" and "may_retry w m"
  shows "\<exists>m'. find_msg k (fst (passes L w Ess t)) = Some m' \<and> may_retry w m'
    \<and> int (length (filter (names_message k) (snd (passes L w Ess t)))) + budget w m' \<le> budget w m"
  using assms
proof (induction Ess arbitrary: t m)
  case (Cons Es Ess)
  let ?p = "processQueue L w None Es t"
  have qs: "\<And>i. quiet (Es i)" using Cons.prems(2) by simp
  obtain i where i: "find_msg k (fst ?p) = Some (row_after L w (Es i) m)"
    "filter (names_message k) (snd ?p) = (if Status m = StatusQueued then sent_for L w (Es i) m else [])"
    using processQueue_row [where t = t and Es = Es and k = k and L = L and w = w, OF Cons.prems(1) qs]
    by (auto simp: Cons.prems(3))
  have ok: "msgs_ok (fst ?p)"
    using Cons.prems(1) qs by (intro msgs_ok_processQueue) (simp_all add: quiet_def)
  note row = row_after_budget [OF Cons.prems(4), of L "Es i"]
  obtain m' where m': "find_msg k (fst (passes L w Ess (fst ?p))) = Some m'" "may_retry w m'"
    "int (length (filter (names_message k) (snd (passes L w Ess (fst ?p))))) + budget w m'
      \<le> budget w (row_after L w (Es i) m)"
    using Cons.IH [OF ok _ i(1) row(1)] Cons.prems(2) by auto
  show ?case
    using m' row(2) i(2) by (intro exI [of _ m']) (simp add: case_prod_beta' Let_def)
qed simp

section \<open>What a business document looks like on the wire\<close>

lemma post_sent:
  "post L nw u b h x y z = (Some q, err) \<Longrightarrow> q = \<lparr>q_method = ''POST'', q_url = u, q_headers = h, q_body = b\<rparr>"
  by (auto simp: post_def Let_def split: option.splits sum.splits prod.splits if_splits)

lemma deliverBusinessDocument_sent:
  assumes "deliverBusinessDocument L w E m = (Some q, err)"
  obtains queued p encKey engine alg jwe where
    "unmarshal_outbound (Payload m) = Some queued" "DestinationPartnerID queued \<noteq> []" "QPayload queued \<noteq> []"
    "Partner_GetByID (partner_fault E) (DestinationPartnerID queued) (the_partners E) = Inr p"
    "ParsePublicKeyFromJWKSByUse L (PublicKeyJWKS p) ''enc'' = Inr encKey"
    "w_engine w = Some engine"
    "NegotiateEncryptionAlgorithm LocalSupportedEncryptionAlgorithms (SupportedEncAlgs p) = Inr alg"
    "SignAndEncryptWithAlg L (rnd E) engine (QPayload queued) encKey alg = Inr jwe"
    "q_url q = MessageEndpoint p"
    "q_body q = print_json (envelope_json \<lparr>Routing = \<lparr>FidexVersion = ''1.0'', RMessageID = MessageID m,
        SenderID = w_nodeID w, ReceiverID = DestinationPartnerID queued, DocumentType = QDocumentType queued,
        Timestamp = fmt_millis (now_build E), ReceiptWebhook = QReceiptWebhook queued\<rparr>, EncPayload = jwe\<rparr>)"
  using assms
  by (auto simp: deliverBusinessDocument_def Let_def dest!: post_sent
      split: option.splits sum.splits if_splits)

lemma last_error_simps [simp]:
  "last_error_text (Validation m) = m" "last_error_text (NewErr c m) = m" "last_error_text (Wrap e c m) = m"
  "last_error_text (Network e m) = ''network '' @ m @ '' failed''" "last_error_text (InternalWrap e m) = m"
  by (simp_all add: last_error_text_def err_constructors)

lemma negotiate_unadvertised:
  "NegotiateEncryptionAlgorithm LocalSupportedEncryptionAlgorithms [] = Inr AlgRSAOAEP"
  by (simp add: Negotiate_cases common_algs_def LocalSupportedEncryptionAlgorithms_def)

section \<open>A concrete queue\<close>

definition demo_row :: message where
  "demo_row = \<lparr>ID = 1, MessageID = ''m-1'', Direction = DirectionOutbound, Status = StatusQueued,
     Payload = ''{}'', JobType = ''audit'', RetryCount = 0, NextRetryAt = None, LastError = [], CreatedAt = 7\<rparr>"

definition demo_table :: msg_table where "demo_table = \<lparr>rows = [demo_row], next_id = 2\<rparr>"

definition demo_env :: attempt_env where
  "demo_env = \<lparr>now_check = 10, now_build = 11, now_fail = 12, rnd = 3, net = (\<lambda>q. Inl ''connection refused''),
     the_partners = empty_table, partner_fault = None, status_fault = None, retry_fault = None, meanwhile = id\<rparr>"

definition demo_worker :: worker where
  "demo_worker = SetNodeID ''urn:a'' (NewWorker (Some (engine_of demo_key ''urn:a'')))"

lemma demo_table_ok: "msgs_ok demo_table"
  by (simp add: demo_table_def demo_row_def msgs_ok_def table_ok_def row_ok_def)

lemma demo_find: "find_msg ''m-1'' demo_table = Some demo_row"
  by (simp add: demo_table_def demo_row_def tbl_find_def)

lemma demo_quiet: "quiet demo_env"
  by (simp add: demo_env_def quiet_def)

text \<open>A business document for a known partner, and a peer that accepts it while the table changes.\<close>

definition demo_doc :: json where "demo_doc = JObj [(''total'', JNum ''12'')]"

definition demo_doc_row :: message where
  "demo_doc_row = demo_row\<lparr>Payload := print_json (outbound_json ''urn:b'' ''invoice'' [] demo_doc),
     JobType := JobTypeProcessOutbound\<rparr>"

definition demo_partner :: partner where
  "demo_partner = \<lparr>P_ID = 1, PartnerID = ''urn:b'', PName = ''B'', JWKSUrl = ''https://b/jwks'',
     MessageEndpoint = ''https://b/in'', MDNReceiptEndpoint = ''https://b/rc'', PublicKeyJWKS = ''keys'',
     SupportedEncAlgs = [], LastKeyRefresh = None, PCreatedAt = 1, PUpdatedAt = 1\<rparr>"

definition demo_partners :: partner_table where "demo_partners = \<lparr>rows = [demo_partner], next_id = 2\<rparr>"

definition demo_env_ok :: attempt_env where
  "demo_env_ok = demo_env\<lparr>net := (\<lambda>q. Inr (202, [])), the_partners := demo_partners\<rparr>"

lemma demo_partners_ok: "partners_ok demo_partners"
  by (simp add: demo_partners_def demo_partner_def partners_ok_def table_ok_def prow_ok_def)

lemma demo_valid_num: "valid_num ''12''"
  by code_simp

lemma demo_doc_wf: "wf_json demo_doc"
  by (simp add: demo_doc_def demo_valid_num)

lemma demo_unmarshal:
  "unmarshal_outbound (Payload demo_doc_row) = Some (outbound_view (''urn:b'', ''invoice'', [], demo_doc))"
  by (simp add: demo_doc_row_def unmarshal_outbound_json demo_doc_wf)

lemma demo_delivery: "\<exists>q. deliverBusinessDocument demo_libs demo_worker E demo_doc_row = (Some q, None)"
  if "E = demo_env_ok\<lparr>meanwhile := mw\<rparr>"
proof -
  have p: "Partner_GetByID None ''urn:b'' demo_partners = Inr demo_partner"
    by (simp add: Partner_GetByID_def demo_partners_def demo_partner_def tbl_find_def)
  have k: "ParsePublicKeyFromJWKSByUse demo_libs ''keys'' ''enc'' = Inr demo_pub"
    by (simp add: ParsePublicKeyFromJWKSByUse_def demo_libs_def demo_jwks_def)
  have s: "\<exists>c. SignAndEncryptWithAlg demo_libs 3 (engine_of demo_key ''urn:a'') (print_json demo_doc) demo_pub AlgRSAOAEP = Inr c"
    by (simp add: SignAndEncryptWithAlg_def new_signer_checked_def demo_libs_def)
  have f: "MessageEndpoint demo_partner = ''https://b/in''" "PublicKeyJWKS demo_partner = ''keys''"
    "SupportedEncAlgs demo_partner = []" by (simp_all add: demo_partner_def)
  have d: "print_json demo_doc \<noteq> []" by (simp add: demo_doc_def)
  have u: "new_request demo_libs ''https://b/in'' = None" by (simp add: demo_libs_def)
  show ?thesis
    using s d that
    by (auto simp: deliverBusinessDocument_def demo_unmarshal outbound_view_def demo_env_ok_def demo_env_def p k f
        demo_worker_def SetNodeID_def NewWorker_def negotiate_unadvertised post_def u Let_def)
qed

section \<open>Properties\<close>

text \<open>C12: The outcome of one delivery attempt. A delivery that sent no request failed with an
  error that is not retried; a request that went out succeeded exactly when the peer
  answered with a 2xx status, and every other outcome of it is retried.\<close>

theorem delivery_outcome:
  "case deliverMessage L w E msg of
     (None, err) \<Rightarrow> (case err of None \<Rightarrow> False | Some e \<Rightarrow> \<not> IsRetryable e)
   | (Some q, err) \<Rightarrow>
       (case net E q of
          Inl x \<Rightarrow> (case err of None \<Rightarrow> False | Some e \<Rightarrow> IsRetryable e)
        | Inr (code, reply) \<Rightarrow>
            (case err of None \<Rightarrow> 200 \<le> code \<and> code < 300
             | Some e \<Rightarrow> IsRetryable e \<and> (code < 200 \<or> 300 \<le> code)))"
  using outcome_deliver [of E L w msg] unfolding outcome_ok_def .

text \<open>C13: Whatever the partner advertised, a business document leaves the node encrypted with
  RSA-OAEP: the partner row the worker reads back never carries the capability list, so the
  negotiation always takes its fallback. The rest of the request is as the protocol asks:
  the partner's endpoint, this node as the sender, the row's id as the message id.\<close>

theorem worker_always_rsa_oaep:
  assumes "partners_ok (the_partners E)" and "deliverBusinessDocument L w E msg = (Some q, err)"
  shows "\<exists>queued p encKey engine jwe.
    unmarshal_outbound (Payload msg) = Some queued
    \<and> find_partner (DestinationPartnerID queued) (the_partners E) = Some p
    \<and> ParsePublicKeyFromJWKSByUse L (PublicKeyJWKS p) ''enc'' = Inr encKey
    \<and> w_engine w = Some engine
    \<and> SignAndEncryptWithAlg L (rnd E) engine (QPayload queued) encKey AlgRSAOAEP = Inr jwe
    \<and> q_url q = MessageEndpoint p
    \<and> q_body q = print_json (envelope_json \<lparr>Routing = \<lparr>FidexVersion = ''1.0'', RMessageID = MessageID msg,
        SenderID = w_nodeID w, ReceiverID = DestinationPartnerID queued, DocumentType = QDocumentType queued,
        Timestamp = fmt_millis (now_build E), ReceiptWebhook = QReceiptWebhook queued\<rparr>, EncPayload = jwe\<rparr>)"
proof -
  obtain queued p encKey engine alg jwe where s:
    "unmarshal_outbound (Payload msg) = Some queued"
    "Partner_GetByID (partner_fault E) (DestinationPartnerID queued) (the_partners E) = Inr p"
    "ParsePublicKeyFromJWKSByUse L (PublicKeyJWKS p) ''enc'' = Inr encKey" "w_engine w = Some engine"
    "NegotiateEncryptionAlgorithm LocalSupportedEncryptionAlgorithms (SupportedEncAlgs p) = Inr alg"
    "SignAndEncryptWithAlg L (rnd E) engine (QPayload queued) encKey alg = Inr jwe"
    "q_url q = MessageEndpoint p"
    "q_body q = print_json (envelope_json \<lparr>Routing = \<lparr>FidexVersion = ''1.0'', RMessageID = MessageID msg,
        SenderID = w_nodeID w, ReceiverID = DestinationPartnerID queued, DocumentType = QDocumentType queued,
        Timestamp = fmt_millis (now_build E), ReceiptWebhook = QReceiptWebhook queued\<rparr>, EncPayload = jwe\<rparr>)"
    by (rule deliverBusinessDocument_sent [OF assms(2)])
  have "SupportedEncAlgs p = []" by (rule Partner_GetByID_capabilities [OF assms(1) s(2)])
  then have "alg = AlgRSAOAEP" using s(5) by (simp add: negotiate_unadvertised)
  with s Partner_GetByID_ok [OF s(2)] show ?thesis by blast
qed

theorem worker_always_rsa_oaep_witness:
  "\<exists>q err queued p encKey engine jwe.
    deliverBusinessDocument demo_libs demo_worker demo_env_ok demo_doc_row = (Some q, err)
    \<and> unmarshal_outbound (Payload demo_doc_row) = Some queued
    \<and> find_partner (DestinationPartnerID queued) demo_partners = Some p
    \<and> ParsePublicKeyFromJWKSByUse demo_libs (PublicKeyJWKS p) ''enc'' = Inr encKey
    \<and> w_engine demo_worker = Some engine
    \<and> SignAndEncryptWithAlg demo_libs 3 engine (QPayload queued) encKey AlgRSAOAEP = Inr jwe
    \<and> q_url q = MessageEndpoint p"
proof -
  have E: "demo_env_ok = demo_env_ok\<lparr>meanwhile := meanwhile demo_env_ok\<rparr>" by simp
  obtain q where q: "deliverBusinessDocument demo_libs demo_worker demo_env_ok demo_doc_row = (Some q, None)"
    using demo_delivery [OF E] by blast
  have ps: "the_partners demo_env_ok = demo_partners" "rnd demo_env_ok = 3"
    by (simp_all add: demo_env_ok_def demo_env_def)
  show ?thesis
    using worker_always_rsa_oaep [of demo_env_ok, OF _ q] demo_partners_ok q unfolding ps by blast
qed

text \<open>A row whose job type names no known job is dead-lettered by the first pass that
  finds it due: nothing is sent for it, and it ends FAILED with one attempt counted.\<close>

theorem unknown_job_dead_lettered:
  assumes "msgs_ok t" and "\<And>i. quiet (Es i)" and "find_msg k t = Some m" and "Status m = StatusQueued"
    and "JobType m \<noteq> []" and "\<not> IsKnownJobType (JobType m)" and "\<And>i. due (Es i) m"
  shows "find_msg k (fst (processQueue L w None Es t))
      = Some (set_retry (RetryCount m + 1) None (''unknown job_type '' @ quote_go (JobType m)) (m\<lparr>Status := StatusFailed\<rparr>))
    \<and> filter (names_message k) (snd (processQueue L w None Es t)) = []"
proof -
  have d: "deliverMessage L w (Es i) m = (None, Some (Validation (''unknown job_type '' @ quote_go (JobType m))))" for i
    using assms(5,6) by (simp add: deliverMessage_def IsKnownJobType_def Let_def)
  obtain i where i: "find_msg k (fst (processQueue L w None Es t)) = Some (row_after L w (Es i) m)"
    "filter (names_message k) (snd (processQueue L w None Es t)) = sent_for L w (Es i) m"
    using processQueue_row [where t = t and Es = Es and k = k and L = L and w = w, OF assms(1,2)]
    by (auto simp: assms(3,4))
  have "row_after L w (Es i) m
      = set_retry (RetryCount m + 1) None (''unknown job_type '' @ quote_go (JobType m)) (m\<lparr>Status := StatusFailed\<rparr>)"
    using assms(4,7) by (simp add: row_after_def d)
  with i show ?thesis by (simp add: sent_for_def d)
qed

theorem unknown_job_witness:
  "find_msg ''m-1'' (fst (processQueue demo_libs demo_worker None (\<lambda>i. demo_env) demo_table))
      = Some (set_retry (RetryCount demo_row + 1) None (''unknown job_type '' @ quote_go (JobType demo_row))
          (demo_row\<lparr>Status := StatusFailed\<rparr>))
    \<and> filter (names_message ''m-1'') (snd (processQueue demo_libs demo_worker None (\<lambda>i. demo_env) demo_table)) = []"
  by (rule unknown_job_dead_lettered [OF demo_table_ok demo_quiet demo_find])
    (simp_all add: demo_row_def IsKnownJobType_def JobTypeProcessOutbound_def JobTypeSendJMDN_def due_def)



text \<open>C3: One pass refines the row function \<open>row_after\<close>: without interference every row of the
  table ends as that function says, on its own, and rows that are not queued or not yet due
  do not change.\<close>

theorem pass_refines_rows:
  assumes "msgs_ok t" and "\<And>i. quiet (Es i)"
  shows "\<exists>i. find_msg k (fst (processQueue L w None Es t)) = map_option (row_after L w (Es i)) (find_msg k t)"
  using processQueue_row [where t = t and Es = Es and k = k and L = L and w = w, OF assms] by blast

theorem pass_refines_rows_witness:
  "\<exists>i :: nat. find_msg ''m-1'' (fst (processQueue demo_libs demo_worker None (\<lambda>i. demo_env) demo_table))
    = map_option (row_after demo_libs demo_worker demo_env) (find_msg ''m-1'' demo_table)"
  using pass_refines_rows [OF demo_table_ok demo_quiet, of "''m-1''" demo_libs demo_worker] by simp

text \<open>However the database or the rest of the node behaves during a pass, its requests are
  those of the queued rows that are due, one attempt each, oldest row first.\<close>

theorem pass_requests:
  assumes "Msg_ListByStatus None StatusQueued t = Inr ms"
  shows "snd (processQueue L w None Es t)
      = concat (map (\<lambda>i. if due (Es i) (ms ! i)
                        then (case fst (deliverMessage L w (Es i) (ms ! i)) of None \<Rightarrow> [] | Some q \<Rightarrow> [q])
                        else []) [0..<length ms])
    \<and> sorted (map CreatedAt ms)"
proof -
  have "map2 (sent_for L w) (map Es [0..<length ms]) ms = map (\<lambda>i. sent_for L w (Es i) (ms ! i)) [0..<length ms]"
    by (rule nth_equalityI) simp_all
  moreover have "snd (processQueue L w None Es t) = concat (map2 (sent_for L w) (map Es [0..<length ms]) ms)"
    using assms by (simp add: processQueue_def process_all_sent)
  moreover have "sorted (map CreatedAt ms)" using Msg_ListByStatus_sorted [OF assms] by blast
  ultimately show ?thesis by (simp only: sent_for_def)
qed

theorem pass_requests_witness:
  "snd (processQueue demo_libs demo_worker None (\<lambda>i. demo_env) demo_table) = []"
proof -
  have l: "Msg_ListByStatus None StatusQueued demo_table = Inr [demo_row]"
    by (simp add: Msg_ListByStatus_def demo_table_def demo_row_def order_asc_def)
  have d: "fst (deliverMessage demo_libs demo_worker demo_env demo_row) = None"
    by (simp add: deliverMessage_def demo_row_def JobTypeProcessOutbound_def JobTypeSendJMDN_def)
  show ?thesis
    using pass_requests [OF l, of demo_libs demo_worker "\<lambda>i. demo_env"] by (simp add: d)
qed



text \<open>C17: The verdict of a receipt is lost when it arrives while the document's own request is
  still open: the row the receipt set to FAILED ends DELIVERED once the peer answers 2xx.\<close>

theorem receipt_race:
  assumes "find_msg (MessageID m) t = Some m" and "MessageID m \<noteq> []" and "due E m"
    and "deliverMessage L w E m = (Some q, None)" and "status_fault E = None"
    and "meanwhile E = (\<lambda>t. snd (Msg_UpdateStatus None (MessageID m) StatusFailed t))"
  shows "find_msg (MessageID m) (fst (process_one L w E m t)) = Some (m\<lparr>Status := StatusDelivered\<rparr>)"
  using assms by (simp add: process_one_def handleSuccess_def store.upd_lookup)

theorem receipt_race_witness:
  "\<exists>E. find_msg ''m-1'' (fst (process_one demo_libs demo_worker E demo_doc_row \<lparr>rows = [demo_doc_row], next_id = 2\<rparr>))
      = Some (demo_doc_row\<lparr>Status := StatusDelivered\<rparr>)
    \<and> find_msg ''m-1'' (meanwhile E \<lparr>rows = [demo_doc_row], next_id = 2\<rparr>) = Some (demo_doc_row\<lparr>Status := StatusFailed\<rparr>)"
proof -
  let ?mw = "\<lambda>t. snd (Msg_UpdateStatus None (MessageID demo_doc_row) StatusFailed t)"
  let ?E = "demo_env_ok\<lparr>meanwhile := ?mw\<rparr>"
  let ?t = "\<lparr>rows = [demo_doc_row], next_id = 2\<rparr>"
  have id: "MessageID demo_doc_row = ''m-1''" by (simp add: demo_doc_row_def demo_row_def)
  have f: "find_msg (MessageID demo_doc_row) ?t = Some demo_doc_row" by (simp add: tbl_find_def)
  have "JobType demo_doc_row = JobTypeProcessOutbound" by (simp add: demo_doc_row_def)
  then obtain q where q: "deliverMessage demo_libs demo_worker ?E demo_doc_row = (Some q, None)"
    using demo_delivery [OF refl, of ?mw] by (auto simp: deliverMessage_def)
  have due: "due ?E demo_doc_row" by (simp add: due_def demo_doc_row_def demo_row_def)
  have "find_msg (MessageID demo_doc_row) (fst (process_one demo_libs demo_worker ?E demo_doc_row ?t))
      = Some (demo_doc_row\<lparr>Status := StatusDelivered\<rparr>)"
    by (rule receipt_race [OF f _ due q]) (simp_all add: id, simp_all add: demo_env_ok_def demo_env_def)
  with f show ?thesis unfolding id by (intro exI [of _ ?E]) (simp add: store.upd_lookup id)
qed

end
