(* ===== verification/ApiExternal_Facts.thy ===== *)
theory ApiExternal_Facts
  imports ApiExternal Worker_Facts
begin

text \<open>
  What the B2B handlers guarantee: the decision table of inbound admission, replay and
  quarantine, the effect of receipts, and the shape of the rows \<open>transmitHandler\<close> queues.
\<close>

lemma new_message_simps [simp]:
  "MessageID (new_message i d s p n) = i" "Direction (new_message i d s p n) = d"
  "Status (new_message i d s p n) = s" "Payload (new_message i d s p n) = p"
  "JobType (new_message i d s p n) = []" "RetryCount (new_message i d s p n) = 0"
  "NextRetryAt (new_message i d s p n) = None" "CreatedAt (new_message i d s p n) = n"
  by (simp_all add: new_message_def)

lemma set_msg_id_simps [simp]:
  "MessageID (set_msg_id i m) = MessageID m" "Direction (set_msg_id i m) = Direction m"
  "Status (set_msg_id i m) = Status m" "Payload (set_msg_id i m) = Payload m"
  "JobType (set_msg_id i m) = JobType m" "RetryCount (set_msg_id i m) = RetryCount m"
  "NextRetryAt (set_msg_id i m) = NextRetryAt m"
  by (simp_all add: set_msg_id_def)

lemma print_json_nonempty [simp]: "print_json (JObj ms) \<noteq> []"
  by simp

lemma envelope_texts_nonempty [simp]:
  "print_json (api_envelope_json e) \<noteq> []" "print_json (jmdn_job_json a b c d) \<noteq> []"
  "print_json (outbound_json a b c v) \<noteq> []"
  by (simp_all add: api_envelope_json_def jmdn_job_json_def outbound_json_def)

lemma respond_inbound [simp]: "r_code (writeInboundRejection c b) = c"
  by (simp add: writeInboundRejection_def)

section \<open>Inbound envelopes\<close>

text \<open>The envelope a request carries, when it is well formed and complete.\<close>

definition valid_envelope :: "request \<Rightarrow> fidex_envelope \<Rightarrow> bool" where
  "valid_envelope r e \<longleftrightarrow> decode_envelope (body_json r) = Some e \<and> validateFidexEnvelope (Some e) = None"

lemma validate_envelope_None:
  "validateFidexEnvelope (Some e) = None \<longleftrightarrow>
     FidexVersion (Routing e) \<noteq> [] \<and> RMessageID (Routing e) \<noteq> [] \<and> SenderID (Routing e) \<noteq> []
     \<and> ReceiverID (Routing e) \<noteq> [] \<and> EncPayload e \<noteq> []"
  by (simp add: validateFidexEnvelope_def)

definition stored_payload :: "fidex_envelope \<Rightarrow> (nat \<times> inboundRejection) + string \<Rightarrow> string" where
  "stored_payload e verdict =
     (let d = (case verdict of Inl _ \<Rightarrow> [] | Inr d \<Rightarrow> d) in if d = [] then print_json (api_envelope_json e) else d)"

definition inbound_row :: "inbound_env \<Rightarrow> fidex_envelope \<Rightarrow> (nat \<times> inboundRejection) + string \<Rightarrow> message" where
  "inbound_row E e verdict =
     new_message (RMessageID (Routing e)) DirectionInbound
       (case verdict of Inl _ \<Rightarrow> StatusQuarantined | Inr _ \<Rightarrow> StatusDelivered) (stored_payload e verdict) (ie_now E)"

definition jmdn_row :: "inbound_env \<Rightarrow> fidex_envelope \<Rightarrow> message" where
  "jmdn_row E e = new_message (ie_uuid E) DirectionOutbound StatusQueued
     (print_json (jmdn_job_json (RMessageID (Routing e)) (SenderID (Routing e)) ''processed'' (EncPayload e))) (ie_now2 E)"

lemma stored_payload_ne [simp]: "stored_payload e v \<noteq> []"
  by (simp add: stored_payload_def Let_def)

lemma inboundHandler_valid:
  assumes "valid_envelope r e"
  shows "inboundHandler L h ps E r t =
    (let verdict = admit L h ps (ie_partner_fault E) e in
     case Msg_Create (ie_create_fault E) (ie_now E) (Some (inbound_row E e verdict)) t of
       (Inl x, t1) \<Rightarrow>
         if is_duplicate x
         then (writeInboundRejection 409 \<lparr>IR_Status = ''REJECTED'', IR_ErrorCode = errCodeDuplicateMessage,
                 IR_Message = ''message_id has already been received'', IR_MessageID = RMessageID (Routing e)\<rparr>, t1)
         else (respondWithError 500 ''Failed to store message'' (Some (err_text x)), t1)
     | (Inr _, t1) \<Rightarrow>
         (case verdict of Inl (code, rejection) \<Rightarrow> (writeInboundRejection code rejection, t1)
          | Inr _ \<Rightarrow>
            if DocumentType (Routing e) = ''receipt'' then (empty_response 202, t1)
            else (empty_response 202, snd (Msg_Create (ie_receipt_fault E) (ie_now2 E) (Some (jmdn_row E e)) t1))))"
  using assms unfolding valid_envelope_def inboundHandler_def inbound_row_def jmdn_row_def stored_payload_def Let_def
  by (elim conjE) (simp only: option.case)

lemma inboundHandler_invalid:
  "\<nexists>e. valid_envelope r e \<Longrightarrow> r_code (fst (inboundHandler L h ps E r t)) = 400 \<and> snd (inboundHandler L h ps E r t) = t"
  by (auto simp: inboundHandler_def valid_envelope_def split: option.split)

lemma quarantine_simps [simp]:
  "quarantine e c m \<noteq> Inr d"
  "quarantine e c m = Inl v \<longleftrightarrow> v = (401, \<lparr>IR_Status = ''QUARANTINED'', IR_ErrorCode = c, IR_Message = m,
            IR_MessageID = RMessageID (Routing e)\<rparr>)"
  by (auto simp: quarantine_def)

lemma admit_code: "admit L h ps f e = Inl (code, rej) \<Longrightarrow> code = 401 \<and> IR_MessageID rej = RMessageID (Routing e)"
  by (auto simp: admit_def split: option.splits sum.splits if_splits)

lemma admit_accepts:
  assumes "admit L h ps f e = Inr d" and "h_crypto h = Some engine" and "ps = Some partners"
  obtains p key where "find_partner (SenderID (Routing e)) partners = Some p"
    "ParsePublicKeyFromJWKSByUse L (PublicKeyJWKS p) ''sig'' = Inr key"
    "DecryptAndVerify L engine (EncPayload e) key = Inr d"
proof (cases "Partner_GetByID f (SenderID (Routing e)) partners")
  case (Inl x)
  with assms show ?thesis by (simp add: admit_def)
next
  case (Inr p)
  note p = Partner_GetByID_ok [OF Inr]
  from assms Inr obtain key where "ParsePublicKeyFromJWKSByUse L (PublicKeyJWKS p) ''sig'' = Inr key"
    "DecryptAndVerify L engine (EncPayload e) key = Inr d"
    by (auto simp: admit_def split: if_splits sum.splits)
  with p show ?thesis by (intro that) auto
qed

lemma create_fresh_row:
  assumes "find_msg (MessageID m) t = None" and "MessageID m \<noteq> []" and "Payload m \<noteq> []"
  shows "Msg_Create None now (Some m) t
    = (Inr (set_msg_id (next_id t) (stored_form now m)), tbl_insert set_msg_id (stored_form now m) t)"
  using assms by (simp add: Msg_Create_Some)

lemma find_after_insert:
  "find_msg (MessageID m) t = None \<Longrightarrow>
    find_msg k (tbl_insert set_msg_id (stored_form now m) t)
      = (if k = MessageID m then Some (set_msg_id (next_id t) (stored_form now m)) else find_msg k t)"
  using msgs.find_insert [of "stored_form now m" t k] by simp

lemma queued_insert:
  "Status m \<noteq> StatusQueued \<Longrightarrow>
    filter (\<lambda>m. Status m = StatusQueued) (rows (tbl_insert set_msg_id (stored_form now m) t))
      = filter (\<lambda>m. Status m = StatusQueued) (rows t)"
  by (simp add: row_simps)

lemma create_row_cases:
  assumes "MessageID m \<noteq> []" and "Payload m \<noteq> []"
  shows "(\<exists>x. Msg_Create flt now (Some m) t = (Inl x, t)) \<or>
    (Msg_Create flt now (Some m) t
       = (Inr (set_msg_id (next_id t) (stored_form now m)), tbl_insert set_msg_id (stored_form now m) t)
     \<and> find_msg (MessageID m) t = None)"
  using assms by (auto simp: Msg_Create_Some split: option.split)

text \<open>The answers 202 and 401 mean that the row was stored.\<close>

lemma inbound_stored:
  assumes "valid_envelope r e" and "r_code (fst (inboundHandler L h ps E r t)) \<in> {202, 401}"
    and "v = admit L h ps (ie_partner_fault E) e"
    and "t1 = tbl_insert set_msg_id (stored_form (ie_now E) (inbound_row E e v)) t"
  shows "find_msg (RMessageID (Routing e)) t = None"
    and "inboundHandler L h ps E r t =
      (case v of Inl (code, rejection) \<Rightarrow> (writeInboundRejection code rejection, t1)
       | Inr _ \<Rightarrow>
         if DocumentType (Routing e) = ''receipt'' then (empty_response 202, t1)
         else (empty_response 202, snd (Msg_Create (ie_receipt_fault E) (ie_now2 E) (Some (jmdn_row E e)) t1)))"
proof -
  have ne: "MessageID (inbound_row E e v) \<noteq> []"
    using assms(1) by (simp add: valid_envelope_def validate_envelope_None inbound_row_def)
  have "Payload (inbound_row E e v) \<noteq> []" by (simp add: inbound_row_def)
  from create_row_cases [OF ne this, of "ie_create_fault E" "ie_now E" t] assms(2)
  have c: "Msg_Create (ie_create_fault E) (ie_now E) (Some (inbound_row E e v)) t
       = (Inr (set_msg_id (next_id t) (stored_form (ie_now E) (inbound_row E e v))), t1)"
    and fresh: "find_msg (MessageID (inbound_row E e v)) t = None"
    by (auto simp: inboundHandler_valid [OF assms(1)] Let_def assms(3,4) split: if_splits)
  show "find_msg (RMessageID (Routing e)) t = None" using fresh by (simp add: inbound_row_def)
  show "inboundHandler L h ps E r t =
      (case v of Inl (code, rejection) \<Rightarrow> (writeInboundRejection code rejection, t1)
       | Inr _ \<Rightarrow>
         if DocumentType (Routing e) = ''receipt'' then (empty_response 202, t1)
         else (empty_response 202, snd (Msg_Create (ie_receipt_fault E) (ie_now2 E) (Some (jmdn_row E e)) t1)))"
    unfolding inboundHandler_valid [OF assms(1)] Let_def assms(3) [symmetric] c prod.case sum.case ..
qed

text \<open>The envelope a node sends is read back by the peer's handler.\<close>

lemma envelope_roundtrip: "decode_envelope (Some (envelope_json e)) = Some e"
proof -
  have "envelope_fields (envelope_json e) = (e, False)"
    by (simp add: envelope_fields_def envelope_json_def routing_json_def opt_str_def dec_eval)
  then show ?thesis by (simp add: decode_envelope_def)
qed

lemma envelope_wf [simp]: "wf_json (envelope_json e)"
  by (simp add: envelope_json_def routing_json_def)

lemma decode_json_Nil [simp]: "decode_json [] = None"
  by (simp add: decode_json_def json_fuel_def numeral_2_eq_2)

interpretation envelope_text: codec "\<lambda>e. True" "\<lambda>e. print_json (envelope_json e)"
  "\<lambda>s. decode_envelope (decode_json s)" "\<lambda>e. e"
  using decode_print [of "envelope_json e" "[]" for e]
  by unfold_locales (simp add: envelope_roundtrip, simp add: decode_envelope_def)

definition post_request :: "string \<Rightarrow> request" where
  "post_request body = \<lparr>rq_method = ''POST'', rq_path = [], rq_remote = ''10.0.0.9:4711'', rq_host = ''b'',
     rq_tls = True, rq_headers = [], rq_cookies = [], rq_query = [], rq_param = [], rq_body = Inr body,
     rq_user = None, rq_request_id = None\<rparr>"

lemma valid_envelope_post:
  "validateFidexEnvelope (Some e) = None \<Longrightarrow> valid_envelope (post_request (print_json (envelope_json e))) e"
  using envelope_text.dec_enc [of e] by (simp add: valid_envelope_def body_json_def post_request_def)

section \<open>A concrete exchange\<close>

definition demo_env_in :: inbound_env where
  "demo_env_in = \<lparr>ie_partner_fault = None, ie_create_fault = None, ie_receipt_fault = None, ie_now = 20,
     ie_now2 = 21, ie_uuid = ''u-1''\<rparr>"

definition demo_handlers :: handlers where
  "demo_handlers = \<lparr>h_config = None, h_crypto = Some (engine_of demo_key ''urn:a''), h_has_discovery = True,
     h_has_hub = True\<rparr>"

definition demo_routing :: "string \<Rightarrow> routing_header" where
  "demo_routing sender = \<lparr>FidexVersion = ''1.0'', RMessageID = ''m-7'', SenderID = sender, ReceiverID = ''urn:a'',
     DocumentType = ''invoice'', Timestamp = [], ReceiptWebhook = []\<rparr>"

definition forged :: fidex_envelope where
  "forged = \<lparr>Routing = demo_routing ''urn:mallory'', EncPayload = ''x''\<rparr>"

text \<open>\<open>1:\<close> is the tag of RSA-OAEP, \<open>77:\<close> that of the demo key, once for the encryption and once
  for the signature.\<close>

definition genuine :: fidex_envelope where
  "genuine = \<lparr>Routing = demo_routing ''urn:b'',
     EncPayload = alg_tag RSA_OAEP @ demo_tag demo_pub @ demo_tag demo_pub @ ''doc''\<rparr>"

definition forged_request :: request where "forged_request = post_request (print_json (envelope_json forged))"
definition genuine_request :: request where "genuine_request = post_request (print_json (envelope_json genuine))"

lemma demo_requests_valid: "valid_envelope forged_request forged" "valid_envelope genuine_request genuine"
  unfolding forged_request_def genuine_request_def
  by (intro valid_envelope_post; simp add: validate_envelope_None forged_def genuine_def demo_routing_def alg_tag_def)+

lemma demo_partner_lookup: "Partner_GetByID None ''urn:b'' demo_partners = Inr demo_partner"
  by (simp add: Partner_GetByID_def demo_partners_def demo_partner_def tbl_find_def)

lemma demo_sig_key: "ParsePublicKeyFromJWKSByUse demo_libs ''keys'' ''sig'' = Inr demo_pub"
  by (simp add: ParsePublicKeyFromJWKSByUse_def demo_libs_def demo_jwks_def)

lemma demo_decrypt:
  "DecryptAndVerify demo_libs (engine_of demo_key n) (alg_tag RSA_OAEP @ demo_tag demo_pub @ demo_tag demo_pub @ d) demo_pub
    = Inr d"
proof -
  have "parse_encrypted demo_libs [RSA_OAEP, RSA_OAEP_256] (alg_tag RSA_OAEP @ s) = Inr s" for s
    by (simp add: demo_libs_def demo_parse_tag)
  moreover have "jwe_decrypt demo_libs demo_key (demo_tag demo_pub @ s) = Inr s" for s
    by (simp add: demo_libs_def demo_key_def)
  moreover have "parse_signed demo_libs s = Inr s" "jws_verify demo_libs demo_pub (demo_tag demo_pub @ s) = Inr s" for s
    by (simp_all add: demo_libs_def)
  ultimately show ?thesis by (simp add: DecryptAndVerify_def engine_of_def)
qed

lemma admit_forged: "\<exists>rej. admit demo_libs demo_handlers (Some demo_partners) None forged = Inl (401, rej)"
proof -
  have "\<exists>x. Partner_GetByID None ''urn:mallory'' demo_partners = Inl x"
    by (simp add: Partner_GetByID_def demo_partners_def demo_partner_def tbl_find_def)
  then show ?thesis by (auto simp: admit_def demo_handlers_def forged_def demo_routing_def)
qed

lemma admit_genuine: "admit demo_libs demo_handlers (Some demo_partners) None genuine = Inr ''doc''"
proof -
  have "SenderID (Routing genuine) = ''urn:b''" "PublicKeyJWKS demo_partner = ''keys''"
    "EncPayload genuine = alg_tag RSA_OAEP @ demo_tag demo_pub @ demo_tag demo_pub @ ''doc''"
    by (simp_all add: genuine_def demo_routing_def demo_partner_def)
  then show ?thesis
    by (simp add: admit_def demo_handlers_def demo_partner_lookup demo_sig_key demo_decrypt)
qed

lemma demo_env_in_simps [simp]:
  "ie_partner_fault demo_env_in = None" "ie_create_fault demo_env_in = None" "ie_receipt_fault demo_env_in = None"
  "ie_uuid demo_env_in = ''u-1''" "ie_now demo_env_in = 20" "ie_now2 demo_env_in = 21"
  by (simp_all add: demo_env_in_def)

lemma empty_find [simp]: "find_msg k empty_table = None"
  by (simp add: empty_table_def tbl_find_def)

lemma demo_ids [simp]: "RMessageID (Routing forged) = ''m-7''" "RMessageID (Routing genuine) = ''m-7''"
  "DocumentType (Routing genuine) = ''invoice''" "SenderID (Routing genuine) = ''urn:b''"
  by (simp_all add: forged_def genuine_def demo_routing_def)

lemma inbound_row_simps [simp]:
  "MessageID (inbound_row E e v) = RMessageID (Routing e)" "Payload (inbound_row E e v) = stored_payload e v"
  "Direction (inbound_row E e v) = DirectionInbound" "MessageID (jmdn_row E e) = ie_uuid E"
  "Status (jmdn_row E e) = StatusQueued" "Payload (jmdn_row E e) \<noteq> []"
  by (simp_all add: inbound_row_def jmdn_row_def)

lemma demo_forged_result:
  "r_code (fst (inboundHandler demo_libs demo_handlers (Some demo_partners) demo_env_in forged_request empty_table)) = 401"
proof -
  obtain rej where "admit demo_libs demo_handlers (Some demo_partners) None forged = Inl (401, rej)"
    using admit_forged by blast
  then show ?thesis
    by (simp add: inboundHandler_valid [OF demo_requests_valid(1)] Let_def create_fresh_row)
qed

lemma demo_genuine_result:
  "r_code (fst (inboundHandler demo_libs demo_handlers (Some demo_partners) demo_env_in genuine_request empty_table)) = 202"
  by (simp add: inboundHandler_valid [OF demo_requests_valid(2)] Let_def create_fresh_row admit_genuine)

section \<open>Properties of the inbound handler\<close>

text \<open>The inbound handler answers 202, 400, 401, 409 or 500, and only an accepted (202) or a
  quarantined (401) envelope changes the message table.\<close>

theorem inbound_codes:
  "case inboundHandler L h ps E r t of (resp, t') \<Rightarrow>
     r_code resp \<in> {202, 400, 401, 409, 500} \<and> (t' = t \<or> r_code resp \<in> {202, 401})"
proof (cases "\<exists>e. valid_envelope r e")
  case False
  then show ?thesis using inboundHandler_invalid [of r L h ps E t] by (auto split: prod.split)
next
  case True
  then obtain e where e: "valid_envelope r e" by blast
  then have ne: "RMessageID (Routing e) \<noteq> []" by (simp add: valid_envelope_def validate_envelope_None)
  let ?v = "admit L h ps (ie_partner_fault E) e"
  consider (failed) x where "Msg_Create (ie_create_fault E) (ie_now E) (Some (inbound_row E e ?v)) t = (Inl x, t)"
    | (stored) m t1 where "Msg_Create (ie_create_fault E) (ie_now E) (Some (inbound_row E e ?v)) t = (Inr m, t1)"
    using create_row_cases [of "inbound_row E e ?v" "ie_create_fault E" "ie_now E" t] ne by auto
  then show ?thesis
  proof cases
    case failed
    then show ?thesis unfolding inboundHandler_valid [OF e] Let_def by simp
  next
    case stored
    show ?thesis unfolding inboundHandler_valid [OF e] Let_def stored
      by (cases ?v) (auto dest: admit_code)
  qed
qed

text \<open>C11: Replay protection: an envelope whose message id is already in the table is answered with
  409 and changes nothing, whoever sent it.\<close>

theorem inbound_replay:
  assumes "valid_envelope r e" and "find_msg (RMessageID (Routing e)) t \<noteq> None" and "ie_create_fault E = None"
  shows "r_code (fst (inboundHandler L h ps E r t)) = 409 \<and> snd (inboundHandler L h ps E r t) = t"
proof -
  have "RMessageID (Routing e) \<noteq> []" using assms(1) by (simp add: valid_envelope_def validate_envelope_None)
  then obtain x where "Msg_Create None (ie_now E) (Some (inbound_row E e (admit L h ps (ie_partner_fault E) e))) t = (Inl x, t)"
    "is_duplicate x"
    using store.create_taken [of "inbound_row E e (admit L h ps (ie_partner_fault E) e)" t "ie_now E"] assms(2) by auto
  then show ?thesis by (simp add: inboundHandler_valid [OF assms(1)] Let_def assms(3))
qed

theorem inbound_replay_witness:
  "r_code (fst (inboundHandler demo_libs demo_handlers None demo_env_in genuine_request
      (tbl_insert set_msg_id (stored_form 0 (jmdn_row (demo_env_in\<lparr>ie_uuid := ''m-7''\<rparr>) genuine)) empty_table))) = 409"
  using inbound_replay [OF demo_requests_valid(2), where E = demo_env_in and L = demo_libs and h = demo_handlers
      and ps = None and t = "tbl_insert set_msg_id (stored_form 0 (jmdn_row (demo_env_in\<lparr>ie_uuid := ''m-7''\<rparr>) genuine)) empty_table"]
    find_after_insert [of "jmdn_row (demo_env_in\<lparr>ie_uuid := ''m-7''\<rparr>) genuine" empty_table "''m-7''" 0]
  by simp

text \<open>A quarantined envelope (401) is kept once, as an inbound QUARANTINED row under its id, and
  nothing else changes: no other row, and in particular no receipt is queued.\<close>

theorem inbound_quarantine:
  assumes "valid_envelope r e" and "r_code (fst (inboundHandler L h ps E r t)) = 401"
  shows "\<exists>m. find_msg (RMessageID (Routing e)) (snd (inboundHandler L h ps E r t)) = Some m
    \<and> Status m = StatusQuarantined \<and> Direction m = DirectionInbound
    \<and> find_msg (RMessageID (Routing e)) t = None
    \<and> (\<forall>k. k \<noteq> RMessageID (Routing e) \<longrightarrow> find_msg k (snd (inboundHandler L h ps E r t)) = find_msg k t)
    \<and> filter (\<lambda>m. Status m = StatusQueued) (rows (snd (inboundHandler L h ps E r t)))
      = filter (\<lambda>m. Status m = StatusQueued) (rows t)"
proof -
  let ?v = "admit L h ps (ie_partner_fault E) e"
  let ?row = "inbound_row E e ?v"
  have "r_code (fst (inboundHandler L h ps E r t)) \<in> {202, 401}" using assms(2) by simp
  note st = inbound_stored [OF assms(1) this refl refl]
  obtain code rej where v: "?v = Inl (code, rej)"
    using assms(2) unfolding st(2) by (cases ?v) (auto split: if_splits)
  have t': "snd (inboundHandler L h ps E r t) = tbl_insert set_msg_id (stored_form (ie_now E) ?row) t"
    unfolding st(2) v by simp
  have "Status ?row = StatusQuarantined" unfolding v by (simp add: inbound_row_def)
  then show ?thesis
    unfolding t' using find_after_insert [of ?row t] st(1) queued_insert [of ?row]
    by (intro exI [of _ "set_msg_id (next_id t) (stored_form (ie_now E) ?row)"]) simp
qed

theorem inbound_quarantine_witness:
  "\<exists>m. find_msg ''m-7'' (snd (inboundHandler demo_libs demo_handlers (Some demo_partners) demo_env_in forged_request empty_table))
    = Some m \<and> Status m = StatusQuarantined"
  using inbound_quarantine [OF demo_requests_valid(1) demo_forged_result] by auto

text \<open>C5: Authenticity: on a node with its keys loaded, an accepted (202) envelope comes from a
  registered partner and its payload was decrypted and verified with that partner's signing
  key; what is stored, as DELIVERED, is the document (the envelope when it was empty).\<close>

theorem inbound_authentic:
  assumes "valid_envelope r e" and "r_code (fst (inboundHandler L h (Some partners) E r t)) = 202"
    and "h_crypto h = Some engine" and "ie_uuid E \<noteq> RMessageID (Routing e)"
  shows "\<exists>p key doc m. find_partner (SenderID (Routing e)) partners = Some p
    \<and> ParsePublicKeyFromJWKSByUse L (PublicKeyJWKS p) ''sig'' = Inr key
    \<and> DecryptAndVerify L engine (EncPayload e) key = Inr doc
    \<and> find_msg (RMessageID (Routing e)) t = None
    \<and> find_msg (RMessageID (Routing e)) (snd (inboundHandler L h (Some partners) E r t)) = Some m
    \<and> Status m = StatusDelivered \<and> Direction m = DirectionInbound
    \<and> (doc \<noteq> [] \<longrightarrow> Payload m = doc)"
proof -
  let ?ps = "Some partners"
  let ?v = "admit L h ?ps (ie_partner_fault E) e"
  let ?row = "inbound_row E e ?v"
  let ?t1 = "tbl_insert set_msg_id (stored_form (ie_now E) ?row) t"
  have "r_code (fst (inboundHandler L h ?ps E r t)) \<in> {202, 401}" using assms(2) by simp
  note st = inbound_stored [OF assms(1) this refl refl]
  obtain doc where v: "?v = Inr doc"
    using assms(2) unfolding st(2) by (cases ?v) (auto dest: admit_code)
  obtain p key where pk: "find_partner (SenderID (Routing e)) partners = Some p"
    "ParsePublicKeyFromJWKSByUse L (PublicKeyJWKS p) ''sig'' = Inr key"
    "DecryptAndVerify L engine (EncPayload e) key = Inr doc"
    by (rule admit_accepts [OF v assms(3) refl])
  have other: "find_msg (RMessageID (Routing e)) (snd (Msg_Create f n (Some (jmdn_row E e)) ?t1))
      = find_msg (RMessageID (Routing e)) ?t1" for f n
    using assms(4) find_after_insert [of "jmdn_row E e" ?t1]
    by (auto simp: Msg_Create_Some split: option.split)
  have row: "find_msg (RMessageID (Routing e)) ?t1 = Some (set_msg_id (next_id t) (stored_form (ie_now E) ?row))"
    using find_after_insert [of ?row t] st(1) by simp
  have "find_msg (RMessageID (Routing e)) (snd (inboundHandler L h ?ps E r t))
      = Some (set_msg_id (next_id t) (stored_form (ie_now E) ?row))"
    using other row unfolding st(2) v by simp
  moreover have "Status ?row = StatusDelivered" "doc \<noteq> [] \<longrightarrow> Payload ?row = doc"
    unfolding v by (simp_all add: inbound_row_def stored_payload_def)
  ultimately show ?thesis using pk st(1) by (intro exI conjI) (assumption | simp)+
qed

theorem inbound_authentic_witness:
  "\<exists>doc. DecryptAndVerify demo_libs (engine_of demo_key ''urn:a'') (EncPayload genuine) demo_pub = Inr doc"
proof -
  have "h_crypto demo_handlers = Some (engine_of demo_key ''urn:a'')" by (simp add: demo_handlers_def)
  from inbound_authentic [OF demo_requests_valid(2) demo_genuine_result this]
  obtain p key doc where "find_partner ''urn:b'' demo_partners = Some p"
    "ParsePublicKeyFromJWKSByUse demo_libs (PublicKeyJWKS p) ''sig'' = Inr key"
    "DecryptAndVerify demo_libs (engine_of demo_key ''urn:a'') (EncPayload genuine) key = Inr doc" by auto
  moreover from this(1) have "PublicKeyJWKS p = ''keys''"
    by (auto simp: demo_partners_def demo_partner_def tbl_find_def)
  ultimately show ?thesis by (auto simp: demo_sig_key)
qed

text \<open>C18: A quarantined envelope takes its message id: anyone who can reach the endpoint can send a
  forged envelope with the id of a message to come, and the genuine one is then refused as a
  duplicate with 409.\<close>

theorem quarantine_blocks_id:
  assumes "valid_envelope r1 e1" and "valid_envelope r2 e2"
    and "RMessageID (Routing e2) = RMessageID (Routing e1)"
    and "r_code (fst (inboundHandler L h ps E1 r1 t)) = 401" and "ie_create_fault E2 = None"
  shows "r_code (fst (inboundHandler L h ps E2 r2 (snd (inboundHandler L h ps E1 r1 t)))) = 409"
proof -
  let ?v = "admit L h ps (ie_partner_fault E1) e1"
  have "r_code (fst (inboundHandler L h ps E1 r1 t)) \<in> {202, 401}" using assms(4) by simp
  note st = inbound_stored [OF assms(1) this refl refl]
  obtain code rej where v: "?v = Inl (code, rej)"
    using assms(4) unfolding st(2) by (cases ?v) (auto split: if_splits)
  let ?t = "tbl_insert set_msg_id (stored_form (ie_now E1) (inbound_row E1 e1 ?v)) t"
  have t: "snd (inboundHandler L h ps E1 r1 t) = ?t" unfolding st(2) v by simp
  have taken: "find_msg (RMessageID (Routing e2)) ?t \<noteq> None"
    using find_after_insert [of "inbound_row E1 e1 ?v" t] st(1) assms(3) by simp
  let ?w = "inbound_row E2 e2 (admit L h ps (ie_partner_fault E2) e2)"
  have "RMessageID (Routing e2) \<noteq> []" using assms(2) by (simp add: valid_envelope_def validate_envelope_None)
  then obtain x where "Msg_Create None (ie_now E2) (Some ?w) ?t = (Inl x, ?t)" "is_duplicate x"
    using store.create_taken [of ?w ?t "ie_now E2"] taken by auto
  then show ?thesis unfolding t by (simp add: inboundHandler_valid [OF assms(2)] Let_def assms(5))
qed

theorem quarantine_blocks_id_witness:
  "r_code (fst (inboundHandler demo_libs demo_handlers (Some demo_partners) demo_env_in genuine_request empty_table)) = 202
   \<and> r_code (fst (inboundHandler demo_libs demo_handlers (Some demo_partners) demo_env_in genuine_request
        (snd (inboundHandler demo_libs demo_handlers (Some demo_partners) demo_env_in forged_request empty_table)))) = 409"
  using demo_genuine_result quarantine_blocks_id [OF demo_requests_valid _ demo_forged_result, of demo_env_in] by simp

text \<open>An accepted envelope that is not itself a receipt queues exactly the receipt job for its
  sender: a send_jmdn row under the fresh id, whose payload the worker reads back as the job
  for that message, sender and ciphertext.\<close>

theorem inbound_queues_receipt:
  assumes "valid_envelope r e" and "r_code (fst (inboundHandler L h ps E r t)) = 202"
    and "DocumentType (Routing e) \<noteq> ''receipt''" and "ie_receipt_fault E = None"
    and "ie_uuid E \<noteq> []" and "ie_uuid E \<noteq> RMessageID (Routing e)" and "find_msg (ie_uuid E) t = None"
  shows "\<exists>m. find_msg (ie_uuid E) (snd (inboundHandler L h ps E r t)) = Some m
    \<and> Status m = StatusQueued \<and> Direction m = DirectionOutbound \<and> JobType m = JobTypeSendJMDN
    \<and> RetryCount m = 0 \<and> NextRetryAt m = None
    \<and> unmarshal_jmdn_job (Payload m) = Some (jmdn_view (RMessageID (Routing e), SenderID (Routing e), ''processed'', EncPayload e))"
proof -
  let ?v = "admit L h ps (ie_partner_fault E) e"
  let ?t1 = "tbl_insert set_msg_id (stored_form (ie_now E) (inbound_row E e ?v)) t"
  have "r_code (fst (inboundHandler L h ps E r t)) \<in> {202, 401}" using assms(2) by simp
  note st = inbound_stored [OF assms(1) this refl refl]
  obtain d where v: "?v = Inr d"
    using assms(2) unfolding st(2) by (cases ?v) (auto dest: admit_code)
  have fresh: "find_msg (ie_uuid E) ?t1 = None"
    using find_after_insert [of "inbound_row E e ?v" t] st(1) assms(6,7) by simp
  have new: "Msg_Create None (ie_now2 E) (Some (jmdn_row E e)) ?t1
      = (Inr (set_msg_id (next_id ?t1) (stored_form (ie_now2 E) (jmdn_row E e))),
         tbl_insert set_msg_id (stored_form (ie_now2 E) (jmdn_row E e)) ?t1)"
    using fresh assms(5) by (intro create_fresh_row) simp_all
  have "snd (inboundHandler L h ps E r t) = tbl_insert set_msg_id (stored_form (ie_now2 E) (jmdn_row E e)) ?t1"
    using assms(3,4) new v unfolding st(2) by simp
  then have "find_msg (ie_uuid E) (snd (inboundHandler L h ps E r t))
      = Some (set_msg_id (next_id ?t1) (stored_form (ie_now2 E) (jmdn_row E e)))"
    using find_after_insert [of "jmdn_row E e" ?t1 "ie_uuid E"] fresh by simp
  moreover have "resolveJobType [] (print_json (jmdn_job_json a b c x)) = JobTypeSendJMDN" for a b c x
    by (simp add: resolveJobType_def probe_jmdn_job)
  ultimately show ?thesis
    by (simp add: jmdn_row_def unmarshal_jmdn_job_json)
qed

theorem inbound_queues_receipt_witness:
  "\<exists>m. find_msg ''u-1'' (snd (inboundHandler demo_libs demo_handlers (Some demo_partners) demo_env_in genuine_request empty_table))
      = Some m \<and> Status m = StatusQueued \<and> JobType m = JobTypeSendJMDN"
  using inbound_queues_receipt [OF demo_requests_valid(2) demo_genuine_result] by auto

section \<open>Properties of the receipt handler\<close>

text \<open>The body the worker posts is read back by the peer's handler.\<close>

definition flat_view :: "jmdnReceiptBody \<Rightarrow> flat_receipt" where
  "flat_view b = \<lparr>F_OriginalMessageID = B_OriginalMessageID b, F_Status = B_Status b, F_ReceiverID = B_ReceiverID b,
     F_HashVerification = B_HashVerification b, F_Timestamp = B_Timestamp b,
     F_ErrorLog = (if B_ErrorLog b = [] then None else Some (B_ErrorLog b)), F_Signature = B_Signature b\<rparr>"

lemma unmarshal_flat_body: "unmarshal_flat (print_json (jmdn_body_json b)) = Some (flat_view b)"
proof -
  have wf: "wf_json (jmdn_body_json b)" by (simp add: jmdn_body_json_def)
  show ?thesis
    unfolding unmarshal_flat_def parse_print [OF wf] option.case
    by (simp add: jmdn_body_json_def opt_str_def flat_view_def dec_eval)
qed

lemma unmarshal_flat_Nil [simp]: "unmarshal_flat [] = None"
  by (simp add: unmarshal_flat_def)

interpretation flat_text: codec "\<lambda>b. True" "\<lambda>b. print_json (jmdn_body_json b)" unmarshal_flat flat_view
  by unfold_locales (simp_all add: unmarshal_flat_body)

lemma unmarshal_flat_nonempty: "unmarshal_flat body = Some f \<Longrightarrow> body \<noteq> []"
  by auto

lemma jmdn_id_ne: "''jmdn:'' @ k @ '':'' @ ts \<noteq> k"
proof
  assume "''jmdn:'' @ k @ '':'' @ ts = k"
  then have "length (''jmdn:'' @ k @ '':'' @ ts) = length k" by (rule arg_cong)
  then show False by simp
qed

lemma create_keeps_others:
  "k \<noteq> MessageID m \<Longrightarrow> find_msg k (snd (Msg_Create flt now (Some m) t)) = find_msg k t"
  using find_after_insert [of m t k now] by (auto simp: Msg_Create_Some split: option.split)

lemma flat_receipt_effect:
  assumes "rq_body r = Inr body" and "unmarshal_flat body = Some f" and "F_OriginalMessageID f \<noteq> []"
    and "re_create_fault E = None" and "re_update_fault E = None"
    and "find_msg (F_OriginalMessageID f) t = Some m"
  shows "case receiptHandler L h ps E r t of (resp, t', warned) \<Rightarrow>
    r_code resp = 202
    \<and> find_msg (F_OriginalMessageID f) t' = Some (m\<lparr>Status := new_status (F_Status f)\<rparr>)
    \<and> (\<forall>k. k \<noteq> F_OriginalMessageID f \<longrightarrow> k \<noteq> ''jmdn:'' @ F_OriginalMessageID f @ '':'' @ F_Timestamp f
          \<longrightarrow> find_msg k t' = find_msg k t)"
proof -
  let ?rid = "''jmdn:'' @ F_OriginalMessageID f @ '':'' @ F_Timestamp f"
  let ?row = "new_message ?rid DirectionInbound StatusDelivered body (re_now E)"
  let ?t1 = "snd (Msg_Create None (re_now E) (Some ?row) t)"
  have dup: "case Msg_Create None (re_now E) (Some ?row) t of (Inl e, t1) \<Rightarrow> is_duplicate e | _ \<Rightarrow> True"
    using unmarshal_flat_nonempty [OF assms(2)] by (simp add: Msg_Create_Some)
  obtain warned where h: "receiptHandler L h ps E r t =
     (empty_response 202, snd (Msg_UpdateStatus None (F_OriginalMessageID f) (new_status (F_Status f)) ?t1), warned)"
    using dup assms(1-5)
    by (cases "Msg_Create None (re_now E) (Some ?row) t")
       (auto simp: receiptHandler_def reconcile_def Let_def split: sum.splits)
  have "find_msg (F_OriginalMessageID f) ?t1 = Some m"
    using assms(6) create_keeps_others [of "F_OriginalMessageID f" ?row] jmdn_id_ne [of "F_OriginalMessageID f" "F_Timestamp f"] by simp
  then show ?thesis
    unfolding h using assms(3) create_keeps_others [of _ ?row None "re_now E" t] by (simp add: store.upd_lookup)
qed

lemma flat_receipt_sets:
  assumes "rq_body r = Inr body" and "unmarshal_flat body = Some f" and "F_OriginalMessageID f \<noteq> []"
    and "re_create_fault E = None" and "re_update_fault E = None"
    and "find_msg (F_OriginalMessageID f) t = Some m"
  shows "r_code (fst (receiptHandler L h ps E r t)) = 202
    \<and> find_msg (F_OriginalMessageID f) (fst (snd (receiptHandler L h ps E r t))) = Some (m\<lparr>Status := new_status (F_Status f)\<rparr>)"
  using flat_receipt_effect [OF assms, where L = L and h = h and ps = ps] by (auto split: prod.splits)

text \<open>C19: A flat receipt is believed without authentication: whatever its signature and signer say,
  and whether or not the same receipt was stored before, it sets the status of the message it
  names, inbound and quarantined messages included; no other message changes.\<close>

theorem flat_receipt_unauthenticated:
  assumes "rq_body r = Inr body" and "unmarshal_flat body = Some f" and "F_OriginalMessageID f \<noteq> []"
    and "re_create_fault E = None" and "re_update_fault E = None"
    and "find_msg (F_OriginalMessageID f) t = Some m"
  shows "case receiptHandler L h ps E r t of (resp, t', warned) \<Rightarrow>
    r_code resp = 202
    \<and> find_msg (F_OriginalMessageID f) t' = Some (m\<lparr>Status := new_status (F_Status f)\<rparr>)
    \<and> (\<forall>k. k \<noteq> F_OriginalMessageID f \<longrightarrow> k \<noteq> ''jmdn:'' @ F_OriginalMessageID f @ '':'' @ F_Timestamp f
          \<longrightarrow> find_msg k t' = find_msg k t)"
  using flat_receipt_effect [OF assms, where ps = ps] .

theorem flat_receipt_unauthenticated_witness:
  "\<exists>m t'. find_msg ''m-7'' (snd (inboundHandler demo_libs demo_handlers (Some demo_partners) demo_env_in forged_request empty_table))
        = Some m \<and> Status m = StatusQuarantined
    \<and> t' = fst (snd (receiptHandler demo_libs demo_handlers (Some demo_partners)
        \<lparr>re_partner_fault = None, re_create_fault = None, re_update_fault = None, re_now = 30\<rparr>
        (post_request (print_json (jmdn_body_json \<lparr>B_OriginalMessageID = ''m-7'', B_Status = ''ok'', B_ReceiverID = [],
           B_HashVerification = [], B_Timestamp = [], B_ErrorLog = [], B_Signature = ''bogus''\<rparr>)))
        (snd (inboundHandler demo_libs demo_handlers (Some demo_partners) demo_env_in forged_request empty_table))))
    \<and> find_msg ''m-7'' t' = Some (m\<lparr>Status := StatusDelivered\<rparr>)"
proof -
  let ?t = "snd (inboundHandler demo_libs demo_handlers (Some demo_partners) demo_env_in forged_request empty_table)"
  let ?b = "\<lparr>B_OriginalMessageID = ''m-7'', B_Status = ''ok'', B_ReceiverID = [],
           B_HashVerification = [], B_Timestamp = [], B_ErrorLog = [], B_Signature = ''bogus''\<rparr>"
  let ?E = "\<lparr>re_partner_fault = None, re_create_fault = None, re_update_fault = None, re_now = 30\<rparr>"
  let ?r = "post_request (print_json (jmdn_body_json ?b))"
  have b: "rq_body ?r = Inr (print_json (jmdn_body_json ?b))" by (simp add: post_request_def)
  obtain rej where v: "admit demo_libs demo_handlers (Some demo_partners) None forged = Inl (401, rej)"
    using admit_forged by blast
  have t: "?t = tbl_insert set_msg_id (stored_form 20 (inbound_row demo_env_in forged (Inl (401, rej)))) empty_table"
    by (simp add: inboundHandler_valid [OF demo_requests_valid(1)] Let_def create_fresh_row v)
  obtain m where m: "find_msg ''m-7'' ?t = Some m" "Status m = StatusQuarantined"
    unfolding t using find_after_insert [of "inbound_row demo_env_in forged (Inl (401, rej))" empty_table "''m-7''" 20]
    by (simp add: inbound_row_def)
  have m': "find_msg (F_OriginalMessageID (flat_view ?b)) ?t = Some m" using m by (simp add: flat_view_def)
  have ns: "new_status ''ok'' = StatusDelivered" by (simp add: new_status_def to_upper_def upper_char_def)
  show ?thesis
    using m flat_receipt_unauthenticated [OF b unmarshal_flat_body _ _ _ m', of ?E demo_libs demo_handlers "Some demo_partners"] ns
    by (auto simp: flat_view_def split: prod.splits)
qed

section \<open>Properties of transmit\<close>

abbreviation wf_members :: "(string \<times> json) list \<Rightarrow> bool" where
  "wf_members ms \<equiv> list_all (\<lambda>(k, v). wf_json v) ms"

lemma put_key_wf: "wf_json v \<Longrightarrow> wf_members ms \<Longrightarrow> wf_members (put_key k v ms)"
  by (induction k v ms rule: put_key.induct) auto

text \<open>What the documentation of \<open>encoding/json\<close> promises of a number that passed through
  \<open>float64\<close>: it is printed as a JSON number.\<close>

definition prints_numbers :: "(string \<Rightarrow> string option) \<Rightarrow> bool" where
  "prints_numbers f64 \<longleftrightarrow> (\<forall>t u. f64 t = Some u \<longrightarrow> valid_num u)"

lemma canon_wf:
  "prints_numbers f64 \<Longrightarrow> canon f64 v = Some w \<Longrightarrow> wf_json w"
  "prints_numbers f64 \<Longrightarrow> canon_list f64 vs = Some ws \<Longrightarrow> list_all wf_json ws"
  "prints_numbers f64 \<Longrightarrow> canon_members f64 acc ms = Some ms' \<Longrightarrow> wf_members acc \<Longrightarrow> wf_members ms'"
proof (induction f64 v and f64 vs and f64 acc ms arbitrary: w and ws and ms' rule: canon_canon_list_canon_members.induct)
qed (auto simp: prints_numbers_def put_key_wf split: option.splits)

lemma payload_map_wf:
  "prints_numbers f64 \<Longrightarrow> wf_members acc \<Longrightarrow> wf_members (fst (payload_map f64 acc ms))"
  by (induction f64 acc ms rule: payload_map.induct) (auto split: json.splits option.splits simp: canon_wf(3))

lemma decode_transmit_wf:
  assumes "prints_numbers (float64 L)" and "decode_transmit L p = Some req"
  shows "wf_members (T_Payload req)"
  using assms payload_map_wf [OF assms(1), of "[]"]
  by (auto simp: decode_transmit_def Let_def split: option.splits prod.splits if_splits) (metis fst_conv list.pred_inject(1))

text \<open>C20: \<open>transmitHandler\<close> queues exactly the request it accepts: on 202 one fresh outbound row is
  stored, due at once, which the worker takes for a business document and reads back with the
  same destination, type, webhook and document; any other answer leaves the table alone.\<close>

theorem transmit_queues_request:
  assumes "prints_numbers (float64 L)"
  shows "case transmitHandler L flt now mid r t of (resp, t') \<Rightarrow>
    if r_code resp = 202
    then (\<exists>req m. decode_transmit L (body_json r) = Some req
      \<and> T_DestinationPartnerID req \<noteq> [] \<and> T_DocumentType req \<noteq> [] \<and> T_Payload req \<noteq> []
      \<and> find_msg mid t = None \<and> find_msg mid t' = Some m
      \<and> Status m = StatusQueued \<and> Direction m = DirectionOutbound \<and> JobType m = JobTypeProcessOutbound
      \<and> RetryCount m = 0 \<and> NextRetryAt m = None
      \<and> unmarshal_outbound (Payload m) = Some (outbound_view (T_DestinationPartnerID req, T_DocumentType req,
            T_ReceiptWebhook req, JObj (T_Payload req)))
      \<and> (\<forall>k. k \<noteq> mid \<longrightarrow> find_msg k t' = find_msg k t))
    else t' = t \<and> r_code resp \<in> {400, 500}"
proof (cases "\<exists>req. decode_transmit L (body_json r) = Some req \<and> validateTransmitRequest (Some req) = None")
  case False
  then show ?thesis by (auto simp: transmitHandler_def split: option.split)
next
  case True
  then obtain req where req: "decode_transmit L (body_json r) = Some req" "validateTransmitRequest (Some req) = None" by blast
  let ?m = "new_message mid DirectionOutbound StatusQueued (print_json (transmit_json req)) now"
  have ne: "T_DestinationPartnerID req \<noteq> []" "T_DocumentType req \<noteq> []" "T_Payload req \<noteq> []"
    using req(2) by (auto simp: validateTransmitRequest_def split: if_splits)
  have wf: "wf_json (JObj (T_Payload req))" using decode_transmit_wf [OF assms req(1)] by simp
  have jt: "resolveJobType [] (print_json (transmit_json req)) = JobTypeProcessOutbound"
    unfolding resolveJobType_def transmit_json_def probe_outbound [OF wf] by simp
  show ?thesis
  proof (cases "Msg_Create flt now (Some ?m) t")
    case (Pair res t1)
    show ?thesis
    proof (cases res)
      case (Inl e)
      with Pair have "t1 = t" using Msg_Create_err by blast
      with Pair Inl req show ?thesis by (simp add: transmitHandler_def Let_def)
    next
      case (Inr m')
      note c = Msg_Create_ok [OF Pair [unfolded Inr]]
      have h: "transmitHandler L flt now mid r t
          = (json_response 202 (JObj [(''message_id'', JStr mid), (''status'', JStr StatusQueued)]), t1)"
        using Pair Inr req by (simp add: transmitHandler_def Let_def)
      have find: "find_msg k t1 = (if k = mid then Some (set_msg_id (next_id t) (stored_form now ?m)) else find_msg k t)" for k
        unfolding c(6) using find_after_insert [OF c(4)] by simp
      have um: "unmarshal_outbound (Payload (set_msg_id (next_id t) (stored_form now ?m)))
          = Some (outbound_view (T_DestinationPartnerID req, T_DocumentType req, T_ReceiptWebhook req, JObj (T_Payload req)))"
        using unmarshal_outbound_json [OF wf] by (simp add: transmit_json_def)
      show ?thesis
        unfolding h prod.case response_code if_True simp_thms
        using req(1) ne c(4) find um jt
        by (intro exI [of _ req] exI [of _ "set_msg_id (next_id t) (stored_form now ?m)"]) simp
    qed
  qed
qed

definition demo_transmit :: request where
  "demo_transmit = post_request (print_json (outbound_json ''urn:b'' ''invoice'' [] demo_doc))"

text \<open>The demo library prints every text it is given as a number; this one is restricted to numbers.\<close>

definition num_libs :: libs where
  "num_libs = demo_libs\<lparr>float64 := (\<lambda>t. if valid_num t then Some t else None)\<rparr>"

lemma num_libs_prints: "prints_numbers (float64 num_libs)"
  by (simp add: prints_numbers_def num_libs_def)

lemma demo_transmit_decodes:
  assumes "rq_body r = rq_body demo_transmit"
  shows "decode_transmit num_libs (body_json r)
    = Some \<lparr>T_DestinationPartnerID = ''urn:b'', T_DocumentType = ''invoice'', T_ReceiptWebhook = [],
        T_Payload = [(''total'', JNum ''12'')]\<rparr>"
proof -
  have wf: "wf_json (outbound_json ''urn:b'' ''invoice'' [] demo_doc)" by (simp add: outbound_json_def demo_doc_wf)
  have b: "body_json r = Some (outbound_json ''urn:b'' ''invoice'' [] demo_doc)"
    using decode_print [OF wf, of "[]"] assms by (simp add: body_json_def demo_transmit_def post_request_def)
  show ?thesis
    by (simp add: decode_transmit_def b outbound_json_def opt_str_def demo_doc_def num_libs_def demo_valid_num dec_eval)
qed

theorem transmit_queues_request_witness:
  "\<exists>m. find_msg ''m-9'' (snd (transmitHandler num_libs None 40 ''m-9'' demo_transmit empty_table)) = Some m
     \<and> unmarshal_outbound (Payload m) = Some (outbound_view (''urn:b'', ''invoice'', [], JObj [(''total'', JNum ''12'')]))"
proof -
  have d: "decode_transmit num_libs (body_json demo_transmit)
    = Some \<lparr>T_DestinationPartnerID = ''urn:b'', T_DocumentType = ''invoice'', T_ReceiptWebhook = [],
        T_Payload = [(''total'', JNum ''12'')]\<rparr>"
    by (rule demo_transmit_decodes) (rule refl)
  then have c: "r_code (fst (transmitHandler num_libs None 40 ''m-9'' demo_transmit empty_table)) = 202"
    by (simp add: transmitHandler_def validateTransmitRequest_def Let_def Msg_Create_Some transmit_json_def)
  show ?thesis
    using transmit_queues_request [OF num_libs_prints, where flt = None and now = 40 and mid = "''m-9''"
        and r = demo_transmit and t = empty_table] c d
    by (auto split: prod.splits)
qed

end
