(* ===== verification/EndToEnd.thy ===== *)
theory EndToEnd
  imports ApiExternal_Facts
begin

text \<open>
  Two nodes: what a sender's worker posts is handled by the receiver's inbound handler, and
  the receipt the receiver's worker posts is handled by the sender's receipt handler. The
  network of the model is the peer's handler.
\<close>

lemma wf_print_nonempty: "wf_json v \<Longrightarrow> print_json v \<noteq> []"
  by (rule print_json_head [of v]) simp_all

definition peer_inbound :: "libs \<Rightarrow> handlers \<Rightarrow> partner_table \<Rightarrow> inbound_env \<Rightarrow> msg_table \<Rightarrow> network" where
  "peer_inbound L h ps E t =
     (\<lambda>q. let resp = fst (inboundHandler L h (Some ps) E (post_request (q_body q)) t) in Inr (r_code resp, r_body resp))"

definition peer_receipt :: "libs \<Rightarrow> handlers \<Rightarrow> partner_table \<Rightarrow> receipt_env \<Rightarrow> msg_table \<Rightarrow> network" where
  "peer_receipt L h ps E t =
     (\<lambda>q. let resp = fst (receiptHandler L h (Some ps) E (post_request (q_body q)) t) in Inr (r_code resp, r_body resp))"

text \<open>Each side knows the other: the sender has the receiver's endpoint and encryption key, the
  receiver the sender's signing key.\<close>

definition knows_receiver :: "libs \<Rightarrow> partner_table \<Rightarrow> string \<Rightarrow> as5_engine \<Rightarrow> bool" where
  "knows_receiver L ps dest b \<longleftrightarrow>
     dest \<noteq> [] \<and> (case find_partner dest ps of None \<Rightarrow> False
      | Some p \<Rightarrow> MessageEndpoint p \<noteq> [] \<and> PublicKeyJWKS p \<noteq> [] \<and> new_request L (MessageEndpoint p) = None
          \<and> ParsePublicKeyFromJWKSByUse L (PublicKeyJWKS p) ''enc'' = Inr (publicKey b))"

definition knows_sender :: "libs \<Rightarrow> partner_table \<Rightarrow> string \<Rightarrow> as5_engine \<Rightarrow> bool" where
  "knows_sender L ps sender a \<longleftrightarrow>
     sender \<noteq> [] \<and> (case find_partner sender ps of None \<Rightarrow> False
      | Some p \<Rightarrow> PublicKeyJWKS p \<noteq> []
          \<and> ParsePublicKeyFromJWKSByUse L (PublicKeyJWKS p) ''sig'' = Inr (publicKey a))"

definition engine_ok :: "libs \<Rightarrow> as5_engine \<Rightarrow> bool" where
  "engine_ok L e \<longleftrightarrow> publicKey e = PublicKey (privateKey e) \<and> jose_ok L (privateKey e)"

lemma post_known_url:
  "new_request L url = None \<Longrightarrow> nw \<lparr>q_method = ''POST'', q_url = url, q_headers = h, q_body = b\<rparr> = Inr (code, reply) \<Longrightarrow>
    200 \<le> code \<Longrightarrow> code < 300 \<Longrightarrow>
    post L nw url b h x y z = (Some \<lparr>q_method = ''POST'', q_url = url, q_headers = h, q_body = b\<rparr>, None)"
  by (simp add: post_def Let_def)

section \<open>Two concrete nodes\<close>

definition demo_partners_of_b :: partner_table where
  "demo_partners_of_b = \<lparr>rows = [demo_partner\<lparr>PartnerID := ''urn:a''\<rparr>], next_id = 2\<rparr>"

definition node_b :: handlers where
  "node_b = \<lparr>h_config = None, h_crypto = Some (engine_of demo_key ''urn:b''), h_has_discovery = True, h_has_hub = True\<rparr>"

lemma demo_engine_ok: "engine_ok demo_libs (engine_of demo_key n)"
  by (simp add: engine_ok_def engine_of_def demo_jose_ok)

lemma demo_enc_key: "ParsePublicKeyFromJWKSByUse demo_libs ''keys'' ''enc'' = Inr demo_pub"
  by (simp add: ParsePublicKeyFromJWKSByUse_def demo_libs_def demo_jwks_def)

lemma demo_engine_public: "publicKey (engine_of demo_key n) = demo_pub"
  by (simp add: engine_of_def demo_key_def)

lemma demo_knows_receiver: "knows_receiver demo_libs demo_partners ''urn:b'' (engine_of demo_key ''urn:b'')"
proof -
  have "find_partner ''urn:b'' demo_partners = Some demo_partner"
    by (simp add: demo_partners_def demo_partner_def tbl_find_def)
  moreover have "MessageEndpoint demo_partner = ''https://b/in''" "PublicKeyJWKS demo_partner = ''keys''"
    by (simp_all add: demo_partner_def)
  moreover have "new_request demo_libs ''https://b/in'' = None" by (simp add: demo_libs_def)
  ultimately show ?thesis by (simp add: knows_receiver_def demo_enc_key demo_engine_public)
qed

lemma demo_knows_sender: "knows_sender demo_libs demo_partners_of_b ''urn:a'' (engine_of demo_key ''urn:a'')"
proof -
  have "find_partner ''urn:a'' demo_partners_of_b = Some (demo_partner\<lparr>PartnerID := ''urn:a''\<rparr>)"
    by (simp add: demo_partners_of_b_def demo_partner_def tbl_find_def)
  moreover have "PublicKeyJWKS (demo_partner\<lparr>PartnerID := ''urn:a''\<rparr>) = ''keys''" by (simp add: demo_partner_def)
  ultimately show ?thesis by (simp add: knows_sender_def demo_sig_key demo_engine_public)
qed

text \<open>C2: End to end: a business document queued at one node for a partner that knows it is
  delivered by one attempt of the queue worker, is accepted by the partner's inbound handler,
  and is stored there, decrypted and unchanged, under the same message id.\<close>

theorem document_end_to_end:
  assumes "engine_ok L a" and "engine_ok L b"
    and "w_engine w = Some a" and "h_crypto h = Some b"
    and "partners_ok (the_partners E)" and "partner_fault E = None" and "knows_receiver L (the_partners E) dest b"
    and "ie_partner_fault EB = None" and "ie_create_fault EB = None" and "knows_sender L psB (w_nodeID w) a"
    and "Payload m = print_json (outbound_json dest ty wh doc)" and "wf_json doc"
    and "JobType m = JobTypeProcessOutbound" and "MessageID m \<noteq> []"
    and "find_msg (MessageID m) tB = None" and "ie_uuid EB \<noteq> MessageID m"
    and "net E = peer_inbound L h psB EB tB"
  shows "\<exists>q row. deliverMessage L w E m = (Some q, None)
    \<and> find_msg (MessageID m) (snd (inboundHandler L h (Some psB) EB (post_request (q_body q)) tB)) = Some row
    \<and> Status row = StatusDelivered \<and> Direction row = DirectionInbound \<and> Payload row = print_json doc"
proof -
  obtain p where p: "find_partner dest (the_partners E) = Some p" "MessageEndpoint p \<noteq> []" "PublicKeyJWKS p \<noteq> []"
    "new_request L (MessageEndpoint p) = None" "dest \<noteq> []"
    "ParsePublicKeyFromJWKSByUse L (PublicKeyJWKS p) ''enc'' = Inr (publicKey b)"
    using assms(7) by (auto simp: knows_receiver_def split: option.splits)
  obtain s where s: "find_partner (w_nodeID w) psB = Some s" "PublicKeyJWKS s \<noteq> []" "w_nodeID w \<noteq> []"
    "ParsePublicKeyFromJWKSByUse L (PublicKeyJWKS s) ''sig'' = Inr (publicKey a)"
    using assms(10) by (auto simp: knows_sender_def split: option.splits)
  have gp: "Partner_GetByID None dest (the_partners E) = Inr p" using p by (simp add: Partner_GetByID_def)
  have gs: "Partner_GetByID None (w_nodeID w) psB = Inr s" using s by (simp add: Partner_GetByID_def)
  have algs: "SupportedEncAlgs p = []" by (rule Partner_GetByID_capabilities [OF assms(5) gp])
  have jose: "signs_ok L (privateKey a)" "encrypts_ok L (privateKey b)" "publicKey a = PublicKey (privateKey a)"
    "publicKey b = PublicKey (privateKey b)" using assms(1,2) by (simp_all add: engine_ok_def jose_ok_def)
  obtain jwe where jwe: "SignAndEncryptWithAlg L (rnd E) a (print_json doc) (publicKey b) AlgRSAOAEP = Inr jwe" "jwe \<noteq> []"
    "DecryptAndVerify L b jwe (publicKey a) = Inr (print_json doc)"
    using SignAndEncryptWithAlg_ok [OF jose(1,2) joseKeyAlgorithm_simps(1), of "rnd E" "print_json doc"]
    unfolding jose(3,4) by blast
  let ?env = "\<lparr>Routing = \<lparr>FidexVersion = ''1.0'', RMessageID = MessageID m, SenderID = w_nodeID w, ReceiverID = dest,
      DocumentType = ty, Timestamp = fmt_millis (now_build E), ReceiptWebhook = wh\<rparr>, EncPayload = jwe\<rparr>"
  define env where "env = ?env"
  have env [simp]: "RMessageID (Routing env) = MessageID m" "SenderID (Routing env) = w_nodeID w"
    "EncPayload env = jwe" "FidexVersion (Routing env) = ''1.0''" "ReceiverID (Routing env) = dest"
    by (simp_all add: env_def)
  let ?body = "print_json (envelope_json env)"
  let ?r = "post_request ?body"
  have valid: "valid_envelope ?r env"
    by (rule valid_envelope_post) (simp add: validate_envelope_None assms(14) s(3) p(5) jwe(2))
  have admitted: "admit L h (Some psB) None env = Inr (print_json doc)"
    by (simp add: admit_def assms(4) gs s jwe(3))
  have row: "Msg_Create None (ie_now EB) (Some (inbound_row EB env (Inr (print_json doc)))) tB =
     (Inr (set_msg_id (next_id tB) (stored_form (ie_now EB) (inbound_row EB env (Inr (print_json doc))))),
      tbl_insert set_msg_id (stored_form (ie_now EB) (inbound_row EB env (Inr (print_json doc)))) tB)"
    using assms(14,15) by (intro create_fresh_row) simp_all
  have code: "r_code (fst (inboundHandler L h (Some psB) EB ?r tB)) = 202"
    by (simp add: inboundHandler_valid [OF valid] Let_def assms(8,9) admitted row)
  let ?hd = "[(''Content-Type'', ''application/json''), (''User-Agent'', ''FideX-Node/1.0''),
      (''X-FideX-Message-ID'', MessageID m), (''X-FideX-Sender'', w_nodeID w)]"
  let ?q = "\<lparr>q_method = ''POST'', q_url = MessageEndpoint p, q_headers = ?hd, q_body = ?body\<rparr>"
  have post: "post L (net E) (MessageEndpoint p) ?body ?hd f1 f2 f3 = (Some ?q, None)" for f1 f2 f3
    by (rule post_known_url [OF p(4), of _ _ _ 202]) (simp_all add: assms(17) peer_inbound_def Let_def code)
  have dne: "print_json doc \<noteq> []" by (rule wf_print_nonempty [OF assms(12)])
  have "deliverMessage L w E m = (Some ?q, None)"
    using assms(3,6,13)
    by (simp add: deliverMessage_def deliverBusinessDocument_def assms(11) unmarshal_outbound_json [OF assms(12)]
        outbound_view_def p gp algs negotiate_unadvertised dne jwe(1) post env_def [symmetric])
  moreover have "find_msg (MessageID m) (snd (inboundHandler L h (Some psB) EB ?r tB))
      = Some (set_msg_id (next_id tB) (stored_form (ie_now EB) (inbound_row EB env (Inr (print_json doc)))))"
  proof -
    let ?t1 = "tbl_insert set_msg_id (stored_form (ie_now EB) (inbound_row EB env (Inr (print_json doc)))) tB"
    have "find_msg (MessageID m) ?t1 = Some (set_msg_id (next_id tB) (stored_form (ie_now EB) (inbound_row EB env (Inr (print_json doc)))))"
      using find_after_insert [of "inbound_row EB env (Inr (print_json doc))" tB] assms(15) by simp
    moreover have "find_msg (MessageID m) (snd (Msg_Create f n (Some (jmdn_row EB env)) ?t1)) = find_msg (MessageID m) ?t1" for f n
      using assms(16) by (intro create_keeps_others) simp
    ultimately show ?thesis
      by (simp add: inboundHandler_valid [OF valid] Let_def assms(8,9) admitted row)
  qed
  ultimately show ?thesis
    using dne by (intro exI [of _ ?q] exI [of _ "set_msg_id (next_id tB) (stored_form (ie_now EB) (inbound_row EB env (Inr (print_json doc))))"])
      (simp add: inbound_row_def stored_payload_def)
qed

theorem document_end_to_end_witness:
  "\<exists>q row. deliverMessage demo_libs demo_worker
       (demo_env_ok\<lparr>net := peer_inbound demo_libs node_b demo_partners_of_b demo_env_in empty_table\<rparr>) demo_doc_row = (Some q, None)
    \<and> find_msg ''m-1'' (snd (inboundHandler demo_libs node_b (Some demo_partners_of_b) demo_env_in
         (post_request (q_body q)) empty_table)) = Some row
    \<and> Payload row = print_json demo_doc"
proof -
  let ?E = "demo_env_ok\<lparr>net := peer_inbound demo_libs node_b demo_partners_of_b demo_env_in empty_table\<rparr>"
  have f: "MessageID demo_doc_row = ''m-1''" "JobType demo_doc_row = JobTypeProcessOutbound"
    "Payload demo_doc_row = print_json (outbound_json ''urn:b'' ''invoice'' [] demo_doc)"
    "the_partners ?E = demo_partners" "partner_fault ?E = None" "w_nodeID demo_worker = ''urn:a''"
    "w_engine demo_worker = Some (engine_of demo_key ''urn:a'')" "h_crypto node_b = Some (engine_of demo_key ''urn:b'')"
    by (simp_all add: demo_doc_row_def demo_row_def demo_env_ok_def demo_env_def demo_worker_def SetNodeID_def
        NewWorker_def node_b_def)
  have "\<exists>q row. deliverMessage demo_libs demo_worker ?E demo_doc_row = (Some q, None)
    \<and> find_msg (MessageID demo_doc_row) (snd (inboundHandler demo_libs node_b (Some demo_partners_of_b) demo_env_in
         (post_request (q_body q)) empty_table)) = Some row
    \<and> Status row = StatusDelivered \<and> Direction row = DirectionInbound \<and> Payload row = print_json demo_doc"
    by (rule document_end_to_end [where a = "engine_of demo_key ''urn:a''" and b = "engine_of demo_key ''urn:b''"
          and dest = "''urn:b''" and ty = "''invoice''" and wh = "[]"])
      (simp_all only: f demo_engine_ok demo_partners_ok demo_knows_receiver demo_knows_sender demo_doc_wf demo_env_in_simps,
       simp_all)
  then show ?thesis unfolding f(1) by blast
qed

text \<open>C6: The receipt closes the loop: the receipt job the inbound handler queued is posted by one
  attempt of the partner's worker to the sender's receipt endpoint, whose handler accepts it and
  marks the original message DELIVERED; its hash is that of the ciphertext that was sent.\<close>

theorem receipt_end_to_end:
  assumes "w_engine w = Some b" and "Payload job = print_json (jmdn_job_json mid sender ''processed'' ciphertext)"
    and "JobType job = JobTypeSendJMDN" and "mid \<noteq> []" and "sender \<noteq> []"
    and "partner_fault E = None" and "find_partner sender (the_partners E) = Some p"
    and "MDNReceiptEndpoint p \<noteq> []" and "new_request L (MDNReceiptEndpoint p) = None"
    and "re_create_fault EA = None" and "re_update_fault EA = None"
    and "find_msg mid tA = Some m" and "net E = peer_receipt L h psA EA tA"
  shows "\<exists>q body. deliverMessage L w E job = (Some q, None) \<and> q_url q = MDNReceiptEndpoint p
    \<and> q_body q = print_json (jmdn_body_json body)
    \<and> B_HashVerification body = ''sha256:'' @ hex_encode (sha256 ciphertext)
    \<and> find_msg mid (fst (snd (receiptHandler L h (Some psA) EA (post_request (q_body q)) tA)))
      = Some (m\<lparr>Status := StatusDelivered\<rparr>)"
proof -
  let ?body = "buildJMDN L w b (now_build E) mid ''DELIVERED'' ciphertext"
  let ?text = "print_json (jmdn_body_json ?body)"
  have b: "B_OriginalMessageID ?body = mid" "B_Status ?body = ''DELIVERED''"
    "B_HashVerification ?body = ''sha256:'' @ hex_encode (sha256 ciphertext)"
    by (simp_all add: buildJMDN_def Let_def split: sum.split)
  have "new_status ''DELIVERED'' = StatusDelivered" by (simp add: new_status_def to_upper_def upper_char_def)
  then have r: "r_code (fst (receiptHandler L h (Some psA) EA (post_request ?text) tA)) = 202
      \<and> find_msg mid (fst (snd (receiptHandler L h (Some psA) EA (post_request ?text) tA))) = Some (m\<lparr>Status := StatusDelivered\<rparr>)"
    using flat_receipt_sets [of "post_request ?text" ?text "flat_view ?body" EA tA m L h "Some psA"] assms(4,10-12) b
    by (simp add: unmarshal_flat_body flat_view_def post_request_def)
  let ?hd = "[(''Content-Type'', ''application/json''), (''User-Agent'', ''FideX-Node/1.0''),
      (''X-FideX-Message-ID'', MessageID job), (''X-FideX-Sender'', w_nodeID w), (''X-FideX-Receipt-For'', mid)]"
  let ?q = "\<lparr>q_method = ''POST'', q_url = MDNReceiptEndpoint p, q_headers = ?hd, q_body = ?text\<rparr>"
  have post: "post L (net E) (MDNReceiptEndpoint p) ?text ?hd f1 f2 f3 = (Some ?q, None)" for f1 f2 f3
    by (rule post_known_url [OF assms(9), of _ _ _ 202]) (simp_all add: assms(13) peer_receipt_def Let_def r)
  have gp: "Partner_GetByID None sender (the_partners E) = Inr p" using assms(5,7) by (simp add: Partner_GetByID_def)
  have "disposition ''processed'' = ''DELIVERED''" by (simp add: disposition_def to_upper_def upper_char_def)
  then have "deliverMessage L w E job = (Some ?q, None)"
    by (simp add: deliverMessage_def assms(1,3) deliverJMDN_def assms(2) unmarshal_jmdn_job_json jmdn_view_def
        assms(4,5,6,8) gp post Let_def)
  then show ?thesis using r b by (intro exI [of _ ?q] exI [of _ ?body]) simp
qed

definition demo_job_row :: message where
  "demo_job_row = demo_row\<lparr>MessageID := ''u-1'', Payload := print_json (jmdn_job_json ''m-1'' ''urn:a'' ''processed'' ''jwe''),
     JobType := JobTypeSendJMDN\<rparr>"

theorem receipt_end_to_end_witness:
  "\<exists>q. deliverMessage demo_libs demo_worker
      (demo_env\<lparr>the_partners := demo_partners_of_b,
         net := peer_receipt demo_libs demo_handlers demo_partners
           \<lparr>re_partner_fault = None, re_create_fault = None, re_update_fault = None, re_now = 30\<rparr> demo_table\<rparr>) demo_job_row
      = (Some q, None)
    \<and> find_msg ''m-1'' (fst (snd (receiptHandler demo_libs demo_handlers (Some demo_partners)
           \<lparr>re_partner_fault = None, re_create_fault = None, re_update_fault = None, re_now = 30\<rparr>
           (post_request (q_body q)) demo_table))) = Some (demo_row\<lparr>Status := StatusDelivered\<rparr>)"
proof -
  let ?EA = "\<lparr>re_partner_fault = None, re_create_fault = None, re_update_fault = None, re_now = 30\<rparr>"
  let ?E = "demo_env\<lparr>the_partners := demo_partners_of_b,
         net := peer_receipt demo_libs demo_handlers demo_partners ?EA demo_table\<rparr>"
  let ?p = "demo_partner\<lparr>PartnerID := ''urn:a''\<rparr>"
  have p: "find_partner ''urn:a'' demo_partners_of_b = Some ?p" "MDNReceiptEndpoint ?p = ''https://b/rc''"
    by (simp_all add: demo_partners_of_b_def demo_partner_def tbl_find_def)
  have u: "new_request demo_libs ''https://b/rc'' = None" by (simp add: demo_libs_def)
  have f: "w_engine demo_worker = Some (engine_of demo_key ''urn:a'')" "partner_fault ?E = None"
    "the_partners ?E = demo_partners_of_b" "JobType demo_job_row = JobTypeSendJMDN"
    "Payload demo_job_row = print_json (jmdn_job_json ''m-1'' ''urn:a'' ''processed'' ''jwe'')"
    by (simp_all add: demo_worker_def SetNodeID_def NewWorker_def demo_env_def demo_job_row_def)
  have "\<exists>q body. deliverMessage demo_libs demo_worker ?E demo_job_row = (Some q, None)
    \<and> q_url q = MDNReceiptEndpoint ?p \<and> q_body q = print_json (jmdn_body_json body)
    \<and> B_HashVerification body = ''sha256:'' @ hex_encode (sha256 ''jwe'')
    \<and> find_msg ''m-1'' (fst (snd (receiptHandler demo_libs demo_handlers (Some demo_partners) ?EA (post_request (q_body q)) demo_table)))
      = Some (demo_row\<lparr>Status := StatusDelivered\<rparr>)"
    by (rule receipt_end_to_end [where b = "engine_of demo_key ''urn:a''" and sender = "''urn:a''"])
      (simp_all only: f p u demo_find, simp_all)
  then show ?thesis by blast
qed

end
