(* ===== verification/Auth.thy ===== *)
theory Auth
  imports ApiCore
begin

text \<open>
  \<open>internal/auth\<close>: passwords (\<open>password.go\<close>), the session service (\<open>session.go\<close>) and the two
  middlewares that admit a request with a live session (\<open>middleware.go\<close>). The service works
  on the tables of theory UserRepo; bcrypt is a parameter, and the random bytes, the clock
  and the driver's faults are arguments.
\<close>

section \<open>Passwords\<close>

definition HashPassword :: "libs \<Rightarrow> nat \<Rightarrow> string \<Rightarrow> string result" where
  "HashPassword L rnd password =
     (case bcrypt_hash L rnd 10 password of
        Inl e \<Rightarrow> Inl (WrapErr ''failed to hash password: '' (Errorf e)) | Inr h \<Rightarrow> Inr h)"

definition VerifyPassword :: "libs \<Rightarrow> string \<Rightarrow> string \<Rightarrow> bool" where \<comment> \<open>whether the error is nil\<close>
  "VerifyPassword L hashed plain = bcrypt_check L hashed plain"

definition ValidatePassword :: "string \<Rightarrow> goerr option" where
  "ValidatePassword password =
     (if length password < 8 then Some (Errorf ''password must be at least 8 characters long'') else None)"

text \<open>What the documentation of bcrypt promises: a hash is never empty and checks against the
  password it was made from.\<close>

definition bcrypt_ok :: "libs \<Rightarrow> bool" where
  "bcrypt_ok L \<longleftrightarrow> (\<forall>rnd cost p h. bcrypt_hash L rnd cost p = Inr h \<longrightarrow> h \<noteq> [] \<and> bcrypt_check L h p)"

lemma demo_bcrypt_ok: "bcrypt_ok demo_libs"
  by (simp add: bcrypt_ok_def demo_libs_def)

lemma demo_bcrypt [simp]:
  "bcrypt_hash demo_libs rnd cost p = (if length p \<le> 72 then Inr (CHR ''h'' # p) else Inl ''password too long'')"
  "bcrypt_check demo_libs h p \<longleftrightarrow> h = CHR ''h'' # p"
  by (simp_all add: demo_libs_def)

lemma HashPassword_ok: "bcrypt_ok L \<Longrightarrow> HashPassword L rnd p = Inr h \<Longrightarrow> h \<noteq> [] \<and> VerifyPassword L h p"
  by (auto simp: bcrypt_ok_def HashPassword_def VerifyPassword_def split: sum.splits)

section \<open>Sessions\<close>

definition SessionDuration :: duration where "SessionDuration = 24 * hour"

lemma SessionDuration_pos [simp]: "0 \<le> SessionDuration"
  by (simp add: SessionDuration_def hour_def minute_def second_def)

definition GenerateSessionID :: "string + string \<Rightarrow> string result" where
  "GenerateSessionID rnd =
     (case rnd of Inl e \<Rightarrow> Inl (WrapErr ''failed to generate session ID: '' (Errorf e))
      | Inr bytes \<Rightarrow> Inr (b64_encode True bytes))"

definition CreateSession ::
  "bool \<Rightarrow> fault \<Rightarrow> string + string \<Rightarrow> time \<Rightarrow> int \<Rightarrow> auth_db \<Rightarrow> session result \<times> auth_db" where
  "CreateSession fk flt rnd now userID db =
     (case GenerateSessionID rnd of Inl e \<Rightarrow> (Inl e, db)
      | Inr sid \<Rightarrow>
        let s = \<lparr>SessionID = sid, UserID = userID, ExpiresAt = now + SessionDuration, SCreatedAt = now\<rparr>
        in case Session_Create fk flt now (Some s) db of
             (Some e, db1) \<Rightarrow> (Inl (WrapErr ''failed to create session: '' e), db1)
           | (None, db1) \<Rightarrow> (Inr s, db1))"

definition GetSession :: "fault \<Rightarrow> fault \<Rightarrow> time \<Rightarrow> string \<Rightarrow> auth_db \<Rightarrow> session result \<times> auth_db" where
  "GetSession flt dflt now sid db =
     (case Session_GetByID flt sid db of
        Inl e \<Rightarrow> (Inl (WrapErr ''session not found: '' e), db)
      | Inr s \<Rightarrow>
        if ExpiresAt s < now then (Inl (Errorf ''session expired''), snd (Session_Delete dflt sid db))
        else (Inr s, db))"

definition DeleteSession :: "fault \<Rightarrow> string \<Rightarrow> auth_db \<Rightarrow> goerr option \<times> auth_db" where
  "DeleteSession flt sid db = Session_Delete flt sid db"

definition CleanupExpiredSessions :: "fault \<Rightarrow> time \<Rightarrow> auth_db \<Rightarrow> goerr option \<times> auth_db" where
  "CleanupExpiredSessions flt now db = Session_DeleteExpired flt now db"

section \<open>Users\<close>

definition GetUserByID :: "fault \<Rightarrow> int \<Rightarrow> auth_db \<Rightarrow> user result" where
  "GetUserByID flt i db =
     (case User_GetByID flt i db of Inl e \<Rightarrow> Inl (WrapErr ''user not found: '' e) | Inr u \<Rightarrow> Inr u)"

definition GetUserByUsername :: "fault \<Rightarrow> string \<Rightarrow> auth_db \<Rightarrow> user result" where
  "GetUserByUsername flt name db =
     (case User_GetByUsername flt name db of Inl e \<Rightarrow> Inl (WrapErr ''user not found: '' e) | Inr u \<Rightarrow> Inr u)"

definition CreateUser :: "fault \<Rightarrow> time \<Rightarrow> string \<Rightarrow> string \<Rightarrow> auth_db \<Rightarrow> user result \<times> auth_db" where
  "CreateUser flt now name hash db =
     (case User_Create flt now name hash db of
        (Inl e, db1) \<Rightarrow> (Inl (WrapErr ''failed to create user: '' e), db1) | (Inr u, db1) \<Rightarrow> (Inr u, db1))"

definition CountUsers :: "fault \<Rightarrow> auth_db \<Rightarrow> nat result" where
  "CountUsers flt db = (case User_List flt db of Inl e \<Rightarrow> Inl e | Inr us \<Rightarrow> Inr (length us))"

section \<open>The middlewares\<close>

definition SessionCookieName :: string where "SessionCookieName = ''fidex_session''"

record auth_env =
  ae_now :: time
  ae_session_fault :: fault
  ae_delete_fault :: fault
  ae_user_fault :: fault

definition writeUnauthorized :: "string \<Rightarrow> response" where
  "writeUnauthorized message =
     \<lparr>r_code = 401, r_headers = [(''Content-Type'', ''application/json'')],
      r_body = ''{'' @ [CHR 0x22] @ ''error'' @ [CHR 0x22] @ '':'' @ [CHR 0x22] @ ''unauthorized'' @ [CHR 0x22]
        @ '','' @ [CHR 0x22] @ ''message'' @ [CHR 0x22] @ '':'' @ [CHR 0x22] @ message @ [CHR 0x22] @ ''}''\<rparr>"

definition RequireAuthAPI ::
  "auth_env \<Rightarrow> (request \<Rightarrow> auth_db \<Rightarrow> response \<times> auth_db) \<Rightarrow> request \<Rightarrow> auth_db \<Rightarrow> response \<times> auth_db" where
  "RequireAuthAPI E next r db =
     (case cookie_get r SessionCookieName of
        None \<Rightarrow> (writeUnauthorized ''no valid session'', db)
      | Some sid \<Rightarrow>
        (case GetSession (ae_session_fault E) (ae_delete_fault E) (ae_now E) sid db of
           (Inl e, db1) \<Rightarrow> (writeUnauthorized ''invalid session'', db1)
         | (Inr s, db1) \<Rightarrow>
           (case GetUserByID (ae_user_fault E) (UserID s) db1 of
              Inl e \<Rightarrow> (writeUnauthorized ''user not found'', db1)
            | Inr u \<Rightarrow> next (r\<lparr>rq_user := Some u\<rparr>) db1)))"

definition RequireAuth ::
  "auth_env \<Rightarrow> (request \<Rightarrow> auth_db \<Rightarrow> response \<times> auth_db) \<Rightarrow> request \<Rightarrow> auth_db \<Rightarrow> response \<times> auth_db" where
  "RequireAuth E next r db =
     (let to_login = http_redirect r ''/login'' 303 ''See Other'' in
      case cookie_get r SessionCookieName of
        None \<Rightarrow> (to_login, db)
      | Some sid \<Rightarrow>
        (case GetSession (ae_session_fault E) (ae_delete_fault E) (ae_now E) sid db of
           (Inl e, db1) \<Rightarrow>
             (add_header ''Set-Cookie'' (SessionCookieName @ ''=; Path=/; Max-Age=0'') to_login, db1)
         | (Inr s, db1) \<Rightarrow>
           (case GetUserByID (ae_user_fault E) (UserID s) db1 of
              Inl e \<Rightarrow> (to_login, db1)
            | Inr u \<Rightarrow> next (r\<lparr>rq_user := Some u\<rparr>) db1)))"

definition GetUserFromContext :: "request \<Rightarrow> user option" where
  "GetUserFromContext r = rq_user r"

section \<open>Who is admitted\<close>

text \<open>The specification: the cookie names a stored session that has not expired, and the user
  of the session is stored.\<close>

definition session_user :: "time \<Rightarrow> string \<Rightarrow> auth_db \<Rightarrow> user option" where
  "session_user now sid db =
     (if sid = [] then None
      else case tbl_find SessionID sid (sessions db) of None \<Rightarrow> None
      | Some s \<Rightarrow> if ExpiresAt s < now then None else tbl_find U_ID (UserID s) (users db))"

text \<open>What a check does to the tables: it removes the session it finds expired.\<close>

definition after_check :: "time \<Rightarrow> string \<Rightarrow> auth_db \<Rightarrow> auth_db" where
  "after_check now sid db =
     (case tbl_find SessionID sid (sessions db) of None \<Rightarrow> db
      | Some s \<Rightarrow> if sid \<noteq> [] \<and> ExpiresAt s < now
                  then db\<lparr>sessions := tbl_delete (\<lambda>x. SessionID x = sid) (sessions db)\<rparr> else db)"

lemma GetSession_eq:
  "GetSession None None now sid db =
     ((if sid = [] then Inl (WrapErr ''session not found: '' (Errorf ''session_id cannot be empty''))
       else case tbl_find SessionID sid (sessions db) of
         None \<Rightarrow> Inl (WrapErr ''session not found: '' (Errorf (''session not found: '' @ sid)))
       | Some s \<Rightarrow> if ExpiresAt s < now then Inl (Errorf ''session expired'') else Inr s),
      after_check now sid db)"
  by (auto simp: GetSession_def Session_GetByID_def Session_Delete_def after_check_def Let_def tbl_count_none
      split: option.splits)

lemma GetUserByID_eq:
  "GetUserByID None i db =
     (case tbl_find U_ID i (users db) of
        None \<Rightarrow> Inl (WrapErr ''user not found: '' (Errorf (''user not found: '' @ show_int i))) | Some u \<Rightarrow> Inr u)"
  by (auto simp: GetUserByID_def User_GetByID_def split: option.splits)

lemma after_check_live: "session_user now sid db = Some u \<Longrightarrow> after_check now sid db = db"
  by (auto simp: session_user_def after_check_def split: option.splits if_splits)

lemma users_after_check [simp]: "users (after_check now sid db) = users db"
  by (simp add: after_check_def split: option.split)

lemma auth_ok_after_check [inv_intros]: "auth_ok db \<Longrightarrow> auth_ok (after_check now sid db)"
  by (auto simp: after_check_def intro: auth_ok_sessions_delete split: option.split)

lemma auth_ok_GetSession [inv_intros]: "auth_ok db \<Longrightarrow> auth_ok (snd (GetSession f1 f2 now sid db))"
  by (auto simp: GetSession_def intro: inv_intros split: sum.split)

lemma auth_ok_CreateSession [inv_intros]: "auth_ok db \<Longrightarrow> auth_ok (snd (CreateSession fk flt rnd now i db))"
  using auth_ok_Session_Create [of db fk flt now]
  by (simp add: CreateSession_def Let_def split: sum.split prod.split option.split) (metis snd_conv)

lemma auth_ok_CreateUser [inv_intros]: "auth_ok db \<Longrightarrow> auth_ok (snd (CreateUser flt now n h db))"
  using auth_ok_User_Create [of db flt now n h]
  by (auto simp: CreateUser_def split: sum.split prod.split)

text \<open>A session just created admits its user until it expires.\<close>

lemma CreateSession_admits:
  assumes "CreateSession fk flt rnd now i db = (Inr s, db1)"
    and "tbl_find U_ID i (users db) = Some u" and "t \<le> now + SessionDuration"
  shows "session_user t (SessionID s) db1 = Some u \<and> users db1 = users db"
proof -
  obtain bytes where rnd: "rnd = Inr bytes"
    using assms(1) by (cases rnd) (auto simp: CreateSession_def GenerateSessionID_def)
  let ?s = "\<lparr>SessionID = b64_encode True bytes, UserID = i, ExpiresAt = now + SessionDuration, SCreatedAt = now\<rparr>"
  have s: "s = ?s" and cr: "Session_Create fk flt now (Some ?s) db = (None, db1)"
    using assms(1) by (auto simp: CreateSession_def GenerateSessionID_def rnd Let_def split: prod.splits option.splits)
  have db1: "db1 = db\<lparr>sessions := tbl_insert set_session_rowid ?s (sessions db)\<rparr>"
    and ne: "b64_encode True bytes \<noteq> []" and fresh: "tbl_find SessionID (SessionID ?s) (sessions db) = None"
    using cr by (auto simp: Session_Create_def Let_def tbl_has_find split: if_splits option.splits)
  have "tbl_find SessionID (SessionID ?s) (sessions db1) = Some ?s"
    using session_rows.find_insert [OF fresh] by (simp add: db1 set_session_rowid_def)
  then show ?thesis
    using assms(2,3) ne unfolding s session_user_def by (simp add: db1)
qed

section \<open>Properties\<close>

text \<open>C25: A request reaches a handler behind the API middleware exactly when its cookie names a
  session that is stored and not expired and whose user is stored, and then with that user in its
  context; otherwise the answer is 401 and the tables lose at most the expired session.\<close>

theorem session_admission:
  "RequireAuthAPI \<lparr>ae_now = now, ae_session_fault = None, ae_delete_fault = None, ae_user_fault = None\<rparr> next r db =
     (case cookie_get r SessionCookieName of
        None \<Rightarrow> (writeUnauthorized ''no valid session'', db)
      | Some sid \<Rightarrow>
        (case session_user now sid db of
           Some u \<Rightarrow> next (r\<lparr>rq_user := Some u\<rparr>) db
         | None \<Rightarrow>
           (writeUnauthorized
              (if sid \<noteq> [] \<and> (\<exists>s. tbl_find SessionID sid (sessions db) = Some s \<and> now \<le> ExpiresAt s)
               then ''user not found'' else ''invalid session''),
            after_check now sid db)))"
  by (auto simp: RequireAuthAPI_def GetSession_eq GetUserByID_eq session_user_def after_check_def
      split: option.splits)

end
