(* ===== verification/ApiAuth.thy ===== *)
theory ApiAuth
  imports Auth Json_Facts
begin

text \<open>
  \<open>internal/api/auth_handlers.go\<close>: login, logout, the current user, and the user that is
  created when a node starts without users. The properties follow a session from its
  creation to its end.
\<close>

section \<open>The handlers\<close>

record LoginRequest =
  L_Username :: string
  L_Password :: string

definition decode_login :: "json option \<Rightarrow> LoginRequest option" where
  "decode_login p =
     (case p of None \<Rightarrow> None
      | Some v \<Rightarrow>
        let (ms, b0) = obj_members v; (u, b1) = dec_str ''username'' ms; (pw, b2) = dec_str ''password'' ms
        in if b0 \<or> b1 \<or> b2 then None else Some \<lparr>L_Username = u, L_Password = pw\<rparr>)"

definition LoginResponse :: "bool \<Rightarrow> string \<Rightarrow> string \<Rightarrow> json" where
  "LoginResponse ok username message =
     JObj ([(''success'', JBool ok)] @ opt_str ''username'' username @ opt_str ''message'' message)"

record login_env =
  lg_now :: time
  lg_user_fault :: fault
  lg_session_fault :: fault
  lg_fk :: bool
  lg_rnd :: "string + string" \<comment> \<open>the random bytes of the session id\<close>

definition session_cookie :: "session \<Rightarrow> string" where
  "session_cookie s = SessionCookieName @ ''='' @ SessionID s @ ''; Path=/; Expires='' @ fmt_http (ExpiresAt s)
     @ ''; HttpOnly; SameSite=Lax''"

definition login_failed :: response where
  "login_failed = respondWithJSON 401 (LoginResponse False [] ''Invalid username or password'')"

definition loginHandler :: "libs \<Rightarrow> login_env \<Rightarrow> request \<Rightarrow> auth_db \<Rightarrow> response \<times> auth_db" where
  "loginHandler L E r db =
     (case decode_login (body_json r) of
        None \<Rightarrow> (respondWithJSON 400 (LoginResponse False [] ''Invalid request body''), db)
      | Some req \<Rightarrow>
        (case GetUserByUsername (lg_user_fault E) (L_Username req) db of
           Inl e \<Rightarrow> (login_failed, db)
         | Inr u \<Rightarrow>
           if \<not> VerifyPassword L (PasswordHash u) (L_Password req) then (login_failed, db)
           else
             (case CreateSession (lg_fk E) (lg_session_fault E) (lg_rnd E) (lg_now E) (U_ID u) db of
                (Inl e, db1) \<Rightarrow> (respondWithJSON 500 (LoginResponse False [] ''Failed to create session''), db1)
              | (Inr s, db1) \<Rightarrow>
                (add_header ''Set-Cookie'' (session_cookie s)
                   (respondWithJSON 200 (LoginResponse True (Username u) [])), db1))))"

definition logoutHandler :: "fault \<Rightarrow> request \<Rightarrow> auth_db \<Rightarrow> response \<times> auth_db" where
  "logoutHandler flt r db =
     (let db1 = (case cookie_get r SessionCookieName of None \<Rightarrow> db | Some sid \<Rightarrow> snd (DeleteSession flt sid db))
      in (add_header ''Set-Cookie'' (SessionCookieName @ ''=; Path=/; Max-Age=0; HttpOnly'')
            (respondWithJSON 200
               (JObj [(''message'', JStr ''Logged out successfully''), (''success'', JBool True)])), db1))"

definition meHandler :: "request \<Rightarrow> response" where
  "meHandler r =
     (case GetUserFromContext r of
        None \<Rightarrow> respondWithJSON 401 (JObj [(''error'', JStr ''unauthorized'')])
      | Some u \<Rightarrow>
        respondWithJSON 200 (JObj [(''created_at'', JStr (fmt_nano (UCreatedAt u))), (''username'', JStr (Username u))]))"

record init_env =
  in_now :: time
  in_count_fault :: fault
  in_create_fault :: fault
  in_rnd :: nat \<comment> \<open>the salt\<close>

definition InitializeDefaultUser :: "libs \<Rightarrow> init_env \<Rightarrow> auth_db \<Rightarrow> goerr option \<times> auth_db" where
  "InitializeDefaultUser L E db =
     (case CountUsers (in_count_fault E) db of Inl e \<Rightarrow> (Some e, db)
      | Inr count \<Rightarrow>
        if count = 0 then
          (case HashPassword L (in_rnd E) ''admin123'' of Inl e \<Rightarrow> (Some e, db)
           | Inr hash \<Rightarrow>
             (case CreateUser (in_create_fault E) (in_now E) ''admin'' hash db of
                (Inl e, db1) \<Rightarrow> (Some e, db1) | (Inr u, db1) \<Rightarrow> (None, db1)))
        else (None, db))"

section \<open>The tables stay well formed\<close>

lemma auth_ok_login [inv_intros]: "auth_ok db \<Longrightarrow> auth_ok (snd (loginHandler L E r db))"
  using auth_ok_CreateSession [of db "lg_fk E" "lg_session_fault E" "lg_rnd E" "lg_now E"]
  by (simp add: loginHandler_def split: option.split sum.split prod.split) (metis snd_conv)

lemma auth_ok_logout [inv_intros]: "auth_ok db \<Longrightarrow> auth_ok (snd (logoutHandler flt r db))"
  by (auto simp: logoutHandler_def Let_def DeleteSession_def intro: inv_intros split: option.split)

lemma auth_ok_InitializeDefaultUser [inv_intros]: "auth_ok db \<Longrightarrow> auth_ok (snd (InitializeDefaultUser L E db))"
  using auth_ok_CreateUser [of db "in_create_fault E" "in_now E" "''admin''"]
  by (simp add: InitializeDefaultUser_def split: option.split sum.split prod.split) (metis snd_conv)

section \<open>Logging in\<close>

lemma username_found:
  assumes "auth_ok db" and "tbl_find Username name (users db) = Some u"
  shows "tbl_find U_ID (U_ID u) (users db) = Some u \<and> name \<noteq> [] \<and> Username u = name"
proof -
  have u: "u \<in> set (rows (users db))" "Username u = name" using tbl_find_in [OF assms(2)] by auto
  have "distinct (map U_ID (rows (users db)))" using assms(1) by (simp add: auth_ok_def table_ok_def)
  then have "tbl_find U_ID (U_ID u) (users db) = Some u"
    unfolding tbl_find_def using u(1) by (rule find_key_unique)
  with u assms(1) show ?thesis by (auto simp: auth_ok_def list_all_iff)
qed

lemma CreateSession_fresh:
  assumes "b64_encode True bytes \<noteq> []" and "tbl_find SessionID (b64_encode True bytes) (sessions db) = None"
    and "tbl_find U_ID i (users db) = Some u"
  shows "\<exists>db1. CreateSession fk None (Inr bytes) now i db =
    (Inr \<lparr>SessionID = b64_encode True bytes, UserID = i, ExpiresAt = now + SessionDuration, SCreatedAt = now\<rparr>, db1)"
  using assms by (auto simp: CreateSession_def GenerateSessionID_def Session_Create_def Let_def tbl_has_find)

lemma login_ok:
  assumes "auth_ok db" and "decode_login (body_json r) = Some req"
    and "tbl_find Username (L_Username req) (users db) = Some u"
    and "VerifyPassword L (PasswordHash u) (L_Password req)"
    and "lg_user_fault E = None" and "lg_session_fault E = None" and "lg_rnd E = Inr bytes"
    and "b64_encode True bytes \<noteq> []" and "tbl_find SessionID (b64_encode True bytes) (sessions db) = None"
  shows "r_code (fst (loginHandler L E r db)) = 200
    \<and> users (snd (loginHandler L E r db)) = users db
    \<and> (\<forall>t \<le> lg_now E + SessionDuration. session_user t (b64_encode True bytes) (snd (loginHandler L E r db)) = Some u)"
proof -
  have u: "tbl_find U_ID (U_ID u) (users db) = Some u" and ne: "L_Username req \<noteq> []"
    using username_found [OF assms(1,3)] by auto
  have get: "GetUserByUsername None (L_Username req) db = Inr u"
    using ne assms(3) by (simp add: GetUserByUsername_def User_GetByUsername_def)
  obtain s db1 where cr: "CreateSession (lg_fk E) None (Inr bytes) (lg_now E) (U_ID u) db = (Inr s, db1)"
    and s: "SessionID s = b64_encode True bytes"
    using CreateSession_fresh [OF assms(8,9) u, of "lg_fk E" "lg_now E"] by auto
  show ?thesis
    using assms get cr CreateSession_admits [OF cr u] CreateSession_admits [OF cr u, of "lg_now E"] s by (simp add: loginHandler_def)
qed

lemma logout_ends:
  assumes "cookie_get r SessionCookieName = Some sid"
  shows "session_user t sid (snd (logoutHandler None r db)) = None"
proof (cases "sid = []")
  case False
  have "tbl_find SessionID sid (tbl_delete (\<lambda>s. SessionID s = sid) (sessions db)) = None"
    by (simp add: session_rows.find_delete)
  with False assms show ?thesis
    by (auto simp: logoutHandler_def DeleteSession_def Session_Delete_def session_user_def Let_def
        tbl_count_none split: option.split)
qed (simp add: session_user_def)

section \<open>Properties\<close>


text \<open>C26: A session runs from login to logout: after a login with the right password the session
  id of the cookie admits its user for twenty-four hours, and after the logout with that cookie it
  admits nobody, at any time.\<close>

theorem session_lifecycle:
  assumes "auth_ok db" and "decode_login (body_json r) = Some req"
    and "tbl_find Username (L_Username req) (users db) = Some u"
    and "VerifyPassword L (PasswordHash u) (L_Password req)"
    and "lg_user_fault E = None \<and> lg_session_fault E = None \<and> lg_rnd E = Inr bytes"
    and "b64_encode True bytes \<noteq> []" and "tbl_find SessionID (b64_encode True bytes) (sessions db) = None"
    and "cookie_get q SessionCookieName = Some (b64_encode True bytes)"
  shows "r_code (fst (loginHandler L E r db)) = 200
    \<and> (\<forall>t \<le> lg_now E + 24 * hour. session_user t (b64_encode True bytes) (snd (loginHandler L E r db)) = Some u)
    \<and> (\<forall>t. session_user t (b64_encode True bytes) (snd (logoutHandler None q (snd (loginHandler L E r db)))) = None)"
  using login_ok [OF assms(1-4) _ _ _ assms(6,7), of E] logout_ends [OF assms(8)] assms(5)
  by (simp add: SessionDuration_def)

definition demo_auth_db :: auth_db where
  "demo_auth_db = \<lparr>users = \<lparr>rows = [\<lparr>U_ID = 1, Username = ''admin'', PasswordHash = ''hadmin123'', UCreatedAt = 5\<rparr>],
     next_id = 2\<rparr>, sessions = empty_table\<rparr>"

definition demo_http :: "string \<Rightarrow> (string \<times> string) list \<Rightarrow> request" where
  "demo_http body cookies = \<lparr>rq_method = ''POST'', rq_path = [], rq_remote = ''127.0.0.1:4000'', rq_host = ''localhost'',
     rq_tls = False, rq_headers = [], rq_cookies = cookies, rq_query = [], rq_param = [], rq_body = Inr body,
     rq_user = None, rq_request_id = None\<rparr>"

definition login_doc :: json where
  "login_doc = JObj [(''username'', JStr ''admin''), (''password'', JStr ''admin123'')]"

lemma decode_login_doc:
  "decode_login (body_json (demo_http (print_json login_doc) cs)) =
    Some \<lparr>L_Username = ''admin'', L_Password = ''admin123''\<rparr>"
proof -
  have "decode_json (print_json login_doc @ []) = Some login_doc"
    by (rule decode_print) (simp_all add: login_doc_def)
  then have "body_json (demo_http (print_json login_doc) cs) = Some login_doc"
    by (simp add: body_json_def demo_http_def)
  then show ?thesis by (simp add: decode_login_def login_doc_def dec_eval)
qed

lemma demo_auth_ok: "auth_ok demo_auth_db"
  by (simp add: auth_ok_def demo_auth_db_def table_ok_def empty_table_def)

theorem session_lifecycle_witness:
  "session_user (24 * hour) (b64_encode True ''abc'') (snd (loginHandler demo_libs
     \<lparr>lg_now = 0, lg_user_fault = None, lg_session_fault = None, lg_fk = True, lg_rnd = Inr ''abc''\<rparr>
     (demo_http (print_json login_doc) []) demo_auth_db)) = Some (hd (rows (users demo_auth_db)))"
  using session_lifecycle [OF demo_auth_ok decode_login_doc [of "[]"], where u = "hd (rows (users demo_auth_db))" and L = demo_libs
      and E = "\<lparr>lg_now = 0, lg_user_fault = None, lg_session_fault = None, lg_fk = True, lg_rnd = Inr ''abc''\<rparr>"
      and bytes = "''abc''" and q = "demo_http [] [(SessionCookieName, b64_encode True ''abc'')]"]
  by (simp add: demo_auth_db_def tbl_find_def empty_table_def VerifyPassword_def demo_http_def cookie_get_def)

definition demo_login_env :: login_env where
  "demo_login_env = \<lparr>lg_now = 0, lg_user_fault = None, lg_session_fault = None, lg_fk = True, lg_rnd = Inr ''abc''\<rparr>"


text \<open>A node that starts without users creates the user \<open>admin\<close>, and a node that has a user
  creates none; the password of the created user is \<open>admin123\<close>.\<close>

theorem default_admin:
  assumes "bcrypt_ok L" and "HashPassword L (in_rnd E) ''admin123'' = Inr h"
    and "in_count_fault E = None \<and> in_create_fault E = None"
  shows "(rows (users db) \<noteq> [] \<longrightarrow> InitializeDefaultUser L E db = (None, db))
    \<and> (rows (users db) = [] \<longrightarrow>
        (\<exists>u. tbl_find Username ''admin'' (users (snd (InitializeDefaultUser L E db))) = Some u
           \<and> VerifyPassword L (PasswordHash u) ''admin123'' \<and> fst (InitializeDefaultUser L E db) = None))"
proof -
  have h: "h \<noteq> []" "VerifyPassword L h ''admin123''" using HashPassword_ok [OF assms(1,2)] by auto
  have count: "CountUsers None db = Inr (length (rows (users db)))"
    by (simp add: CountUsers_def User_List_def)
  show ?thesis
    using assms h count
    by (auto simp: InitializeDefaultUser_def CreateUser_def User_Create_def Let_def tbl_has_find tbl_find_def
        row_simps set_user_id_def)
qed

theorem default_admin_witness:
  "fst (InitializeDefaultUser demo_libs \<lparr>in_now = 5, in_count_fault = None, in_create_fault = None, in_rnd = 3\<rparr>
     empty_auth_db) = None"
  using default_admin [OF demo_bcrypt_ok, of "\<lparr>in_now = 5, in_count_fault = None, in_create_fault = None, in_rnd = 3\<rparr>"
      "''hadmin123''" empty_auth_db]
  by (auto simp: HashPassword_def empty_auth_db_def empty_table_def)

end
