(* ===== verification/ApiSettings.thy ===== *)
theory ApiSettings
  imports ApiAuth
begin

text \<open>
  \<open>internal/api/settings_handlers.go\<close>: the node configuration, the rotation of the key pair,
  and the management of users and partners. The operations that change the two user tables
  are also collected as one type of steps, so that facts about a deleted user hold over any
  later sequence of them.
\<close>

section \<open>Numeric ids in URLs\<close>

text \<open>The loop ranges over runes; those outside ASCII are no digits, like the bytes they are made
  of here.\<close>

definition parseInt64 :: "string \<Rightarrow> int64" where
  "parseInt64 s = foldl (\<lambda>result c. if is_digit c then result * 10 + of_nat (digit_val c) else result) 0 s"

section \<open>Configuration and keys\<close>

text \<open>\<open>exists\<close> tells for which paths \<open>os.Stat\<close> has no error. A nil address list would print as
  \<open>null\<close>; it is read as the empty list here.\<close>

definition config_response :: "config \<Rightarrow> bool \<Rightarrow> json" where
  "config_response c hasPrivateKey = JObj
     [(''node_id'', JStr (NodeID c)), (''organization_name'', JStr (OrganizationName c)),
      (''public_domain'', JStr (PublicDomain c)), (''internal_api_port'', JNum (show_int (InternalAPIPort c))),
      (''public_api_port'', JNum (show_int (PublicAPIPort c))),
      (''allowed_ip_addresses'', JArr (map JStr (AllowedIPAddresses c))),
      (''enable_ip_allowlist'', JBool (EnableIPAllowlist c)), (''has_private_key'', JBool hasPrivateKey),
      (''public_key_path'', JStr (PublicKeyPath c))]"

definition no_config :: response where
  "no_config = respondWithError 500 ''Configuration not available'' None"

definition getConfigHandler :: "handlers \<Rightarrow> (string \<Rightarrow> bool) \<Rightarrow> response" where
  "getConfigHandler h exists =
     (case h_config h of None \<Rightarrow> no_config
      | Some c \<Rightarrow> respondWithJSON 200 (config_response c (exists (PrivateKeyPath c))))"

text \<open>A write to a file may fail with an error.\<close>

record rotate_env =
  ro_rnd :: nat
  ro_private_fault :: fault
  ro_public_fault :: fault

definition rotateKeysHandler :: "libs \<Rightarrow> handlers \<Rightarrow> rotate_env \<Rightarrow> disk \<Rightarrow> response \<times> disk" where
  "rotateKeysHandler L h E d =
     (case h_config h of None \<Rightarrow> (no_config, d)
      | Some c \<Rightarrow>
        (case GenerateKeyPair L (ro_rnd E) of
           Inl e \<Rightarrow> (respondWithError 500 ''Failed to generate keys'' (Some (err_text e)), d)
         | Inr (privateKeyPEM, publicKeyPEM) \<Rightarrow>
           (case ro_private_fault E of
              Some e \<Rightarrow> (respondWithError 500 ''Failed to save private key'' (Some e), d)
            | None \<Rightarrow>
              let d1 = d(PrivateKeyPath c \<mapsto> privateKeyPEM) in
              (case ro_public_fault E of
                 Some e \<Rightarrow> (respondWithError 500 ''Failed to save public key'' (Some e), d1)
               | None \<Rightarrow>
                 (respondWithJSON 200 (JObj
                    [(''message'', JStr ''Keys rotated successfully''), (''public_key'', JStr publicKeyPEM),
                     (''success'', JBool True)]),
                  d1(PublicKeyPath c \<mapsto> publicKeyPEM))))))"

section \<open>Users\<close>

definition UserResponse :: "user \<Rightarrow> json" where
  "UserResponse u = JObj
     [(''id'', JNum (show_int (U_ID u))), (''username'', JStr (Username u)),
      (''created_at'', JStr (fmt_datetime (UCreatedAt u)))]"

definition listUsersHandler :: "fault \<Rightarrow> auth_db \<Rightarrow> response" where
  "listUsersHandler flt db =
     (case User_List flt db of
        Inl e \<Rightarrow> respondWithError 500 ''Failed to load users'' (Some (err_text e))
      | Inr us \<Rightarrow> respondWithJSON 200 (JObj [(''users'', JArr (map UserResponse us))]))"

record CreateUserRequest =
  CU_Username :: string
  CU_Password :: string

definition decode_create_user :: "json option \<Rightarrow> CreateUserRequest option" where
  "decode_create_user p =
     (case p of None \<Rightarrow> None
      | Some v \<Rightarrow>
        let (ms, b0) = obj_members v; (u, b1) = dec_str ''username'' ms; (pw, b2) = dec_str ''password'' ms
        in if b0 \<or> b1 \<or> b2 then None else Some \<lparr>CU_Username = u, CU_Password = pw\<rparr>)"

record create_user_env =
  cu_now :: time
  cu_rnd :: nat
  cu_fault :: fault

definition createUserHandler :: "libs \<Rightarrow> create_user_env \<Rightarrow> request \<Rightarrow> auth_db \<Rightarrow> response \<times> auth_db" where
  "createUserHandler L E r db =
     (case decode_create_user (body_json r) of
        None \<Rightarrow> (respondWithError 400 ''Invalid request body'' (Some (body_error L r)), db)
      | Some req \<Rightarrow>
        if CU_Username req = [] \<or> CU_Password req = []
        then (respondWithError 400 ''Username and password are required'' None, db)
        else
          (case HashPassword L (cu_rnd E) (CU_Password req) of
             Inl e \<Rightarrow> (respondWithError 500 ''Failed to create user'' (Some (err_text e)), db)
           | Inr hashed \<Rightarrow>
             (case CreateUser (cu_fault E) (cu_now E) (CU_Username req) hashed db of
                (Inl e, db1) \<Rightarrow>
                  (respondWithError 500 ''Failed to create user (username may already exist)'' (Some (err_text e)), db1)
              | (Inr u, db1) \<Rightarrow>
                (respondWithJSON 201 (JObj [(''success'', JBool True), (''user'', UserResponse u)]), db1))))"

record delete_user_env =
  du_fk :: bool
  du_user_fault :: fault
  du_session_fault :: fault

definition deleteUserHandler :: "delete_user_env \<Rightarrow> request \<Rightarrow> auth_db \<Rightarrow> response \<times> auth_db" where
  "deleteUserHandler E r db =
     (let userID = sint (parseInt64 (rq_param r)) in
      if (case GetUserFromContext r of Some u \<Rightarrow> U_ID u = userID | None \<Rightarrow> False)
      then (respondWithError 400 ''Cannot delete your own account'' None, db)
      else
        (case User_Delete (du_fk E) (du_user_fault E) userID db of
           (Some e, db1) \<Rightarrow> (respondWithError 500 ''Failed to delete user'' (Some (err_text e)), db1)
         | (None, db1) \<Rightarrow>
           (respondWithJSON 200
              (JObj [(''message'', JStr ''User deleted successfully''), (''success'', JBool True)]),
            snd (Session_DeleteByUserID (du_session_fault E) userID db1))))"

definition decode_update_password :: "json option \<Rightarrow> (string \<times> string) option" where
  "decode_update_password p =
     (case p of None \<Rightarrow> None
      | Some v \<Rightarrow>
        let (ms, b0) = obj_members v; (cur, b1) = dec_str ''current_password'' ms;
            (new, b2) = dec_str ''new_password'' ms
        in if b0 \<or> b1 \<or> b2 then None else Some (cur, new))"

record password_env =
  pw_rnd :: nat
  pw_fault :: fault

definition updatePasswordHandler :: "libs \<Rightarrow> password_env \<Rightarrow> request \<Rightarrow> auth_db \<Rightarrow> response \<times> auth_db" where
  "updatePasswordHandler L E r db =
     (case decode_update_password (body_json r) of
        None \<Rightarrow> (respondWithError 400 ''Invalid request body'' (Some (body_error L r)), db)
      | Some (cur, new) \<Rightarrow>
        (case GetUserFromContext r of
           None \<Rightarrow> (respondWithError 401 ''Unauthorized'' None, db)
         | Some u \<Rightarrow>
           if \<not> VerifyPassword L (PasswordHash u) cur
           then (respondWithError 401 ''Current password is incorrect'' None, db)
           else
             (case HashPassword L (pw_rnd E) new of
                Inl e \<Rightarrow> (respondWithError 500 ''Failed to update password'' (Some (err_text e)), db)
              | Inr newHash \<Rightarrow>
                (case User_UpdatePassword (pw_fault E) (U_ID u) newHash db of
                   (Some e, db1) \<Rightarrow> (respondWithError 500 ''Failed to update password'' (Some (err_text e)), db1)
                 | (None, db1) \<Rightarrow>
                   (respondWithJSON 200 (JObj [(''message'', JStr ''Password updated successfully''),
                      (''success'', JBool True)]), db1)))))"

section \<open>Partners\<close>

definition PartnerResponse :: "partner \<Rightarrow> json" where
  "PartnerResponse p = JObj
     ([(''id'', JNum (show_int (P_ID p))), (''partner_id'', JStr (PartnerID p)), (''name'', JStr (PName p)),
       (''jwks_url'', JStr (JWKSUrl p))]
      @ opt_str ''last_key_refresh'' (case LastKeyRefresh p of None \<Rightarrow> [] | Some t \<Rightarrow> fmt_datetime t)
      @ [(''created_at'', JStr (fmt_datetime (PCreatedAt p)))])"

definition listPartnersDetailedHandler :: "fault \<Rightarrow> partner_table \<Rightarrow> response" where
  "listPartnersDetailedHandler flt ps =
     (case Partner_List flt ps of
        Inl e \<Rightarrow> respondWithError 500 ''Failed to load partners'' (Some (err_text e))
      | Inr rs \<Rightarrow> respondWithJSON 200 (JObj [(''partners'', JArr (map PartnerResponse rs))]))"

definition decode_partner_name :: "json option \<Rightarrow> string option" where
  "decode_partner_name p =
     (case p of None \<Rightarrow> None
      | Some v \<Rightarrow>
        let (ms, b0) = obj_members v; (n, b1) = dec_str ''name'' ms in if b0 \<or> b1 then None else Some n)"

definition updatePartnerHandler :: "libs \<Rightarrow> fault \<Rightarrow> time \<Rightarrow> request \<Rightarrow> partner_table \<Rightarrow> response \<times> partner_table" where
  "updatePartnerHandler L flt now r ps =
     (let dbID = sint (parseInt64 (rq_param r)) in
      case decode_partner_name (body_json r) of
        None \<Rightarrow> (respondWithError 400 ''Invalid request body'' (Some (body_error L r)), ps)
      | Some name \<Rightarrow>
        (case Partner_UpdateNameByDBID flt now dbID name ps of
           (Some e, ps1) \<Rightarrow> (respondWithError 500 ''Failed to update partner'' (Some (err_text e)), ps1)
         | (None, ps1) \<Rightarrow>
           (respondWithJSON 200
              (JObj [(''message'', JStr ''Partner updated successfully''), (''success'', JBool True)]), ps1)))"

definition deletePartnerHandler :: "fault \<Rightarrow> request \<Rightarrow> partner_table \<Rightarrow> response \<times> partner_table" where
  "deletePartnerHandler flt r ps =
     (let dbID = sint (parseInt64 (rq_param r)) in
      case Partner_DeleteByDBID flt dbID ps of
        (Some e, ps1) \<Rightarrow> (respondWithError 500 ''Failed to delete partner'' (Some (err_text e)), ps1)
      | (None, ps1) \<Rightarrow>
        (respondWithJSON 200
           (JObj [(''message'', JStr ''Partner deleted successfully''), (''success'', JBool True)]), ps1))"

section \<open>The tables stay well formed\<close>

lemma auth_ok_createUser [inv_intros]: "auth_ok db \<Longrightarrow> auth_ok (snd (createUserHandler L E r db))"
  using auth_ok_CreateUser [of db "cu_fault E" "cu_now E"]
  by (simp add: createUserHandler_def split: option.split sum.split prod.split) (metis snd_conv)

lemma auth_ok_deleteUser [inv_intros]:
  assumes "auth_ok db"
  shows "auth_ok (snd (deleteUserHandler E r db))"
proof -
  obtain e db1 where d: "User_Delete (du_fk E) (du_user_fault E) (sint (parseInt64 (rq_param r))) db = (e, db1)"
    by fastforce
  then have "auth_ok db1" using auth_ok_User_Delete [OF assms] by (metis snd_conv)
  with assms d show ?thesis
    by (cases e) (auto simp: deleteUserHandler_def Let_def intro: inv_intros split: option.split)
qed

lemma auth_ok_updatePassword [inv_intros]: "auth_ok db \<Longrightarrow> auth_ok (snd (updatePasswordHandler L E r db))"
  using auth_ok_User_UpdatePassword [of db "pw_fault E"]
  by (simp add: updatePasswordHandler_def split: option.split sum.split prod.split) (metis snd_conv)

lemma partners_ok_updatePartner [inv_intros]:
  "partners_ok ps \<Longrightarrow> partners_ok (snd (updatePartnerHandler L flt now r ps))"
  using partners_ok_UpdateName [of ps flt now]
  by (simp add: updatePartnerHandler_def Let_def split: option.split prod.split) (metis snd_conv)

lemma partners_ok_deletePartner [inv_intros]: "partners_ok ps \<Longrightarrow> partners_ok (snd (deletePartnerHandler flt r ps))"
  using partners_ok_DeleteByDBID [of ps flt]
  by (simp add: deletePartnerHandler_def Let_def split: option.split prod.split) (metis snd_conv)

section \<open>What the ids of a URL denote\<close>

lemma parseInt64_digits: "parseInt64 s = of_nat (digits_val (filter is_digit s))"
proof -
  have "foldl (\<lambda>result c. if is_digit c then result * 10 + of_nat (digit_val c) else result) (of_nat n :: int64) s
      = of_nat (foldl (\<lambda>n c. 10 * n + digit_val c) n (filter is_digit s))" for n
  proof (induction s arbitrary: n)
    case (Cons c s)
    show ?case using Cons.IH [of "10 * n + digit_val c"] Cons.IH [of n] by (simp add: mult.commute)
  qed simp
  from this [of 0] show ?thesis by (simp add: parseInt64_def digits_val_def)
qed

lemma sint_of_int64: "sint (word_of_int k :: int64) = (k + 2 ^ 63) mod 2 ^ 64 - 2 ^ 63"
  by (simp add: sint_sbintrunc' signed_take_bit_eq_take_bit_shift take_bit_eq_mod)

section \<open>A deleted user\<close>

text \<open>An id that was given out and is no longer stored. Ids are never given out twice, so it stays
  that way.\<close>

definition gone :: "int \<Rightarrow> auth_db \<Rightarrow> bool" where
  "gone i db \<longleftrightarrow> i < next_id (users db) \<and> tbl_find U_ID i (users db) = None"

lemma gone_session_user: "gone i db \<Longrightarrow> session_user t sid db = Some u \<Longrightarrow> U_ID u \<noteq> i"
  by (auto simp: gone_def session_user_def split: option.splits if_splits)
     (metis tbl_find_in option.distinct(1))

datatype auth_op =
  OpLogin login_env request
| OpLogout fault request
| OpCheck fault fault time string
| OpCreateUser create_user_env request
| OpDeleteUser delete_user_env request
| OpPassword password_env request
| OpDefault init_env
| OpCleanup fault time

fun auth_step :: "libs \<Rightarrow> auth_op \<Rightarrow> auth_db \<Rightarrow> auth_db" where
  "auth_step L (OpLogin E r) db = snd (loginHandler L E r db)"
| "auth_step L (OpLogout f r) db = snd (logoutHandler f r db)"
| "auth_step L (OpCheck f g t sid) db = snd (GetSession f g t sid db)"
| "auth_step L (OpCreateUser E r) db = snd (createUserHandler L E r db)"
| "auth_step L (OpDeleteUser E r) db = snd (deleteUserHandler E r db)"
| "auth_step L (OpPassword E r) db = snd (updatePasswordHandler L E r db)"
| "auth_step L (OpDefault E) db = snd (InitializeDefaultUser L E db)"
| "auth_step L (OpCleanup f t) db = snd (CleanupExpiredSessions f t db)"

lemma auth_ok_step: "auth_ok db \<Longrightarrow> auth_ok (auth_step L op db)"
  by (cases op) (simp_all add: inv_intros CleanupExpiredSessions_def)

text \<open>Each operation acts on the users table in one of four ways.\<close>

definition users_change :: "user table \<Rightarrow> user table \<Rightarrow> bool" where
  "users_change t t' \<longleftrightarrow> t' = t \<or> (\<exists>u. t' = tbl_insert set_user_id u t)
     \<or> (\<exists>P. t' = tbl_delete P t) \<or> (\<exists>i h. t' = tbl_update (\<lambda>u. U_ID u = i) (\<lambda>u. u\<lparr>PasswordHash := h\<rparr>) t)"

lemma users_change_refl [simp]: "users_change t t"
  by (simp add: users_change_def)

lemma gone_users_change:
  assumes "gone i db" and "users_change (users db) (users db')"
  shows "gone i db'"
proof -
  have none: "\<forall>u \<in> set (rows (users db)). U_ID u \<noteq> i" and lt: "i < next_id (users db)"
    using assms(1) by (auto simp: gone_def tbl_find_def find_None_iff_ex list_ex_iff)
  have "\<forall>u \<in> set (rows (users db')). U_ID u \<noteq> i" and "i < next_id (users db')"
    using assms(2) none lt unfolding users_change_def
    by (auto simp: row_simps set_user_id_def split: if_splits; blast)+
  then show ?thesis by (auto simp: gone_def tbl_find_def find_None_iff_ex list_ex_iff)
qed

lemma users_CreateSession: "users (snd (CreateSession fk flt rnd now i db)) = users db"
  by (auto simp: CreateSession_def Session_Create_def Let_def split: sum.split prod.splits option.splits if_splits)

lemma users_change_step: "users_change (users db) (users (auth_step L op db))"
proof (cases op)
  case (OpLogin E r)
  show ?thesis
    using users_CreateSession [of "lg_fk E" "lg_session_fault E" "lg_rnd E" "lg_now E" _ db] unfolding OpLogin
    by (simp add: loginHandler_def split: option.split sum.split prod.split) (metis snd_conv users_change_refl)
next
  case (OpLogout f r)
  then show ?thesis
    by (auto simp: logoutHandler_def DeleteSession_def Session_Delete_def Let_def split: option.split)
next
  case (OpCheck f g t sid)
  then show ?thesis by (auto simp: GetSession_def Session_Delete_def Let_def split: sum.split option.split)
next
  case (OpCreateUser E r)
  then show ?thesis
    by (auto simp: createUserHandler_def CreateUser_def User_Create_def users_change_def Let_def
        split: option.split sum.split)
next
  case (OpDeleteUser E r)
  then show ?thesis
    by (auto simp: deleteUserHandler_def User_Delete_def Session_DeleteByUserID_def users_change_def Let_def
        split: option.split)
next
  case (OpPassword E r)
  then show ?thesis
    by (auto simp: updatePasswordHandler_def User_UpdatePassword_def users_change_def Let_def
        split: option.split sum.split)
next
  case (OpDefault E)
  then show ?thesis
    by (auto simp: InitializeDefaultUser_def CreateUser_def User_Create_def users_change_def Let_def
        split: option.split sum.split)
next
  case (OpCleanup f t)
  then show ?thesis by (auto simp: CleanupExpiredSessions_def Session_DeleteExpired_def split: option.split)
qed

definition run_auth :: "libs \<Rightarrow> auth_op list \<Rightarrow> auth_db \<Rightarrow> auth_db" where
  "run_auth L ops db = fold (auth_step L) ops db"

lemma gone_run: "gone i db \<Longrightarrow> gone i (run_auth L ops db)"
  unfolding run_auth_def
  by (induction ops arbitrary: db) (auto intro: gone_users_change users_change_step)

lemma deleteUser_gone:
  assumes "auth_ok db" and "r_code (fst (deleteUserHandler E r db)) = 200"
  shows "gone (sint (parseInt64 (rq_param r))) (snd (deleteUserHandler E r db))"
proof -
  let ?i = "sint (parseInt64 (rq_param r))"
  have del: "users (snd (deleteUserHandler E r db)) = tbl_delete (\<lambda>u. U_ID u = ?i) (users db)"
    and ex: "tbl_count (\<lambda>u. U_ID u = ?i) (users db) \<noteq> 0"
    using assms(2)
    by (auto simp: deleteUserHandler_def User_Delete_def Session_DeleteByUserID_def Let_def
        split: option.splits if_splits)
  from ex obtain u where "u \<in> set (rows (users db))" and "U_ID u = ?i"
    by (auto simp: tbl_count_def filter_empty_conv)
  then have "?i < next_id (users db)" using assms(1) by (auto simp: auth_ok_def table_ok_def)
  then show ?thesis by (simp add: gone_def del row_simps tbl_find_def find_filter_none)
qed

lemma createUser_created:
  assumes "r_code (fst (createUserHandler L E r db)) = 201" and "bcrypt_ok L" and "auth_ok db"
  shows "\<exists>req u. decode_create_user (body_json r) = Some req \<and> CU_Username req \<noteq> []
    \<and> tbl_find Username (CU_Username req) (users (snd (createUserHandler L E r db))) = Some u
    \<and> VerifyPassword L (PasswordHash u) (CU_Password req)
    \<and> sessions (snd (createUserHandler L E r db)) = sessions db"
proof -
  obtain req where req: "decode_create_user (body_json r) = Some req"
    using assms(1) by (auto simp: createUserHandler_def split: option.splits)
  obtain h where ne: "CU_Username req \<noteq> [] \<and> CU_Password req \<noteq> []"
    and h: "HashPassword L (cu_rnd E) (CU_Password req) = Inr h"
    using assms(1) req by (auto simp: createUserHandler_def split: if_splits sum.splits)
  have hp: "h \<noteq> []" "VerifyPassword L h (CU_Password req)" using HashPassword_ok [OF assms(2) h] by auto
  let ?u = "\<lparr>U_ID = 0, Username = CU_Username req, PasswordHash = h, UCreatedAt = cu_now E\<rparr>"
  have fresh: "tbl_find Username (Username ?u) (users db) = None"
    and db: "snd (createUserHandler L E r db) = db\<lparr>users := tbl_insert set_user_id ?u (users db)\<rparr>"
    using assms(1) req ne h hp(1)
    by (auto simp: createUserHandler_def CreateUser_def User_Create_def Let_def tbl_has_find
        split: option.splits if_splits)
  have "tbl_find Username (CU_Username req) (tbl_insert set_user_id ?u (users db))
      = Some (set_user_id (next_id (users db)) ?u)"
    using user_rows.find_insert [OF fresh] by simp
  with req ne hp(2) show ?thesis
    by (intro exI [of _ req] exI [of _ "set_user_id (next_id (users db)) ?u"]) (simp add: db set_user_id_def)
qed

lemma decode_create_login:
  "decode_create_user p = Some req \<Longrightarrow>
    decode_login p = Some \<lparr>L_Username = CU_Username req, L_Password = CU_Password req\<rparr>"
  by (auto simp: decode_create_user_def decode_login_def Let_def split: option.splits prod.splits if_splits)

section \<open>Properties\<close>

text \<open>C28: Once a user is deleted, no session admits anybody under the id of that user, whatever
  logins, checks, creations, deletions, password changes and cleanups follow, and also where the
  sessions could not be deleted: ids are never given out again.\<close>

theorem deleted_user_stays_out:
  assumes "auth_ok db" and "r_code (fst (deleteUserHandler E r db)) = 200"
    and "session_user t sid (run_auth L ops (snd (deleteUserHandler E r db))) = Some u"
  shows "U_ID u \<noteq> sint (parseInt64 (rq_param r))"
  using deleteUser_gone [OF assms(1,2), THEN gone_run] assms(3) by (rule gone_session_user)

definition demo_two_users :: auth_db where
  "demo_two_users = \<lparr>users = \<lparr>rows =
       [\<lparr>U_ID = 1, Username = ''admin'', PasswordHash = ''hadmin123'', UCreatedAt = 5\<rparr>,
        \<lparr>U_ID = 2, Username = ''bob'', PasswordHash = ''hbob'', UCreatedAt = 6\<rparr>], next_id = 3\<rparr>,
     sessions = \<lparr>rows = [\<lparr>SessionID = ''s1'', UserID = 1, ExpiresAt = 90, SCreatedAt = 7\<rparr>,
        \<lparr>SessionID = ''s2'', UserID = 2, ExpiresAt = 90, SCreatedAt = 7\<rparr>], next_id = 3\<rparr>\<rparr>"

theorem deleted_user_stays_out_witness:
  "\<exists>u. session_user 20 ''s1'' (run_auth demo_libs [OpCleanup None 10] (snd (deleteUserHandler
     \<lparr>du_fk = False, du_user_fault = None, du_session_fault = Some ''locked''\<rparr>
     (demo_http [] []\<lparr>rq_param := ''2''\<rparr>) demo_two_users))) = Some u \<and> U_ID u \<noteq> 2"
proof -
  let ?r = "demo_http [] []\<lparr>rq_param := ''2''\<rparr>" and ?u = "hd (rows (users demo_two_users))"
  let ?E = "\<lparr>du_fk = False, du_user_fault = None, du_session_fault = Some ''locked''\<rparr>"
  have ok: "auth_ok demo_two_users" by (simp add: auth_ok_def demo_two_users_def table_ok_def)
  have id: "sint (parseInt64 ''2'') = 2" by (simp add: parseInt64_def is_digit_def digit_val_def)
  have code: "r_code (fst (deleteUserHandler ?E ?r demo_two_users)) = 200"
    by (simp add: deleteUserHandler_def User_Delete_def demo_http_def GetUserFromContext_def id
        demo_two_users_def tbl_count_def)
  have "session_user 20 ''s1'' (run_auth demo_libs [OpCleanup None 10] (snd (deleteUserHandler ?E ?r demo_two_users)))
      = Some ?u"
    by (simp add: deleteUserHandler_def User_Delete_def demo_http_def GetUserFromContext_def id tbl_delete_def
        demo_two_users_def tbl_count_def run_auth_def CleanupExpiredSessions_def Session_DeleteExpired_def
        Session_DeleteByUserID_def session_user_def tbl_find_def)
  with deleted_user_stays_out [OF ok code this] show ?thesis by (simp add: id)
qed

text \<open>A user that the settings page reports as created can log in with the same body at once.\<close>

theorem created_user_can_log_in:
  assumes "bcrypt_ok L" and "auth_ok db" and "r_code (fst (createUserHandler L E r db)) = 201"
    and "lg_user_fault F = None \<and> lg_session_fault F = None \<and> lg_rnd F = Inr bytes"
    and "b64_encode True bytes \<noteq> []" and "tbl_find SessionID (b64_encode True bytes) (sessions db) = None"
  shows "r_code (fst (loginHandler L F r (snd (createUserHandler L E r db)))) = 200"
proof -
  from createUser_created [OF assms(3,1,2)] obtain req u where
    "decode_create_user (body_json r) = Some req"
    and u: "tbl_find Username (CU_Username req) (users (snd (createUserHandler L E r db))) = Some u"
      "VerifyPassword L (PasswordHash u) (CU_Password req)"
    and s: "sessions (snd (createUserHandler L E r db)) = sessions db" by auto
  then have "decode_login (body_json r) = Some \<lparr>L_Username = CU_Username req, L_Password = CU_Password req\<rparr>"
    by (simp add: decode_create_login)
  with login_ok [OF auth_ok_createUser [OF assms(2)], where L = L and E = F and bytes = bytes] u assms(4-6)
  show ?thesis by (simp add: s)
qed

lemma decode_create_doc:
  "decode_create_user (body_json (demo_http (print_json login_doc) cs)) =
    Some \<lparr>CU_Username = ''admin'', CU_Password = ''admin123''\<rparr>"
proof -
  have "decode_json (print_json login_doc @ []) = Some login_doc"
    by (rule decode_print) (simp_all add: login_doc_def)
  then have "body_json (demo_http (print_json login_doc) cs) = Some login_doc"
    by (simp add: body_json_def demo_http_def)
  then show ?thesis by (simp add: decode_create_user_def login_doc_def dec_eval)
qed

theorem created_user_can_log_in_witness:
  "r_code (fst (loginHandler demo_libs
     \<lparr>lg_now = 0, lg_user_fault = None, lg_session_fault = None, lg_fk = True, lg_rnd = Inr ''abc''\<rparr>
     (demo_http (print_json login_doc) []) (snd (createUserHandler demo_libs
       \<lparr>cu_now = 4, cu_rnd = 8, cu_fault = None\<rparr> (demo_http (print_json login_doc) []) empty_auth_db)))) = 200"
proof (rule created_user_can_log_in [OF demo_bcrypt_ok auth_ok_empty, where bytes = "''abc''"])
  show "r_code (fst (createUserHandler demo_libs \<lparr>cu_now = 4, cu_rnd = 8, cu_fault = None\<rparr>
      (demo_http (print_json login_doc) []) empty_auth_db)) = 201"
    by (simp add: createUserHandler_def decode_create_doc HashPassword_def CreateUser_def User_Create_def
        empty_auth_db_def empty_table_def tbl_has_def Let_def)
qed (simp_all add: empty_auth_db_def empty_table_def tbl_find_def Let_def)

text \<open>The id of a URL is read as the number its decimal digits denote, modulo the wrap-around of
  int64; every other character, a sign included, is skipped. An id that the node printed reads back
  as itself.\<close>

theorem url_id_value:
  "sint (parseInt64 s) = (int (digits_val (filter is_digit s)) + 2 ^ 63) mod 2 ^ 64 - 2 ^ 63
   \<and> parseInt64 (''-'' @ s) = parseInt64 s
   \<and> (\<forall>i \<in> {0 ..< 2 ^ 63}. sint (parseInt64 (show_int i)) = i)"
proof (intro conjI ballI)
  show eq: "sint (parseInt64 s) = (int (digits_val (filter is_digit s)) + 2 ^ 63) mod 2 ^ 64 - 2 ^ 63" for s
    using sint_of_int64 [of "int (digits_val (filter is_digit s))"] by (simp add: parseInt64_digits)
  show "parseInt64 (''-'' @ s) = parseInt64 s"
    by (simp add: parseInt64_digits is_digit_def)
  fix i :: int assume i: "i \<in> {0 ..< 2 ^ 63}"
  have "filter is_digit (show_int i) = show_nat (nat i)"
    using i digits_val_show_nat [of "nat i"] by (simp add: show_int_def list_all_iff)
  then have "sint (parseInt64 (show_int i)) = (i + 2 ^ 63) mod 2 ^ 64 - 2 ^ 63"
    using i digits_val_show_nat [of "nat i"] by (simp add: eq)
  then show "sint (parseInt64 (show_int i)) = i" using i by simp
qed

theorem url_id_value_witness: "sint (parseInt64 (show_int 41)) = 41 \<and> sint (parseInt64 ''-41x'') = 41"
  using url_id_value [of "''41x''"] by (simp add: digits_val_def is_digit_def digit_val_def)

end
