(* ===== verification/Discovery.thy ===== *)
theory Discovery
  imports Config Crypto PartnerRepo
begin

text \<open>
  \<open>internal/discovery\<close>: the store of single-use tokens (\<open>tokens.go\<close>), the AS5 discovery
  document and its validation (\<open>as5_config.go\<close>), and the handshake with its registration
  endpoint (\<open>service.go\<close>). The store is a map under one mutex, so its operations are atomic
  steps; the three requests of a handshake each meet their own network.
\<close>

section \<open>The token store\<close>

record tokenData =
  createdAt :: time
  expiresAt :: time
  used :: bool

type_synonym token_store = "string \<rightharpoonup> tokenData"

definition NewTokenStore :: token_store where "NewTokenStore = Map.empty"

text \<open>\<open>rnd\<close> are the 32 random bytes, or the error of reading them.\<close>

definition GenerateToken ::
  "string + string \<Rightarrow> time \<Rightarrow> duration \<Rightarrow> token_store \<Rightarrow> string result \<times> token_store" where
  "GenerateToken rnd now expiresIn ts =
     (case rnd of Inl e \<Rightarrow> (Inl (WrapErr ''failed to generate random token: '' (Errorf e)), ts)
      | Inr bytes \<Rightarrow>
        let token = b64_encode True bytes
        in (Inr token, ts(token \<mapsto> \<lparr>createdAt = now, expiresAt = now + expiresIn, used = False\<rparr>)))"

definition ValidateAndConsume :: "time \<Rightarrow> string \<Rightarrow> token_store \<Rightarrow> bool \<times> token_store" where
  "ValidateAndConsume now token ts =
     (case ts token of None \<Rightarrow> (False, ts)
      | Some d \<Rightarrow>
        if expiresAt d < now then (False, ts(token := None))
        else if used d then (False, ts)
        else (True, ts(token \<mapsto> d\<lparr>used := True\<rparr>)))"

definition cleanupExpiredTokens :: "time \<Rightarrow> token_store \<Rightarrow> token_store" where
  "cleanupExpiredTokens now ts =
     (\<lambda>k. case ts k of None \<Rightarrow> None | Some d \<Rightarrow> if expiresAt d < now \<or> used d then None else Some d)"

section \<open>The AS5 document\<close>

record AS5Endpoints =
  ReceiveMessage :: string
  ReceiveReceipt :: string
  Register :: string
  JWKS :: string

record AS5SecurityConfig =
  SignatureAlgorithm :: string
  EncryptionAlgorithm :: string
  SupportedEncryptionAlgorithms :: "string list"
  ContentEncryption :: string
  MinimumKeySize :: int

record AS5Configuration =
  A_FidexVersion :: string
  SupportedVersions :: "string list"
  ConformanceProfile :: string
  A_NodeID :: string
  A_OrganizationName :: string
  A_PublicDomain :: string
  SupportedDocumentTypes :: "string list"
  Endpoints :: AS5Endpoints
  Security :: AS5SecurityConfig

record NodeConfig =
  N_NodeID :: string
  N_OrganizationName :: string
  BaseURL :: string
  N_PublicDomain :: string
  N_SupportedDocumentTypes :: "string list"

definition GenerateAS5Config :: "NodeConfig \<Rightarrow> AS5Configuration" where
  "GenerateAS5Config config = \<lparr>
     A_FidexVersion = ''1.0'', SupportedVersions = [''1.0''], ConformanceProfile = ''core'',
     A_NodeID = N_NodeID config, A_OrganizationName = N_OrganizationName config,
     A_PublicDomain = (if N_PublicDomain config = [] then BaseURL config else N_PublicDomain config),
     SupportedDocumentTypes = N_SupportedDocumentTypes config,
     Endpoints = \<lparr>ReceiveMessage = BaseURL config @ RouteInbound, ReceiveReceipt = BaseURL config @ RouteReceipt,
       Register = BaseURL config @ RouteRegister, JWKS = BaseURL config @ RouteJWKS\<rparr>,
     Security = \<lparr>SignatureAlgorithm = ''RS256'', EncryptionAlgorithm = ''RSA-OAEP'',
       SupportedEncryptionAlgorithms = [''RSA-OAEP'', ''RSA-OAEP-256''], ContentEncryption = ''A256GCM'',
       MinimumKeySize = 2048\<rparr>\<rparr>"

definition opt_strs :: "string \<Rightarrow> string list \<Rightarrow> (string \<times> json) list" where
  "opt_strs k xs = (if xs = [] then [] else [(k, JArr (map JStr xs))])"

definition as5_json :: "AS5Configuration \<Rightarrow> json" where
  "as5_json c = JObj
     ([(''fidex_version'', JStr (A_FidexVersion c)), (''supported_versions'', JArr (map JStr (SupportedVersions c)))]
      @ opt_str ''conformance_profile'' (ConformanceProfile c)
      @ [(''node_id'', JStr (A_NodeID c)), (''organization_name'', JStr (A_OrganizationName c)),
         (''public_domain'', JStr (A_PublicDomain c))]
      @ opt_strs ''supported_document_types'' (SupportedDocumentTypes c)
      @ [(''endpoints'', JObj [(''receive_message'', JStr (ReceiveMessage (Endpoints c))),
            (''receive_receipt'', JStr (ReceiveReceipt (Endpoints c))), (''register'', JStr (Register (Endpoints c))),
            (''jwks'', JStr (JWKS (Endpoints c)))]),
         (''security'', JObj ([(''signature_algorithm'', JStr (SignatureAlgorithm (Security c))),
            (''encryption_algorithm'', JStr (EncryptionAlgorithm (Security c)))]
            @ opt_strs ''supported_encryption_algorithms'' (SupportedEncryptionAlgorithms (Security c))
            @ [(''content_encryption'', JStr (ContentEncryption (Security c))),
               (''minimum_key_size'', JNum (show_int (MinimumKeySize (Security c))))]))])"

definition as5_fields :: "json \<Rightarrow> AS5Configuration \<times> bool" where
  "as5_fields v =
     (let (ms, b0) = obj_members v;
          (fv, b1) = dec_str ''fidex_version'' ms; (sv, b2) = dec_strs ''supported_versions'' ms;
          (cp, b3) = dec_str ''conformance_profile'' ms; (nid, b4) = dec_str ''node_id'' ms;
          (org, b5) = dec_str ''organization_name'' ms; (pd, b6) = dec_str ''public_domain'' ms;
          (dts, b7) = dec_strs ''supported_document_types'' ms;
          (em, b8) = dec_obj ''endpoints'' ms; (sm, b9) = dec_obj ''security'' ms;
          (rm, b10) = dec_str ''receive_message'' em; (rr, b11) = dec_str ''receive_receipt'' em;
          (rg, b12) = dec_str ''register'' em; (jw, b13) = dec_str ''jwks'' em;
          (sa, b14) = dec_str ''signature_algorithm'' sm; (ea, b15) = dec_str ''encryption_algorithm'' sm;
          (se, b16) = dec_strs ''supported_encryption_algorithms'' sm;
          (ce, b17) = dec_str ''content_encryption'' sm;
          (mk, b18) = over_int_from (0, False) ''minimum_key_size'' sm
      in (\<lparr>A_FidexVersion = fv, SupportedVersions = sv, ConformanceProfile = cp, A_NodeID = nid,
           A_OrganizationName = org, A_PublicDomain = pd, SupportedDocumentTypes = dts,
           Endpoints = \<lparr>ReceiveMessage = rm, ReceiveReceipt = rr, Register = rg, JWKS = jw\<rparr>,
           Security = \<lparr>SignatureAlgorithm = sa, EncryptionAlgorithm = ea, SupportedEncryptionAlgorithms = se,
             ContentEncryption = ce, MinimumKeySize = mk\<rparr>\<rparr>,
          b0 \<or> b1 \<or> b2 \<or> b3 \<or> b4 \<or> b5 \<or> b6 \<or> b7 \<or> b8 \<or> b9 \<or> b10 \<or> b11 \<or> b12 \<or> b13 \<or> b14 \<or> b15 \<or> b16 \<or> b17 \<or> b18))"

definition validateAS5Config :: "AS5Configuration \<Rightarrow> string option" where
  "validateAS5Config c =
     (if A_NodeID c = [] then Some ''node_id is required''
      else if A_FidexVersion c = [] then Some ''fidex_version is required''
      else if SupportedVersions c = [] then Some ''supported_versions is required and must be non-empty''
      else if JWKS (Endpoints c) = [] then Some ''endpoints.jwks is required''
      else if ReceiveMessage (Endpoints c) = [] then Some ''endpoints.receive_message is required''
      else if ReceiveReceipt (Endpoints c) = [] then Some ''endpoints.receive_receipt is required''
      else if Register (Endpoints c) = [] then Some ''endpoints.register is required''
      else None)"

definition http_get :: "string \<Rightarrow> http_request" where
  "http_get url = \<lparr>q_method = ''GET'', q_url = url, q_headers = [], q_body = []\<rparr>"

definition FetchAS5Config :: "libs \<Rightarrow> network \<Rightarrow> string \<Rightarrow> AS5Configuration result" where
  "FetchAS5Config L nw discoveryURL =
     (case nw (http_get discoveryURL) of
        Inl e \<Rightarrow> Inl (WrapErr ''failed to fetch AS5 config: '' (Errorf e))
      | Inr (code, body) \<Rightarrow>
        if code \<noteq> 200 then Inl (Errorf (''failed to fetch AS5 config: HTTP '' @ show_nat code))
        else (case map_option as5_fields (decode_json body) of
                None \<Rightarrow> Inl (WrapErr ''failed to parse AS5 config: '' (Errorf (json_error L body)))
              | Some (c, bad) \<Rightarrow>
                if bad then Inl (WrapErr ''failed to parse AS5 config: '' (Errorf (json_error L body)))
                else (case validateAS5Config c of
                        Some e \<Rightarrow> Inl (WrapErr ''invalid AS5 config: '' (Errorf e)) | None \<Rightarrow> Inr c)))"

definition ResolveSupportedEncryptionAlgorithms :: "AS5Configuration option \<Rightarrow> string list" where
  "ResolveSupportedEncryptionAlgorithms arg =
     (case arg of None \<Rightarrow> []
      | Some c \<Rightarrow>
        if 0 < length (SupportedEncryptionAlgorithms (Security c)) then SupportedEncryptionAlgorithms (Security c)
        else if EncryptionAlgorithm (Security c) \<noteq> [] then [EncryptionAlgorithm (Security c)]
        else [])"

definition FetchAndCachePartnerKeys :: "libs \<Rightarrow> network \<Rightarrow> string \<Rightarrow> string result" where
  "FetchAndCachePartnerKeys L nw jwksURL =
     (case nw (http_get jwksURL) of
        Inl e \<Rightarrow> Inl (WrapErr ''failed to fetch JWKS: '' (Errorf e))
      | Inr (code, body) \<Rightarrow>
        if code \<noteq> 200 then Inl (Errorf (''failed to fetch JWKS: HTTP '' @ show_nat code))
        else (case Option.bind (decode_json body) (canon (float64 L)) of
                None \<Rightarrow> Inl (WrapErr ''invalid JWKS JSON: '' (Errorf (json_error L body)))
              | Some v \<Rightarrow>
                (case ParsePublicKeyFromJWKS L (print_json v) of
                   Inl e \<Rightarrow> Inl (WrapErr ''invalid JWKS format: '' e)
                 | Inr _ \<Rightarrow> Inr (print_json v))))"

section \<open>Registration messages\<close>

record RegistrationRequest =
  R_NodeID :: string
  R_OrganizationName :: string
  R_JWKSUri :: string
  R_MessageEndpoint :: string
  R_MDNReceiptEndpoint :: string
  R_AlgorithmsSupported :: "string list"
  R_SupportedEncryptionAlgorithms :: "string list"
  R_WebhookRegistrationEndpoint :: string
  R_SecurityToken :: string

definition registration_json :: "RegistrationRequest \<Rightarrow> json" where
  "registration_json r = JObj
     ([(''node_id'', JStr (R_NodeID r)), (''organization_name'', JStr (R_OrganizationName r)),
       (''jwks_uri'', JStr (R_JWKSUri r)), (''message_endpoint'', JStr (R_MessageEndpoint r)),
       (''mdn_receipt_endpoint'', JStr (R_MDNReceiptEndpoint r)),
       (''algorithms_supported'', JArr (map JStr (R_AlgorithmsSupported r)))]
      @ opt_strs ''supported_encryption_algorithms'' (R_SupportedEncryptionAlgorithms r)
      @ [(''webhook_registration_endpoint'', JStr (R_WebhookRegistrationEndpoint r)),
         (''security_token'', JStr (R_SecurityToken r))])"

definition registration_fields :: "json \<Rightarrow> RegistrationRequest \<times> bool" where
  "registration_fields v =
     (let (ms, b0) = obj_members v;
          (nid, b1) = dec_str ''node_id'' ms; (org, b2) = dec_str ''organization_name'' ms;
          (ju, b3) = dec_str ''jwks_uri'' ms; (me, b4) = dec_str ''message_endpoint'' ms;
          (mr, b5) = dec_str ''mdn_receipt_endpoint'' ms; (al, b6) = dec_strs ''algorithms_supported'' ms;
          (se, b7) = dec_strs ''supported_encryption_algorithms'' ms;
          (wr, b8) = dec_str ''webhook_registration_endpoint'' ms; (tk, b9) = dec_str ''security_token'' ms
      in (\<lparr>R_NodeID = nid, R_OrganizationName = org, R_JWKSUri = ju, R_MessageEndpoint = me,
           R_MDNReceiptEndpoint = mr, R_AlgorithmsSupported = al, R_SupportedEncryptionAlgorithms = se,
           R_WebhookRegistrationEndpoint = wr, R_SecurityToken = tk\<rparr>,
          b0 \<or> b1 \<or> b2 \<or> b3 \<or> b4 \<or> b5 \<or> b6 \<or> b7 \<or> b8 \<or> b9))"

definition decode_registration :: "json option \<Rightarrow> RegistrationRequest option" where
  "decode_registration p =
     (case p of None \<Rightarrow> None
      | Some v \<Rightarrow> if snd (registration_fields v) then None else Some (fst (registration_fields v)))"

definition response_json :: "bool \<Rightarrow> string \<Rightarrow> json" where
  "response_json success message = JObj ([(''success'', JBool success)] @ opt_str ''message'' message)"

section \<open>The handshake\<close>

definition sendRegistrationRequest :: "libs \<Rightarrow> network \<Rightarrow> string \<Rightarrow> RegistrationRequest \<Rightarrow> goerr option" where
  "sendRegistrationRequest L nw webhookURL req =
     (case nw \<lparr>q_method = ''POST'', q_url = webhookURL, q_headers = [(''Content-Type'', ''application/json'')],
               q_body = print_json (registration_json req)\<rparr> of
        Inl e \<Rightarrow> Some (WrapErr ''failed to send registration request: '' (Errorf e))
      | Inr (code, body) \<Rightarrow>
        if code \<noteq> 200 then Some (Errorf (''registration rejected with status: '' @ show_nat code))
        else (case decode_json body of
                None \<Rightarrow> Some (WrapErr ''failed to decode registration response: '' (Errorf (json_error L body)))
              | Some v \<Rightarrow>
                let (ms, b0) = obj_members v; (ok, b1) = dec_bool ''success'' ms; (msg, b2) = dec_str ''message'' ms
                in if b0 \<or> b1 \<or> b2
                   then Some (WrapErr ''failed to decode registration response: '' (Errorf (json_error L body)))
                   else if \<not> ok then Some (Errorf (''registration rejected: '' @ msg))
                   else None))"

record handshake_env =
  hs_net1 :: network
  hs_net2 :: network
  hs_net3 :: network
  hs_token_bytes :: "string + string"
  hs_now_token :: time
  hs_now :: time
  hs_fault :: fault

definition InitiatePartnerHandshake ::
  "libs \<Rightarrow> NodeConfig \<Rightarrow> handshake_env \<Rightarrow> string \<Rightarrow> token_store \<Rightarrow> partner_table
    \<Rightarrow> partner result \<times> token_store \<times> partner_table" where
  "InitiatePartnerHandshake L nodeConfig E discoveryURL ts ps =
     (case FetchAS5Config L (hs_net1 E) discoveryURL of
        Inl e \<Rightarrow> (Inl (WrapErr ''step 1 failed - could not fetch AS5 config: '' e), ts, ps)
      | Inr remoteConfig \<Rightarrow>
        (case FetchAndCachePartnerKeys L (hs_net2 E) (JWKS (Endpoints remoteConfig)) of
           Inl e \<Rightarrow> (Inl (WrapErr ''step 2 failed - could not fetch JWKS: '' e), ts, ps)
         | Inr jwksData \<Rightarrow>
           (case GenerateToken (hs_token_bytes E) (hs_now_token E) (30 * minute) ts of
              (Inl e, ts1) \<Rightarrow> (Inl (WrapErr ''step 3 failed - could not generate token: '' e), ts1, ps)
            | (Inr token, ts1) \<Rightarrow>
              let own = GenerateAS5Config nodeConfig;
                  regRequest = \<lparr>R_NodeID = A_NodeID own, R_OrganizationName = A_OrganizationName own,
                    R_JWKSUri = JWKS (Endpoints own), R_MessageEndpoint = ReceiveMessage (Endpoints own),
                    R_MDNReceiptEndpoint = ReceiveReceipt (Endpoints own),
                    R_AlgorithmsSupported = [SignatureAlgorithm (Security own), EncryptionAlgorithm (Security own),
                      ContentEncryption (Security own)],
                    R_SupportedEncryptionAlgorithms = SupportedEncryptionAlgorithms (Security own),
                    R_WebhookRegistrationEndpoint = Register (Endpoints own), R_SecurityToken = token\<rparr>
              in case sendRegistrationRequest L (hs_net3 E) (Register (Endpoints remoteConfig)) regRequest of
                   Some e \<Rightarrow> (Inl (WrapErr ''step 3 failed - registration rejected: '' e), ts1, ps)
                 | None \<Rightarrow>
                   let p = \<lparr>P_ID = 0, PartnerID = A_NodeID remoteConfig, PName = A_OrganizationName remoteConfig,
                         JWKSUrl = JWKS (Endpoints remoteConfig), MessageEndpoint = ReceiveMessage (Endpoints remoteConfig),
                         MDNReceiptEndpoint = ReceiveReceipt (Endpoints remoteConfig), PublicKeyJWKS = jwksData,
                         SupportedEncAlgs = ResolveSupportedEncryptionAlgorithms (Some remoteConfig),
                         LastKeyRefresh = Some (hs_now E), PCreatedAt = 0, PUpdatedAt = 0\<rparr>
                   in (case Partner_Create (hs_fault E) (hs_now E) (Some p) ps of
                         (Inl e, ps1) \<Rightarrow> (Inl (WrapErr ''step 4 failed - could not create partner: '' e), ts1, ps1)
                       | (Inr p1, ps1) \<Rightarrow> (Inr p1, ts1, ps1)))))"

record registration_env =
  rg_now :: time
  rg_net :: network
  rg_lookup_fault :: fault
  rg_write_fault :: fault

definition HandleWebhookRegistration ::
  "libs \<Rightarrow> registration_env \<Rightarrow> RegistrationRequest \<Rightarrow> token_store \<Rightarrow> partner_table
    \<Rightarrow> goerr option \<times> token_store \<times> partner_table" where
  "HandleWebhookRegistration L E req ts ps =
     (case ValidateAndConsume (rg_now E) (R_SecurityToken req) ts of
        (False, ts1) \<Rightarrow> (Some (Errorf ''invalid or expired security token''), ts1, ps)
      | (True, ts1) \<Rightarrow>
        if R_NodeID req = [] \<or> R_OrganizationName req = [] \<or> R_JWKSUri req = []
        then (Some (Errorf ''missing required fields''), ts1, ps)
        else (case FetchAndCachePartnerKeys L (rg_net E) (R_JWKSUri req) of
                Inl e \<Rightarrow> (Some (WrapErr ''failed to fetch partner JWKS: '' e), ts1, ps)
              | Inr jwksData \<Rightarrow>
                let p = \<lparr>P_ID = 0, PartnerID = R_NodeID req, PName = R_OrganizationName req, JWKSUrl = R_JWKSUri req,
                      MessageEndpoint = R_MessageEndpoint req, MDNReceiptEndpoint = R_MDNReceiptEndpoint req,
                      PublicKeyJWKS = jwksData, SupportedEncAlgs = R_SupportedEncryptionAlgorithms req,
                      LastKeyRefresh = Some (rg_now E), PCreatedAt = 0, PUpdatedAt = 0\<rparr>
                in (case Partner_GetByID (rg_lookup_fault E) (R_NodeID req) ps of
                      Inr existing \<Rightarrow>
                        (case Partner_Update (rg_write_fault E) (rg_now E) (Some (p\<lparr>P_ID := P_ID existing\<rparr>)) ps of
                           (Some e, ps1) \<Rightarrow> (Some (WrapErr ''failed to update partner: '' e), ts1, ps1)
                         | (None, ps1) \<Rightarrow> (None, ts1, ps1))
                    | Inl _ \<Rightarrow>
                        (case Partner_Create (rg_write_fault E) (rg_now E) (Some p) ps of
                           (Inl e, ps1) \<Rightarrow> (Some (WrapErr ''failed to create partner: '' e), ts1, ps1)
                         | (Inr _, ps1) \<Rightarrow> (None, ts1, ps1)))))"

end
