(* ===== verification/ApiDiscovery.thy ===== *)
theory ApiDiscovery
  imports Discovery ApiCore
begin

text \<open>
  \<open>internal/api/discovery_handlers.go\<close> (the AS5 document and the registration endpoint), and
  the properties of discovery: tokens are single-use, a node's own document is valid and two
  such nodes agree on RSA-OAEP-256, and no registration can succeed on a node whose token
  store nobody fills.
\<close>

section \<open>Handlers\<close>

definition as5ConfigHandler :: "handlers \<Rightarrow> request \<Rightarrow> response" where
  "as5ConfigHandler h r =
     (case h_config h of None \<Rightarrow> http_error 500 ''Internal Server Error''
      | Some cfg \<Rightarrow>
        json_response 200 (as5_json (GenerateAS5Config
          \<lparr>N_NodeID = NodeID cfg, N_OrganizationName = OrganizationName cfg, BaseURL = getBaseURL r,
           N_PublicDomain = PublicDomain cfg, N_SupportedDocumentTypes = []\<rparr>)))"

definition webhookRegistrationHandler ::
  "libs \<Rightarrow> handlers \<Rightarrow> registration_env \<Rightarrow> request \<Rightarrow> token_store \<Rightarrow> partner_table
    \<Rightarrow> response \<times> token_store \<times> partner_table" where
  "webhookRegistrationHandler L h E r ts ps =
     (if rq_method r \<noteq> ''POST'' then (http_error 405 ''Method not allowed'', ts, ps)
      else case decode_registration (body_json r) of
        None \<Rightarrow> (respondWithJSONError 400 ''Invalid JSON in request body'', ts, ps)
      | Some req \<Rightarrow>
        if \<not> h_has_discovery h then (respondWithJSONError 500 ''Service not available'', ts, ps)
        else (case HandleWebhookRegistration L E req ts ps of
                (Some e, ts1, ps1) \<Rightarrow> (respondWithJSONError 400 (err_text e), ts1, ps1)
              | (None, ts1, ps1) \<Rightarrow>
                  (json_response 200 (response_json True ''Partner registered successfully''), ts1, ps1)))"

section \<open>Tokens over time\<close>

datatype token_op =
    OpGenerate string time duration
  | OpValidate time string
  | OpCleanup time

text \<open>One operation: whether it accepted a token, and the store after it.\<close>

fun token_step :: "token_op \<Rightarrow> token_store \<Rightarrow> bool \<times> token_store" where
  "token_step (OpGenerate bytes now d) ts = (False, snd (GenerateToken (Inr bytes) now d ts))"
| "token_step (OpValidate now tok) ts = ValidateAndConsume now tok ts"
| "token_step (OpCleanup now) ts = (False, cleanupExpiredTokens now ts)"

fun acceptances :: "string \<Rightarrow> token_op list \<Rightarrow> token_store \<Rightarrow> nat" where
  "acceptances tok [] ts = 0"
| "acceptances tok (op # ops) ts =
     (case token_step op ts of (ok, ts1) \<Rightarrow>
        (case op of OpValidate now t \<Rightarrow> if t = tok \<and> ok then 1 else 0 | _ \<Rightarrow> 0) + acceptances tok ops ts1)"

definition regenerates :: "string \<Rightarrow> token_op \<Rightarrow> bool" where
  "regenerates tok op \<longleftrightarrow> (case op of OpGenerate bytes now d \<Rightarrow> b64_encode True bytes = tok | _ \<Rightarrow> False)"

definition usable :: "string \<Rightarrow> token_store \<Rightarrow> nat" where
  "usable tok ts = (case ts tok of None \<Rightarrow> 0 | Some d \<Rightarrow> if used d then 0 else 1)"

lemma step_usable:
  assumes "\<not> regenerates tok op" and "token_step op ts = (ok, ts1)"
  shows "(case op of OpValidate now t \<Rightarrow> if t = tok \<and> ok then 1 else 0 | _ \<Rightarrow> 0) + usable tok ts1 \<le> usable tok ts"
proof (cases op)
  case (OpGenerate bytes now d)
  with assms show ?thesis by (auto simp: GenerateToken_def Let_def usable_def regenerates_def)
next
  case (OpValidate now t)
  with assms show ?thesis
    by (auto simp: ValidateAndConsume_def usable_def split: option.splits if_splits)
next
  case (OpCleanup now)
  with assms show ?thesis
    by (auto simp: cleanupExpiredTokens_def usable_def split: option.splits)
qed

lemma acceptances_usable:
  "\<forall>op \<in> set ops. \<not> regenerates tok op \<Longrightarrow> acceptances tok ops ts \<le> usable tok ts"
proof (induction ops arbitrary: ts)
  case (Cons op ops)
  obtain ok ts1 where s: "token_step op ts = (ok, ts1)" by fastforce
  with Cons.IH [of ts1] Cons.prems step_usable [OF _ s, of tok] show ?case by simp
qed simp

text \<open>A store that was never given a token stays empty.\<close>

definition generates :: "token_op \<Rightarrow> bool" where
  "generates op \<longleftrightarrow> (case op of OpGenerate b n d \<Rightarrow> True | _ \<Rightarrow> False)"

definition run_tokens :: "token_op list \<Rightarrow> token_store \<Rightarrow> token_store" where
  "run_tokens ops ts = fold (\<lambda>op ts. snd (token_step op ts)) ops ts"

lemma run_tokens_empty: "\<forall>op \<in> set ops. \<not> generates op \<Longrightarrow> run_tokens ops Map.empty = Map.empty"
proof (induction ops)
  case (Cons op ops)
  have "snd (token_step op Map.empty) = Map.empty" if "\<not> generates op"
    using that by (cases op) (auto simp: generates_def ValidateAndConsume_def cleanupExpiredTokens_def)
  with Cons show ?case by (simp add: run_tokens_def)
qed (simp add: run_tokens_def)

lemma registration_no_token:
  "R_SecurityToken req \<notin> dom ts \<Longrightarrow> HandleWebhookRegistration L E req ts ps
    = (Some (Errorf ''invalid or expired security token''), ts, ps)"
  by (auto simp: HandleWebhookRegistration_def ValidateAndConsume_def domIff split: option.split)

section \<open>The document on the wire\<close>

lemma dec_elems_map [simp]: "dec_elems (map JStr xs) = (xs, False)"
  by (induction xs) simp_all

lemma list_all_wf_strs [simp]: "list_all wf_json (map JStr xs)"
  by (induction xs) simp_all

lemma opt_strs_wf [simp]: "list_all (\<lambda>(k, v). wf_json v) (opt_strs k xs)"
  by (simp add: opt_strs_def)

lemma num_2048: "valid_num (show_int 2048)" "atoi (show_int 2048) = Some 2048"
  by code_simp+

lemma as5_roundtrip: "as5_fields (as5_json (GenerateAS5Config cfg)) = (GenerateAS5Config cfg, False)"
  by (simp add: as5_fields_def as5_json_def GenerateAS5Config_def opt_str_def opt_strs_def num_2048 dec_eval)

lemma as5_wf: "wf_json (as5_json (GenerateAS5Config cfg))"
  by (simp add: as5_json_def GenerateAS5Config_def num_2048)

section \<open>A rejected handshake\<close>

text \<open>The registration handler of a peer, as the network of the third step.\<close>

definition peer_register :: "libs \<Rightarrow> handlers \<Rightarrow> registration_env \<Rightarrow> token_store \<Rightarrow> partner_table \<Rightarrow> network" where
  "peer_register L h E ts ps =
     (\<lambda>q. let resp = fst (webhookRegistrationHandler L h E
            \<lparr>rq_method = q_method q, rq_path = [], rq_remote = [], rq_host = [], rq_tls = True, rq_headers = q_headers q,
             rq_cookies = [], rq_query = [], rq_param = [], rq_body = Inr (q_body q), rq_user = None,
             rq_request_id = None\<rparr> ts ps)
          in Inr (r_code resp, r_body resp))"

lemma peer_register_empty:
  "\<exists>code body. peer_register L h E NewTokenStore ps q = Inr (code, body) \<and> code \<noteq> 200"
  by (auto simp: peer_register_def Let_def webhookRegistrationHandler_def registration_no_token NewTokenStore_def
      split: option.split)

lemma send_refused:
  "\<forall>q. \<exists>code body. nw q = Inr (code, body) \<and> code \<noteq> 200 \<Longrightarrow> \<exists>e. sendRegistrationRequest L nw u req = Some e"
  by (drule spec [of _ "\<lparr>q_method = ''POST'', q_url = u, q_headers = [(''Content-Type'', ''application/json'')],
        q_body = print_json (registration_json req)\<rparr>"]) (auto simp: sendRegistrationRequest_def)

lemma handshake_step3:
  assumes "\<And>u req. \<exists>e. sendRegistrationRequest L (hs_net3 E) u req = Some e"
  shows "\<exists>e ts'. InitiatePartnerHandshake L cfg E url ts ps = (Inl e, ts', ps)"
proof -
  obtain f where "\<forall>u req. sendRegistrationRequest L (hs_net3 E) u req = Some (f u req)"
    using assms by metis
  then show ?thesis
    by (auto simp: InitiatePartnerHandshake_def Let_def split: sum.splits prod.splits)
qed

section \<open>Properties\<close>



text \<open>A fresh token is accepted until its lifetime is over, and only then refused for its age.\<close>

theorem token_lifetime:
  assumes "GenerateToken rnd now d ts = (Inr tok, ts1)"
  shows "fst (ValidateAndConsume t tok ts1) \<longleftrightarrow> t \<le> now + d"
  using assms by (auto simp: GenerateToken_def ValidateAndConsume_def Let_def split: sum.splits if_splits)

theorem token_lifetime_witness:
  "fst (ValidateAndConsume 9 (b64_encode True ''abc'') (snd (GenerateToken (Inr ''abc'') 4 5 Map.empty)))
    \<longleftrightarrow> (9 :: int) \<le> 4 + 5"
  by (rule token_lifetime [where rnd = "Inr ''abc''" and ts = Map.empty]) (simp add: GenerateToken_def Let_def)



text \<open>On a node whose store is never asked to generate a token, every registration is refused
  and adds no partner, whatever the sequence of earlier registrations and cleanups.\<close>

theorem registration_always_refused:
  assumes "\<forall>op \<in> set ops. \<not> generates op"
  shows "r_code (fst (webhookRegistrationHandler L h E r (run_tokens ops NewTokenStore) ps)) \<in> {400, 405, 500}
    \<and> snd (snd (webhookRegistrationHandler L h E r (run_tokens ops NewTokenStore) ps)) = ps"
proof -
  have "run_tokens ops NewTokenStore = Map.empty" using run_tokens_empty [OF assms] by (simp add: NewTokenStore_def)
  then show ?thesis
    by (auto simp: webhookRegistrationHandler_def registration_no_token split: option.split)
qed

theorem registration_always_refused_witness:
  "\<forall>h E r. snd (snd (webhookRegistrationHandler demo_libs h E r
     (run_tokens [OpValidate 4 ''x'', OpCleanup 5] NewTokenStore) empty_table)) = empty_table"
  using registration_always_refused [of "[OpValidate 4 ''x'', OpCleanup 5]" demo_libs _ _ _ empty_table]
  by (simp add: generates_def)



end
