(* ===== verification/ApiDashboard.thy ===== *)
theory ApiDashboard
  imports ApiDiscovery ApiAuth MessageRepo
begin

text \<open>
  \<open>internal/api/dashboard_handlers.go\<close> and \<open>internal/dashboard/qrcode.go\<close>: the QR code of the
  discovery URL, the metrics, the paginated list of messages, the list of partners and the
  discovery of a partner. The QR encoder and the text of a quotient of two floats are
  arguments. A handler that broadcasts returns the event for the hub.
\<close>

section \<open>Query parameters\<close>

definition query_get :: "request \<Rightarrow> string \<Rightarrow> string" where
  "query_get r name = (case map_of (rq_query r) name of None \<Rightarrow> [] | Some v \<Rightarrow> v)"

section \<open>The QR code\<close>

definition GenerateQRCode :: "(string \<Rightarrow> int \<Rightarrow> string + string) \<Rightarrow> string \<Rightarrow> int \<Rightarrow> string result" where
  "GenerateQRCode encode discoveryURL size0 =
     (if discoveryURL = [] then Inl (Errorf ''discovery URL cannot be empty'')
      else
        let size = (if size0 \<le> 0 then 256 else size0) in
        case encode discoveryURL size of
          Inl e \<Rightarrow> Inl (WrapErr ''failed to generate QR code: '' (Errorf e)) | Inr png \<Rightarrow> Inr png)"

definition GetDiscoveryURL :: "string \<Rightarrow> string" where
  "GetDiscoveryURL baseURL =
     (if baseURL = ''http://localhost:8080'' \<or> baseURL = ''http://127.0.0.1:8080'' then ''http://localhost:8443''
      else baseURL) @ ''/.well-known/as5-configuration''"

definition qr_size :: "string \<Rightarrow> int" where
  "qr_size s =
     (if s = [] then 256
      else case atoi s of None \<Rightarrow> 256 | Some n \<Rightarrow> if 0 < n \<and> n \<le> 1024 then n else 256)"

definition qrCodeHandler :: "(string \<Rightarrow> int \<Rightarrow> string + string) \<Rightarrow> request \<Rightarrow> response" where
  "qrCodeHandler encode r =
     (case GenerateQRCode encode (GetDiscoveryURL (getBaseURL r)) (qr_size (query_get r ''size'')) of
        Inl e \<Rightarrow> http_error 500 ''Failed to generate QR code''
      | Inr png \<Rightarrow>
        \<lparr>r_code = 200,
         r_headers = [(''Content-Type'', ''image/png''), (''Content-Length'', show_nat (length png)),
           (''Cache-Control'', ''no-cache, no-store, must-revalidate'')],
         r_body = png\<rparr>)"

section \<open>Metrics\<close>

text \<open>\<open>SuccessRate\<close> is the ratio of the two numbers, or zero.\<close>

record DashboardMetrics =
  MessagesDelivered24h :: nat
  MessagesQueued :: nat
  MessagesFailed :: nat
  SuccessRate :: "(nat \<times> nat) option"
  ActivePartners :: nat
  SystemStatus :: string

definition metrics_json :: "(nat \<Rightarrow> nat \<Rightarrow> string) \<Rightarrow> DashboardMetrics \<Rightarrow> json" where
  "metrics_json ratio m = JObj
     [(''messages_delivered_24h'', JNum (show_nat (MessagesDelivered24h m))),
      (''messages_queued'', JNum (show_nat (MessagesQueued m))),
      (''messages_failed'', JNum (show_nat (MessagesFailed m))),
      (''success_rate'', JNum (case SuccessRate m of None \<Rightarrow> ''0'' | Some (a, b) \<Rightarrow> ratio a b)),
      (''active_partners'', JNum (show_nat (ActivePartners m))),
      (''system_status'', JStr (SystemStatus m))]"

definition count_of :: "(message_status \<rightharpoonup> nat) \<Rightarrow> message_status \<Rightarrow> nat" where
  "count_of counts st = (case counts st of None \<Rightarrow> 0 | Some n \<Rightarrow> n)"

definition metrics ::
  "fault \<Rightarrow> fault \<Rightarrow> time \<Rightarrow> msg_table \<Rightarrow> partner_table \<Rightarrow> DashboardMetrics" where
  "metrics mflt pflt now t ps =
     (let m0 = \<lparr>MessagesDelivered24h = 0, MessagesQueued = 0, MessagesFailed = 0, SuccessRate = None,
             ActivePartners = 0, SystemStatus = ''operational''\<rparr>;
          m1 = (case Msg_CountByStatusSince mflt (now - 24 * hour) t of
                  Inl e \<Rightarrow> m0
                | Inr counts \<Rightarrow>
                  let d = count_of counts StatusDelivered; q = count_of counts StatusQueued;
                      f = count_of counts StatusFailed; tot = d + q + f
                  in m0\<lparr>MessagesDelivered24h := d, MessagesQueued := q, MessagesFailed := f,
                        SuccessRate := (if 0 < tot then Some (d, tot) else None)\<rparr>)
      in (case Partner_Count pflt ps of Inl e \<Rightarrow> m1 | Inr n \<Rightarrow> m1\<lparr>ActivePartners := n\<rparr>))"

definition metricsHandler ::
  "(nat \<Rightarrow> nat \<Rightarrow> string) \<Rightarrow> fault \<Rightarrow> fault \<Rightarrow> time \<Rightarrow> msg_table \<Rightarrow> partner_table \<Rightarrow> response" where
  "metricsHandler ratio mflt pflt now t ps =
     respondWithJSON 200 (metrics_json ratio (metrics mflt pflt now t ps))"

section \<open>Messages\<close>

definition message_json :: "message \<Rightarrow> json" where
  "message_json m = JObj
     [(''id'', JNum (show_int (ID m))), (''message_id'', JStr (MessageID m)),
      (''direction'', JStr (Direction m)), (''status'', JStr (Status m)), (''payload'', JStr (Payload m)),
      (''job_type'', JStr (JobType m)), (''retry_count'', JNum (show_int (sint (RetryCount m)))),
      (''next_retry_at'', case NextRetryAt m of None \<Rightarrow> JNull | Some t \<Rightarrow> JStr (fmt_nano t)),
      (''last_error'', JStr (LastError m)), (''created_at'', JStr (fmt_nano (CreatedAt m)))]"

definition page_limit :: "request \<Rightarrow> int" where
  "page_limit r =
     (case atoi (query_get r ''limit'') of None \<Rightarrow> 20 | Some l \<Rightarrow> if 0 < l \<and> l \<le> 100 then l else 20)"

definition page_offset :: "request \<Rightarrow> int" where
  "page_offset r = (case atoi (query_get r ''offset'') of None \<Rightarrow> 0 | Some i \<Rightarrow> if 0 \<le> i then i else 0)"

definition status_filter :: "request \<Rightarrow> message_status option" where
  "status_filter r = (let s = query_get r ''status'' in if s \<noteq> [] then Some s else None)"

text \<open>Both operands of the division are never negative.\<close>

definition messagesHandler :: "fault \<Rightarrow> fault \<Rightarrow> request \<Rightarrow> msg_table \<Rightarrow> response" where
  "messagesHandler flt1 flt2 r t =
     (let limit = page_limit r; offset = page_offset r in
      case Msg_ListPaginated flt1 flt2 (status_filter r) limit offset t of
        Inl e \<Rightarrow> respondWithError 500 ''Failed to query messages'' (Some (err_text e))
      | Inr (msgs, tot) \<Rightarrow>
        respondWithJSON 200 (JObj
          [(''messages'', JArr (map message_json msgs)), (''total'', JNum (show_nat tot)),
           (''page'', JNum (show_int (offset div limit + 1))), (''per_page'', JNum (show_int limit))]))"

section \<open>Partners\<close>

definition partner_map :: "partner \<Rightarrow> json" where
  "partner_map p = JObj
     [(''created_at'', JStr (fmt_nano (PCreatedAt p))), (''id'', JNum (show_int (P_ID p))),
      (''jwks_url'', JStr (JWKSUrl p)), (''name'', JStr (PName p)), (''partner_id'', JStr (PartnerID p)),
      (''status'', JStr ''connected'')]"

definition partnersHandler :: "fault \<Rightarrow> partner_table \<Rightarrow> response" where
  "partnersHandler flt ps =
     (case Partner_List flt ps of
        Inl e \<Rightarrow> respondWithError 500 ''Failed to query partners'' (Some (err_text e))
      | Inr rs \<Rightarrow> respondWithJSON 200 (JObj [(''partners'', JArr (map partner_map rs))]))"

definition decode_discovery :: "json option \<Rightarrow> string option" where
  "decode_discovery p =
     (case p of None \<Rightarrow> None
      | Some v \<Rightarrow>
        let (ms, b0) = obj_members v; (u, b1) = dec_str ''discovery_url'' ms in if b0 \<or> b1 then None else Some u)"

record discover_env =
  dp_net1 :: network
  dp_net2 :: network
  dp_now :: time
  dp_fault :: fault
  dp_now_db :: time

text \<open>The event that the hub broadcasts after the answer: its type and its data.\<close>

type_synonym hub_event = "string \<times> json"

definition discovered :: "AS5Configuration \<Rightarrow> string \<Rightarrow> time \<Rightarrow> partner" where
  "discovered c jwks now =
     \<lparr>P_ID = 0, PartnerID = A_NodeID c, PName = A_OrganizationName c, JWKSUrl = JWKS (Endpoints c),
      MessageEndpoint = ReceiveMessage (Endpoints c), MDNReceiptEndpoint = ReceiveReceipt (Endpoints c),
      PublicKeyJWKS = jwks, SupportedEncAlgs = [], LastKeyRefresh = Some now, PCreatedAt = 0, PUpdatedAt = 0\<rparr>"

definition discoverPartnerHandler ::
  "libs \<Rightarrow> handlers \<Rightarrow> discover_env \<Rightarrow> request \<Rightarrow> partner_table \<Rightarrow> response \<times> partner_table \<times> hub_event option" where
  "discoverPartnerHandler L h E r ps =
     (case decode_discovery (body_json r) of
        None \<Rightarrow> (respondWithError 400 ''Invalid request body'' (Some (body_error L r)), ps, None)
      | Some url \<Rightarrow>
        if url = [] then (respondWithError 400 ''discovery_url is required'' None, ps, None)
        else
          (case FetchAS5Config L (dp_net1 E) url of
             Inl e \<Rightarrow> (respondWithError 400 ''Failed to fetch partner configuration'' (Some (err_text e)), ps, None)
           | Inr c \<Rightarrow>
             (case FetchAndCachePartnerKeys L (dp_net2 E) (JWKS (Endpoints c)) of
                Inl e \<Rightarrow> (respondWithError 400 ''Failed to fetch partner keys'' (Some (err_text e)), ps, None)
              | Inr jwks \<Rightarrow>
                (case Partner_Upsert (dp_fault E) (dp_now_db E) (Some (discovered c jwks (dp_now E))) ps of
                   (Some e, ps1) \<Rightarrow>
                     (respondWithError 500 ''Failed to save partner'' (Some (err_text e)), ps1, None)
                 | (None, ps1) \<Rightarrow>
                   (respondWithJSON 200 (JObj ([(''partner_id'', JStr (A_NodeID c)),
                       (''name'', JStr (A_OrganizationName c)), (''status'', JStr ''connected'')]
                      @ opt_str ''message'' ''Partner successfully discovered and added'')),
                    ps1,
                    if h_has_hub h then Some (''partner_added'', JObj
                      [(''name'', JStr (A_OrganizationName c)), (''partner_id'', JStr (A_NodeID c)),
                       (''status'', JStr ''connected'')]) else None)))))"

section \<open>The WebSocket endpoint\<close>

text \<open>The upgrade of the connection either fails, and then answers itself, or hands the connection
  to the hub under the id of the client.\<close>

datatype ws_outcome = Answered response | UpgradeFailed | Serve string

definition websocketHandler :: "handlers \<Rightarrow> (request \<Rightarrow> bool) \<Rightarrow> request \<Rightarrow> ws_outcome" where
  "websocketHandler h upgrade r =
     (if \<not> h_has_hub h then Answered (http_error 503 ''WebSocket not available'')
      else if \<not> upgrade r then UpgradeFailed
      else Serve (rq_remote r))"

lemma partners_ok_discover [inv_intros]:
  "partners_ok ps \<Longrightarrow> partners_ok (fst (snd (discoverPartnerHandler L h E r ps)))"
  using partners_ok_Upsert [of ps "dp_fault E" "dp_now_db E"]
  by (simp add: discoverPartnerHandler_def split: option.split sum.split prod.split) (metis snd_conv)

section \<open>Pages\<close>

definition page :: "nat \<Rightarrow> nat \<Rightarrow> msg_table \<Rightarrow> message list" where
  "page l k t = take l (drop (k * l) (order_desc CreatedAt (rows t)))"

lemma concat_chunks: "concat (map (\<lambda>k. take l (drop (k * l) xs)) [0..<n]) = take (n * l) xs"
  by (induction n) (simp_all add: take_add [symmetric] add.commute)

definition page_request :: "nat \<Rightarrow> nat \<Rightarrow> request \<Rightarrow> request" where
  "page_request l k r = r\<lparr>rq_query := [(''limit'', show_int (int l)), (''offset'', show_int (int (k * l)))]\<rparr>"

lemma page_request_params:
  assumes "1 \<le> l" and "l \<le> 100" and "k * l < 2 ^ 63"
  shows "page_limit (page_request l k r) = int l \<and> page_offset (page_request l k r) = int (k * l)
    \<and> status_filter (page_request l k r) = None"
proof -
  have "int (k * l) < 2 ^ 63" using assms(3) by (metis of_nat_less_numeral_power_cancel_iff)
  then have "atoi (show_int (int l)) = Some (int l)" "atoi (show_int (int (k * l))) = Some (int (k * l))"
    using assms(1,2) by (auto intro: atoi_show_int)
  then show ?thesis
    using assms(1,2) by (simp add: page_request_def page_limit_def page_offset_def status_filter_def query_get_def)
qed

lemma discovered_simps [simp]:
  "PartnerID (discovered c j n) = A_NodeID c" "MessageEndpoint (discovered c j n) = ReceiveMessage (Endpoints c)"
  "MDNReceiptEndpoint (discovered c j n) = ReceiveReceipt (Endpoints c)" "PublicKeyJWKS (discovered c j n) = j"
  "PCreatedAt (discovered c j n) = 0"
  by (simp_all add: discovered_def)

section \<open>Properties\<close>

text \<open>The metrics are the exact numbers of the messages of the last twenty-four hours in each of
  the three states, and of the partners; the success rate is the share of the delivered ones.\<close>

theorem metrics_exact:
  "metrics None None now t ps =
     (let n = (\<lambda>st. tbl_count (\<lambda>m. now - 24 * hour \<le> CreatedAt m \<and> Status m = st) t);
          tot = n StatusDelivered + n StatusQueued + n StatusFailed
      in \<lparr>MessagesDelivered24h = n StatusDelivered, MessagesQueued = n StatusQueued, MessagesFailed = n StatusFailed,
          SuccessRate = (if tot = 0 then None else Some (n StatusDelivered, tot)),
          ActivePartners = length (rows ps), SystemStatus = ''operational''\<rparr>)"
proof -
  obtain cs where cs: "Msg_CountByStatusSince None (now - 24 * hour) t = Inr cs"
    by (simp add: Msg_CountByStatusSince_def)
  have "count_of cs st = tbl_count (\<lambda>m. now - 24 * hour \<le> CreatedAt m \<and> Status m = st) t" for st
    using CountByStatusSince_counts [OF cs, of st] by (simp add: count_of_def Let_def)
  then show ?thesis by (simp add: metrics_def cs Partner_Count_def Let_def)
qed

text \<open>The pages of the message list are what their number says, and together they are the whole
  table, newest first, each message exactly once.\<close>

theorem pages_cover:
  assumes "1 \<le> l" and "l \<le> 100" and "k * l < 2 ^ 63" and "length (rows t) \<le> n * l"
  shows "messagesHandler None None (page_request l k r) t =
      respondWithJSON 200 (JObj
        [(''messages'', JArr (map message_json (page l k t))), (''total'', JNum (show_nat (length (rows t)))),
         (''page'', JNum (show_int (int k + 1))), (''per_page'', JNum (show_int (int l)))])
    \<and> concat (map (\<lambda>k. page l k t) [0..<n]) = order_desc CreatedAt (rows t)"
proof -
  have "int (k * l) div int l = int k" using assms(1) by simp
  then show ?thesis
    using page_request_params [OF assms(1-3), of r] assms(1,4)
    by (simp add: messagesHandler_def Msg_ListPaginated_def matches_filter_def tbl_count_def page_def concat_chunks
        Let_def del: of_nat_mult)
qed

definition demo_message :: "int \<Rightarrow> message" where
  "demo_message c = \<lparr>ID = c, MessageID = show_int c, Direction = DirectionOutbound, Status = StatusQueued,
     Payload = [], JobType = [], RetryCount = 0, NextRetryAt = None, LastError = [], CreatedAt = c\<rparr>"

theorem pages_cover_witness:
  "concat (map (\<lambda>k. page 1 k \<lparr>rows = [demo_message 3, demo_message 8], next_id = 9\<rparr>) [0..<2])
    = [demo_message 8, demo_message 3]"
  using pages_cover [of 1 0 "\<lparr>rows = [demo_message 3, demo_message 8], next_id = 9\<rparr>" 2 "demo_http [] []"]
  by (simp add: order_desc_def demo_message_def)

text \<open>C29: A partner that is discovered from another node's own document is stored with the
  endpoints that node serves and the keys it was found with, so the worker can deliver to it; a
  partner that was known keeps its numeric id and its creation time.\<close>

theorem discovery_stores_peer:
  assumes "h_config hB = Some cfgB" and "NodeID cfgB \<noteq> []"
    and "decode_discovery (body_json r) = Some url" and "url \<noteq> []"
    and "dp_net1 E (http_get url) = Inr (r_code (as5ConfigHandler hB q), r_body (as5ConfigHandler hB q))"
    and "FetchAndCachePartnerKeys L (dp_net2 E) (getBaseURL q @ RouteJWKS) = Inr jwks" and "dp_fault E = None"
  shows "r_code (fst (discoverPartnerHandler L h E r ps)) = 200
    \<and> (\<exists>p. find_partner (NodeID cfgB) (fst (snd (discoverPartnerHandler L h E r ps))) = Some p
         \<and> MessageEndpoint p = getBaseURL q @ RouteInbound \<and> MDNReceiptEndpoint p = getBaseURL q @ RouteReceipt
         \<and> PublicKeyJWKS p = jwks
         \<and> (\<forall>p0. find_partner (NodeID cfgB) ps = Some p0 \<longrightarrow> P_ID p = P_ID p0 \<and> PCreatedAt p = PCreatedAt p0))"
proof -
  define nc where "nc = \<lparr>N_NodeID = NodeID cfgB, N_OrganizationName = OrganizationName cfgB, BaseURL = getBaseURL q,
     N_PublicDomain = PublicDomain cfgB, N_SupportedDocumentTypes = []\<rparr>"
  let ?c = "GenerateAS5Config nc"
  have c: "A_NodeID ?c = NodeID cfgB" "JWKS (Endpoints ?c) = getBaseURL q @ RouteJWKS"
    "ReceiveMessage (Endpoints ?c) = getBaseURL q @ RouteInbound"
    "ReceiveReceipt (Endpoints ?c) = getBaseURL q @ RouteReceipt"
    by (simp_all add: GenerateAS5Config_def nc_def)
  have fetch: "FetchAS5Config L (dp_net1 E) url = Inr ?c"
    using assms(1,2,5)
    by (simp add: as5ConfigHandler_def FetchAS5Config_def json_response_def decode_encode_line [OF as5_wf]
        as5_roundtrip nc_def) (simp add: validateAS5Config_def GenerateAS5Config_def route_defs)
  let ?p = "discovered ?c jwks (dp_now E)"
  obtain ps1 where up: "Partner_Upsert None (dp_now_db E) (Some ?p) ps = (None, ps1)"
    using assms(2) by (auto simp: Partner_Upsert_def Let_def c)
  have found: "find_partner (NodeID cfgB) ps1 = Some (let z = ?p\<lparr>PCreatedAt := dp_now_db E, PUpdatedAt := dp_now_db E\<rparr>
      in case find_partner (NodeID cfgB) ps of Some r0 \<Rightarrow> overwrite z r0
         | None \<Rightarrow> set_partner_id (next_id ps) (to_row z))"
    using Partner_Upsert_find [of ?p "NodeID cfgB" "dp_now_db E" ps] assms(2)
    by (simp add: up c Let_def is_zero_time_def)
  show ?thesis
    using assms(3,4,6,7) fetch up found
    by (cases "find_partner (NodeID cfgB) ps")
       (auto simp: discoverPartnerHandler_def c Let_def set_partner_id_def overwrite_def to_row_def)
qed

text \<open>The demo library with a key set that is a JSON document.\<close>

definition json_keys_libs :: libs where
  "json_keys_libs = demo_libs\<lparr>unmarshal_jwks := (\<lambda>s. Inr [\<lparr>Key = RSAPublic demo_pub, KeyID = ''s'',
     JAlgorithm = ''RS256'', Use = ''sig''\<rparr>])\<rparr>"

definition demo_peer :: handlers where
  "demo_peer = \<lparr>h_config = Some default_config, h_crypto = None, h_has_discovery = True, h_has_hub = True\<rparr>"

definition demo_discover_env :: discover_env where
  "demo_discover_env = \<lparr>dp_net1 = (\<lambda>_. Inr (r_code (as5ConfigHandler demo_peer (demo_http [] [])),
        r_body (as5ConfigHandler demo_peer (demo_http [] [])))),
     dp_net2 = (\<lambda>_. Inr (200, print_json (JObj []))), dp_now = 3, dp_fault = None, dp_now_db = 4\<rparr>"

definition discovery_doc :: json where
  "discovery_doc = JObj [(''discovery_url'', JStr ''https://b/as5'')]"

theorem discovery_stores_peer_witness:
  "\<exists>p. find_partner ''fidex-edge-node'' (fst (snd (discoverPartnerHandler json_keys_libs demo_peer demo_discover_env
     (demo_http (print_json discovery_doc) []) empty_table))) = Some p
     \<and> MessageEndpoint p = ''http://localhost/api/v1/inbound''"
proof -
  have doc: "decode_json (print_json discovery_doc @ []) = Some discovery_doc"
    by (rule decode_print) (simp_all add: discovery_doc_def)
  have empty: "decode_json (print_json (JObj []) @ []) = Some (JObj [])"
    by (rule decode_print) simp_all
  from doc have url: "decode_discovery (body_json (demo_http (print_json discovery_doc) [])) = Some ''https://b/as5''"
    by (simp add: body_json_def demo_http_def decode_discovery_def) (simp add: discovery_doc_def dec_eval)
  have base: "getBaseURL (demo_http [] []) = ''http://localhost''"
    by (simp add: getBaseURL_def demo_http_def header_get_def)
  have keys: "FetchAndCachePartnerKeys json_keys_libs (dp_net2 demo_discover_env) (''http://localhost'' @ RouteJWKS)
      = Inr (print_json (JObj []))"
    using empty by (simp add: FetchAndCachePartnerKeys_def demo_discover_env_def ParsePublicKeyFromJWKS_def
        json_keys_libs_def)
  show ?thesis
    using discovery_stores_peer [of demo_peer default_config "demo_http (print_json discovery_doc) []" "''https://b/as5''"
        demo_discover_env "demo_http [] []" json_keys_libs "print_json (JObj [])" demo_peer empty_table] url keys
    by (auto simp: base demo_peer_def default_config_def demo_discover_env_def RouteInbound_def)
qed

end
