(* ===== verification/Router.thy ===== *)
theory Router
  imports ApiSettings ApiDashboard ApiExternal_Facts
begin

text \<open>
  The two HTTP servers: the route tables that \<open>handlers.go\<close> and the \<open>Setup...Router\<close> functions
  build, the handlers behind them composed over one state of the node, the middleware of the
  internal server, the pages and static files of \<open>webui_handlers.go\<close>, and the routes that
  \<open>constants_handlers.go\<close> publishes to the frontend. The router library chi is a parameter: which
  route of a table a request takes, what its own middleware makes of the request, and what it
  answers when there is no route.
\<close>

section \<open>Routes\<close>

datatype endpoint =
  EpRoot | EpLoginPage | EpDashboardPage | EpStatic | EpConstants
| EpLogin | EpLogout | EpMe
| EpWS | EpQR | EpMetrics | EpMessages | EpPartners | EpDiscover
| EpConfig | EpRotateKeys | EpListUsers | EpCreateUser | EpDeleteUser | EpPassword
| EpPartnersDetailed | EpUpdatePartner | EpDeletePartner
| EpTransmit
| EpHealth | EpInbound | EpReceipt | EpRegister | EpJWKS | EpAS5

type_synonym route = "string \<times> string \<times> endpoint" \<comment> \<open>method, pattern, handler\<close>

definition mount :: "string \<Rightarrow> route list \<Rightarrow> route list" where
  "mount prefix rs = map (\<lambda>(m, p, e). (m, prefix @ p, e)) rs"

definition SetupAuthRouter :: "route list" where
  "SetupAuthRouter = [(''POST'', ''/login'', EpLogin), (''POST'', ''/logout'', EpLogout), (''GET'', ''/me'', EpMe)]"

definition SetupDashboardRouter :: "route list" where
  "SetupDashboardRouter =
     [(''GET'', ''/ws'', EpWS), (''GET'', ''/qr'', EpQR), (''GET'', ''/metrics'', EpMetrics),
      (''GET'', ''/messages'', EpMessages), (''GET'', ''/partners'', EpPartners),
      (''POST'', ''/partners/discover'', EpDiscover)]"

definition SetupSettingsRouter :: "route list" where
  "SetupSettingsRouter =
     [(''GET'', ''/config'', EpConfig), (''POST'', ''/rotate-keys'', EpRotateKeys), (''GET'', ''/users'', EpListUsers),
      (''POST'', ''/users'', EpCreateUser), (''DELETE'', ''/users/{id}'', EpDeleteUser),
      (''PUT'', ''/password'', EpPassword), (''GET'', ''/partners'', EpPartnersDetailed),
      (''PUT'', ''/partners/{id}'', EpUpdatePartner), (''DELETE'', ''/partners/{id}'', EpDeletePartner)]"

definition SetupInternalRouter :: "route list" where
  "SetupInternalRouter =
     [(''GET'', RouteRoot, EpRoot), (''GET'', RouteLogin, EpLoginPage), (''GET'', RouteDashboard, EpDashboardPage),
      (''GET'', RouteJS, EpStatic), (''GET'', RouteCSS, EpStatic), (''GET'', RouteComponents, EpStatic),
      (''GET'', ''/api/constants'', EpConstants)]
     @ mount APIAuth SetupAuthRouter @ mount APIDashboard SetupDashboardRouter
     @ mount APISettings SetupSettingsRouter @ mount APIV1 [(''POST'', RouteTransmitRel, EpTransmit)]"

definition SetupPublicRouter :: "route list" where
  "SetupPublicRouter =
     (''GET'', RouteHealth, EpHealth)
     # mount APIV1 [(''POST'', RouteInboundRel, EpInbound), (''POST'', RouteReceiptRel, EpReceipt),
         (''POST'', RouteRegisterRel, EpRegister)]
     @ [(''GET'', RouteJWKS, EpJWKS), (''GET'', RouteAS5Configuration, EpAS5)]"

section \<open>Pages, static files and the route constants\<close>

definition serve_page :: "string \<Rightarrow> string \<Rightarrow> disk \<Rightarrow> response" where
  "serve_page path missing d =
     (case d path of None \<Rightarrow> http_error 404 missing
      | Some b \<Rightarrow> \<lparr>r_code = 200, r_headers = [(''Content-Type'', ''text/html; charset=utf-8'')], r_body = b\<rparr>)"

definition serveLoginHandler :: "disk \<Rightarrow> response" where
  "serveLoginHandler d = serve_page ''ui/login.html'' ''Login page not found'' d"

definition serveDashboardHandler :: "disk \<Rightarrow> response" where
  "serveDashboardHandler d = serve_page ''ui/dist/index.html'' ''Dashboard not found'' d"

text \<open>\<open>serve_file\<close> is \<open>http.ServeFile\<close>.\<close>

definition serveStaticAssets :: "(request \<Rightarrow> string \<Rightarrow> response) \<Rightarrow> request \<Rightarrow> response" where
  "serveStaticAssets serve_file r =
     (let p0 = rq_path r;
          p = (if 10 < length p0 \<and> take 11 p0 = ''/dashboard/'' then drop 10 p0 else p0)
      in if p = ''/'' \<or> p = [] then http_error 404 ''404 page not found''
         else serve_file r (''ui/dist'' @ p))"

definition api_routes :: "(string \<times> string) list" where
  "api_routes =
     [(''authLogin'', APIAuth @ RouteAuthLogin), (''authLogout'', APIAuth @ RouteAuthLogout),
      (''authMe'', APIAuth @ RouteAuthMe),
      (''dashboardWS'', APIDashboard @ RouteDashboardWS), (''dashboardQR'', APIDashboard @ RouteDashboardQR),
      (''dashboardMetrics'', APIDashboard @ RouteDashboardMetrics),
      (''dashboardMessages'', APIDashboard @ RouteDashboardMessages),
      (''dashboardPartners'', APIDashboard @ RouteDashboardPartners),
      (''discoverPartner'', APIDashboard @ RouteDiscover),
      (''settingsConfig'', APISettings @ RouteConfig), (''settingsRotateKeys'', APISettings @ RouteRotateKeys),
      (''settingsUsers'', APISettings @ RouteUsers), (''settingsUserById'', APISettings @ RouteUserByID),
      (''settingsPassword'', APISettings @ RoutePassword), (''settingsPartners'', APISettings @ RoutePartners),
      (''settingsPartnerById'', APISettings @ RoutePartnerByID),
      (''login'', RouteLogin), (''dashboard'', RouteDashboard)]"

definition constantsHandler :: response where
  "constantsHandler =
     \<lparr>r_code = 200,
      r_headers = [(''Content-Type'', ''application/json''), (''Cache-Control'', ''public, max-age=3600'')],
      r_body = encode_line (JObj (map (\<lambda>(k, p). (k, JStr p)) api_routes))\<rparr>"

section \<open>The state of a node and the environment of a request\<close>

record node =
  n_msgs :: msg_table
  n_partners :: partner_table
  n_auth :: auth_db
  n_tokens :: token_store
  n_disk :: disk
  n_events :: "hub_event list" \<comment> \<open>handed to the hub, newest last\<close>

definition empty_node :: "disk \<Rightarrow> node" where
  "empty_node d = \<lparr>n_msgs = empty_table, n_partners = empty_table, n_auth = empty_auth_db, n_tokens = NewTokenStore,
     n_disk = d, n_events = []\<rparr>"

record http_env =
  v_now :: time
  v_fault :: fault \<comment> \<open>of the first statement of a handler\<close>
  v_fault2 :: fault
  v_uuid :: string
  v_login :: login_env
  v_create_user :: create_user_env
  v_delete_user :: delete_user_env
  v_password :: password_env
  v_rotate :: rotate_env
  v_discover :: discover_env
  v_inbound :: inbound_env
  v_receipt :: receipt_env
  v_register :: registration_env
  v_qr :: "string \<Rightarrow> int \<Rightarrow> string + string"
  v_ratio :: "nat \<Rightarrow> nat \<Rightarrow> string"
  v_serve_file :: "request \<Rightarrow> string \<Rightarrow> response"
  v_upgrade :: "request \<Rightarrow> bool"
  v_upgrade_error :: response

text \<open>A connection that is upgraded is answered by the upgrade itself.\<close>

definition ws_response :: "response \<Rightarrow> ws_outcome \<Rightarrow> response" where
  "ws_response failed out =
     (case out of Answered resp \<Rightarrow> resp | UpgradeFailed \<Rightarrow> failed | Serve name \<Rightarrow> empty_response 101)"

section \<open>The handlers over the state of the node\<close>

definition on_msgs :: "response \<times> msg_table \<Rightarrow> node \<Rightarrow> response \<times> node" where
  "on_msgs x s = (fst x, s\<lparr>n_msgs := snd x\<rparr>)"
definition on_auth :: "response \<times> auth_db \<Rightarrow> node \<Rightarrow> response \<times> node" where
  "on_auth x s = (fst x, s\<lparr>n_auth := snd x\<rparr>)"
definition on_partners :: "response \<times> partner_table \<Rightarrow> node \<Rightarrow> response \<times> node" where
  "on_partners x s = (fst x, s\<lparr>n_partners := snd x\<rparr>)"
definition on_disk :: "response \<times> disk \<Rightarrow> node \<Rightarrow> response \<times> node" where
  "on_disk x s = (fst x, s\<lparr>n_disk := snd x\<rparr>)"

fun dispatch :: "libs \<Rightarrow> handlers \<Rightarrow> http_env \<Rightarrow> endpoint \<Rightarrow> request \<Rightarrow> node \<Rightarrow> response \<times> node" where
  "dispatch L h V EpRoot r s = (http_redirect r RouteLogin 303 ''See Other'', s)"
| "dispatch L h V EpLoginPage r s = (serveLoginHandler (n_disk s), s)"
| "dispatch L h V EpDashboardPage r s = (serveDashboardHandler (n_disk s), s)"
| "dispatch L h V EpStatic r s = (serveStaticAssets (v_serve_file V) r, s)"
| "dispatch L h V EpConstants r s = (constantsHandler, s)"
| "dispatch L h V EpLogin r s = on_auth (loginHandler L (v_login V) r (n_auth s)) s"
| "dispatch L h V EpLogout r s = on_auth (logoutHandler (v_fault V) r (n_auth s)) s"
| "dispatch L h V EpMe r s = (meHandler r, s)"
| "dispatch L h V EpWS r s = (ws_response (v_upgrade_error V) (websocketHandler h (v_upgrade V) r), s)"
| "dispatch L h V EpQR r s = (qrCodeHandler (v_qr V) r, s)"
| "dispatch L h V EpMetrics r s =
     (metricsHandler (v_ratio V) (v_fault V) (v_fault2 V) (v_now V) (n_msgs s) (n_partners s), s)"
| "dispatch L h V EpMessages r s = (messagesHandler (v_fault V) (v_fault2 V) r (n_msgs s), s)"
| "dispatch L h V EpPartners r s = (partnersHandler (v_fault V) (n_partners s), s)"
| "dispatch L h V EpDiscover r s =
     (case discoverPartnerHandler L h (v_discover V) r (n_partners s) of
        (resp, ps, ev) \<Rightarrow>
          (resp, s\<lparr>n_partners := ps, n_events := n_events s @ (case ev of None \<Rightarrow> [] | Some e \<Rightarrow> [e])\<rparr>))"
| "dispatch L h V EpConfig r s = (getConfigHandler h (\<lambda>p. n_disk s p \<noteq> None), s)"
| "dispatch L h V EpRotateKeys r s = on_disk (rotateKeysHandler L h (v_rotate V) (n_disk s)) s"
| "dispatch L h V EpListUsers r s = (listUsersHandler (v_fault V) (n_auth s), s)"
| "dispatch L h V EpCreateUser r s = on_auth (createUserHandler L (v_create_user V) r (n_auth s)) s"
| "dispatch L h V EpDeleteUser r s = on_auth (deleteUserHandler (v_delete_user V) r (n_auth s)) s"
| "dispatch L h V EpPassword r s = on_auth (updatePasswordHandler L (v_password V) r (n_auth s)) s"
| "dispatch L h V EpPartnersDetailed r s = (listPartnersDetailedHandler (v_fault V) (n_partners s), s)"
| "dispatch L h V EpUpdatePartner r s = on_partners (updatePartnerHandler L (v_fault V) (v_now V) r (n_partners s)) s"
| "dispatch L h V EpDeletePartner r s = on_partners (deletePartnerHandler (v_fault V) r (n_partners s)) s"
| "dispatch L h V EpTransmit r s = on_msgs (transmitHandler L (v_fault V) (v_now V) (v_uuid V) r (n_msgs s)) s"
| "dispatch L h V EpHealth r s = (healthHandler, s)"
| "dispatch L h V EpInbound r s = on_msgs (inboundHandler L h (Some (n_partners s)) (v_inbound V) r (n_msgs s)) s"
| "dispatch L h V EpReceipt r s =
     (case receiptHandler L h (Some (n_partners s)) (v_receipt V) r (n_msgs s) of
        (resp, t, warned) \<Rightarrow> (resp, s\<lparr>n_msgs := t\<rparr>))"
| "dispatch L h V EpRegister r s =
     (case webhookRegistrationHandler L h (v_register V) r (n_tokens s) (n_partners s) of
        (resp, ts, ps) \<Rightarrow> (resp, s\<lparr>n_tokens := ts, n_partners := ps\<rparr>))"
| "dispatch L h V EpJWKS r s = (jwksHandler L h, s)"
| "dispatch L h V EpAS5 r s = (as5ConfigHandler h r, s)"

section \<open>The two servers\<close>

record chi =
  pick :: "(string \<times> string) list \<Rightarrow> request \<Rightarrow> (nat \<times> string) option"
    \<comment> \<open>the index of the matching route and the value of \<open>{id}\<close>\<close>
  prelude :: "request \<Rightarrow> request" \<comment> \<open>\<open>Logger\<close>, \<open>Recoverer\<close>, \<open>RequestID\<close>, \<open>RealIP\<close>, \<open>Timeout\<close>\<close>
  not_found :: "request \<Rightarrow> response"

definition find_route :: "chi \<Rightarrow> route list \<Rightarrow> request \<Rightarrow> (endpoint \<times> request) option" where
  "find_route C rs r =
     (case pick C (map (\<lambda>(m, p, e). (m, p)) rs) r of None \<Rightarrow> None
      | Some (i, param) \<Rightarrow> if i < length rs then Some (snd (snd (rs ! i)), r\<lparr>rq_param := param\<rparr>) else None)"

definition internal_routes ::
  "chi \<Rightarrow> libs \<Rightarrow> handlers \<Rightarrow> http_env \<Rightarrow> string \<Rightarrow> request \<Rightarrow> node \<Rightarrow> response \<times> node" where
  "internal_routes C L h V apiKey r s =
     (case find_route C SetupInternalRouter r of None \<Rightarrow> (not_found C r, s)
      | Some (e, r1) \<Rightarrow>
        if e = EpTransmit \<and> apiKey \<noteq> [] then APIKeyMiddleware apiKey (dispatch L h V e) r1 s
        else dispatch L h V e r1 s)"

definition internal_server ::
  "chi \<Rightarrow> libs \<Rightarrow> handlers \<Rightarrow> http_env \<Rightarrow> string list \<Rightarrow> string \<Rightarrow> bool \<Rightarrow> request \<Rightarrow> node \<Rightarrow> response \<times> node" where
  "internal_server C L h V allowedIPs apiKey enableIPAllowlist r s =
     (if enableIPAllowlist \<and> 0 < length allowedIPs
      then IPAllowlistMiddleware allowedIPs (internal_routes C L h V apiKey) (prelude C r) s
      else internal_routes C L h V apiKey (prelude C r) s)"

definition public_server :: "chi \<Rightarrow> libs \<Rightarrow> handlers \<Rightarrow> http_env \<Rightarrow> request \<Rightarrow> node \<Rightarrow> response \<times> node" where
  "public_server C L h V r s =
     (case find_route C SetupPublicRouter (prelude C r) of None \<Rightarrow> (not_found C (prelude C r), s)
      | Some (e, r1) \<Rightarrow> dispatch L h V e r1 s)"

section \<open>Facts about the servers\<close>

lemma find_route_in:
  "find_route C rs r = Some (e, r1) \<Longrightarrow> e \<in> (snd \<circ> snd) ` set rs \<and> (\<exists>param. r1 = r\<lparr>rq_param := param\<rparr>)"
  by (force simp: find_route_def split: option.splits prod.splits if_splits)

lemma internal_endpoints: "EpInbound \<notin> (snd \<circ> snd) ` set SetupInternalRouter" "EpReceipt \<notin> (snd \<circ> snd) ` set SetupInternalRouter"
  by (auto simp: SetupInternalRouter_def SetupAuthRouter_def SetupDashboardRouter_def SetupSettingsRouter_def mount_def)

lemma on_simps [simp]:
  "n_msgs (snd (on_auth x s)) = n_msgs s" "n_msgs (snd (on_partners y s)) = n_msgs s" "n_msgs (snd (on_disk d s)) = n_msgs s"
  "snd (on_auth x s) = s\<lparr>n_auth := snd x\<rparr>" "fst (on_auth x s) = fst x"
  "snd (on_msgs t s) = s\<lparr>n_msgs := snd t\<rparr>" "fst (on_msgs t s) = fst t"
  "snd (on_partners y s) = s\<lparr>n_partners := snd y\<rparr>" "fst (on_partners y s) = fst y"
  "snd (on_disk d s) = s\<lparr>n_disk := snd d\<rparr>" "fst (on_disk d s) = fst d"
  by (simp_all add: on_auth_def on_partners_def on_disk_def on_msgs_def)

lemma dispatch_msgs:
  "e \<notin> {EpTransmit, EpInbound, EpReceipt} \<Longrightarrow> n_msgs (snd (dispatch L h V e r s)) = n_msgs s"
  by (cases e) (auto split: prod.split)

lemma getBaseURL_cookies [simp]: "getBaseURL (r\<lparr>rq_cookies := c\<rparr>) = getBaseURL r"
  by (simp add: getBaseURL_def header_get_def Let_def)

lemma cookies_ignored [simp]:
  "body_json (r\<lparr>rq_cookies := c\<rparr>) = body_json r" "body_error L (r\<lparr>rq_cookies := c\<rparr>) = body_error L r"
  "query_get (r\<lparr>rq_cookies := c\<rparr>) k = query_get r k" "header_get (r\<lparr>rq_cookies := c\<rparr>) k = header_get r k"
  "GetUserFromContext (r\<lparr>rq_cookies := c\<rparr>) = GetUserFromContext r"
  "rq_body (r\<lparr>rq_cookies := c\<rparr>) = rq_body r" "rq_method (r\<lparr>rq_cookies := c\<rparr>) = rq_method r"
  "rq_param (r\<lparr>rq_cookies := c\<rparr>) = rq_param r" "rq_path (r\<lparr>rq_cookies := c\<rparr>) = rq_path r"
  by (simp_all add: body_json_def body_error_def query_get_def header_get_def GetUserFromContext_def)

lemmas handler_defs = http_redirect_def loginHandler_def meHandler_def qrCodeHandler_def messagesHandler_def
  page_limit_def page_offset_def status_filter_def discoverPartnerHandler_def createUserHandler_def
  deleteUserHandler_def updatePasswordHandler_def updatePartnerHandler_def deletePartnerHandler_def
  transmitHandler_def inboundHandler_def receiptHandler_def webhookRegistrationHandler_def as5ConfigHandler_def

lemma dispatch_cookies:
  "e \<notin> {EpLogout, EpStatic, EpWS} \<Longrightarrow> dispatch L h V e (r\<lparr>rq_cookies := c\<rparr>) s = dispatch L h V e r s"
  by (cases e; simp; (unfold handler_defs cookies_ignored getBaseURL_cookies)?; (rule refl)?)

lemma APIKeyMiddleware_state:
  assumes "header_get r ''Authorization'' \<noteq> ''Bearer '' @ k"
  shows "r_code (fst (APIKeyMiddleware k next r s)) = 401 \<and> snd (APIKeyMiddleware k next r s) = s"
proof -
  have "trim_prefix a ''Bearer '' = k \<Longrightarrow> has_prefix a ''Bearer '' \<Longrightarrow> a = ''Bearer '' @ k" for a
    by (metis has_prefix_iff trim_prefix_append)
  with assms show ?thesis by (auto simp: APIKeyMiddleware_def Let_def)
qed

section \<open>A concrete router\<close>

text \<open>A router that compares the path with the pattern and takes the \<open>{id}\<close> that the request has.\<close>

definition demo_chi :: chi where
  "demo_chi = \<lparr>pick = (\<lambda>ps r. let i = length (takeWhile (\<lambda>x. x \<noteq> (rq_method r, rq_path r)) ps)
       in if i < length ps then Some (i, rq_param r) else None),
     prelude = (\<lambda>r. r), not_found = (\<lambda>r. http_error 404 ''404 page not found'')\<rparr>"

lemmas table_defs = SetupInternalRouter_def SetupAuthRouter_def SetupDashboardRouter_def SetupSettingsRouter_def
  mount_def route_defs subroute_defs

definition demo_http_env :: http_env where
  "demo_http_env = \<lparr>v_now = 40, v_fault = None, v_fault2 = None, v_uuid = ''m-9'',
     v_login = \<lparr>lg_now = 0, lg_user_fault = None, lg_session_fault = None, lg_fk = True, lg_rnd = Inr ''abc''\<rparr>,
     v_create_user = \<lparr>cu_now = 4, cu_rnd = 8, cu_fault = None\<rparr>,
     v_delete_user = \<lparr>du_fk = True, du_user_fault = None, du_session_fault = None\<rparr>,
     v_password = \<lparr>pw_rnd = 8, pw_fault = None\<rparr>,
     v_rotate = \<lparr>ro_rnd = 8, ro_private_fault = None, ro_public_fault = None\<rparr>,
     v_discover = demo_discover_env,
     v_inbound = \<lparr>ie_partner_fault = None, ie_create_fault = None, ie_receipt_fault = None, ie_now = 40, ie_now2 = 41,
       ie_uuid = ''m-10''\<rparr>,
     v_receipt = \<lparr>re_partner_fault = None, re_create_fault = None, re_update_fault = None, re_now = 40\<rparr>,
     v_register = \<lparr>rg_now = 40, rg_net = (\<lambda>q. Inl ''down''), rg_lookup_fault = None, rg_write_fault = None\<rparr>,
     v_qr = (\<lambda>u n. Inr u), v_ratio = (\<lambda>a b. ''1''), v_serve_file = (\<lambda>r p. http_error 404 ''404 page not found''),
     v_upgrade = (\<lambda>r. True), v_upgrade_error = http_error 400 ''Bad Request''\<rparr>"

definition keyed_transmit :: request where
  "keyed_transmit = demo_transmit\<lparr>rq_path := ''/api/v1/transmit'', rq_headers := [(''authorization'', ''Bearer k''),
     (''x-forwarded-for'', ''127.0.0.1'')]\<rparr>"

lemma keyed_header:
  "header_get keyed_transmit ''Authorization'' = ''Bearer k''" "header_get keyed_transmit ''X-Forwarded-For'' = ''127.0.0.1''"
proof -
  have "to_lower ''X-Forwarded-For'' = ''x-forwarded-for''" "to_lower ''Authorization'' = ''authorization''"
    "to_lower ''x-forwarded-for'' = ''x-forwarded-for''" "to_lower ''authorization'' = ''authorization''"
    by code_simp+
  then show "header_get keyed_transmit ''Authorization'' = ''Bearer k''"
    "header_get keyed_transmit ''X-Forwarded-For'' = ''127.0.0.1''"
    by (simp_all add: keyed_transmit_def header_get_def)
qed

lemma keyed_transmit_routed:
  "find_route demo_chi SetupInternalRouter keyed_transmit = Some (EpTransmit, keyed_transmit)"
  by (simp add: find_route_def demo_chi_def keyed_transmit_def demo_transmit_def post_request_def table_defs RouteTransmitRel_def)

lemma keyed_transmit_queues:
  "n_msgs (snd (internal_server demo_chi num_libs demo_peer demo_http_env [] ''k'' True keyed_transmit (empty_node Map.empty)))
    \<noteq> n_msgs (empty_node Map.empty)"
proof -
  have "decode_transmit num_libs (body_json keyed_transmit) = Some \<lparr>T_DestinationPartnerID = ''urn:b'',
      T_DocumentType = ''invoice'', T_ReceiptWebhook = [], T_Payload = [(''total'', JNum ''12'')]\<rparr>"
    by (rule demo_transmit_decodes) (simp add: keyed_transmit_def)
  then have "length (rows (snd (transmitHandler num_libs None 40 ''m-9'' keyed_transmit empty_table))) = 1"
    by (simp add: transmitHandler_def validateTransmitRequest_def Let_def Msg_Create_Some transmit_json_def
        new_message_def row_simps empty_table_def tbl_find_def)
  then have "snd (transmitHandler num_libs None 40 ''m-9'' keyed_transmit empty_table) \<noteq> empty_table"
    by (auto simp: empty_table_def)
  then show ?thesis
    using keyed_transmit_routed
    by (simp add: internal_server_def internal_routes_def demo_chi_def APIKeyMiddleware_def keyed_header has_prefix_def
        trim_prefix_def demo_http_env_def empty_node_def)
qed

definition me_request :: request where
  "me_request = demo_http [] []\<lparr>rq_method := ''GET'', rq_path := ''/admin/auth/me''\<rparr>"

definition users_request :: request where
  "users_request = demo_http [] []\<lparr>rq_method := ''GET'', rq_path := ''/admin/settings/users''\<rparr>"

lemma demo_routed:
  "find_route demo_chi SetupInternalRouter me_request = Some (EpMe, me_request)"
  "find_route demo_chi SetupInternalRouter users_request = Some (EpListUsers, users_request)"
  by (simp_all add: find_route_def demo_chi_def me_request_def users_request_def demo_http_def table_defs)

section \<open>Properties\<close>

text \<open>C33: Through the internal server a message is queued only for a request that carries the API key
  and comes from an address that the allowlist accepts.\<close>

theorem queue_needs_key:
  assumes "apiKey \<noteq> []"
    and "n_msgs (snd (internal_server C L h V allowedIPs apiKey enable r s)) \<noteq> n_msgs s"
  shows "header_get (prelude C r) ''Authorization'' = ''Bearer '' @ apiKey
    \<and> (enable \<and> allowedIPs \<noteq> [] \<longrightarrow> isIPAllowed (getClientIP (prelude C r)) allowedIPs)"
proof -
  let ?q = "prelude C r"
  have inner: "n_msgs (snd (internal_routes C L h V apiKey ?q s)) \<noteq> n_msgs s"
    and ip: "enable \<and> allowedIPs \<noteq> [] \<longrightarrow> isIPAllowed (getClientIP ?q) allowedIPs"
    using assms(2) by (auto simp: internal_server_def IPAllowlistMiddleware_def split: if_splits)
  then obtain e r1 where f: "find_route C SetupInternalRouter ?q = Some (e, r1)"
    by (auto simp: internal_routes_def split: option.splits)
  have e: "e = EpTransmit"
  proof (rule ccontr)
    assume "e \<noteq> EpTransmit"
    moreover have "e \<notin> {EpInbound, EpReceipt}" using find_route_in [OF f] internal_endpoints by blast
    ultimately show False using inner f by (simp add: internal_routes_def dispatch_msgs)
  qed
  have h: "header_get r1 ''Authorization'' = header_get ?q ''Authorization''"
    using find_route_in [OF f] by (auto simp: header_get_def)
  have "header_get r1 ''Authorization'' = ''Bearer '' @ apiKey"
  proof (rule ccontr)
    assume "header_get r1 ''Authorization'' \<noteq> ''Bearer '' @ apiKey"
    then have "snd (APIKeyMiddleware apiKey (dispatch L h V e) r1 s) = s"
      by (rule APIKeyMiddleware_state [THEN conjunct2])
    with inner f e assms(1) show False by (simp add: internal_routes_def)
  qed
  with h ip show ?thesis by simp
qed

theorem queue_needs_key_witness:
  "header_get (prelude demo_chi keyed_transmit) ''Authorization'' = ''Bearer k''"
  using queue_needs_key [OF _ keyed_transmit_queues] by simp

text \<open>The addresses of the allowlist can be claimed by anyone: a request that names an allowed
  address in \<open>X-Forwarded-For\<close> is let through, from whatever address it comes.\<close>

theorem allowlist_spoofed:
  assumes "''127.0.0.1'' \<in> set allowedIPs" and "header_get (prelude C r) ''X-Forwarded-For'' = ''127.0.0.1''"
  shows "internal_server C L h V allowedIPs apiKey enable r s = internal_routes C L h V apiKey (prelude C r) s"
proof -
  have "trim_space (hd (split_on (CHR '','') ''127.0.0.1'')) = ''127.0.0.1''"
    by code_simp
  then have "getClientIP (prelude C r) = ''127.0.0.1''" using assms(2) by (simp add: getClientIP_def Let_def)
  moreover have "case ParseIP ''127.0.0.1'' of None \<Rightarrow> False | Some p \<Rightarrow> allows p ''127.0.0.1''" by code_simp
  ultimately have "isIPAllowed (getClientIP (prelude C r)) allowedIPs"
    using assms(1) by (auto simp: isIPAllowed_def list_ex_iff split: option.splits)
  then show ?thesis by (simp add: internal_server_def IPAllowlistMiddleware_def)
qed

theorem allowlist_spoofed_witness:
  "internal_server demo_chi num_libs demo_peer demo_http_env (AllowedIPAddresses default_config) ''k'' True
     (keyed_transmit\<lparr>rq_remote := ''203.0.113.9:1''\<rparr>) (empty_node Map.empty)
   = internal_routes demo_chi num_libs demo_peer demo_http_env ''k'' (keyed_transmit\<lparr>rq_remote := ''203.0.113.9:1''\<rparr>)
     (empty_node Map.empty)"
  using allowlist_spoofed [of "AllowedIPAddresses default_config" demo_chi "keyed_transmit\<lparr>rq_remote := ''203.0.113.9:1''\<rparr>"]
  keyed_header by (simp add: default_config_def demo_chi_def header_get_def)



text \<open>No request to the internal server can learn its own user or change a password: without the
  authentication middleware no request has a user, and both handlers refuse it.\<close>

theorem own_account_unreachable:
  assumes "rq_user r = None" and "find_route C SetupInternalRouter r = Some (e, r1)" and "e = EpMe \<or> e = EpPassword"
  shows "r_code (fst (internal_routes C L h V apiKey r s)) \<in> {400, 401}
    \<and> snd (internal_routes C L h V apiKey r s) = s"
proof -
  have "rq_user r1 = None" using find_route_in [OF assms(2)] assms(1) by auto
  then show ?thesis
    using assms(2,3)
    by (auto simp: internal_routes_def meHandler_def GetUserFromContext_def updatePasswordHandler_def
        split: option.split)
qed

theorem own_account_unreachable_witness:
  "r_code (fst (internal_routes demo_chi num_libs demo_peer demo_http_env ''k'' me_request (empty_node Map.empty))) \<in> {400, 401}"
  using own_account_unreachable [OF _ demo_routed(1)] by (simp add: me_request_def demo_http_def)


end
