(* ===== verification/Watcher.thy ===== *)
theory Watcher
  imports ApiExternal_Facts
begin

text \<open>
  \<open>internal/watcher/fs_worker.go\<close>: files dropped into the outbox become queued messages. The
  state is the map of recently processed files, the disk and the message table. fsnotify is
  the environment: the loop consumes the list of what its \<open>select\<close> receives. Each event comes
  with the clocks it meets, the driver's and file system's faults, and what other processes do
  to the disk while the watcher sleeps.
\<close>

section \<open>Files\<close>

definition outboxDir :: string where "outboxDir = ''./fidex/outbox''"
definition archiveDir :: string where "archiveDir = ''./fidex/archive''"

definition no_such_file :: "string \<Rightarrow> string \<Rightarrow> string" where
  "no_such_file op path = op @ '' '' @ path @ '': no such file or directory''"

definition ReadFile :: "fault \<Rightarrow> string \<Rightarrow> disk \<Rightarrow> string + string" where
  "ReadFile flt path d =
     (case flt of Some e \<Rightarrow> Inl e
      | None \<Rightarrow> (case d path of None \<Rightarrow> Inl (no_such_file ''open'' path) | Some b \<Rightarrow> Inr b))"

definition Rename :: "fault \<Rightarrow> string \<Rightarrow> string \<Rightarrow> disk \<Rightarrow> string option \<times> disk" where
  "Rename flt src dst d =
     (case flt of Some e \<Rightarrow> (Some e, d)
      | None \<Rightarrow> (case d src of None \<Rightarrow> (Some (no_such_file ''rename'' src), d)
                 | Some b \<Rightarrow> (None, (d(src := None))(dst \<mapsto> b))))"

definition Remove :: "fault \<Rightarrow> string \<Rightarrow> disk \<Rightarrow> string option \<times> disk" where
  "Remove flt path d =
     (case flt of Some e \<Rightarrow> (Some e, d)
      | None \<Rightarrow> if d path = None then (Some (no_such_file ''remove'' path), d) else (None, d(path := None)))"

definition copyFile :: "fault \<Rightarrow> fault \<Rightarrow> string \<Rightarrow> string \<Rightarrow> disk \<Rightarrow> goerr option \<times> disk" where
  "copyFile rflt wflt src dst d =
     (case ReadFile rflt src d of
        Inl e \<Rightarrow> (Some (WrapErr ''failed to read source file: '' (Errorf e)), d)
      | Inr b \<Rightarrow>
        (case wflt of Some e \<Rightarrow> (Some (WrapErr ''failed to write destination file: '' (Errorf e)), d)
         | None \<Rightarrow> (None, d(dst \<mapsto> b))))"

definition isJSONFile :: "string \<Rightarrow> bool" where
  "isJSONFile path = has_suffix (to_lower path) ''.json''"

text \<open>The watcher's own copy of the validation.\<close>

definition watcher_validate :: "transmit_request option \<Rightarrow> string option" where
  "watcher_validate arg =
     (case arg of None \<Rightarrow> Some ''request cannot be nil''
      | Some req \<Rightarrow>
        if T_DestinationPartnerID req = [] then Some ''destination_partner_id is required''
        else if T_DocumentType req = [] then Some ''document_type is required''
        else if T_Payload req = [] then Some ''payload is required and cannot be empty''
        else None)"

section \<open>One file\<close>

record file_env =
  fe_meanwhile :: "disk \<Rightarrow> disk" \<comment> \<open>other processes, during the sleep\<close>
  fe_read :: fault
  fe_uuid :: string
  fe_now :: time
  fe_now_db :: time
  fe_create :: fault
  fe_rename :: fault
  fe_copy_read :: fault
  fe_copy_write :: fault
  fe_remove :: fault

definition archive_path :: "string \<Rightarrow> string" where \<comment> \<open>\<open>filepath.Join\<close> cleans the path\<close>
  "archive_path messageID = ''fidex/archive/'' @ messageID @ ''.json''"

definition archive_file :: "file_env \<Rightarrow> string \<Rightarrow> disk \<Rightarrow> goerr option \<times> disk" where
  "archive_file E path d =
     (case Rename (fe_rename E) path (archive_path (fe_uuid E)) d of
        (None, d1) \<Rightarrow> (None, d1)
      | (Some _, d1) \<Rightarrow>
        (case copyFile (fe_copy_read E) (fe_copy_write E) path (archive_path (fe_uuid E)) d1 of
           (Some e, d2) \<Rightarrow> (Some (WrapErr ''failed to archive file: '' e), d2)
         | (None, d2) \<Rightarrow> (None, snd (Remove (fe_remove E) path d2))))"

definition processFile ::
  "libs \<Rightarrow> file_env \<Rightarrow> string \<Rightarrow> disk \<Rightarrow> msg_table \<Rightarrow> goerr option \<times> disk \<times> msg_table" where
  "processFile L E path d0 t =
     (let d = fe_meanwhile E d0 in
      case ReadFile (fe_read E) path d of
        Inl e \<Rightarrow> (Some (WrapErr ''failed to read file: '' (Errorf e)), d, t)
      | Inr fileData \<Rightarrow>
        (case decode_transmit L (parse_json fileData) of
           None \<Rightarrow> (Some (WrapErr ''invalid JSON in file: '' (Errorf (json_error L fileData))), d, t)
         | Some req \<Rightarrow>
           (case watcher_validate (Some req) of
              Some err \<Rightarrow> (Some (WrapErr ''validation failed: '' (Errorf err)), d, t)
            | None \<Rightarrow>
              let msg = new_message (fe_uuid E) DirectionOutbound StatusQueued fileData (fe_now E) in
              (case Msg_Create (fe_create E) (fe_now_db E) (Some msg) t of
                 (Inl e, t1) \<Rightarrow> (Some (WrapErr ''failed to insert message into database: '' e), d, t1)
               | (Inr _, t1) \<Rightarrow> (case archive_file E path d of (res, d1) \<Rightarrow> (res, d1, t1))))))"

section \<open>The loop\<close>

datatype fs_op = FsCreate | FsWrite | FsRemove | FsRename | FsChmod

record fs_event =
  ev_name :: string
  ev_op :: "fs_op list"
  ev_since :: time \<comment> \<open>the clock of \<open>time.Since\<close>\<close>
  ev_mark :: time
  ev_clean :: time
  ev_env :: file_env

record watch_state =
  processedFiles :: "string \<rightharpoonup> time"
  ws_disk :: disk
  ws_msgs :: msg_table

definition debounceDelay :: duration where "debounceDelay = 500 * millisecond"

definition cleanupProcessedFiles :: "time \<Rightarrow> (string \<rightharpoonup> time) \<Rightarrow> (string \<rightharpoonup> time)" where
  "cleanupProcessedFiles now m =
     (\<lambda>k. case m k of None \<Rightarrow> None | Some ts \<Rightarrow> if ts < now - 5 * minute then None else Some ts)"

definition handle_event :: "libs \<Rightarrow> fs_event \<Rightarrow> watch_state \<Rightarrow> watch_state" where
  "handle_event L ev s =
     (if \<not> list_ex (\<lambda>p. p = FsWrite \<or> p = FsCreate) (ev_op ev) then s
      else if \<not> isJSONFile (ev_name ev) then s
      else if (case processedFiles s (ev_name ev) of Some t \<Rightarrow> ev_since ev - t < debounceDelay | None \<Rightarrow> False)
      then s
      else
        (case processFile L (ev_env ev) (ev_name ev) (ws_disk s) (ws_msgs s) of
           (res, d1, t1) \<Rightarrow>
             \<lparr>processedFiles = cleanupProcessedFiles (ev_clean ev) ((processedFiles s)(ev_name ev \<mapsto> ev_mark ev)),
              ws_disk = d1, ws_msgs = t1\<rparr>))"

datatype selected = Event fs_event | EventsClosed | WatchErr string | ErrorsClosed | Stopped

fun watchLoop :: "libs \<Rightarrow> selected list \<Rightarrow> watch_state \<Rightarrow> watch_state" where
  "watchLoop L [] s = s"
| "watchLoop L (Event ev # xs) s = watchLoop L xs (handle_event L ev s)"
| "watchLoop L (EventsClosed # xs) s = s"
| "watchLoop L (WatchErr e # xs) s = watchLoop L xs s"
| "watchLoop L (ErrorsClosed # xs) s = s"
| "watchLoop L (Stopped # xs) s = s"

section \<open>Life cycle\<close>

record file_watcher =
  fw_done_closed :: bool
  fw_watching :: "string list"

definition NewFileWatcher :: "fault \<Rightarrow> bool \<Rightarrow> file_watcher result" where \<comment> \<open>whether a repository is given\<close>
  "NewFileWatcher flt has_repo =
     (if \<not> has_repo then Inl (Errorf ''messageRepo cannot be nil'')
      else case flt of Some e \<Rightarrow> Inl (WrapErr ''failed to create fsnotify watcher: '' (Errorf e))
      | None \<Rightarrow> Inr \<lparr>fw_done_closed = False, fw_watching = []\<rparr>)"

text \<open>\<open>mkdir p\<close> is the error of \<open>os.MkdirAll\<close>; the loop stops at the first one.\<close>

fun make_dirs :: "(string \<Rightarrow> fault) \<Rightarrow> string list \<Rightarrow> goerr option" where
  "make_dirs mkdir [] = None"
| "make_dirs mkdir (d # ds) =
     (case mkdir d of Some e \<Rightarrow> Some (WrapErr (''failed to create directory '' @ d @ '': '') (Errorf e))
      | None \<Rightarrow> make_dirs mkdir ds)"

definition ensureDirectories :: "(string \<Rightarrow> fault) \<Rightarrow> goerr option" where
  "ensureDirectories mkdir = make_dirs mkdir [outboxDir, archiveDir]"

definition Start_watcher :: "(string \<Rightarrow> fault) \<Rightarrow> fault \<Rightarrow> file_watcher \<Rightarrow> goerr option \<times> file_watcher" where
  "Start_watcher mkdir aflt fw =
     (case ensureDirectories mkdir of
        Some e \<Rightarrow> (Some (WrapErr ''failed to ensure directories: '' e), fw)
      | None \<Rightarrow>
        (case aflt of Some e \<Rightarrow> (Some (WrapErr ''failed to watch outbox directory: '' (Errorf e)), fw)
         | None \<Rightarrow> (None, fw\<lparr>fw_watching := fw_watching fw @ [outboxDir]\<rparr>)))"

text \<open>Closing the channel a second time panics: \<open>None\<close>.\<close>

definition Stop_watcher :: "fault \<Rightarrow> file_watcher \<Rightarrow> (goerr option \<times> file_watcher) option" where
  "Stop_watcher cflt fw =
     (if fw_done_closed fw then None
      else Some (map_option Errorf cflt, fw\<lparr>fw_done_closed := True, fw_watching := []\<rparr>))"

section \<open>Facts\<close>

lemma watcher_validate_api: "watcher_validate = validateTransmitRequest"
  by (simp add: fun_eq_iff watcher_validate_def validateTransmitRequest_def)

lemma msgs_ok_processFile [inv_intros]:
  assumes "msgs_ok t"
  shows "msgs_ok (snd (snd (processFile L E path d t)))"
proof -
  have "msgs_ok t1" if "Msg_Create (fe_create E) (fe_now_db E) m t = (r, t1)" for m r t1
    using msgs_ok_Create [OF assms, of "fe_create E" "fe_now_db E" m] that by simp
  with assms show ?thesis
    by (auto simp: processFile_def Let_def split: sum.split option.split prod.split)
qed

lemma msgs_ok_handle_event [inv_intros]: "msgs_ok (ws_msgs s) \<Longrightarrow> msgs_ok (ws_msgs (handle_event L ev s))"
  using msgs_ok_processFile [of "ws_msgs s" L "ev_env ev" "ev_name ev" "ws_disk s"]
  by (auto simp: handle_event_def split: prod.split)

lemma msgs_ok_watchLoop [inv_intros]: "msgs_ok (ws_msgs s) \<Longrightarrow> msgs_ok (ws_msgs (watchLoop L xs s))"
  by (induction L xs s rule: watchLoop.induct) (auto intro: inv_intros)

text \<open>An event that reaches \<open>processFile\<close>, and a file that it accepts.\<close>

definition reaches :: "watch_state \<Rightarrow> fs_event \<Rightarrow> bool" where
  "reaches s ev \<longleftrightarrow> (FsWrite \<in> set (ev_op ev) \<or> FsCreate \<in> set (ev_op ev)) \<and> isJSONFile (ev_name ev)
     \<and> (\<forall>t. processedFiles s (ev_name ev) = Some t \<longrightarrow> debounceDelay \<le> ev_since ev - t)"

definition acceptable :: "libs \<Rightarrow> string \<Rightarrow> bool" where
  "acceptable L b \<longleftrightarrow> (\<exists>req. decode_transmit L (parse_json b) = Some req \<and> validateTransmitRequest (Some req) = None)"

lemma acceptable_nonempty: "acceptable L b \<Longrightarrow> b \<noteq> []"
  by (auto simp: acceptable_def decode_transmit_def)

lemma handle_event_reaches:
  "reaches s ev \<Longrightarrow> handle_event L ev s =
    (case processFile L (ev_env ev) (ev_name ev) (ws_disk s) (ws_msgs s) of
       (res, d1, t1) \<Rightarrow>
         \<lparr>processedFiles = cleanupProcessedFiles (ev_clean ev) ((processedFiles s)(ev_name ev \<mapsto> ev_mark ev)),
          ws_disk = d1, ws_msgs = t1\<rparr>)"
  by (auto simp: reaches_def handle_event_def list_ex_iff split: option.splits)

lemma handle_event_skips: "\<not> reaches s ev \<Longrightarrow> handle_event L ev s = s"
  by (auto simp: reaches_def handle_event_def list_ex_iff split: option.splits)

lemma processFile_rejects:
  assumes "\<forall>b. fe_meanwhile E d path = Some b \<longrightarrow> \<not> acceptable L b"
  shows "\<exists>e. processFile L E path d t = (Some e, fe_meanwhile E d, t)"
  using assms
  by (auto simp: processFile_def ReadFile_def acceptable_def watcher_validate_api Let_def split: option.splits)

lemma processFile_accepts:
  assumes "fe_meanwhile E d path = Some b" and "acceptable L b" and "fe_read E = None"
  shows "processFile L E path d t =
    (case Msg_Create (fe_create E) (fe_now_db E)
            (Some (new_message (fe_uuid E) DirectionOutbound StatusQueued b (fe_now E))) t of
       (Inl e, t1) \<Rightarrow>
         (Some (WrapErr ''failed to insert message into database: '' e), fe_meanwhile E d, t1)
     | (Inr m, t1) \<Rightarrow> (case archive_file E path (fe_meanwhile E d) of (res, d1) \<Rightarrow> (res, d1, t1)))"
  using assms by (auto simp: processFile_def ReadFile_def acceptable_def watcher_validate_api Let_def)

text \<open>What one file can do to the table: nothing, or one row with its bytes.\<close>

lemma processFile_table:
  "snd (snd (processFile L E path d t)) = t
   \<or> (\<exists>b m. fe_meanwhile E d path = Some b \<and> acceptable L b
       \<and> m = stored_form (fe_now_db E) (new_message (fe_uuid E) DirectionOutbound StatusQueued b (fe_now E))
       \<and> snd (snd (processFile L E path d t)) = tbl_insert set_msg_id m t
       \<and> fst (snd (processFile L E path d t)) = snd (archive_file E path (fe_meanwhile E d)))"
proof (cases "\<exists>b. fe_meanwhile E d path = Some b \<and> acceptable L b")
  case False
  then show ?thesis using processFile_rejects [of E d path L t] by auto
next
  case True
  then obtain b where b: "fe_meanwhile E d path = Some b" "acceptable L b" by blast
  show ?thesis
  proof (cases "fe_read E")
    case (Some e)
    then show ?thesis by (simp add: processFile_def ReadFile_def Let_def)
  next
    case None
    let ?m = "new_message (fe_uuid E) DirectionOutbound StatusQueued b (fe_now E)"
    obtain r t1 where cr: "Msg_Create (fe_create E) (fe_now_db E) (Some ?m) t = (r, t1)" by fastforce
    show ?thesis
    proof (cases r)
      case (Inl e)
      then show ?thesis using Msg_Create_err cr by (simp add: processFile_accepts [OF b None])
    next
      case (Inr m')
      then have "t1 = tbl_insert set_msg_id (stored_form (fe_now_db E) ?m) t" using Msg_Create_ok(6) cr by blast
      then show ?thesis using b cr Inr by (auto simp: processFile_accepts [OF b None] split: prod.split)
    qed
  qed
qed

lemma archive_renames:
  assumes "fe_rename E = None" and "archive_path (fe_uuid E) \<noteq> path"
  shows "snd (archive_file E path d) path = None \<or> d path = None \<and> snd (archive_file E path d) path = None"
  using assms
  by (auto simp: archive_file_def Rename_def copyFile_def ReadFile_def split: option.splits)

section \<open>A concrete outbox\<close>

definition demo_file :: string where "demo_file = print_json (outbound_json ''urn:b'' ''invoice'' [] demo_doc)"

lemma demo_file_acceptable: "acceptable num_libs demo_file"
proof -
  have "parse_json demo_file = Some (outbound_json ''urn:b'' ''invoice'' [] demo_doc)"
    unfolding demo_file_def by (rule parse_print) (simp add: outbound_json_def demo_doc_wf)
  then show ?thesis
    by (simp add: acceptable_def decode_transmit_def outbound_json_def opt_str_def demo_doc_def num_libs_def
        demo_valid_num dec_eval validateTransmitRequest_def)
qed

definition demo_file_env :: file_env where
  "demo_file_env = \<lparr>fe_meanwhile = (\<lambda>d. d), fe_read = None, fe_uuid = ''u-1'', fe_now = 7, fe_now_db = 8,
     fe_create = None, fe_rename = None, fe_copy_read = None, fe_copy_write = None, fe_remove = None\<rparr>"

definition demo_event :: "time \<Rightarrow> fs_event" where
  "demo_event now = \<lparr>ev_name = ''o/a.json'', ev_op = [FsCreate], ev_since = now, ev_mark = now, ev_clean = now,
     ev_env = demo_file_env\<rparr>"

definition demo_watch :: "string \<Rightarrow> watch_state" where
  "demo_watch content = \<lparr>processedFiles = Map.empty, ws_disk = [''o/a.json'' \<mapsto> content], ws_msgs = empty_table\<rparr>"

lemma demo_reaches: "reaches (demo_watch b) (demo_event now)"
  by (simp add: reaches_def demo_watch_def demo_event_def isJSONFile_def has_suffix_def to_lower_def lower_char_def)

section \<open>Properties\<close>

text \<open>C30: A complete JSON file that is dropped into the outbox becomes one queued outbound message
  with the bytes of the file, and the file moves to the archive under the message id.\<close>

theorem dropped_file_queued:
  assumes "reaches s ev" and "ev_name ev = f" and "ev_env ev = E" and "fe_meanwhile E (ws_disk s) = ws_disk s"
    and "ws_disk s f = Some b" and "acceptable L b" and "fe_read E = None \<and> fe_create E = None \<and> fe_rename E = None"
    and "fe_uuid E \<noteq> []" and "find_msg (fe_uuid E) (ws_msgs s) = None"
  shows "ws_disk (handle_event L ev s) = (ws_disk s)(f := None, archive_path (fe_uuid E) := Some b)
    \<and> (\<exists>m. find_msg (fe_uuid E) (ws_msgs (handle_event L ev s)) = Some m \<and> Payload m = b
         \<and> Status m = StatusQueued \<and> Direction m = DirectionOutbound \<and> RetryCount m = 0 \<and> NextRetryAt m = None)
    \<and> (\<forall>k. k \<noteq> fe_uuid E \<longrightarrow> find_msg k (ws_msgs (handle_event L ev s)) = find_msg k (ws_msgs s))"
proof -
  let ?m = "new_message (fe_uuid E) DirectionOutbound StatusQueued b (fe_now E)"
  have mid: "MessageID ?m = fe_uuid E" by (simp add: new_message_def)
  have cr: "Msg_Create None (fe_now_db E) (Some ?m) (ws_msgs s)
      = (Inr (set_msg_id (next_id (ws_msgs s)) (stored_form (fe_now_db E) ?m)),
         tbl_insert set_msg_id (stored_form (fe_now_db E) ?m) (ws_msgs s))"
    using assms(8,9) acceptable_nonempty [OF assms(6)] by (simp add: Msg_Create_Some new_message_def)
  have h: "handle_event L ev s =
      \<lparr>processedFiles = cleanupProcessedFiles (ev_clean ev) ((processedFiles s)(f \<mapsto> ev_mark ev)),
       ws_disk = (ws_disk s)(f := None, archive_path (fe_uuid E) := Some b),
       ws_msgs = tbl_insert set_msg_id (stored_form (fe_now_db E) ?m) (ws_msgs s)\<rparr>"
    using assms(2-7) cr
    by (simp add: handle_event_reaches [OF assms(1)] processFile_accepts archive_file_def Rename_def)
  have "tbl_find MessageID k (tbl_insert set_msg_id (stored_form (fe_now_db E) ?m) (ws_msgs s))
      = (if k = fe_uuid E then Some (set_msg_id (next_id (ws_msgs s)) (stored_form (fe_now_db E) ?m))
         else find_msg k (ws_msgs s))" for k
    using msgs.find_insert [of "stored_form (fe_now_db E) ?m" "ws_msgs s" k] assms(9) by (simp add: mid)
  then show ?thesis by (simp add: h set_msg_id_def new_message_def)
qed

theorem dropped_file_queued_witness:
  "\<exists>m. find_msg ''u-1'' (ws_msgs (handle_event num_libs (demo_event 3) (demo_watch demo_file))) = Some m
     \<and> Payload m = demo_file \<and> Status m = StatusQueued"
  using dropped_file_queued [OF demo_reaches [of demo_file 3] refl refl, of demo_file num_libs] demo_file_acceptable
  by (auto simp: demo_event_def demo_file_env_def demo_watch_def tbl_find_def empty_table_def)

text \<open>However many events a file causes, it is queued at most once when its archiving succeeds:
  a file that has been moved away cannot be read again.\<close>

theorem dropped_file_once:
  assumes "\<forall>x \<in> set xs. \<exists>ev. x = Event ev \<and> ev_name ev = f \<and> (\<forall>d. fe_meanwhile (ev_env ev) d = d)
      \<and> fe_rename (ev_env ev) = None \<and> archive_path (fe_uuid (ev_env ev)) \<noteq> f"
  shows "length (rows (ws_msgs (watchLoop L xs s))) \<le> length (rows (ws_msgs s)) + 1"
proof -
  have stay: "ws_msgs (watchLoop L xs s) = ws_msgs s"
    if "ws_disk s f = None" and "\<forall>x \<in> set xs. \<exists>ev. x = Event ev \<and> ev_name ev = f \<and> (\<forall>d. fe_meanwhile (ev_env ev) d = d)" for xs s
    using that
  proof (induction xs arbitrary: s)
    case (Cons x xs)
    then obtain ev where x: "x = Event ev" "ev_name ev = f" "\<And>d. fe_meanwhile (ev_env ev) d = d" by auto
    have "ws_msgs (handle_event L ev s) = ws_msgs s \<and> ws_disk (handle_event L ev s) f = None"
      using processFile_rejects [of "ev_env ev" "ws_disk s" f L "ws_msgs s"] x Cons.prems(1)
      by (cases "reaches s ev") (auto simp: handle_event_reaches handle_event_skips)
    with Cons.IH [of "handle_event L ev s"] Cons.prems(2) x(1) show ?case by simp
  qed simp
  show ?thesis
    using assms
  proof (induction xs arbitrary: s)
    case (Cons x xs)
    then obtain ev where x: "x = Event ev" "ev_name ev = f" "\<And>d. fe_meanwhile (ev_env ev) d = d"
      "fe_rename (ev_env ev) = None" "archive_path (fe_uuid (ev_env ev)) \<noteq> f" by auto
    show ?case
    proof (cases "ws_msgs (handle_event L ev s) = ws_msgs s")
      case True
      with Cons.IH [of "handle_event L ev s"] Cons.prems x(1) show ?thesis by simp
    next
      case False
      then have r: "reaches s ev" using handle_event_skips by metis
      with False have "length (rows (ws_msgs (handle_event L ev s))) = length (rows (ws_msgs s)) + 1
          \<and> ws_disk (handle_event L ev s) f = None"
        using processFile_table [of L "ev_env ev" f "ws_disk s" "ws_msgs s"] archive_renames [OF x(4,5), of "ws_disk s"] x
        by (auto simp: handle_event_reaches [OF r] row_simps split: prod.splits)
      with stay [of "handle_event L ev s" xs] Cons.prems x(1) show ?thesis by force
    qed
  qed simp
qed

theorem dropped_file_once_witness:
  "length (rows (ws_msgs (watchLoop num_libs [Event (demo_event 3), Event (demo_event second)] (demo_watch demo_file)))) \<le> 1"
  using dropped_file_once [of "[Event (demo_event 3), Event (demo_event second)]" "''o/a.json''" num_libs "demo_watch demo_file"]
  by (auto simp: demo_event_def demo_file_env_def demo_watch_def archive_path_def empty_table_def)

text \<open>C31: A write that completes a file within the debounce delay of an event that saw it incomplete
  is lost: the complete file stays in the outbox and nothing is queued.\<close>

theorem late_write_lost:
  assumes "reaches s e1" and "ev_name e1 = f" and "ev_name e2 = f"
    and "\<forall>b. fe_meanwhile (ev_env e1) (ws_disk s) f = Some b \<longrightarrow> \<not> acceptable L b"
    and "ev_clean e1 \<le> ev_mark e1 + 5 * minute" and "ev_since e2 - ev_mark e1 < debounceDelay"
  shows "let s1 = handle_event L e1 s; s2 = s1\<lparr>ws_disk := (ws_disk s1)(f \<mapsto> b2)\<rparr>
    in ws_msgs (handle_event L e2 s2) = ws_msgs s \<and> ws_disk (handle_event L e2 s2) f = Some b2"
proof -
  obtain e where pf: "processFile L (ev_env e1) f (ws_disk s) (ws_msgs s)
      = (Some e, fe_meanwhile (ev_env e1) (ws_disk s), ws_msgs s)"
    using processFile_rejects [OF assms(4)] by blast
  have s1: "ws_msgs (handle_event L e1 s) = ws_msgs s"
    "processedFiles (handle_event L e1 s) f = Some (ev_mark e1)"
    using assms(2,5) pf by (auto simp: handle_event_reaches [OF assms(1)] cleanupProcessedFiles_def)
  have "\<not> reaches ((handle_event L e1 s)\<lparr>ws_disk := d\<rparr>) e2" for d
    using s1(2) assms(3,6) by (auto simp: reaches_def)
  then show ?thesis by (simp add: Let_def handle_event_skips s1(1))
qed

theorem late_write_lost_witness:
  "let s1 = handle_event num_libs (demo_event 3) (demo_watch []); s2 = s1\<lparr>ws_disk := (ws_disk s1)(''o/a.json'' \<mapsto> demo_file)\<rparr>
   in ws_disk (handle_event num_libs (demo_event (3 + 300 * millisecond)) s2) ''o/a.json'' = Some demo_file
     \<and> ws_msgs (handle_event num_libs (demo_event (3 + 300 * millisecond)) s2) = empty_table"
proof -
  have "\<not> acceptable num_libs []" using acceptable_nonempty by blast
  then show ?thesis
    using late_write_lost [OF demo_reaches [of "[]" 3], of "''o/a.json''" "demo_event (3 + 300 * millisecond)" num_libs demo_file]
    by (simp add: demo_event_def demo_file_env_def demo_watch_def debounceDelay_def minute_def second_def millisecond_def Let_def)
qed

end
