(* ===== verification/Hub.thy ===== *)
theory Hub
  imports Json
begin

text \<open>
  \<open>internal/dashboard/websocket.go\<close>: the hub that broadcasts events to WebSocket clients. One
  goroutine runs the hub, every client has a reading and a writing goroutine, and they meet
  over channels; each function below is what one goroutine does between two such meetings, and
  \<open>hub_step\<close> interleaves them in any order. A client is the index of its record in \<open>conns\<close>.
  A send on a closed channel and a second close of a channel panic: the flag \<open>panicked\<close>.
  \<open>hist\<close>, \<open>c_from\<close> and \<open>c_sent\<close> only record what happened.
\<close>

section \<open>Clients and the hub\<close>

datatype reader = Registering | Reading | Leaving | Left
datatype writer = NotStarted | Idle | Holding string | Exited

record client =
  c_name :: string
  c_in_map :: bool \<comment> \<open>a key of \<open>clients\<close>\<close>
  c_buf :: "string list" \<comment> \<open>the channel \<open>send\<close>, of capacity 256\<close>
  c_closed :: bool
  c_reader :: reader
  c_writer :: writer
  c_frames :: "string list list" \<comment> \<open>the messages of each frame written to the connection\<close>
  c_from :: nat
  c_sent :: "string list"

record hub =
  conns :: "client list"
  broadcast :: "string list" \<comment> \<open>the channel of capacity 256\<close>
  panicked :: bool
  hist :: "string list"

definition capacity :: nat where "capacity = 256"

definition NewHub :: hub where
  "NewHub = \<lparr>conns = [], broadcast = [], panicked = False, hist = []\<rparr>"

section \<open>The main loop\<close>

text \<open>One branch of the \<open>select\<close> in \<open>Run\<close> each.\<close>

definition run_register :: "nat \<Rightarrow> hub \<Rightarrow> hub" where
  "run_register i h = h\<lparr>conns := (conns h)[i := (conns h ! i)
     \<lparr>c_in_map := True, c_reader := Reading, c_writer := Idle, c_from := length (hist h)\<rparr>]\<rparr>"

definition run_unregister :: "nat \<Rightarrow> hub \<Rightarrow> hub" where
  "run_unregister i h =
     (let c = conns h ! i; c1 = c\<lparr>c_reader := Left\<rparr> in
      if c_in_map c
      then h\<lparr>conns := (conns h)[i := c1\<lparr>c_in_map := False, c_closed := True\<rparr>],
             panicked := (panicked h \<or> c_closed c)\<rparr>
      else h\<lparr>conns := (conns h)[i := c1]\<rparr>)"

definition deliver :: "string \<Rightarrow> client \<Rightarrow> client" where
  "deliver m c =
     (if \<not> c_in_map c then c
      else if length (c_buf c) < capacity then c\<lparr>c_buf := c_buf c @ [m], c_sent := c_sent c @ [m]\<rparr>
      else c\<lparr>c_closed := True, c_in_map := False\<rparr>)"

definition run_broadcast :: "hub \<Rightarrow> hub" where
  "run_broadcast h =
     (case broadcast h of [] \<Rightarrow> h
      | m # ms \<Rightarrow>
        h\<lparr>broadcast := ms, conns := map (deliver m) (conns h), hist := hist h @ [m],
          panicked := (panicked h \<or> list_ex (\<lambda>c. c_in_map c \<and> c_closed c) (conns h))\<rparr>)"

text \<open>\<open>Broadcast\<close> marshals the event and sends it; the send blocks while the channel is full.\<close>

definition ws_message :: "string \<Rightarrow> json \<Rightarrow> string" where
  "ws_message ty data = print_json (JObj [(''type'', JStr ty), (''data'', data)])"

definition Broadcast :: "string \<Rightarrow> json \<Rightarrow> hub \<Rightarrow> hub option" where
  "Broadcast ty data h =
     (if length (broadcast h) < capacity then Some (h\<lparr>broadcast := broadcast h @ [ws_message ty data]\<rparr>) else None)"

definition ClientCount :: "hub \<Rightarrow> nat" where
  "ClientCount h = length (filter c_in_map (conns h))"

section \<open>The goroutines of a client\<close>

text \<open>\<open>ServeWs\<close> creates the client and waits until the hub takes it; then its pumps start.\<close>

definition ServeWs :: "string \<Rightarrow> hub \<Rightarrow> hub" where
  "ServeWs name h = h\<lparr>conns := conns h @ [\<lparr>c_name = name, c_in_map = False, c_buf = [], c_closed = False,
     c_reader = Registering, c_writer = NotStarted, c_frames = [], c_from = 0, c_sent = []\<rparr>]\<rparr>"

definition on_client :: "nat \<Rightarrow> (client \<Rightarrow> client) \<Rightarrow> hub \<Rightarrow> hub" where
  "on_client i f h = h\<lparr>conns := (conns h)[i := f (conns h ! i)]\<rparr>"

text \<open>\<open>readPump\<close>: after a read error the deferred function waits for the hub.\<close>

definition read_error :: "client \<Rightarrow> client" where
  "read_error c = c\<lparr>c_reader := Leaving\<rparr>"

text \<open>\<open>writePump\<close>: it receives one message, then writes it with all that are queued behind it as
  one frame; on a closed and drained channel, and on an error of the connection, it returns.\<close>

definition write_receive :: "client \<Rightarrow> client" where
  "write_receive c = (case c_buf c of [] \<Rightarrow> c\<lparr>c_writer := Exited\<rparr> | m # ms \<Rightarrow> c\<lparr>c_buf := ms, c_writer := Holding m\<rparr>)"

definition write_frame :: "string \<Rightarrow> client \<Rightarrow> client" where
  "write_frame m c = c\<lparr>c_frames := c_frames c @ [m # c_buf c], c_buf := [], c_writer := Idle\<rparr>"

definition write_error :: "client \<Rightarrow> client" where
  "write_error c = c\<lparr>c_writer := Exited\<rparr>"

text \<open>The bytes of a frame: the messages separated by newlines.\<close>

fun frame_bytes :: "string list \<Rightarrow> string" where
  "frame_bytes [] = []"
| "frame_bytes [m] = m"
| "frame_bytes (m # ms) = m @ CHR 0x0A # frame_bytes ms"

section \<open>Steps\<close>

inductive hub_step :: "hub \<Rightarrow> hub \<Rightarrow> bool" where
  serve: "hub_step h (ServeWs name h)"
| register: "i < length (conns h) \<Longrightarrow> c_reader (conns h ! i) = Registering \<Longrightarrow> hub_step h (run_register i h)"
| unregister: "i < length (conns h) \<Longrightarrow> c_reader (conns h ! i) = Leaving \<Longrightarrow> hub_step h (run_unregister i h)"
| send: "Broadcast ty data h = Some h' \<Longrightarrow> hub_step h h'"
| relay: "broadcast h \<noteq> [] \<Longrightarrow> hub_step h (run_broadcast h)"
| read_fails: "i < length (conns h) \<Longrightarrow> c_reader (conns h ! i) = Reading \<Longrightarrow> hub_step h (on_client i read_error h)"
| receive: "i < length (conns h) \<Longrightarrow> c_writer (conns h ! i) = Idle \<Longrightarrow>
    c_buf (conns h ! i) \<noteq> [] \<or> c_closed (conns h ! i) \<Longrightarrow> hub_step h (on_client i write_receive h)"
| frame: "i < length (conns h) \<Longrightarrow> c_writer (conns h ! i) = Holding m \<Longrightarrow> hub_step h (on_client i (write_frame m) h)"
| write_fails: "i < length (conns h) \<Longrightarrow> c_writer (conns h ! i) = Idle \<or> c_writer (conns h ! i) = Holding m \<Longrightarrow>
    hub_step h (on_client i write_error h)"

inductive_cases hub_stepE: "hub_step h h'"

definition hub_reachable :: "hub \<Rightarrow> bool" where
  "hub_reachable h \<longleftrightarrow> hub_step\<^sup>*\<^sup>* NewHub h"

lemma hub_reachable_start: "hub_reachable NewHub"
  by (simp add: hub_reachable_def)

lemma hub_reachable_step: "hub_reachable h \<Longrightarrow> hub_step h h' \<Longrightarrow> hub_reachable h'"
  by (simp add: hub_reachable_def)

section \<open>The invariant\<close>

text \<open>A client in the map has an open channel and is past its registration; what the hub put into
  its channel is what the connection got, then what the writer holds, then what is queued, unless
  the writer is gone; and it is everything broadcast since the registration.\<close>

definition in_flight :: "client \<Rightarrow> string list" where
  "in_flight c = concat (c_frames c) @ (case c_writer c of Holding m \<Rightarrow> [m] | _ \<Rightarrow> []) @ c_buf c"

definition client_ok :: "string list \<Rightarrow> client \<Rightarrow> bool" where
  "client_ok hs c \<longleftrightarrow>
     (c_in_map c \<longrightarrow> \<not> c_closed c \<and> c_reader c \<noteq> Registering \<and> c_sent c = drop (c_from c) hs \<and> c_from c \<le> length hs)
     \<and> (c_reader c = Registering \<longrightarrow> \<not> c_closed c \<and> c_sent c = [] \<and> in_flight c = [])
     \<and> (c_writer c \<noteq> Exited \<longrightarrow> in_flight c = c_sent c)
     \<and> (\<exists>rest. c_sent c = concat (c_frames c) @ rest)
     \<and> length (c_buf c) \<le> capacity"

definition hub_ok :: "hub \<Rightarrow> bool" where
  "hub_ok h \<longleftrightarrow> \<not> panicked h \<and> list_all (client_ok (hist h)) (conns h) \<and> length (broadcast h) \<le> capacity"

lemma hub_ok_client: "hub_ok h \<Longrightarrow> i < length (conns h) \<Longrightarrow> client_ok (hist h) (conns h ! i)"
  by (simp add: hub_ok_def list_all_length)

lemma list_all_list_update: "list_all P xs \<Longrightarrow> P y \<Longrightarrow> list_all P (xs[i := y])"
  by (auto simp: list_all_iff dest: set_update_subset_insert [THEN subsetD])

lemma hub_ok_on_client:
  assumes "hub_ok h" and "i < length (conns h)" and "client_ok (hist h) (conns h ! i) \<Longrightarrow> client_ok (hist h) (f (conns h ! i))"
  shows "hub_ok (on_client i f h)"
  using assms hub_ok_client [OF assms(1,2)] by (simp add: hub_ok_def on_client_def list_all_list_update)

lemma client_ok_deliver: "client_ok hs c \<Longrightarrow> client_ok (hs @ [m]) (deliver m c)"
  by (auto simp: client_ok_def deliver_def in_flight_def capacity_def)

lemma client_ok_read_error: "client_ok hs c \<Longrightarrow> c_reader c = Reading \<Longrightarrow> client_ok hs (read_error c)"
  by (auto simp: client_ok_def read_error_def in_flight_def)

lemma client_ok_receive: "client_ok hs c \<Longrightarrow> c_writer c = Idle \<Longrightarrow> client_ok hs (write_receive c)"
  by (auto simp: client_ok_def write_receive_def in_flight_def split: list.split)

lemma client_ok_frame: "client_ok hs c \<Longrightarrow> c_writer c = Holding m \<Longrightarrow> client_ok hs (write_frame m c)"
  by (auto simp: client_ok_def write_frame_def in_flight_def)

lemma client_ok_write_error:
  "client_ok hs c \<Longrightarrow> c_writer c = Idle \<or> c_writer c = Holding m \<Longrightarrow> client_ok hs (write_error c)"
  by (auto simp: client_ok_def write_error_def in_flight_def)

lemma hub_ok_step: "hub_step h h' \<Longrightarrow> hub_ok h \<Longrightarrow> hub_ok h'"
proof (induction rule: hub_step.induct)
  case (serve h name)
  then show ?case by (simp add: hub_ok_def ServeWs_def client_ok_def in_flight_def capacity_def)
next
  case (register i h)
  have "client_ok (hist h) ((conns h ! i)\<lparr>c_in_map := True, c_reader := Reading, c_writer := Idle, c_from := length (hist h)\<rparr>)"
    using hub_ok_client [OF register(3,1)] register(2) by (auto simp: client_ok_def in_flight_def)
  with register(3) show ?case by (simp add: hub_ok_def run_register_def list_all_list_update)
next
  case (unregister i h)
  have ok: "client_ok (hist h) (conns h ! i)" using hub_ok_client unregister by blast
  then have "client_ok (hist h) ((conns h ! i)\<lparr>c_reader := Left, c_in_map := False, c_closed := True\<rparr>)"
    "\<not> c_in_map (conns h ! i) \<longrightarrow> client_ok (hist h) ((conns h ! i)\<lparr>c_reader := Left\<rparr>)"
    by (auto simp: client_ok_def in_flight_def)
  moreover have "c_in_map (conns h ! i) \<longrightarrow> \<not> c_closed (conns h ! i)" using ok by (simp add: client_ok_def)
  ultimately show ?case
    using unregister(3) by (simp add: hub_ok_def run_unregister_def Let_def list_all_list_update)
next
  case (send ty data h h')
  then show ?case by (auto simp: Broadcast_def hub_ok_def capacity_def split: if_splits)
next
  case (relay h)
  then obtain m ms where b: "broadcast h = m # ms" by (cases "broadcast h") auto
  have "\<not> list_ex (\<lambda>c. c_in_map c \<and> c_closed c) (conns h)"
    using relay(2) by (auto simp: hub_ok_def list_all_iff list_ex_iff client_ok_def)
  moreover have "list_all (client_ok (hist h @ [m])) (map (deliver m) (conns h))"
    using relay(2) by (auto simp: hub_ok_def list_all_iff intro: client_ok_deliver)
  ultimately show ?case using relay(2) b by (simp add: hub_ok_def run_broadcast_def)
qed (blast intro: hub_ok_on_client client_ok_read_error client_ok_receive client_ok_frame client_ok_write_error)+

interpretation hub_machine: invariant_machine hub_step hub_ok
  by unfold_locales (rule hub_ok_step)

lemma hub_ok_reachable: "hub_reachable h \<Longrightarrow> hub_ok h"
  unfolding hub_reachable_def by (erule hub_machine.run_inv) (simp add: hub_ok_def NewHub_def)

section \<open>Properties\<close>

text \<open>However the hub and the goroutines of the clients interleave, no channel is closed twice
  and nothing is sent on a closed channel: the hub never panics.\<close>

theorem hub_never_panics:
  assumes "hub_reachable h"
  shows "\<not> panicked h"
  using hub_ok_reachable [OF assms] by (simp add: hub_ok_def)

text \<open>C32: The hub never panics, and a client that is registered and whose writer runs has got, or is about to get, every
  message that was broadcast since it registered, once and in order; its queue never holds more
  than 256 of them.\<close>

theorem hub_delivers_in_order:
  assumes "hub_reachable h" and "i < length (conns h)" and "c_in_map (conns h ! i)"
  shows "\<not> panicked h \<and> (c_writer (conns h ! i) \<noteq> Exited \<longrightarrow> in_flight (conns h ! i) = drop (c_from (conns h ! i)) (hist h))
    \<and> (\<exists>rest. drop (c_from (conns h ! i)) (hist h) = concat (c_frames (conns h ! i)) @ rest)
    \<and> length (c_buf (conns h ! i)) \<le> 256"
proof -
  have hub: "hub_ok h" by (rule hub_ok_reachable [OF assms(1)])
  then have ok: "client_ok (hist h) (conns h ! i)" using hub_ok_client assms(2) by blast
  then have "c_sent (conns h ! i) = drop (c_from (conns h ! i)) (hist h)" using assms(3) by (simp add: client_ok_def)
  with ok hub show ?thesis by (simp add: client_ok_def hub_ok_def capacity_def)
qed

text \<open>A client that registers, and one event that reaches its connection.\<close>

definition registered_hub :: hub where
  "registered_hub = run_register 0 (ServeWs ''peer'' NewHub)"

definition event_hub :: hub where
  "event_hub = on_client 0 (write_frame (ws_message ''t'' JNull)) (on_client 0 write_receive
     (run_broadcast (registered_hub\<lparr>broadcast := [ws_message ''t'' JNull]\<rparr>)))"

lemmas hub_eval = registered_hub_def event_hub_def run_register_def ServeWs_def NewHub_def on_client_def
  write_frame_def write_receive_def run_broadcast_def deliver_def capacity_def

lemma registered_reachable: "hub_reachable registered_hub"
proof -
  have "hub_reachable (ServeWs ''peer'' NewHub)" by (rule hub_reachable_step [OF hub_reachable_start hub_step.serve])
  then show ?thesis
    unfolding registered_hub_def by (rule hub_reachable_step) (rule hub_step.register, simp_all add: hub_eval)
qed

lemma event_reachable: "hub_reachable event_hub"
proof -
  let ?h1 = "registered_hub\<lparr>broadcast := [ws_message ''t'' JNull]\<rparr>"
  have "hub_step registered_hub ?h1"
    by (rule hub_step.send [of "''t''" JNull]) (simp add: Broadcast_def hub_eval)
  then have "hub_reachable ?h1" using registered_reachable hub_reachable_step by blast
  then have "hub_reachable (run_broadcast ?h1)"
    by (rule hub_reachable_step) (rule hub_step.relay, simp)
  then have "hub_reachable (on_client 0 write_receive (run_broadcast ?h1))"
    by (rule hub_reachable_step) (rule hub_step.receive, simp_all add: hub_eval)
  then show ?thesis
    unfolding event_hub_def by (rule hub_reachable_step) (rule hub_step.frame, simp_all add: hub_eval)
qed

theorem hub_never_panics_witness: "\<not> panicked event_hub \<and> ClientCount event_hub = 1"
  using hub_never_panics [OF event_reachable] by (simp add: ClientCount_def hub_eval)

theorem hub_delivers_in_order_witness:
  "in_flight (conns event_hub ! 0) = [ws_message ''t'' JNull] \<and> c_frames (conns event_hub ! 0) = [[ws_message ''t'' JNull]]"
  using hub_delivers_in_order [OF event_reachable, of 0] by (simp add: hub_eval)

end
