(* ===== verification/Schema.thy ===== *)
theory Schema
  imports MessageRepo
begin

text \<open>
  \<open>internal/repository/schema.go\<close>: creation of the schema and the migration that gives
  older databases the \<open>job_type\<close> column. The \<open>messages\<close> table is the list of its column
  names and its rows; in a table without the column the field \<open>JobType\<close> of a row means
  nothing. The argument \<open>flt\<close> gives the driver's error for each statement in turn. The
  indexes, and the other three tables, which start empty, carry no behaviour.
\<close>

type_synonym messages_schema = "string list \<times> msg_table"

definition message_columns :: "string list" where
  "message_columns = [''id'', ''message_id'', ''direction'', ''status'', ''payload'', ''job_type'',
     ''retry_count'', ''next_retry_at'', ''last_error'', ''created_at'']"

text \<open>\<open>OpenSQLite\<close>: the errors of opening and of the ping, then of the pragmas, which run one by one on
  whichever connection of the pool is at hand.\<close>

fun apply_pragmas :: "(string \<Rightarrow> fault) \<Rightarrow> string list \<Rightarrow> goerr option" where
  "apply_pragmas flt [] = None"
| "apply_pragmas flt (p # ps) =
     (case flt p of Some e \<Rightarrow> Some (WrapErr (''failed to apply pragma '' @ quote_go p @ '': '') (Errorf e))
      | None \<Rightarrow> apply_pragmas flt ps)"

definition OpenSQLite :: "fault \<Rightarrow> fault \<Rightarrow> (string \<Rightarrow> fault) \<Rightarrow> goerr option" where
  "OpenSQLite oflt pflt flt =
     (case oflt of Some e \<Rightarrow> Some (WrapErr ''failed to open database: '' (Errorf e))
      | None \<Rightarrow>
        (case pflt of Some e \<Rightarrow> Some (WrapErr ''failed to ping database: '' (Errorf e))
         | None \<Rightarrow> apply_pragmas flt
             [''PRAGMA journal_mode=WAL;'', ''PRAGMA foreign_keys=ON;'', ''PRAGMA busy_timeout=5000;'']))"

text \<open>The loop over the rows of \<open>PRAGMA table_info\<close>.\<close>

fun column_loop :: "string \<Rightarrow> string list \<Rightarrow> bool" where
  "column_loop c [] = False"
| "column_loop c (n # ns) = (if n = c then True else column_loop c ns)"

definition columnExists :: "fault \<Rightarrow> string list \<Rightarrow> string \<Rightarrow> bool result" where
  "columnExists flt cols c =
     (case flt of Some e \<Rightarrow> Inl (WrapErr ''PRAGMA table_info(messages): '' (Errorf e))
      | None \<Rightarrow> Inr (column_loop c cols))"

text \<open>SQLite's \<open>json_extract(payload, '$.job_type')\<close>: the first member of exactly that name,
  as text; \<open>NULL\<close> is \<open>None\<close>. \<open>json_valid\<close> is the JSON grammar.\<close>

fun sql_text :: "json \<Rightarrow> string option" where
  "sql_text JNull = None"
| "sql_text (JBool b) = Some (if b then ''1'' else ''0'')"
| "sql_text (JNum t) = Some t"
| "sql_text (JStr s) = Some s"
| "sql_text v = Some (print_json v)"

definition extract_job_type :: "string \<Rightarrow> string option" where
  "extract_job_type payload =
     (case parse_json payload of
        Some (JObj ms) \<Rightarrow> (case map_of ms ''job_type'' of None \<Rightarrow> None | Some v \<Rightarrow> sql_text v)
      | _ \<Rightarrow> None)"

text \<open>The two backfill statements.\<close>

definition backfill_payload :: "msg_table \<Rightarrow> msg_table" where
  "backfill_payload = tbl_update (\<lambda>m. JobType m = [] \<and> extract_job_type (Payload m) \<noteq> None)
     (\<lambda>m. m\<lparr>JobType := (case extract_job_type (Payload m) of Some s \<Rightarrow> s | None \<Rightarrow> [])\<rparr>)"

definition backfill_default :: "msg_table \<Rightarrow> msg_table" where
  "backfill_default = tbl_update (\<lambda>m. JobType m = []) (\<lambda>m. m\<lparr>JobType := JobTypeProcessOutbound\<rparr>)"

definition migrateMessagesJobType ::
  "(nat \<Rightarrow> fault) \<Rightarrow> messages_schema \<Rightarrow> goerr option \<times> messages_schema" where
  "migrateMessagesJobType flt s =
     (case columnExists (flt 0) (fst s) ''job_type'' of
        Inl e \<Rightarrow> (Some (WrapErr ''failed to introspect messages columns: '' e), s)
      | Inr present \<Rightarrow>
        if \<not> present \<and> flt 1 \<noteq> None
        then (Some (WrapErr ''ALTER TABLE messages ADD COLUMN job_type failed: ''
                      (Errorf (case flt 1 of Some e \<Rightarrow> e | None \<Rightarrow> []))), s)
        else
          let s1 = (if present then s
                    else (fst s @ [''job_type''], tbl_update (\<lambda>m. True) (\<lambda>m. m\<lparr>JobType := []\<rparr>) (snd s)))
          in case flt 2 of
               Some e \<Rightarrow> (Some (WrapErr ''backfill messages.job_type from payload failed: '' (Errorf e)), s1)
             | None \<Rightarrow>
               let s2 = (fst s1, backfill_payload (snd s1)) in
               (case flt 3 of
                  Some e \<Rightarrow> (Some (WrapErr ''backfill messages.job_type default failed: '' (Errorf e)), s2)
                | None \<Rightarrow>
                  let s3 = (fst s2, backfill_default (snd s2)) in
                  (case flt 4 of
                     Some e \<Rightarrow>
                       (Some (WrapErr ''create idx_messages_status_jobtype_created failed: '' (Errorf e)), s3)
                   | None \<Rightarrow> (None, s3))))"

text \<open>\<open>InitSchema\<close> on a database that may not have the table yet: the \<open>CREATE ... IF NOT EXISTS\<close>
  statements, of which the first makes the table, then the migration. \<open>ddl\<close> is the driver's error
  for each statement.\<close>

definition indent :: "nat \<Rightarrow> string \<Rightarrow> string" where
  "indent n s = replicate n (CHR 0x09) @ s"

fun lines :: "string list \<Rightarrow> string" where
  "lines [] = []"
| "lines [x] = x"
| "lines (x # y # xs) = x @ CHR 0x0A # lines (y # xs)"

definition schema_statements :: "string list" where
  "schema_statements =
     [lines [indent 0 ''CREATE TABLE IF NOT EXISTS messages ('',
        indent 3 ''id INTEGER PRIMARY KEY AUTOINCREMENT,'',
        indent 3 ''message_id TEXT NOT NULL UNIQUE,'',
        indent 3 ''direction TEXT NOT NULL,'',
        indent 3 ''status TEXT NOT NULL,'',
        indent 3 ''payload TEXT NOT NULL,'',
        indent 3 (''job_type VARCHAR(64) NOT NULL DEFAULT '' @ [CHR 0x27, CHR 0x27] @ '',''),
        indent 3 ''retry_count INTEGER DEFAULT 0,'',
        indent 3 ''next_retry_at DATETIME,'',
        indent 3 ''last_error TEXT,'',
        indent 3 ''created_at DATETIME DEFAULT CURRENT_TIMESTAMP'',
        indent 2 '');''],
      ''CREATE INDEX IF NOT EXISTS idx_messages_message_id ON messages(message_id);'',
      ''CREATE INDEX IF NOT EXISTS idx_messages_status ON messages(status);'',
      lines [indent 0 ''CREATE TABLE IF NOT EXISTS trading_partners ('',
        indent 3 ''id INTEGER PRIMARY KEY AUTOINCREMENT,'',
        indent 3 ''partner_id TEXT NOT NULL UNIQUE,'',
        indent 3 ''name TEXT NOT NULL,'',
        indent 3 ''jwks_url TEXT NOT NULL,'',
        indent 3 ''message_endpoint TEXT,'',
        indent 3 ''mdn_receipt_endpoint TEXT,'',
        indent 3 ''public_key_jwks TEXT,'',
        indent 3 ''last_key_refresh DATETIME,'',
        indent 3 ''created_at DATETIME DEFAULT CURRENT_TIMESTAMP,'',
        indent 3 ''updated_at DATETIME DEFAULT CURRENT_TIMESTAMP'',
        indent 2 '');''],
      ''CREATE INDEX IF NOT EXISTS idx_trading_partners_partner_id ON trading_partners(partner_id);'',
      lines [indent 0 ''CREATE TABLE IF NOT EXISTS users ('',
        indent 3 ''id INTEGER PRIMARY KEY AUTOINCREMENT,'',
        indent 3 ''username TEXT UNIQUE NOT NULL,'',
        indent 3 ''password_hash TEXT NOT NULL,'',
        indent 3 ''created_at DATETIME DEFAULT CURRENT_TIMESTAMP'',
        indent 2 '');''],
      lines [indent 0 ''CREATE TABLE IF NOT EXISTS sessions ('',
        indent 3 ''session_id TEXT PRIMARY KEY,'',
        indent 3 ''user_id INTEGER NOT NULL,'',
        indent 3 ''expires_at DATETIME NOT NULL,'',
        indent 3 ''created_at DATETIME DEFAULT CURRENT_TIMESTAMP,'',
        indent 3 ''FOREIGN KEY (user_id) REFERENCES users(id) ON DELETE CASCADE'',
        indent 2 '');''],
      ''CREATE INDEX IF NOT EXISTS idx_sessions_expires_at ON sessions(expires_at);'']"

fun exec_statements :: "(string \<Rightarrow> fault) \<Rightarrow> string list \<Rightarrow> goerr option" where
  "exec_statements ddl [] = None"
| "exec_statements ddl (stmt # stmts) =
     (case ddl stmt of
        Some e \<Rightarrow> Some (Errorf (''failed to execute schema statement: '' @ e @ [CHR 0x0A] @ stmt))
      | None \<Rightarrow> exec_statements ddl stmts)"

definition InitSchema ::
  "(string \<Rightarrow> fault) \<Rightarrow> (nat \<Rightarrow> fault) \<Rightarrow> messages_schema option \<Rightarrow> goerr option \<times> messages_schema option" where
  "InitSchema ddl flt db =
     (let s = (case db of None \<Rightarrow> (message_columns, empty_table) | Some s \<Rightarrow> s) in
      case exec_statements ddl schema_statements of
        Some e \<Rightarrow> (Some e, if ddl (hd schema_statements) = None then Some s else db)
      | None \<Rightarrow>
        (case migrateMessagesJobType flt s of
           (Some e, s') \<Rightarrow> (Some (WrapErr ''failed to migrate messages.job_type: '' e), Some s')
         | (None, s') \<Rightarrow> (None, Some s')))"

section \<open>What the migration does to a row\<close>

definition migrated :: "bool \<Rightarrow> message \<Rightarrow> message" where
  "migrated had_column m =
     m\<lparr>JobType :=
        (if had_column \<and> JobType m \<noteq> [] then JobType m
         else case extract_job_type (Payload m) of
                Some s \<Rightarrow> if s = [] then JobTypeProcessOutbound else s
              | None \<Rightarrow> JobTypeProcessOutbound)\<rparr>"

lemma exec_no_fault [simp]: "exec_statements (\<lambda>_. None) stmts = None"
  by (induction stmts) simp_all

lemma column_loop_iff: "column_loop c cols \<longleftrightarrow> c \<in> set cols"
  by (induction cols) auto

lemma backfill_rows:
  "rows (backfill_default (backfill_payload t)) = map (migrated True) (rows t)"
  by (auto simp: backfill_default_def backfill_payload_def row_simps migrated_def split: option.splits)

lemma migrate_rows:
  assumes "migrateMessagesJobType flt s = (None, s')"
  shows "rows (snd s') = map (migrated (''job_type'' \<in> set (fst s))) (rows (snd s))"
    and "''job_type'' \<in> set (fst s')" and "next_id (snd s') = next_id (snd s)"
proof -
  let ?present = "''job_type'' \<in> set (fst s)"
  let ?s1 = "if ?present then s
    else (fst s @ [''job_type''], tbl_update (\<lambda>m. True) (\<lambda>m. m\<lparr>JobType := []\<rparr>) (snd s))"
  have s': "s' = (fst ?s1, backfill_default (backfill_payload (snd ?s1)))"
    using assms
    by (auto simp: migrateMessagesJobType_def columnExists_def column_loop_iff Let_def
        split: option.splits if_splits)
  show "rows (snd s') = map (migrated ?present) (rows (snd s))"
  proof (cases ?present)
    case True
    then show ?thesis by (simp add: s' backfill_rows)
  next
    case False
    then show ?thesis by (simp add: s' backfill_rows row_simps migrated_def)
  qed
  show "''job_type'' \<in> set (fst s')" by (simp add: s')
  show "next_id (snd s') = next_id (snd s)"
    by (simp add: s' backfill_default_def backfill_payload_def row_simps)
qed

lemma migrated_nonempty: "JobType (migrated b m) \<noteq> []"
  by (auto simp: migrated_def split: option.split)

lemma migrated_idem: "migrated True (migrated b m) = migrated b m"
proof -
  have "migrated True m' = m'" if "JobType m' \<noteq> []" for m'
    using that by (simp add: migrated_def)
  then show ?thesis using migrated_nonempty by blast
qed

text \<open>The migration gives a row the job type that \<open>Create\<close> would have resolved, when the
  payload spells the member as the node writes it: once, in lower case, with a string.\<close>

definition plain_job_type :: "string \<Rightarrow> bool" where
  "plain_job_type payload \<longleftrightarrow>
     (case parse_json payload of
        Some (JObj ms) \<Rightarrow>
          distinct (map fst ms)
          \<and> (\<forall>(k, v) \<in> set ms. key_match ''job_type'' k \<longrightarrow> k = ''job_type'' \<and> (\<exists>s. v = JStr s))
      | Some (JStr s) \<Rightarrow> True | Some (JArr vs) \<Rightarrow> True | Some JNull \<Rightarrow> True | None \<Rightarrow> True | _ \<Rightarrow> True)"

lemma dec_str_from_skip:
  "\<forall>(k, v) \<in> set ms. \<not> key_match f k \<Longrightarrow> dec_str_from acc f ms = acc"
  by (induction ms arbitrary: acc) auto

lemma dec_str_unique:
  assumes "distinct (map fst ms)"
    and "\<forall>(k, v) \<in> set ms. key_match f k \<longrightarrow> k = f \<and> (\<exists>s. v = JStr s)"
  shows "dec_str f ms = (case map_of ms f of Some (JStr s) \<Rightarrow> (s, False) | _ \<Rightarrow> ([], False))"
  unfolding dec_str_def using assms
proof (induction ms)
  case Nil
  then show ?case by simp
next
  case (Cons x ms)
  obtain k v where x: "x = (k, v)" by (cases x)
  show ?case
  proof (cases "key_match f k")
    case True
    with Cons.prems x obtain s where k: "k = f" and v: "v = JStr s" by auto
    have "\<forall>(k', v') \<in> set ms. \<not> key_match f k'"
      using Cons.prems x k by (fastforce simp: image_iff)
    with True x v k show ?thesis by (simp add: dec_str_from_skip)
  next
    case False
    moreover have "f \<noteq> k" using False by (auto simp: key_match_def)
    ultimately show ?thesis using Cons x by simp
  qed
qed

lemma migrated_resolves:
  assumes "plain_job_type (Payload m)" and "Payload m \<noteq> []"
  shows "JobType (migrated True m) = resolveJobType (JobType m) (Payload m)"
proof (cases "\<exists>ms. parse_json (Payload m) = Some (JObj ms)")
  case True
  then obtain ms where p: "parse_json (Payload m) = Some (JObj ms)" by blast
  with assms have d: "distinct (map fst ms)"
    and u: "\<forall>(k, v) \<in> set ms. key_match ''job_type'' k \<longrightarrow> k = ''job_type'' \<and> (\<exists>s. v = JStr s)"
    by (simp_all add: plain_job_type_def)
  have str: "\<exists>s. v = JStr s" if "map_of ms ''job_type'' = Some v" for v
    using u map_of_SomeD [OF that] by (auto simp: key_match_def)
  show ?thesis
  proof (cases "map_of ms ''job_type''")
    case None
    with p assms(2) show ?thesis
      by (simp add: migrated_def extract_job_type_def resolveJobType_def probe_job_type_def
          obj_members_def dec_str_unique [OF d u])
  next
    case (Some v)
    with str obtain s where "v = JStr s" by blast
    with Some p assms(2) show ?thesis
      by (simp add: migrated_def extract_job_type_def resolveJobType_def probe_job_type_def
          obj_members_def dec_str_unique [OF d u])
  qed
next
  case False
  then show ?thesis
    by (auto simp: migrated_def extract_job_type_def resolveJobType_def probe_job_type_def
        obj_members_def dec_str_def split: option.split json.split)
qed

section \<open>Properties\<close>

text \<open>What the migration makes of a database, as one step.\<close>

definition with_column :: "messages_schema \<Rightarrow> messages_schema" where
  "with_column s = (if ''job_type'' \<in> set (fst s) then s
     else (fst s @ [''job_type''], tbl_update (\<lambda>m. True) (\<lambda>m. m\<lparr>JobType := []\<rparr>) (snd s)))"

definition complete :: "messages_schema \<Rightarrow> messages_schema" where
  "complete s = (fst (with_column s), backfill_default (backfill_payload (snd (with_column s))))"

lemma migrate_complete: "migrateMessagesJobType (\<lambda>_. None) s = (None, complete s)"
  by (auto simp: migrateMessagesJobType_def columnExists_def column_loop_iff complete_def with_column_def Let_def)

lemma migrate_faultless: "migrateMessagesJobType flt s = (None, s') \<Longrightarrow> s' = complete s"
  by (auto simp: migrateMessagesJobType_def columnExists_def column_loop_iff complete_def with_column_def Let_def
      split: option.splits if_splits)

lemma with_column_twice [simp]: "with_column (with_column s) = with_column s"
  by (auto simp: with_column_def)

lemma backfill_payload_twice: "backfill_payload (backfill_payload t) = backfill_payload t"
  by (auto simp: backfill_payload_def tbl_update_def split: option.splits)

lemma backfill_nothing:
  assumes "\<forall>m \<in> set (rows t). JobType m \<noteq> []"
  shows "backfill_payload t = t" and "backfill_default t = t"
  using assms by (auto simp: backfill_payload_def backfill_default_def intro!: tbl_update_id)

lemma backfill_default_nonempty: "m \<in> set (rows (backfill_default t)) \<Longrightarrow> JobType m \<noteq> []"
  by (auto simp: backfill_default_def row_simps split: if_splits)

lemma backfill_after_default: "backfill_default (backfill_payload (backfill_default t)) = backfill_default t"
  using backfill_default_nonempty by (simp add: backfill_nothing)

lemma complete_resumes:
  assumes "fst s1 = fst (with_column s)"
    and "snd s1 \<in> {snd (with_column s), backfill_payload (snd (with_column s)),
      backfill_default (backfill_payload (snd (with_column s)))}"
  shows "complete s1 = complete s"
proof -
  have "''job_type'' \<in> set (fst s1)" using assms(1) by (simp add: with_column_def)
  then have "with_column s1 = s1" by (simp add: with_column_def)
  with assms show ?thesis by (auto simp: complete_def backfill_payload_twice backfill_after_default)
qed

text \<open>C36: A migration that failed at any statement is completed by the next start: it gives the same
  table as one that ran through at once, in which every row has a job type, and running it again
  changes nothing.\<close>

theorem migration_restartable:
  assumes "migrateMessagesJobType flt s = (res, s1)"
  shows "migrateMessagesJobType (\<lambda>_. None) s1 = migrateMessagesJobType (\<lambda>_. None) s
    \<and> (\<forall>m \<in> set (rows (snd (snd (migrateMessagesJobType (\<lambda>_. None) s1)))). JobType m \<noteq> [])
    \<and> migrateMessagesJobType (\<lambda>_. None) (snd (migrateMessagesJobType (\<lambda>_. None) s1))
        = migrateMessagesJobType (\<lambda>_. None) s1"
proof -
  have "s1 = s \<or> fst s1 = fst (with_column s) \<and> snd s1 \<in> {snd (with_column s),
      backfill_payload (snd (with_column s)), backfill_default (backfill_payload (snd (with_column s)))}"
    using assms
    by (auto simp: migrateMessagesJobType_def columnExists_def column_loop_iff with_column_def Let_def
        split: option.splits if_splits)
  then have eq: "complete s1 = complete s" using complete_resumes by blast
  have "complete (complete s) = complete s" by (rule complete_resumes) (simp_all add: complete_def)
  moreover have "\<forall>m \<in> set (rows (snd (complete s))). JobType m \<noteq> []"
    by (auto simp: complete_def backfill_default_def row_simps split: if_splits)
  ultimately show ?thesis by (simp add: migrate_complete eq)
qed

definition old_schema :: messages_schema where
  "old_schema = ([''id'', ''message_id'', ''payload''], \<lparr>rows = [\<lparr>ID = 1, MessageID = ''a'', Direction = DirectionOutbound,
     Status = StatusQueued, Payload = ''x'', JobType = ''?'', RetryCount = 0, NextRetryAt = None, LastError = [],
     CreatedAt = 0\<rparr>], next_id = 2\<rparr>)"

theorem migration_restartable_witness:
  "list_all (\<lambda>m. JobType m \<noteq> []) (rows (snd (snd (migrateMessagesJobType (\<lambda>_. None)
     (snd (migrateMessagesJobType (\<lambda>i. if i = 3 then Some ''disk full'' else None) old_schema))))))"
  using migration_restartable [OF prod.collapse [symmetric], of "\<lambda>i. if i = 3 then Some ''disk full'' else None" old_schema]
  by (simp add: list_all_iff)

end
