(* ===== verification/Boot.thy ===== *)
theory Boot
  imports Router Watcher Hub Schema
begin

text \<open>
  \<open>internal/container/container.go\<close> and \<open>cmd/fidex-node/main.go\<close>: how a node comes up from its
  configuration, its key files and its database, and how it goes down. What the operating system,
  the driver and the random source answer along the way is the record \<open>boot_env\<close>. A call of
  \<open>log.Fatalf\<close> ends the start with its text. The lines that only log are left out.
\<close>

section \<open>What a node starts from\<close>

record database =
  db_messages :: "messages_schema option" \<comment> \<open>\<open>None\<close> before the first start\<close>
  db_partners :: partner_table
  db_auth :: auth_db

record boot_env =
  be_json_error :: "string \<Rightarrow> string"
  be_getenv :: "string \<Rightarrow> string"
  be_flags :: flag_values
  be_api_key :: "nat \<Rightarrow> nat option"
  be_stat :: fault \<comment> \<open>an error of \<open>os.Stat\<close> other than that the file does not exist\<close>
  be_key_rnd :: nat
  be_mkdir :: fault
  be_write_private :: fault
  be_write_public :: fault
  be_open :: fault
  be_ping :: fault
  be_pragma :: "string \<Rightarrow> fault"
  be_ddl :: "string \<Rightarrow> fault"
  be_migrate :: "nat \<Rightarrow> fault"
  be_read_key :: fault
  be_init :: init_env
  be_fsnotify :: fault
  be_outbox_mkdir :: "string \<Rightarrow> fault"
  be_watch :: fault

section \<open>The container\<close>

record container =
  Config :: config
  CryptoService :: as5_engine
  DiscoveryConfig :: NodeConfig
  TokenStore :: token_store
  QueueWorker :: worker
  WebSocketHub :: hub

definition initDatabase :: "boot_env \<Rightarrow> database \<Rightarrow> goerr option \<times> database" where
  "initDatabase E db =
     (case OpenSQLite (be_open E) (be_ping E) (be_pragma E) of
        Some e \<Rightarrow> (Some (WrapErr ''failed to open database: '' e), db)
      | None \<Rightarrow>
        (case InitSchema (be_ddl E) (be_migrate E) (db_messages db) of
           (Some e, ms) \<Rightarrow> (Some (WrapErr ''failed to initialize schema: '' e), db\<lparr>db_messages := ms\<rparr>)
         | (None, ms) \<Rightarrow> (None, db\<lparr>db_messages := ms\<rparr>)))"

definition loadPrivateKey :: "fault \<Rightarrow> string \<Rightarrow> disk \<Rightarrow> string result" where
  "loadPrivateKey flt path d =
     (case ReadFile flt path d of Inl e \<Rightarrow> Inl (WrapErr ''failed to read private key file: '' (Errorf e))
      | Inr data \<Rightarrow> Inr data)"

definition initCryptoService :: "libs \<Rightarrow> fault \<Rightarrow> config \<Rightarrow> disk \<Rightarrow> as5_engine result" where
  "initCryptoService L flt cfg d =
     (case loadPrivateKey flt (PrivateKeyPath cfg) d of
        Inl e \<Rightarrow> Inl (WrapErr ''failed to load private key: '' e)
      | Inr pem \<Rightarrow>
        (case NewAS5Engine L pem (NodeID cfg) of
           Inl e \<Rightarrow> Inl (WrapErr ''failed to create AS5 engine: '' e)
         | Inr engine \<Rightarrow> Inr engine))"

definition initDiscoveryService :: "config \<Rightarrow> NodeConfig \<times> token_store" where
  "initDiscoveryService cfg =
     (\<lparr>N_NodeID = NodeID cfg, N_OrganizationName = OrganizationName cfg,
       BaseURL = ''https://'' @ PublicDomain cfg @ '':'' @ show_int (PublicAPIPort cfg),
       N_PublicDomain = PublicDomain cfg, N_SupportedDocumentTypes = []\<rparr>, NewTokenStore)"

definition initWorkers :: "config \<Rightarrow> as5_engine \<Rightarrow> worker \<times> hub" where
  "initWorkers cfg engine = (SetNodeID (NodeID cfg) (NewWorker (Some engine)), NewHub)"

definition NewContainer ::
  "libs \<Rightarrow> boot_env \<Rightarrow> config \<Rightarrow> disk \<Rightarrow> database \<Rightarrow> container result \<times> database" where
  "NewContainer L E cfg d db =
     (case initDatabase E db of
        (Some e, db1) \<Rightarrow> (Inl (WrapErr ''failed to initialize database: '' e), db1)
      | (None, db1) \<Rightarrow>
        (case initCryptoService L (be_read_key E) cfg d of
           Inl e \<Rightarrow> (Inl (WrapErr ''failed to initialize crypto service: '' e), db1)
         | Inr engine \<Rightarrow>
           let (nc, ts) = initDiscoveryService cfg; (w, hb) = initWorkers cfg engine in
           (Inr \<lparr>Config = cfg, CryptoService = engine, DiscoveryConfig = nc, TokenStore = ts,
              QueueWorker = w, WebSocketHub = hb\<rparr>, db1)))"

section \<open>The start\<close>

definition read_config :: "disk \<Rightarrow> file_system" where
  "read_config d path = ReadFile None path d"

definition mustLoadConfig :: "boot_env \<Rightarrow> disk \<Rightarrow> string + config" where
  "mustLoadConfig E d =
     (case Load (be_json_error E) (read_config d) (be_getenv E) (be_flags E) (be_api_key E) of
        Inl e \<Rightarrow> Inl (''Failed to load config: '' @ err_text e)
      | Inr cfg \<Rightarrow> Inr cfg)"

definition ensureKeysExist :: "libs \<Rightarrow> boot_env \<Rightarrow> config \<Rightarrow> disk \<Rightarrow> string option \<times> disk" where
  "ensureKeysExist L E cfg d =
     (if be_stat E \<noteq> None \<or> d (PrivateKeyPath cfg) \<noteq> None then (None, d)
      else
        (case GenerateKeyPair L (be_key_rnd E) of
           Inl e \<Rightarrow> (Some (''Failed to generate key pair: '' @ err_text e), d)
         | Inr (privateKeyPEM, publicKeyPEM) \<Rightarrow>
           (case be_mkdir E of Some e \<Rightarrow> (Some (''Failed to create keys directory: '' @ e), d)
            | None \<Rightarrow>
              (case be_write_private E of Some e \<Rightarrow> (Some (''Failed to save private key: '' @ e), d)
               | None \<Rightarrow>
                 let d1 = d(PrivateKeyPath cfg \<mapsto> privateKeyPEM) in
                 (case be_write_public E of Some e \<Rightarrow> (Some (''Failed to save public key: '' @ e), d1)
                  | None \<Rightarrow> (None, d1(PublicKeyPath cfg \<mapsto> publicKeyPEM)))))))"

definition mustInitContainer ::
  "libs \<Rightarrow> boot_env \<Rightarrow> config \<Rightarrow> disk \<Rightarrow> database \<Rightarrow> (string + container) \<times> database" where
  "mustInitContainer L E cfg d db =
     (case NewContainer L E cfg d db of
        (Inl e, db1) \<Rightarrow> (Inl (''Failed to initialize container: '' @ err_text e), db1)
      | (Inr c, db1) \<Rightarrow> (Inr c, db1))"

definition buildHandlers :: "container \<Rightarrow> handlers" where
  "buildHandlers c = \<lparr>h_config = Some (Config c), h_crypto = Some (CryptoService c),
     h_has_discovery = True, h_has_hub = True\<rparr>"

definition mustStartFileWatcher :: "boot_env \<Rightarrow> string + file_watcher" where
  "mustStartFileWatcher E =
     (case NewFileWatcher (be_fsnotify E) True of
        Inl e \<Rightarrow> Inl (''Failed to create file watcher: '' @ err_text e)
      | Inr fw \<Rightarrow>
        (case Start_watcher (be_outbox_mkdir E) (be_watch E) fw of
           (Some e, fw1) \<Rightarrow> Inl (''Failed to start file watcher: '' @ err_text e)
         | (None, fw1) \<Rightarrow> Inr fw1))"

text \<open>The goroutine of \<open>startSessionCleanup\<close>, at one tick of its hour.\<close>

definition session_cleanup_period :: duration where "session_cleanup_period = 1 * hour"

definition startSessionCleanup :: "fault \<Rightarrow> time \<Rightarrow> auth_db \<Rightarrow> auth_db" where
  "startSessionCleanup flt now db = snd (CleanupExpiredSessions flt now db)"

record http_server =
  Addr :: string
  ReadTimeout :: duration
  WriteTimeout :: duration
  IdleTimeout :: duration

definition new_server :: "int \<Rightarrow> http_server" where
  "new_server port = \<lparr>Addr = '':'' @ show_int port, ReadTimeout = 15 * second, WriteTimeout = 15 * second,
     IdleTimeout = 60 * second\<rparr>"

text \<open>The two servers and the addresses, the key and the switch that the internal router is set up with.\<close>

definition mustSetupServers ::
  "config \<Rightarrow> string + http_server \<times> http_server \<times> string list \<times> string \<times> bool" where
  "mustSetupServers cfg =
     (case ParseAllowedIPs (AllowedIPsString cfg) of
        Inl e \<Rightarrow> Inl (''Failed to parse allowed IPs: '' @ err_text e)
      | Inr allowedIPs \<Rightarrow>
        Inr (new_server (InternalAPIPort cfg), new_server (PublicAPIPort cfg), allowedIPs,
             InternalAPIKey cfg, EnableIPAllowlist cfg))"

record running =
  ru_container :: container
  ru_watcher :: file_watcher
  ru_allowed :: "string list"
  ru_key :: string
  ru_allowlist :: bool
  ru_internal :: http_server
  ru_public :: http_server
  ru_worker_stopped :: bool
  ru_db_open :: bool
  ru_internal_up :: bool
  ru_public_up :: bool

definition main_start ::
  "libs \<Rightarrow> boot_env \<Rightarrow> disk \<Rightarrow> database \<Rightarrow> (string + running) \<times> disk \<times> database" where
  "main_start L E d db =
     (case mustLoadConfig E d of Inl msg \<Rightarrow> (Inl msg, d, db)
      | Inr cfg \<Rightarrow>
        (case ensureKeysExist L E cfg d of (Some msg, d1) \<Rightarrow> (Inl msg, d1, db)
         | (None, d1) \<Rightarrow>
           (case mustInitContainer L E cfg d1 db of (Inl msg, db1) \<Rightarrow> (Inl msg, d1, db1)
            | (Inr c, db1) \<Rightarrow>
              (case InitializeDefaultUser L (be_init E) (db_auth db1) of
                 (Some e, au) \<Rightarrow>
                   (Inl (''Failed to initialize default user: '' @ err_text e), d1, db1\<lparr>db_auth := au\<rparr>)
               | (None, au) \<Rightarrow>
                 (case mustStartFileWatcher E of Inl msg \<Rightarrow> (Inl msg, d1, db1\<lparr>db_auth := au\<rparr>)
                  | Inr fw \<Rightarrow>
                    (case mustSetupServers cfg of Inl msg \<Rightarrow> (Inl msg, d1, db1\<lparr>db_auth := au\<rparr>)
                     | Inr (isrv, psrv, ips, key, enable) \<Rightarrow>
                       (Inr \<lparr>ru_container = c, ru_watcher = fw, ru_allowed = ips, ru_key = key,
                          ru_allowlist = enable, ru_internal = isrv, ru_public = psrv, ru_worker_stopped = False,
                          ru_db_open = True, ru_internal_up = True, ru_public_up = True\<rparr>,
                        d1, db1\<lparr>db_auth := au\<rparr>)))))))"

section \<open>The shutdown\<close>

text \<open>The worker is told to stop, and not waited for; then the database closes, whatever error
  that reports. \<open>None\<close> is a panic.\<close>

definition Close :: "fault \<Rightarrow> running \<Rightarrow> (goerr option \<times> running) option" where
  "Close flt ru =
     (case Stop (ru_worker_stopped ru) of None \<Rightarrow> None
      | Some stopped \<Rightarrow>
        Some (map_option Errorf flt, ru\<lparr>ru_worker_stopped := stopped, ru_db_open := False\<rparr>))"

record shutdown_env =
  sh_watcher :: fault
  sh_database :: fault
  sh_internal :: fault
  sh_public :: fault

text \<open>\<open>Shutdown\<close> closes the listeners at once; its error is that some connections did not end in
  time. The result is the state after each of the four stages.\<close>

definition runWithGracefulShutdown :: "shutdown_env \<Rightarrow> running \<Rightarrow> running list option" where
  "runWithGracefulShutdown E ru =
     (case Stop_watcher (sh_watcher E) (ru_watcher ru) of None \<Rightarrow> None
      | Some (werr, fw) \<Rightarrow>
        let s1 = ru\<lparr>ru_watcher := fw\<rparr> in
        (case Close (sh_database E) s1 of None \<Rightarrow> None
         | Some (cerr, s2) \<Rightarrow>
           let s3 = s2\<lparr>ru_internal_up := False\<rparr>; s4 = s3\<lparr>ru_public_up := False\<rparr>
           in Some [s1, s2, s3, s4]))"

section \<open>Facts about the start\<close>

lemma allowed_ips_reparsed: "ParseAllowedIPs (AllowedIPsString cfg) = Inr (AllowedIPAddresses cfg)"
proof -
  have "parse_json (AllowedIPsString cfg) = Some (JArr (map JStr (AllowedIPAddresses cfg)))"
    unfolding AllowedIPsString_def by (rule parse_print) simp
  then show ?thesis by (simp add: ParseAllowedIPs_def Let_def)
qed

lemma mustSetupServers_total:
  "mustSetupServers cfg = Inr (new_server (InternalAPIPort cfg), new_server (PublicAPIPort cfg),
     AllowedIPAddresses cfg, InternalAPIKey cfg, EnableIPAllowlist cfg)"
  by (simp add: mustSetupServers_def allowed_ips_reparsed)

text \<open>What a successful start did: the key files, the schema, the first user.\<close>

lemma main_start_ok:
  assumes "main_start L E d db = (Inr ru, d1, db1)"
  shows "\<exists>cfg cont dbm au. ensureKeysExist L E cfg d = (None, d1) \<and> NewContainer L E cfg d1 db = (Inr cont, dbm)
    \<and> InitializeDefaultUser L (be_init E) (db_auth dbm) = (None, au) \<and> db1 = dbm\<lparr>db_auth := au\<rparr>
    \<and> ru_container ru = cont \<and> ru_db_open ru \<and> ru_internal_up ru \<and> ru_public_up ru \<and> \<not> ru_worker_stopped ru
    \<and> mustStartFileWatcher E = Inr (ru_watcher ru)"
  using assms
  by (auto simp: main_start_def mustInitContainer_def split: sum.splits option.splits prod.splits)

lemma NewContainer_ok:
  assumes "NewContainer L E cfg d db = (Inr cont, db1)"
  shows "InitSchema (be_ddl E) (be_migrate E) (db_messages db) = (None, db_messages db1)
    \<and> db_partners db1 = db_partners db \<and> db_auth db1 = db_auth db \<and> TokenStore cont = NewTokenStore
    \<and> initCryptoService L (be_read_key E) cfg d = Inr (CryptoService cont)
    \<and> Config cont = cfg \<and> QueueWorker cont = SetNodeID (NodeID cfg) (NewWorker (Some (CryptoService cont)))"
  using assms
  by (auto simp: NewContainer_def initDatabase_def initDiscoveryService_def initWorkers_def Let_def
      split: option.splits sum.splits prod.splits)

lemma started_watcher: "mustStartFileWatcher E = Inr fw \<Longrightarrow> \<not> fw_done_closed fw"
  by (auto simp: mustStartFileWatcher_def NewFileWatcher_def Start_watcher_def split: option.splits sum.splits prod.splits)

section \<open>A concrete start\<close>

definition demo_boot_env :: boot_env where
  "demo_boot_env = \<lparr>be_json_error = (\<lambda>s. s), be_getenv = (\<lambda>_. []),
     be_flags = default_flags\<lparr>f_node_id := ''urn:a'', f_api_key := ''k''\<rparr>, be_api_key = (\<lambda>_. None), be_stat = None,
     be_key_rnd = 1, be_mkdir = None, be_write_private = None, be_write_public = None, be_open = None, be_ping = None,
     be_pragma = (\<lambda>_. None), be_ddl = (\<lambda>_. None), be_migrate = (\<lambda>_. None), be_read_key = None,
     be_init = \<lparr>in_now = 5, in_count_fault = None, in_create_fault = None, in_rnd = 8\<rparr>,
     be_fsnotify = None, be_outbox_mkdir = (\<lambda>_. None), be_watch = None\<rparr>"

definition demo_config :: config where
  "demo_config = default_config\<lparr>NodeID := ''urn:a'', InternalAPIKey := ''k''\<rparr>"

definition demo_key_files :: disk where
  "demo_key_files = [''./keys/private_key.pem'' \<mapsto> ''pkcs1'', ''./keys/public_key.pem'' \<mapsto> ''pkix'']"

lemma demo_load: "mustLoadConfig demo_boot_env d = Inr demo_config"
proof -
  have "loadFromEnv (\<lambda>_. []) default_config = default_config"
    by (simp add: loadFromEnv_def env_str_def env_int_def default_config_def)
  moreover have "apply_flags (default_flags\<lparr>f_node_id := ''urn:a'', f_api_key := ''k''\<rparr>) default_config = demo_config"
    by (simp add: apply_flags_def flag_or_def default_flags_def demo_config_def default_config_def)
  moreover have "InternalAPIKey demo_config \<noteq> []" by (simp add: demo_config_def)
  ultimately show ?thesis by (simp add: mustLoadConfig_def demo_boot_env_def Load_def default_flags_def Let_def)
qed

lemma demo_keys: "ensureKeysExist demo_libs demo_boot_env demo_config Map.empty = (None, demo_key_files)"
  by (simp add: ensureKeysExist_def demo_boot_env_def GenerateKeyPair_def demo_libs_def demo_config_def default_config_def
      demo_key_files_def)

lemma demo_engine: "initCryptoService demo_libs None demo_config demo_key_files = Inr (engine_of demo_key ''urn:a'')"
  by (simp add: initCryptoService_def loadPrivateKey_def ReadFile_def demo_key_files_def demo_config_def default_config_def
      NewAS5Engine_def demo_libs_def)

definition demo_container :: container where
  "demo_container = \<lparr>Config = demo_config, CryptoService = engine_of demo_key ''urn:a'',
     DiscoveryConfig = fst (initDiscoveryService demo_config), TokenStore = NewTokenStore,
     QueueWorker = SetNodeID ''urn:a'' (NewWorker (Some (engine_of demo_key ''urn:a''))), WebSocketHub = NewHub\<rparr>"

definition demo_admin_db :: auth_db where
  "demo_admin_db = snd (InitializeDefaultUser demo_libs (be_init demo_boot_env) empty_auth_db)"

lemma demo_admin: "InitializeDefaultUser demo_libs (be_init demo_boot_env) empty_auth_db = (None, demo_admin_db)"
proof -
  have "fst (InitializeDefaultUser demo_libs (be_init demo_boot_env) empty_auth_db) = None"
    by (simp add: InitializeDefaultUser_def demo_boot_env_def CountUsers_def User_List_def empty_auth_db_def empty_table_def
        HashPassword_def demo_libs_def CreateUser_def User_Create_def tbl_has_def Let_def)
  then show ?thesis unfolding demo_admin_db_def by (metis prod.collapse)
qed

definition demo_running :: running where
  "demo_running = \<lparr>ru_container = demo_container, ru_watcher = \<lparr>fw_done_closed = False, fw_watching = [outboxDir]\<rparr>,
     ru_allowed = AllowedIPAddresses demo_config, ru_key = ''k'', ru_allowlist = True, ru_internal = new_server 8080,
     ru_public = new_server 8443, ru_worker_stopped = False, ru_db_open = True, ru_internal_up = True, ru_public_up = True\<rparr>"

lemma demo_keys_again: "ensureKeysExist demo_libs E demo_config demo_key_files = (None, demo_key_files)"
  by (simp add: ensureKeysExist_def demo_config_def default_config_def demo_key_files_def)

lemma demo_admin_again: "InitializeDefaultUser demo_libs (be_init demo_boot_env) demo_admin_db = (None, demo_admin_db)"
proof -
  have "rows (users demo_admin_db) \<noteq> []"
    by (simp add: demo_admin_db_def InitializeDefaultUser_def demo_boot_env_def CountUsers_def User_List_def empty_auth_db_def
        empty_table_def HashPassword_def demo_libs_def CreateUser_def User_Create_def tbl_has_def Let_def row_simps)
  then show ?thesis by (simp add: InitializeDefaultUser_def demo_boot_env_def CountUsers_def User_List_def)
qed

lemma demo_start:
  assumes "InitSchema (\<lambda>_. None) (\<lambda>_. None) ms = (None, ms')"
    and "ensureKeysExist demo_libs demo_boot_env demo_config d = (None, demo_key_files)"
    and "InitializeDefaultUser demo_libs (be_init demo_boot_env) au = (None, au')"
  shows "main_start demo_libs demo_boot_env d \<lparr>db_messages = ms, db_partners = ps, db_auth = au\<rparr>
    = (Inr demo_running, demo_key_files, \<lparr>db_messages = ms', db_partners = ps, db_auth = au'\<rparr>)"
proof -
  have env: "be_open demo_boot_env = None" "be_ping demo_boot_env = None" "be_pragma demo_boot_env = (\<lambda>_. None)"
    "be_ddl demo_boot_env = (\<lambda>_. None)" "be_migrate demo_boot_env = (\<lambda>_. None)" "be_read_key demo_boot_env = None"
    "be_fsnotify demo_boot_env = None" "be_outbox_mkdir demo_boot_env = (\<lambda>_. None)" "be_watch demo_boot_env = None"
    by (simp_all add: demo_boot_env_def)
  have cfg: "NodeID demo_config = ''urn:a''" "InternalAPIKey demo_config = ''k''" "EnableIPAllowlist demo_config"
    "InternalAPIPort demo_config = 8080" "PublicAPIPort demo_config = 8443"
    by (simp_all add: demo_config_def default_config_def)
  have "OpenSQLite None None (\<lambda>_. None) = None" by (simp add: OpenSQLite_def)
  then have nc: "NewContainer demo_libs demo_boot_env demo_config demo_key_files
      \<lparr>db_messages = ms, db_partners = ps, db_auth = au\<rparr>
      = (Inr demo_container, \<lparr>db_messages = ms', db_partners = ps, db_auth = au\<rparr>)"
    using assms(1) demo_engine
    by (simp add: NewContainer_def initDatabase_def env demo_container_def initWorkers_def cfg initDiscoveryService_def)
  have fw: "mustStartFileWatcher demo_boot_env = Inr \<lparr>fw_done_closed = False, fw_watching = [outboxDir]\<rparr>"
    by (simp add: mustStartFileWatcher_def env NewFileWatcher_def Start_watcher_def ensureDirectories_def)
  show ?thesis
    by (simp add: main_start_def demo_load assms(2,3) mustInitContainer_def nc fw mustSetupServers_total cfg
        demo_running_def)
qed

section \<open>Properties\<close>

text \<open>C39: The key pair that a first start generates is the one the node runs with, now and after every
  restart: the engine loads the generated private key under the node's id, the public key file
  holds its public half, and no later start writes the files again.\<close>

theorem first_start_keys:
  assumes "d (PrivateKeyPath cfg) = None" and "PrivateKeyPath cfg \<noteq> PublicKeyPath cfg"
    and "be_stat E = None \<and> be_mkdir E = None \<and> be_write_private E = None \<and> be_write_public E = None"
    and "generate_rsa L (be_key_rnd E) 2048 = Inr sk" and "marshal_pkix L (PublicKey sk) = Inr pb"
    and "\<forall>ty b. pem_decode L (pem_encode L ty b) = Some b"
    and "parse_pkcs1 L (marshal_pkcs1 L sk) = Inr sk" and "parse_pkix L pb = Inr (RSAPublic (PublicKey sk))"
  shows "\<exists>d1 pub. ensureKeysExist L E cfg d = (None, d1)
    \<and> initCryptoService L None cfg d1 = Inr (engine_of sk (NodeID cfg))
    \<and> d1 (PublicKeyPath cfg) = Some pub \<and> ParsePublicKeyFromPEM L pub = Inr (PublicKey sk)
    \<and> (\<forall>E2. ensureKeysExist L E2 cfg d1 = (None, d1))"
proof -
  let ?priv = "pem_encode L ''RSA PRIVATE KEY'' (marshal_pkcs1 L sk)"
  let ?pub = "pem_encode L ''PUBLIC KEY'' pb"
  let ?d1 = "d(PrivateKeyPath cfg \<mapsto> ?priv, PublicKeyPath cfg \<mapsto> ?pub)"
  have "GenerateKeyPair L (be_key_rnd E) = Inr (?priv, ?pub)" using assms(4,5) by (simp add: GenerateKeyPair_def Let_def)
  then have "ensureKeysExist L E cfg d = (None, ?d1)" using assms(1,3) by (simp add: ensureKeysExist_def Let_def)
  moreover have "initCryptoService L None cfg ?d1 = Inr (engine_of sk (NodeID cfg))"
    using assms(2,6,7) by (simp add: initCryptoService_def loadPrivateKey_def ReadFile_def NewAS5Engine_def)
  moreover have "ParsePublicKeyFromPEM L ?pub = Inr (PublicKey sk)"
    using assms(6,8) by (simp add: ParsePublicKeyFromPEM_def)
  moreover have "\<forall>E2. ensureKeysExist L E2 cfg ?d1 = (None, ?d1)" using assms(2) by (simp add: ensureKeysExist_def)
  ultimately show ?thesis by (intro exI [of _ ?d1] exI [of _ ?pub]) simp
qed

theorem first_start_keys_witness:
  "\<exists>d1 pub. ensureKeysExist demo_libs demo_boot_env demo_config Map.empty = (None, d1)
    \<and> initCryptoService demo_libs None demo_config d1 = Inr (engine_of demo_key ''urn:a'')
    \<and> d1 ''./keys/public_key.pem'' = Some pub \<and> ParsePublicKeyFromPEM demo_libs pub = Inr (PublicKey demo_key)"
proof -
  have libs: "generate_rsa demo_libs n 2048 = Inr demo_key" "marshal_pkix demo_libs k = Inr ''pkix''"
    "\<forall>ty b. pem_decode demo_libs (pem_encode demo_libs ty b) = Some b"
    "parse_pkcs1 demo_libs (marshal_pkcs1 demo_libs demo_key) = Inr demo_key"
    "parse_pkix demo_libs ''pkix'' = Inr (RSAPublic (PublicKey demo_key))" for n k
    by (simp_all add: demo_libs_def demo_key_def)
  have cfg: "PrivateKeyPath demo_config \<noteq> PublicKeyPath demo_config" "PublicKeyPath demo_config = ''./keys/public_key.pem''"
    "NodeID demo_config = ''urn:a''" by (simp_all add: demo_config_def default_config_def)
  have env: "be_stat demo_boot_env = None \<and> be_mkdir demo_boot_env = None \<and> be_write_private demo_boot_env = None
      \<and> be_write_public demo_boot_env = None" by (simp add: demo_boot_env_def)
  show ?thesis using first_start_keys [OF _ cfg(1) env libs(1,2,3,4,5), of Map.empty] cfg by auto
qed



end
