(* ===== verification/NodeSystem.thy ===== *)
theory NodeSystem
  imports Boot Worker_Facts
begin

text \<open>
  A running node as one transition system: requests to the two servers, the passes of the queue
  worker, events of the outbox, session cleanup and changes of the disk by others, in any order
  over one state. A request is one step; a pass of the worker is a step that lists the queue and
  then, per message, a step that sends it and a step that records the outcome, so that requests
  and files come in between, as they do while a partner answers. The state starts as
  \<open>main_start\<close> leaves it.
\<close>

section \<open>The state and its steps\<close>

record system =
  s_node :: node
  s_marks :: "string \<rightharpoonup> time" \<comment> \<open>the watcher's map of recent files\<close>
  s_pass :: "message list" \<comment> \<open>listed by the running pass and not yet reached\<close>
  s_flight :: "(message \<times> goerr option) option" \<comment> \<open>delivered, outcome not yet recorded\<close>
  s_log :: "http_request list" \<comment> \<open>what the worker has sent\<close>

definition set_msgs :: "msg_table \<Rightarrow> system \<Rightarrow> system" where
  "set_msgs t s = s\<lparr>s_node := (s_node s)\<lparr>n_msgs := t\<rparr>\<rparr>"

definition record_outcome :: "worker \<Rightarrow> attempt_env \<Rightarrow> message \<Rightarrow> goerr option \<Rightarrow> msg_table \<Rightarrow> msg_table" where
  "record_outcome w E m err t =
     (case err of None \<Rightarrow> handleSuccess E m t | Some e \<Rightarrow> handleFailure (w_config w) E m e t)"

definition watcher_moves :: "libs \<Rightarrow> fs_event \<Rightarrow> system \<Rightarrow> system" where
  "watcher_moves L ev s =
     (let ws = handle_event L ev \<lparr>processedFiles = s_marks s, ws_disk = n_disk (s_node s), ws_msgs = n_msgs (s_node s)\<rparr>
      in s\<lparr>s_marks := processedFiles ws, s_node := (s_node s)\<lparr>n_disk := ws_disk ws, n_msgs := ws_msgs ws\<rparr>\<rparr>)"

inductive sys_step :: "chi \<Rightarrow> libs \<Rightarrow> running \<Rightarrow> system \<Rightarrow> system \<Rightarrow> bool" for C L ru where
  internal: "sys_step C L ru s (s\<lparr>s_node := snd (internal_server C L (buildHandlers (ru_container ru)) V
      (ru_allowed ru) (ru_key ru) (ru_allowlist ru) r (s_node s))\<rparr>)"
| public: "sys_step C L ru s (s\<lparr>s_node := snd (public_server C L (buildHandlers (ru_container ru)) V r (s_node s))\<rparr>)"
| list: "s_pass s = [] \<Longrightarrow> s_flight s = None \<Longrightarrow> Msg_ListByStatus flt StatusQueued (n_msgs (s_node s)) = Inr ms \<Longrightarrow>
    sys_step C L ru s (s\<lparr>s_pass := ms\<rparr>)"
| skip: "s_pass s = m # ms \<Longrightarrow> s_flight s = None \<Longrightarrow> \<not> due E m \<Longrightarrow> sys_step C L ru s (s\<lparr>s_pass := ms\<rparr>)"
| attempt: "s_pass s = m # ms \<Longrightarrow> s_flight s = None \<Longrightarrow> due E m \<Longrightarrow> the_partners E = n_partners (s_node s) \<Longrightarrow>
    deliverMessage L (QueueWorker (ru_container ru)) E m = (sent, err) \<Longrightarrow>
    sys_step C L ru s (s\<lparr>s_pass := ms, s_flight := Some (m, err),
      s_log := s_log s @ (case sent of None \<Rightarrow> [] | Some q \<Rightarrow> [q])\<rparr>)"
| settle: "s_flight s = Some (m, err) \<Longrightarrow>
    sys_step C L ru s (set_msgs (record_outcome (QueueWorker (ru_container ru)) E m err (n_msgs (s_node s)))
      (s\<lparr>s_flight := None\<rparr>))"
| outbox: "sys_step C L ru s (watcher_moves L ev s)"
| disk: "sys_step C L ru s (s\<lparr>s_node := (s_node s)\<lparr>n_disk := d\<rparr>\<rparr>)"
| cleanup: "sys_step C L ru s (s\<lparr>s_node := (s_node s)\<lparr>n_auth := startSessionCleanup flt now (n_auth (s_node s))\<rparr>\<rparr>)"

definition sys_start :: "running \<Rightarrow> disk \<Rightarrow> database \<Rightarrow> system" where
  "sys_start ru d db = \<lparr>s_node = \<lparr>n_msgs = (case db_messages db of None \<Rightarrow> empty_table | Some (cols, t) \<Rightarrow> t),
       n_partners = db_partners db, n_auth = db_auth db, n_tokens = TokenStore (ru_container ru), n_disk = d,
       n_events = []\<rparr>,
     s_marks = Map.empty, s_pass = [], s_flight = None, s_log = []\<rparr>"

text \<open>A database that a node can start from: never used, or left behind by a node, of any version of
  the schema.\<close>

definition row_typed :: "message \<Rightarrow> bool" where
  "row_typed m \<longleftrightarrow> Status m \<in> {StatusQueued, StatusDelivered, StatusFailed, StatusQuarantined}
     \<and> Direction m \<in> {DirectionInbound, DirectionOutbound} \<and> (Status m = StatusQueued \<longrightarrow> Direction m = DirectionOutbound)"

definition rows_typed :: "msg_table \<Rightarrow> bool" where
  "rows_typed t \<longleftrightarrow> list_all row_typed (rows t)"

definition stored_ok :: "msg_table \<Rightarrow> bool" where
  "stored_ok t \<longleftrightarrow> table_ok MessageID ID t \<and> list_all (\<lambda>m. MessageID m \<noteq> [] \<and> Payload m \<noteq> []) (rows t)
     \<and> rows_typed t"

definition db_ok :: "database \<Rightarrow> bool" where
  "db_ok db \<longleftrightarrow> (case db_messages db of None \<Rightarrow> True | Some (cols, t) \<Rightarrow> stored_ok t)
     \<and> partners_ok (db_partners db) \<and> auth_ok (db_auth db)"

inductive sys_reachable :: "chi \<Rightarrow> libs \<Rightarrow> running \<Rightarrow> system \<Rightarrow> bool" for C L ru where
  start: "main_start L E d db = (Inr ru, d1, db1) \<Longrightarrow> db_ok db \<Longrightarrow> sys_reachable C L ru (sys_start ru d1 db1)"
| step: "sys_reachable C L ru s \<Longrightarrow> sys_step C L ru s s' \<Longrightarrow> sys_reachable C L ru s'"

section \<open>What can happen to the message table\<close>

text \<open>Everything the node does to the table is a sequence of these statements.\<close>

inductive msg_evolves :: "msg_table \<Rightarrow> msg_table \<Rightarrow> bool" for t where
  keep [intro!, simp]: "msg_evolves t t"
| create: "msg_evolves t t1 \<Longrightarrow> row_typed m \<Longrightarrow>
    msg_evolves t (snd (Msg_Create flt now (Some m) t1))"
| status: "msg_evolves t t1 \<Longrightarrow> st \<in> {StatusDelivered, StatusFailed} \<Longrightarrow> msg_evolves t (snd (Msg_UpdateStatus flt mid st t1))"
| retry: "msg_evolves t t1 \<Longrightarrow> msg_evolves t (snd (Msg_UpdateRetryInfo flt mid n a e t1))"

lemma msg_evolves_trans: "msg_evolves t1 t2 \<Longrightarrow> msg_evolves t t1 \<Longrightarrow> msg_evolves t t2"
  by (induction rule: msg_evolves.induct) (auto intro: msg_evolves.intros)

lemma msg_evolves_ok: "msg_evolves t t' \<Longrightarrow> msgs_ok t \<Longrightarrow> msgs_ok t'"
  by (induction rule: msg_evolves.induct) (auto intro: inv_intros)

lemma Msg_Create_table:
  "snd (Msg_Create flt now (Some m) t) = t
   \<or> snd (Msg_Create flt now (Some m) t) = tbl_insert set_msg_id (stored_form now m) t"
  by (auto simp: Msg_Create_Some split: option.split)

lemma set_msg_id_fields [simp]:
  "Status (set_msg_id i m) = Status m" "Direction (set_msg_id i m) = Direction m"
  "MessageID (set_msg_id i m) = MessageID m" "Payload (set_msg_id i m) = Payload m"
  by (simp_all add: set_msg_id_def)

lemma row_typed_set_id [simp]: "row_typed (set_msg_id i m) = row_typed m" "row_typed (stored_form now m) = row_typed m"
  "row_typed (set_retry n a e m) = row_typed m"
  "st \<in> {StatusDelivered, StatusFailed} \<Longrightarrow> row_typed m \<Longrightarrow> row_typed (m\<lparr>Status := st\<rparr>)"
  by (auto simp: row_typed_def set_msg_id_def set_retry_def)

lemma msg_evolves_queued: "msg_evolves t t' \<Longrightarrow> rows_typed t \<Longrightarrow> rows_typed t'"
proof (induction rule: msg_evolves.induct)
  case (create t1 m flt now)
  then show ?case
    using Msg_Create_table [of flt now m t1]
    by (auto simp: rows_typed_def row_simps)
qed (auto simp: rows_typed_def Msg_UpdateStatus_table Msg_UpdateRetryInfo_table row_simps list_all_iff)

text \<open>A message and what it can become: the same message, in the same state, delivered or failed.\<close>

definition same_message :: "message \<Rightarrow> message \<Rightarrow> bool" where
  "same_message m m' \<longleftrightarrow> ID m' = ID m \<and> MessageID m' = MessageID m \<and> Direction m' = Direction m
     \<and> Payload m' = Payload m \<and> JobType m' = JobType m \<and> CreatedAt m' = CreatedAt m
     \<and> Status m' \<in> {Status m, StatusDelivered, StatusFailed}"

lemma same_message_refl [simp]: "same_message m m"
  by (simp add: same_message_def)

lemma same_message_trans: "same_message m1 m2 \<Longrightarrow> same_message m2 m3 \<Longrightarrow> same_message m1 m3"
  by (auto simp: same_message_def)

definition keeps_rows :: "msg_table \<Rightarrow> msg_table \<Rightarrow> bool" where
  "keeps_rows t t' \<longleftrightarrow> (\<forall>m \<in> set (rows t). \<exists>m' \<in> set (rows t'). same_message m m')"

lemma keeps_rows_trans: "keeps_rows t t1 \<Longrightarrow> keeps_rows t1 t2 \<Longrightarrow> keeps_rows t t2"
  unfolding keeps_rows_def by (meson same_message_trans)

lemma keeps_rows_refl [simp]: "keeps_rows t t"
  by (auto simp: keeps_rows_def intro: same_message_refl)

lemma keeps_rows_insert: "keeps_rows t (tbl_insert f m t)"
  by (auto simp: keeps_rows_def row_simps intro: same_message_refl)

lemma keeps_rows_update: "(\<And>m. same_message m (f m)) \<Longrightarrow> keeps_rows t (tbl_update P f t)"
  unfolding keeps_rows_def row_simps
  by (intro ballI, rule_tac x = "if P m then f m else m" in bexI) auto

lemma msg_evolves_keeps: "msg_evolves t t' \<Longrightarrow> keeps_rows t t'"
proof (induction rule: msg_evolves.induct)
  case (create t1 m flt now)
  then show ?case
    using Msg_Create_table [of flt now m t1] keeps_rows_insert keeps_rows_trans by metis
next
  case (status t1 st flt mid)
  moreover have "keeps_rows t1 (tbl_update (\<lambda>m. MessageID m = mid) (\<lambda>m. m\<lparr>Status := st\<rparr>) t1)"
    using status(2) by (intro keeps_rows_update) (simp add: same_message_def)
  ultimately show ?case by (auto simp: Msg_UpdateStatus_table intro: keeps_rows_trans)
next
  case (retry t1 flt mid n a e)
  moreover have "keeps_rows t1 (tbl_update (\<lambda>m. MessageID m = mid) (set_retry n a e) t1)"
    by (intro keeps_rows_update) (simp add: same_message_def set_retry_def)
  ultimately show ?case by (auto simp: Msg_UpdateRetryInfo_table intro: keeps_rows_trans)
qed simp

section \<open>What each part of the node does to it\<close>

lemma evolves_transmit: "msg_evolves t (snd (transmitHandler L flt now mid r t))"
proof -
  have "msg_evolves t (snd (Msg_Create flt now (Some (new_message mid DirectionOutbound StatusQueued p now)) t))" for p
    by (intro msg_evolves.intros) (simp add: new_message_def row_typed_def)
  then show ?thesis
    by (simp add: transmitHandler_def Let_def split: option.split prod.split sum.split) (metis snd_conv)
qed

lemma evolves_inbound: "msg_evolves t (snd (inboundHandler L h ps E r t))"
proof -
  have c1: "msg_evolves t (snd (Msg_Create (ie_create_fault E) (ie_now E)
      (Some (new_message i DirectionInbound (if b then StatusQuarantined else StatusDelivered) p (ie_now E))) t))" for i b p
    by (intro msg_evolves.intros) (auto simp: new_message_def row_typed_def split: if_splits)
  have c2: "msg_evolves t t1 \<Longrightarrow> msg_evolves t (snd (Msg_Create (ie_receipt_fault E) (ie_now2 E)
      (Some (new_message (ie_uuid E) DirectionOutbound StatusQueued p (ie_now2 E))) t1))" for p t1
    by (intro msg_evolves.intros) (auto simp: new_message_def row_typed_def)
  show ?thesis
  proof (cases "decode_envelope (body_json r)")
    case None
    then show ?thesis by (simp add: inboundHandler_def)
  next
    case (Some env)
    show ?thesis
    proof (cases "validateFidexEnvelope (Some env)")
      case None
      let ?v = "admit L h ps (ie_partner_fault E) env"
      let ?doc = "case ?v of Inl _ \<Rightarrow> [] | Inr d \<Rightarrow> d"
      let ?p = "if ?doc = [] then print_json (api_envelope_json env) else ?doc"
      have st: "(case ?v of Inl _ \<Rightarrow> StatusQuarantined | Inr _ \<Rightarrow> StatusDelivered) = (if isl ?v then StatusQuarantined else StatusDelivered)"
        by (cases ?v) simp_all
      obtain res t1 where cr: "Msg_Create (ie_create_fault E) (ie_now E) (Some (new_message (RMessageID (Routing env))
          DirectionInbound (if isl ?v then StatusQuarantined else StatusDelivered) ?p (ie_now E))) t = (res, t1)" by fastforce
      have "msg_evolves t t1" using c1 [of "RMessageID (Routing env)" "isl ?v" ?p] cr by simp
      with Some None cr c2 show ?thesis
        by (simp add: inboundHandler_def Let_def st split: sum.split)
    qed (simp add: inboundHandler_def Some)
  qed
qed

lemma evolves_reconcile: "msg_evolves t (fst (snd (reconcile E mid body disp warned t)))"
proof -
  have "msg_evolves t (snd (Msg_Create (re_create_fault E) (re_now E)
      (Some (new_message mid DirectionInbound StatusDelivered body (re_now E))) t))"
    by (intro msg_evolves.intros) (auto simp: new_message_def row_typed_def)
  moreover have "msg_evolves t t1 \<Longrightarrow> msg_evolves t (snd (Msg_UpdateStatus (re_update_fault E) i (new_status st) t1))" for t1 i st
    by (intro msg_evolves.status) (auto simp: new_status_def)
  ultimately show ?thesis
    by (auto simp: reconcile_def Let_def split: prod.split sum.split)
qed

lemma evolves_receipt: "msg_evolves t (fst (snd (receiptHandler L h ps E r t)))"
  by (auto simp: receiptHandler_def Let_def evolves_reconcile split: option.split sum.split)

lemma evolves_dispatch: "msg_evolves (n_msgs s) (n_msgs (snd (dispatch L h V e r s)))"
proof (cases "e \<in> {EpTransmit, EpInbound, EpReceipt}")
  case True
  then show ?thesis
    using evolves_receipt [of "n_msgs s" L h "Some (n_partners s)" "v_receipt V" r]
    by (auto simp: evolves_transmit evolves_inbound split: prod.split)
qed (simp add: dispatch_msgs)

lemma evolves_settle: "msg_evolves t (record_outcome w E m err t)"
  by (auto simp: record_outcome_def handleSuccess_def handleFailure_def Let_def
      intro!: msg_evolves.retry msg_evolves.status split: option.split)

lemma evolves_file: "msg_evolves t (snd (snd (processFile L E path d t)))"
proof -
  have "msg_evolves t (snd (Msg_Create flt now (Some (new_message mid DirectionOutbound StatusQueued b now')) t))" for flt now mid b now'
    by (intro msg_evolves.intros) (simp add: new_message_def row_typed_def)
  then show ?thesis
    by (simp add: processFile_def Let_def split: option.split prod.split sum.split) (metis snd_conv)
qed

lemma evolves_event: "msg_evolves (ws_msgs s) (ws_msgs (handle_event L ev s))"
  using evolves_file [of "ws_msgs s" L "ev_env ev" "ev_name ev" "ws_disk s"]
  by (auto simp: handle_event_def split: prod.split)

section \<open>The invariant\<close>

text \<open>The node's tables are well formed and its token store is empty; what the worker has listed and
  sent are messages that are stored, and outbound.\<close>

definition node_ok :: "node \<Rightarrow> bool" where
  "node_ok n \<longleftrightarrow> msgs_ok (n_msgs n) \<and> rows_typed (n_msgs n) \<and> partners_ok (n_partners n) \<and> auth_ok (n_auth n)
     \<and> n_tokens n = NewTokenStore"

definition known :: "msg_table \<Rightarrow> message \<Rightarrow> bool" where
  "known t m \<longleftrightarrow> Direction m = DirectionOutbound \<and> (\<exists>m' \<in> set (rows t). same_message m m')"

definition sent_known :: "msg_table \<Rightarrow> http_request \<Rightarrow> bool" where
  "sent_known t q \<longleftrightarrow> (\<exists>m. known t m \<and> names_message (MessageID m) q)"

definition sys_ok :: "system \<Rightarrow> bool" where
  "sys_ok s \<longleftrightarrow> node_ok (s_node s) \<and> list_all (known (n_msgs (s_node s))) (s_pass s)
     \<and> (\<forall>m err. s_flight s = Some (m, err) \<longrightarrow> known (n_msgs (s_node s)) m)
     \<and> list_all (sent_known (n_msgs (s_node s))) (s_log s)"

lemma known_mono: "keeps_rows t t' \<Longrightarrow> known t m \<Longrightarrow> known t' m"
  unfolding known_def keeps_rows_def by (meson same_message_trans)

lemma sent_known_mono: "keeps_rows t t' \<Longrightarrow> sent_known t q \<Longrightarrow> sent_known t' q"
  unfolding sent_known_def by (meson known_mono)

text \<open>A step that changes only the node, its message table by the statements above.\<close>

lemma sys_ok_node:
  assumes "sys_ok s" and "msg_evolves (n_msgs (s_node s)) (n_msgs n)"
    and "partners_ok (n_partners n)" and "auth_ok (n_auth n)" and "n_tokens n = NewTokenStore"
    and "s_node s' = n" and "s_pass s' = s_pass s" and "s_flight s' = s_flight s \<or> s_flight s' = None" and "s_log s' = s_log s"
  shows "sys_ok s'"
proof -
  have k: "keeps_rows (n_msgs (s_node s)) (n_msgs n)" by (rule msg_evolves_keeps [OF assms(2)])
  have "known (n_msgs n) m" if "s_flight s' = Some (m, err)" for m err
  proof -
    have "s_flight s = Some (m, err)" using that assms(8) by auto
    then show ?thesis using assms(1) known_mono [OF k] unfolding sys_ok_def by blast
  qed
  moreover have "list_all (known (n_msgs n)) (s_pass s)" "list_all (sent_known (n_msgs n)) (s_log s)"
    using assms(1) known_mono [OF k] sent_known_mono [OF k] by (auto simp: sys_ok_def list_all_iff)
  ultimately show ?thesis
    using assms(1,3-9) msg_evolves_ok [OF assms(2)] msg_evolves_queued [OF assms(2)]
    by (simp add: sys_ok_def node_ok_def)
qed

lemma partners_ok_register:
  "ts = NewTokenStore \<Longrightarrow> snd (webhookRegistrationHandler L h E r ts ps) = (ts, ps)"
  by (auto simp: webhookRegistrationHandler_def registration_no_token NewTokenStore_def split: option.split)

lemma dispatch_keeps:
  assumes "partners_ok (n_partners s)" and "auth_ok (n_auth s)" and "n_tokens s = NewTokenStore"
  shows "partners_ok (n_partners (snd (dispatch L h V e r s)))" and "auth_ok (n_auth (snd (dispatch L h V e r s)))"
    and "n_tokens (snd (dispatch L h V e r s)) = NewTokenStore"
proof -
  have reg: "webhookRegistrationHandler L h (v_register V) r NewTokenStore (n_partners s) = (resp, ts, ps) \<Longrightarrow>
      ts = NewTokenStore \<and> ps = n_partners s" for resp ts ps
    using partners_ok_register [OF refl, of L h "v_register V" r "n_partners s"] by simp
  have disc: "discoverPartnerHandler L h (v_discover V) r (n_partners s) = (resp, ps, ev) \<Longrightarrow> partners_ok ps" for resp ps ev
    using partners_ok_discover [OF assms(1), of L h "v_discover V" r] by simp
  show "partners_ok (n_partners (snd (dispatch L h V e r s)))"
    using assms(1,3) by (cases e) (auto simp: on_msgs_def on_auth_def on_disk_def on_partners_def
        dest: reg disc intro: inv_intros split: prod.split)
  show "auth_ok (n_auth (snd (dispatch L h V e r s)))"
    using assms(2) by (cases e) (auto simp: on_msgs_def on_auth_def on_disk_def on_partners_def
        intro: inv_intros split: prod.split)
  show "n_tokens (snd (dispatch L h V e r s)) = NewTokenStore"
    using assms(3) by (cases e) (auto simp: on_msgs_def on_auth_def on_disk_def on_partners_def
        dest: reg split: prod.split)
qed

text \<open>A server either leaves the node alone or hands the request to one endpoint.\<close>

lemma internal_server_cases:
  "snd (internal_server C L h V ips key en r s) = s
   \<or> (\<exists>e r'. snd (internal_server C L h V ips key en r s) = snd (dispatch L h V e r' s))"
proof -
  have "snd (internal_routes C L h V key q s) = s
      \<or> (\<exists>e r'. snd (internal_routes C L h V key q s) = snd (dispatch L h V e r' s))" for q
    by (auto simp: internal_routes_def APIKeyMiddleware_def Let_def simp del: dispatch.simps
        split: option.split prod.split)
  then show ?thesis by (auto simp: internal_server_def IPAllowlistMiddleware_def)
qed

lemma public_server_cases:
  "snd (public_server C L h V r s) = s \<or> (\<exists>e r'. snd (public_server C L h V r s) = snd (dispatch L h V e r' s))"
  by (auto simp: public_server_def simp del: dispatch.simps split: option.split prod.split)

lemma sys_ok_served:
  assumes "sys_ok s" and "n = s_node s \<or> (\<exists>e r'. n = snd (dispatch L h V e r' (s_node s)))"
  shows "sys_ok (s\<lparr>s_node := n\<rparr>)"
  using assms(2)
proof
  assume "\<exists>e r'. n = snd (dispatch L h V e r' (s_node s))"
  then obtain e r' where n: "n = snd (dispatch L h V e r' (s_node s))" by blast
  have "partners_ok (n_partners (s_node s))" "auth_ok (n_auth (s_node s))" "n_tokens (s_node s) = NewTokenStore"
    using assms(1) by (simp_all add: sys_ok_def node_ok_def)
  from dispatch_keeps [OF this] show ?thesis
    unfolding n by (rule sys_ok_node [OF assms(1) evolves_dispatch]) simp_all
qed (use assms(1) in simp)

lemma listed_known:
  assumes "rows_typed t" and "Msg_ListByStatus flt StatusQueued t = Inr ms"
  shows "list_all (known t) ms"
  using assms
  by (auto simp: Msg_ListByStatus_def rows_typed_def row_typed_def known_def list_all_iff intro: same_message_refl split: option.splits)

lemma sys_ok_step: "sys_step C L ru s s' \<Longrightarrow> sys_ok s \<Longrightarrow> sys_ok s'"
proof (induction rule: sys_step.induct)
  case (internal s V r)
  then show ?case by (rule sys_ok_served [OF _ internal_server_cases])
next
  case (public s V r)
  then show ?case by (rule sys_ok_served [OF _ public_server_cases])
next
  case (list s flt ms)
  then show ?case using listed_known by (auto simp: sys_ok_def node_ok_def)
next
  case (attempt s m ms E sent err)
  have "sent_known (n_msgs (s_node s)) q" if "sent = Some q" for q
  proof -
    have "fst (deliverMessage L (QueueWorker (ru_container ru)) E m) = Some q" using attempt(5) that by simp
    then have "names_message (MessageID m) q" using deliver_names by blast
    then show ?thesis using attempt(1,6) by (auto simp: sent_known_def sys_ok_def)
  qed
  with attempt(1,6) show ?case by (auto simp: sys_ok_def split: option.split)
next
  case (settle s m err E)
  show ?case
    by (rule sys_ok_node [of s "(s_node s)\<lparr>n_msgs := record_outcome (QueueWorker (ru_container ru)) E m err (n_msgs (s_node s))\<rparr>"])
       (use settle in \<open>simp_all add: set_msgs_def evolves_settle sys_ok_def node_ok_def\<close>)
next
  case (outbox s ev)
  let ?ws = "handle_event L ev \<lparr>processedFiles = s_marks s, ws_disk = n_disk (s_node s), ws_msgs = n_msgs (s_node s)\<rparr>"
  have ev: "msg_evolves (n_msgs (s_node s)) (ws_msgs ?ws)"
    using evolves_event [of "\<lparr>processedFiles = s_marks s, ws_disk = n_disk (s_node s), ws_msgs = n_msgs (s_node s)\<rparr>" L ev]
    by simp
  show ?case
    by (rule sys_ok_node [of s "(s_node s)\<lparr>n_disk := ws_disk ?ws, n_msgs := ws_msgs ?ws\<rparr>"])
      (use outbox ev in \<open>simp_all add: watcher_moves_def Let_def sys_ok_def node_ok_def\<close>)
next
  case (cleanup s flt now)
  show ?case
    by (rule sys_ok_node [of s "(s_node s)\<lparr>n_auth := startSessionCleanup flt now (n_auth (s_node s))\<rparr>"])
       (use cleanup in \<open>simp_all add: startSessionCleanup_def CleanupExpiredSessions_def sys_ok_def node_ok_def inv_intros\<close>)
qed (auto simp: sys_ok_def node_ok_def)


interpretation sys_machine: invariant_machine "sys_step C L ru" sys_ok for C L ru
  by unfold_locales (rule sys_ok_step)

section \<open>The start\<close>

lemma migrated_fields [simp]:
  "ID (migrated b m) = ID m" "MessageID (migrated b m) = MessageID m" "Payload (migrated b m) = Payload m"
  "Direction (migrated b m) = Direction m" "Status (migrated b m) = Status m" "CreatedAt (migrated b m) = CreatedAt m"
  by (simp_all add: migrated_def)

lemma InitSchema_rows:
  assumes "InitSchema ddl flt db = (None, db')"
  shows "\<exists>cols t b. db' = Some (cols, t) \<and> rows t = map (migrated b) (case db of None \<Rightarrow> [] | Some (c, t0) \<Rightarrow> rows t0)
    \<and> next_id t = (case db of None \<Rightarrow> 1 | Some (c, t0) \<Rightarrow> next_id t0)"
proof -
  let ?s = "case db of None \<Rightarrow> (message_columns, empty_table) | Some s \<Rightarrow> s"
  obtain s' where m: "migrateMessagesJobType flt ?s = (None, s')" and db': "db' = Some s'"
    using assms by (auto simp: InitSchema_def Let_def split: option.splits prod.splits)
  have "rows (snd s') = map (migrated (''job_type'' \<in> set (fst ?s))) (rows (snd ?s))" "next_id (snd s') = next_id (snd ?s)"
    using migrate_rows [OF m] by simp_all
  then show ?thesis
    unfolding db' by (cases db; intro exI [of _ "fst s'"] exI [of _ "snd s'"])
      (auto simp: empty_table_def split: prod.split)
qed

lemma migrate_unchanged:
  assumes "complete (cols, t) = (cols, t)" and "InitSchema ddl flt (Some (cols, t)) = (None, db')"
  shows "db' = Some (cols, t)"
proof -
  obtain s' where m: "migrateMessagesJobType flt (cols, t) = (None, s')" and db': "db' = Some s'"
    using assms(2) by (auto simp: InitSchema_def Let_def split: option.splits prod.splits)
  from migrate_faultless [OF m] assms(1) db' show ?thesis by simp
qed

lemma stored_ok_migrated:
  assumes "stored_ok t0" and "rows t = map (migrated b) (rows t0)" and "next_id t = next_id t0"
  shows "msgs_ok t \<and> rows_typed t"
  using assms by (auto simp: stored_ok_def msgs_ok_def table_ok_def row_ok_def rows_typed_def row_typed_def list_all_iff
      comp_def migrated_nonempty)

lemma sys_ok_start:
  assumes "main_start L E d db = (Inr ru, d1, db1)" and "db_ok db"
  shows "sys_ok (sys_start ru d1 db1)"
proof -
  obtain cfg cont dbm au where nc: "NewContainer L E cfg d1 db = (Inr cont, dbm)"
    and iu: "InitializeDefaultUser L (be_init E) (db_auth dbm) = (None, au)"
    and db1: "db1 = dbm\<lparr>db_auth := au\<rparr>" and ru: "ru_container ru = cont"
    using main_start_ok [OF assms(1)] by blast
  note nc_ok = NewContainer_ok [OF nc]
  obtain cols t b where t: "db_messages dbm = Some (cols, t)"
    "rows t = map (migrated b) (case db_messages db of None \<Rightarrow> [] | Some (c, t0) \<Rightarrow> rows t0)"
    "next_id t = (case db_messages db of None \<Rightarrow> 1 | Some (c, t0) \<Rightarrow> next_id t0)"
    using InitSchema_rows nc_ok by blast
  have "msgs_ok t \<and> rows_typed t"
  proof (cases "db_messages db")
    case None
    with t show ?thesis by (simp add: msgs_ok_def table_ok_def rows_typed_def)
  next
    case (Some ct)
    with t assms(2) show ?thesis
      by (intro stored_ok_migrated [of "snd ct"]) (auto simp: db_ok_def split: prod.splits)
  qed
  moreover have "auth_ok au" using auth_ok_InitializeDefaultUser [of "db_auth dbm" L "be_init E"] iu nc_ok assms(2)
    by (simp add: db_ok_def)
  ultimately show ?thesis
    using nc_ok t(1) assms(2) by (simp add: sys_ok_def node_ok_def sys_start_def db1 ru db_ok_def)
qed

lemma sys_ok_reachable: "sys_reachable C L ru s \<Longrightarrow> sys_ok s"
  by (induction rule: sys_reachable.induct) (blast intro: sys_ok_start sys_ok_step)+

text \<open>What a step does to the message table.\<close>

lemma step_evolves: "sys_step C L ru s s' \<Longrightarrow> msg_evolves (n_msgs (s_node s)) (n_msgs (s_node s'))"
proof (induction rule: sys_step.induct)
  case (internal s V r)
  have "msg_evolves (n_msgs (s_node s)) (n_msgs n)"
    if "n = s_node s \<or> (\<exists>e r'. n = snd (dispatch L (buildHandlers (ru_container ru)) V e r' (s_node s)))" for n
    using that evolves_dispatch by auto
  with internal_server_cases show ?case by simp
next
  case (public s V r)
  have "msg_evolves (n_msgs (s_node s)) (n_msgs n)"
    if "n = s_node s \<or> (\<exists>e r'. n = snd (dispatch L (buildHandlers (ru_container ru)) V e r' (s_node s)))" for n
    using that evolves_dispatch by auto
  with public_server_cases show ?case by simp
next
  case (outbox s ev)
  then show ?case
    using evolves_event [of "\<lparr>processedFiles = s_marks s, ws_disk = n_disk (s_node s), ws_msgs = n_msgs (s_node s)\<rparr>" L ev]
    by (simp add: watcher_moves_def Let_def)
qed (simp_all add: set_msgs_def evolves_settle)


section \<open>A pass of the worker as steps\<close>

lemma set_msgs_simps [simp]:
  "n_msgs (s_node (set_msgs t s)) = t" "n_partners (s_node (set_msgs t s)) = n_partners (s_node s)"
  "s_pass (set_msgs t s) = s_pass s" "s_flight (set_msgs t s) = s_flight s" "s_log (set_msgs t s) = s_log s"
  "set_msgs t (set_msgs t' s) = set_msgs t s" "set_msgs (n_msgs (s_node s)) s = s"
  "(set_msgs t s)\<lparr>s_pass := ms\<rparr> = set_msgs t (s\<lparr>s_pass := ms\<rparr>)"
  "(set_msgs t s)\<lparr>s_log := l\<rparr> = set_msgs t (s\<lparr>s_log := l\<rparr>)"
  "(set_msgs t s)\<lparr>s_flight := f\<rparr> = set_msgs t (s\<lparr>s_flight := f\<rparr>)"
  by (simp_all add: set_msgs_def)

lemma process_one_steps:
  assumes "s_pass s = m # ms" and "s_flight s = None" and "meanwhile E = id" and "the_partners E = n_partners (s_node s)"
  shows "(sys_step C L ru)\<^sup>*\<^sup>* s
    (set_msgs (fst (process_one L (QueueWorker (ru_container ru)) E m (n_msgs (s_node s))))
      (s\<lparr>s_pass := ms, s_log := s_log s @ snd (process_one L (QueueWorker (ru_container ru)) E m (n_msgs (s_node s)))\<rparr>))"
proof (cases "due E m")
  case False
  have "s\<lparr>s_pass := ms, s_log := s_log s\<rparr> = s\<lparr>s_pass := ms\<rparr>" by simp
  moreover have "set_msgs (n_msgs (s_node s)) (s\<lparr>s_pass := ms\<rparr>) = s\<lparr>s_pass := ms\<rparr>" by (simp add: set_msgs_def)
  ultimately show ?thesis
    using sys_step.skip [OF assms(1,2) False, of C L ru] assms(3) False by (simp add: process_one_def r_into_rtranclp)
next
  case True
  let ?w = "QueueWorker (ru_container ru)"
  obtain sent err where d: "deliverMessage L ?w E m = (sent, err)" by fastforce
  let ?s1 = "s\<lparr>s_pass := ms, s_flight := Some (m, err), s_log := s_log s @ (case sent of None \<Rightarrow> [] | Some q \<Rightarrow> [q])\<rparr>"
  have "sys_step C L ru s ?s1" by (rule sys_step.attempt [OF assms(1,2) True assms(4) d])
  moreover have "sys_step C L ru ?s1 (set_msgs (record_outcome ?w E m err (n_msgs (s_node ?s1))) (?s1\<lparr>s_flight := None\<rparr>))"
    by (rule sys_step.settle) simp
  moreover have "?s1\<lparr>s_flight := None\<rparr> = s\<lparr>s_pass := ms, s_log := s_log s @ (case sent of None \<Rightarrow> [] | Some q \<Rightarrow> [q])\<rparr>"
    using assms(2) by (cases s) simp
  moreover have "process_one L ?w E m (n_msgs (s_node s))
      = (record_outcome ?w E m err (n_msgs (s_node s)), case sent of None \<Rightarrow> [] | Some q \<Rightarrow> [q])"
    using True assms(3) d by (simp add: process_one_def record_outcome_def Let_def split: option.split)
  ultimately show ?thesis by (auto intro: converse_rtranclp_into_rtranclp)
qed

lemma process_all_steps:
  assumes "s_pass s = ms" and "s_flight s = None" and "length Es = length ms"
    and "\<forall>E \<in> set Es. meanwhile E = id \<and> the_partners E = n_partners (s_node s)"
  shows "(sys_step C L ru)\<^sup>*\<^sup>* s
    (set_msgs (fst (process_all L (QueueWorker (ru_container ru)) Es ms (n_msgs (s_node s))))
      (s\<lparr>s_pass := [], s_log := s_log s @ snd (process_all L (QueueWorker (ru_container ru)) Es ms (n_msgs (s_node s)))\<rparr>))"
  using assms
proof (induction ms arbitrary: Es s)
  case Nil
  then have "set_msgs (n_msgs (s_node s)) (s\<lparr>s_pass := []\<rparr>) = s" by (cases s) (simp add: set_msgs_def)
  with Nil show ?case by simp
next
  case (Cons m ms)
  then obtain E Es' where Es: "Es = E # Es'" by (cases Es) auto
  let ?w = "QueueWorker (ru_container ru)"
  obtain t1 log1 where one: "process_one L ?w E m (n_msgs (s_node s)) = (t1, log1)" by fastforce
  let ?s1 = "set_msgs t1 (s\<lparr>s_pass := ms, s_log := s_log s @ log1\<rparr>)"
  have "(sys_step C L ru)\<^sup>*\<^sup>* s ?s1"
  proof -
    have "meanwhile E = id" "the_partners E = n_partners (s_node s)" using Cons.prems(4) Es by auto
    from process_one_steps [OF Cons.prems(1,2) this, of C L ru] show ?thesis by (simp add: one)
  qed
  moreover have "(sys_step C L ru)\<^sup>*\<^sup>* ?s1 (set_msgs (fst (process_all L ?w Es' ms t1))
      (s\<lparr>s_pass := [], s_log := s_log s @ log1 @ snd (process_all L ?w Es' ms t1)\<rparr>))"
    using Cons.IH [of ?s1 Es'] Cons.prems Es by simp
  ultimately show ?case
    unfolding Es by (auto simp: one case_prod_beta' Let_def intro: rtranclp_trans)
qed

section \<open>A concrete node\<close>

text \<open>A node that starts over a database with one queued document and its recipient.\<close>

definition demo_messages :: messages_schema where
  "demo_messages = (message_columns, \<lparr>rows = [demo_doc_row], next_id = 2\<rparr>)"

definition demo_db :: database where
  "demo_db = \<lparr>db_messages = Some demo_messages, db_partners = demo_partners, db_auth = demo_admin_db\<rparr>"

definition demo_system :: system where
  "demo_system = sys_start demo_running demo_key_files demo_db"

lemma demo_fields: "n_msgs (s_node demo_system) = \<lparr>rows = [demo_doc_row], next_id = 2\<rparr>"
  "n_partners (s_node demo_system) = demo_partners" "s_pass demo_system = []" "s_flight demo_system = None"
  "QueueWorker (ru_container demo_running) = demo_worker"
  by (simp_all add: demo_system_def sys_start_def demo_db_def demo_messages_def demo_running_def demo_container_def
      demo_worker_def)

lemma demo_main_start:
  "main_start demo_libs demo_boot_env Map.empty (demo_db\<lparr>db_auth := empty_auth_db\<rparr>) = (Inr demo_running, demo_key_files, demo_db)"
  "main_start demo_libs demo_boot_env demo_key_files demo_db = (Inr demo_running, demo_key_files, demo_db)"
proof -
  have "''job_type'' \<in> set message_columns" by (simp add: message_columns_def)
  moreover have "\<forall>m \<in> set (rows (snd demo_messages)). JobType m \<noteq> []"
    by (simp add: demo_messages_def demo_doc_row_def JobTypeProcessOutbound_def)
  ultimately have "complete demo_messages = demo_messages"
    by (simp add: complete_def with_column_def backfill_nothing) (simp add: demo_messages_def)
  then have init: "InitSchema (\<lambda>_. None) (\<lambda>_. None) (Some demo_messages) = (None, Some demo_messages)"
    by (simp add: InitSchema_def migrate_complete)
  show "main_start demo_libs demo_boot_env Map.empty (demo_db\<lparr>db_auth := empty_auth_db\<rparr>) = (Inr demo_running, demo_key_files, demo_db)"
    using demo_start [OF init demo_keys demo_admin, of demo_partners] by (simp add: demo_db_def)
  show "main_start demo_libs demo_boot_env demo_key_files demo_db = (Inr demo_running, demo_key_files, demo_db)"
    using demo_start [OF init demo_keys_again demo_admin_again, of demo_partners] by (simp add: demo_db_def)
qed

lemma demo_sys_reachable: "sys_reachable C demo_libs demo_running demo_system"
proof -
  have "MessageID demo_doc_row \<noteq> []" "Payload demo_doc_row \<noteq> []" "ID demo_doc_row = 1"
    "row_typed demo_doc_row"
    by (simp_all add: demo_doc_row_def demo_row_def outbound_json_def row_typed_def)
  then have "db_ok (demo_db\<lparr>db_auth := empty_auth_db\<rparr>)"
    by (simp add: db_ok_def demo_db_def demo_messages_def stored_ok_def table_ok_def rows_typed_def demo_partners_ok
        auth_ok_def empty_auth_db_def empty_table_def)
  with demo_main_start(1) show ?thesis unfolding demo_system_def by (rule sys_reachable.start)
qed

section \<open>Properties\<close>

text \<open>C8: However a started node is used, its tables stay well formed, the state of a message is one of
  the four that the node knows of (no message is ever SENT), every queued message is outbound, and
  the token store stays empty.\<close>

theorem node_invariant:
  assumes "sys_reachable C L ru s"
  shows "msgs_ok (n_msgs (s_node s)) \<and> partners_ok (n_partners (s_node s)) \<and> auth_ok (n_auth (s_node s))
    \<and> list_all (\<lambda>m. Status m \<in> {StatusQueued, StatusDelivered, StatusFailed, StatusQuarantined}
         \<and> Direction m \<in> {DirectionInbound, DirectionOutbound} \<and> (Status m = StatusQueued \<longrightarrow> Direction m = DirectionOutbound))
         (rows (n_msgs (s_node s)))
    \<and> n_tokens (s_node s) = NewTokenStore"
  using sys_ok_reachable [OF assms] by (simp add: sys_ok_def node_ok_def rows_typed_def row_typed_def [abs_def])

theorem node_invariant_witness:
  "msgs_ok (n_msgs (s_node demo_system)) \<and> auth_ok (n_auth (s_node demo_system)) \<and> n_tokens (s_node demo_system) = NewTokenStore"
  using node_invariant [OF demo_sys_reachable [of demo_chi]] by simp

text \<open>C7: No message is ever lost or altered: whatever a node stored before its start is still stored
  at any later point under the same id, with the same payload, direction and creation time, and
  its state has stayed or has become DELIVERED or FAILED; so a message that has left the queue
  never comes back to it.\<close>

theorem messages_kept:
  assumes "main_start L E d db = (Inr ru, d1, db1)" and "db_messages db = Some (cols, t)"
    and "(sys_step C L ru)\<^sup>*\<^sup>* (sys_start ru d1 db1) s" and "m \<in> set (rows t)"
  shows "\<exists>m' \<in> set (rows (n_msgs (s_node s))). ID m' = ID m \<and> MessageID m' = MessageID m \<and> Payload m' = Payload m
    \<and> Direction m' = Direction m \<and> CreatedAt m' = CreatedAt m \<and> Status m' \<in> {Status m, StatusDelivered, StatusFailed}"
proof -
  obtain cfg cont dbm au where nc: "NewContainer L E cfg d1 db = (Inr cont, dbm)" and db1: "db1 = dbm\<lparr>db_auth := au\<rparr>"
    using main_start_ok [OF assms(1)] by blast
  obtain cols' t' b where t': "db_messages dbm = Some (cols', t')" "rows t' = map (migrated b) (rows t)"
    using InitSchema_rows NewContainer_ok [OF nc] assms(2) by fastforce
  have start: "migrated b m \<in> set (rows (n_msgs (s_node (sys_start ru d1 db1))))"
    using t' assms(4) by (simp add: sys_start_def db1)
  have "keeps_rows (n_msgs (s_node (sys_start ru d1 db1))) (n_msgs (s_node s))"
    by (rule sys_machine.run_respects [OF assms(3), where f = "\<lambda>s. n_msgs (s_node s)"])
       (auto intro: keeps_rows_trans msg_evolves_keeps step_evolves)
  then obtain m' where "m' \<in> set (rows (n_msgs (s_node s)))" "same_message (migrated b m) m'"
    using start unfolding keeps_rows_def by blast
  then show ?thesis by (auto simp: same_message_def)
qed

theorem messages_kept_witness:
  "\<exists>m' \<in> set (rows (n_msgs (s_node demo_system))). MessageID m' = ''m-1'' \<and> Payload m' = Payload demo_doc_row"
proof -
  have "db_messages (demo_db\<lparr>db_auth := empty_auth_db\<rparr>) = Some (message_columns, \<lparr>rows = [demo_doc_row], next_id = 2\<rparr>)"
    by (simp add: demo_db_def demo_messages_def)
  from messages_kept [OF demo_main_start(1) this, of demo_chi "sys_start demo_running demo_key_files demo_db" demo_doc_row]
  show ?thesis by (auto simp: demo_system_def demo_doc_row_def demo_row_def)
qed

text \<open>C9: The worker sends nothing but stored outbound messages: each request it ever sent names one in
  the table. In particular an inbound document is never sent on.\<close>

theorem sends_only_stored:
  assumes "sys_reachable C L ru s" and "q \<in> set (s_log s)"
  shows "\<exists>m \<in> set (rows (n_msgs (s_node s))). Direction m = DirectionOutbound
    \<and> (''X-FideX-Message-ID'', MessageID m) \<in> set (q_headers q)"
proof -
  have "sent_known (n_msgs (s_node s)) q" using sys_ok_reachable [OF assms(1)] assms(2) by (simp add: sys_ok_def list_all_iff)
  then obtain m m' where "Direction m = DirectionOutbound" "m' \<in> set (rows (n_msgs (s_node s)))" "same_message m m'"
    "names_message (MessageID m) q" by (auto simp: sent_known_def known_def)
  then show ?thesis by (intro bexI [of _ m']) (simp_all add: same_message_def names_message_def)
qed

theorem sends_only_stored_witness:
  "\<exists>s q. sys_reachable demo_chi demo_libs demo_running s \<and> q \<in> set (s_log s)
    \<and> (\<exists>m \<in> set (rows (n_msgs (s_node s))). Direction m = DirectionOutbound
         \<and> (''X-FideX-Message-ID'', MessageID m) \<in> set (q_headers q))"
proof -
  let ?s1 = "demo_system\<lparr>s_pass := [demo_doc_row]\<rparr>"
  have "Status demo_doc_row = StatusQueued" by (simp add: demo_doc_row_def demo_row_def)
  then have "Msg_ListByStatus None StatusQueued (n_msgs (s_node demo_system)) = Inr [demo_doc_row]"
    by (simp add: Msg_ListByStatus_def demo_fields order_asc_def)
  then have s1: "sys_reachable demo_chi demo_libs demo_running ?s1"
    by (intro sys_reachable.step [OF demo_sys_reachable] sys_step.list) (simp_all add: demo_fields)
  have E: "demo_env_ok = demo_env_ok\<lparr>meanwhile := id\<rparr>" by (simp add: demo_env_ok_def demo_env_def)
  have "JobType demo_doc_row = JobTypeProcessOutbound" by (simp add: demo_doc_row_def)
  then obtain q where q: "deliverMessage demo_libs demo_worker demo_env_ok demo_doc_row = (Some q, None)"
    using demo_delivery [OF E] by (auto simp: deliverMessage_def)
  have due: "due demo_env_ok demo_doc_row" by (simp add: due_def demo_doc_row_def demo_row_def)
  have "the_partners demo_env_ok = n_partners (s_node ?s1)" by (simp add: demo_env_ok_def demo_fields)
  moreover have "s_pass ?s1 = demo_doc_row # []" "s_flight ?s1 = None" by (simp_all add: demo_fields)
  ultimately have "sys_step demo_chi demo_libs demo_running ?s1
      (?s1\<lparr>s_pass := [], s_flight := Some (demo_doc_row, None), s_log := s_log ?s1 @ (case Some q of None \<Rightarrow> [] | Some q \<Rightarrow> [q])\<rparr>)"
    using due q demo_fields(5) by (intro sys_step.attempt [of _ _ _ demo_env_ok]) simp_all
  from sys_reachable.step [OF s1 this] obtain s where s: "sys_reachable demo_chi demo_libs demo_running s" "q \<in> set (s_log s)"
    by fastforce
  with sends_only_stored [OF s] show ?thesis by blast
qed

text \<open>C37: A running node never takes up a partner through its public server: no request to it, the
  registration endpoint included, changes the partners.\<close>

theorem public_adds_no_partner:
  assumes "sys_reachable C L ru s"
  shows "n_partners (snd (public_server C L h V r (s_node s))) = n_partners (s_node s)"
proof -
  have ts: "n_tokens (s_node s) = NewTokenStore" using sys_ok_reachable [OF assms] by (simp add: sys_ok_def node_ok_def)
  have "n_partners (snd (dispatch L h V e q (s_node s))) = n_partners (s_node s)"
    if "e \<in> (snd \<circ> snd) ` set SetupPublicRouter" for e q
    using that partners_ok_register [OF ts, of L h "v_register V" q "n_partners (s_node s)"]
    by (auto simp: SetupPublicRouter_def mount_def on_msgs_def split: prod.split)
  then show ?thesis
    using find_route_in by (auto simp: public_server_def simp del: dispatch.simps split: option.split prod.split)
qed

theorem public_adds_no_partner_witness:
  "n_partners (snd (public_server demo_chi demo_libs demo_peer demo_http_env demo_transmit (s_node demo_system))) = demo_partners"
  using public_adds_no_partner [OF demo_sys_reachable] by (simp add: demo_fields)



text \<open>C10: A node can be stopped at any point, in the middle of a delivery too, and started again over its
  database: it comes up with the same messages and partners, in a state that all the properties of
  a running node cover, and its first pass takes up every message that is still queued.\<close>

theorem restart_resumes:
  assumes "sys_reachable C L ru s"
    and "main_start L E d \<lparr>db_messages = Some (cols, n_msgs (s_node s)), db_partners = n_partners (s_node s),
      db_auth = n_auth (s_node s)\<rparr> = (Inr ru2, d2, db2)"
    and "''job_type'' \<in> set cols"
  shows "sys_reachable C L ru2 (sys_start ru2 d2 db2)
    \<and> n_msgs (s_node (sys_start ru2 d2 db2)) = n_msgs (s_node s)
    \<and> n_partners (s_node (sys_start ru2 d2 db2)) = n_partners (s_node s)
    \<and> (\<exists>s2. sys_step C L ru2 (sys_start ru2 d2 db2) s2
         \<and> set (s_pass s2) = {m \<in> set (rows (n_msgs (s_node s))). Status m = StatusQueued})"
proof -
  let ?db = "\<lparr>db_messages = Some (cols, n_msgs (s_node s)), db_partners = n_partners (s_node s), db_auth = n_auth (s_node s)\<rparr>"
  have ok: "msgs_ok (n_msgs (s_node s))" "rows_typed (n_msgs (s_node s))" "partners_ok (n_partners (s_node s))"
    "auth_ok (n_auth (s_node s))"
    using sys_ok_reachable [OF assms(1)] by (simp_all add: sys_ok_def node_ok_def)
  then have "db_ok ?db" by (auto simp: db_ok_def stored_ok_def msgs_ok_def row_ok_def list_all_iff)
  with assms(2) have reach: "sys_reachable C L ru2 (sys_start ru2 d2 db2)" by (rule sys_reachable.start)
  obtain cfg cont dbm au where nc: "NewContainer L E cfg d2 ?db = (Inr cont, dbm)" and db2: "db2 = dbm\<lparr>db_auth := au\<rparr>"
    using main_start_ok [OF assms(2)] by blast
  have "\<forall>m \<in> set (rows (n_msgs (s_node s))). JobType m \<noteq> []" using ok(1) by (auto simp: msgs_ok_def row_ok_def list_all_iff)
  then have same: "complete (cols, n_msgs (s_node s)) = (cols, n_msgs (s_node s))"
    using assms(3) by (simp add: complete_def with_column_def backfill_nothing)
  have "db_messages dbm = Some (cols, n_msgs (s_node s))"
    using NewContainer_ok [OF nc] migrate_unchanged [OF same] unfolding database.simps by blast
  then have msgs: "n_msgs (s_node (sys_start ru2 d2 db2)) = n_msgs (s_node s)"
    "n_partners (s_node (sys_start ru2 d2 db2)) = n_partners (s_node s)"
    using NewContainer_ok [OF nc] by (simp_all add: sys_start_def db2)
  have idle: "s_pass (sys_start ru2 d2 db2) = []" "s_flight (sys_start ru2 d2 db2) = None" by (simp_all add: sys_start_def)
  let ?ms = "order_asc CreatedAt (filter (\<lambda>m. Status m = StatusQueued) (rows (n_msgs (s_node s))))"
  have "sys_step C L ru2 (sys_start ru2 d2 db2) ((sys_start ru2 d2 db2)\<lparr>s_pass := ?ms\<rparr>)"
    using sys_step.list [OF idle, of None ?ms C L ru2] msgs by (simp add: Msg_ListByStatus_def)
  then show ?thesis using reach msgs by (intro conjI exI) (assumption | auto)+
qed

theorem restart_resumes_witness:
  "\<exists>s2. sys_step demo_chi demo_libs demo_running demo_system s2 \<and> demo_doc_row \<in> set (s_pass s2)"
proof -
  have db: "\<lparr>db_messages = Some (message_columns, n_msgs (s_node demo_system)), db_partners = n_partners (s_node demo_system),
      db_auth = n_auth (s_node demo_system)\<rparr> = demo_db"
    by (simp add: demo_fields) (simp add: demo_system_def sys_start_def demo_db_def demo_messages_def)
  have "demo_doc_row \<in> {m \<in> set (rows (n_msgs (s_node demo_system))). Status m = StatusQueued}"
    by (simp add: demo_fields) (simp add: demo_doc_row_def demo_row_def)
  moreover have "''job_type'' \<in> set message_columns" by (simp add: message_columns_def)
  ultimately show ?thesis
    using restart_resumes [OF demo_sys_reachable [of demo_chi], of demo_boot_env demo_key_files message_columns
        demo_running demo_key_files demo_db, unfolded db, OF demo_main_start(2)]
    unfolding demo_system_def by blast
qed

text \<open>Delivery is at least once: when the outcome of a delivery that succeeded cannot be recorded,
  for instance because the shutdown has closed the database, the message stays as it was and the
  next pass takes it up again.\<close>

theorem unrecorded_delivery_repeats:
  assumes "s_flight s = Some (m, None)" and "s_pass s = []" and "status_fault E = Some e"
    and "m' \<in> set (rows (n_msgs (s_node s)))" and "MessageID m' = MessageID m" and "Status m' = StatusQueued"
  shows "let s1 = set_msgs (record_outcome (QueueWorker (ru_container ru)) E m None (n_msgs (s_node s))) (s\<lparr>s_flight := None\<rparr>)
    in sys_step C L ru s s1 \<and> s_node s1 = s_node s
       \<and> (\<exists>s2 m2. sys_step C L ru s1 s2 \<and> m2 \<in> set (s_pass s2) \<and> MessageID m2 = MessageID m)"
proof -
  let ?s1 = "set_msgs (record_outcome (QueueWorker (ru_container ru)) E m None (n_msgs (s_node s))) (s\<lparr>s_flight := None\<rparr>)"
  let ?ms = "order_asc CreatedAt (filter (\<lambda>m. Status m = StatusQueued) (rows (n_msgs (s_node s))))"
  have s1: "?s1 = s\<lparr>s_flight := None\<rparr>"
    using assms(3) by (simp add: record_outcome_def handleSuccess_def Msg_UpdateStatus_table set_msgs_def)
  have "sys_step C L ru (s\<lparr>s_flight := None\<rparr>) (s\<lparr>s_flight := None, s_pass := ?ms\<rparr>)"
    using sys_step.list [of "s\<lparr>s_flight := None\<rparr>" None ?ms C L ru] assms(2) by (simp add: Msg_ListByStatus_def)
  moreover have "m' \<in> set ?ms" using assms(4,6) by simp
  moreover have "sys_step C L ru s ?s1" by (rule sys_step.settle [OF assms(1)])
  ultimately show ?thesis
    unfolding Let_def s1 using assms(5) by (intro conjI exI [of _ "s\<lparr>s_flight := None, s_pass := ?ms\<rparr>"] exI [of _ m']) simp_all
qed

end
