(* ===== verification/Logging.thy ===== *)
theory Logging
  imports Prelude
begin

text \<open>
  \<open>internal/logging/logger.go\<close>: the line that a logger prints. A context is the list of its
  values, the innermost first; a value is a string, a number, or something of another type. A nil
  context is \<open>None\<close>. \<open>message\<close> stands for the result of \<open>fmt.Sprintf(format, args...)\<close>.
\<close>

datatype context_value = StrVal string | Int64Val int64 | OtherVal

type_synonym log_context = "(string \<times> context_value) list option"

definition RequestIDKey :: string where "RequestIDKey = ''request_id''"
definition UserIDKey :: string where "UserIDKey = ''user_id''"

definition with_value :: "string \<Rightarrow> context_value \<Rightarrow> log_context \<Rightarrow> log_context" where
  "with_value k v ctx = map_option (\<lambda>vs. (k, v) # vs) ctx"

definition WithRequestID :: "log_context \<Rightarrow> string \<Rightarrow> log_context" where
  "WithRequestID ctx requestID = with_value RequestIDKey (StrVal requestID) ctx"

definition WithUserID :: "log_context \<Rightarrow> int64 \<Rightarrow> log_context" where
  "WithUserID ctx userID = with_value UserIDKey (Int64Val userID) ctx"

definition extractRequestID :: "log_context \<Rightarrow> string" where
  "extractRequestID ctx =
     (case ctx of None \<Rightarrow> [] | Some vs \<Rightarrow> (case map_of vs RequestIDKey of Some (StrVal s) \<Rightarrow> s | _ \<Rightarrow> []))"

definition extractUserID :: "log_context \<Rightarrow> int64" where
  "extractUserID ctx =
     (case ctx of None \<Rightarrow> 0 | Some vs \<Rightarrow> (case map_of vs UserIDKey of Some (Int64Val i) \<Rightarrow> i | _ \<Rightarrow> 0))"

datatype level = INFO | ERROR | WARN | DEBUG

fun level_text :: "level \<Rightarrow> string" where
  "level_text INFO = ''INFO''"
| "level_text ERROR = ''ERROR''"
| "level_text WARN = ''WARN''"
| "level_text DEBUG = ''DEBUG''"

definition context_info :: "string \<Rightarrow> int64 \<Rightarrow> string" where
  "context_info requestID userID =
     (if requestID \<noteq> [] \<or> userID \<noteq> 0
      then '' ['' @ (if requestID \<noteq> [] then ''req_id='' @ requestID @ (if userID \<noteq> 0 then '' '' else []) else [])
           @ (if userID \<noteq> 0 then ''user_id='' @ show_int (sint userID) else []) @ '']''
      else [])"

definition log_line :: "string \<Rightarrow> time \<Rightarrow> level \<Rightarrow> log_context \<Rightarrow> string \<Rightarrow> string" where
  "log_line prefix now lv ctx message =
     fmt_datetime now @ '' ['' @ level_text lv @ ''] '' @ prefix @ '': '' @ message
       @ context_info (extractRequestID ctx) (extractUserID ctx)"

text \<open>The methods of a logger and the helpers of the package, which use the prefix \<open>app\<close>.\<close>

definition Info :: "string \<Rightarrow> time \<Rightarrow> log_context \<Rightarrow> string \<Rightarrow> string" where
  "Info prefix now = log_line prefix now INFO"
definition Error :: "string \<Rightarrow> time \<Rightarrow> log_context \<Rightarrow> string \<Rightarrow> string" where
  "Error prefix now = log_line prefix now ERROR"
definition Warn :: "string \<Rightarrow> time \<Rightarrow> log_context \<Rightarrow> string \<Rightarrow> string" where
  "Warn prefix now = log_line prefix now WARN"
definition Debug :: "string \<Rightarrow> time \<Rightarrow> log_context \<Rightarrow> string \<Rightarrow> string" where
  "Debug prefix now = log_line prefix now DEBUG"

definition defaultLogger :: string where "defaultLogger = ''app''"

section \<open>Values of a context\<close>

lemma keys_distinct [simp]: "RequestIDKey \<noteq> UserIDKey" "UserIDKey \<noteq> RequestIDKey"
  by (simp_all add: RequestIDKey_def UserIDKey_def)

lemma extract_simps [simp]:
  "ctx \<noteq> None \<Longrightarrow> extractRequestID (WithRequestID ctx r) = r"
  "ctx \<noteq> None \<Longrightarrow> extractUserID (WithUserID ctx u) = u"
  "extractRequestID (WithUserID ctx u) = extractRequestID ctx"
  "extractUserID (WithRequestID ctx r) = extractUserID ctx"
  by (auto simp: extractRequestID_def extractUserID_def WithRequestID_def WithUserID_def with_value_def split: option.split)

text \<open>A line of a request that was given an id and a user shows both, in this order, however they were put in.\<close>

lemma log_line_request:
  assumes "ctx \<noteq> None" and "r \<noteq> []" and "u \<noteq> 0"
  shows "log_line p now lv (WithUserID (WithRequestID ctx r) u) msg
      = fmt_datetime now @ '' ['' @ level_text lv @ ''] '' @ p @ '': '' @ msg @ '' [req_id='' @ r @ '' user_id='' @ show_int (sint u) @ '']''"
    and "log_line p now lv (WithRequestID (WithUserID ctx u) r) msg = log_line p now lv (WithUserID (WithRequestID ctx r) u) msg"
proof -
  have "WithRequestID ctx r \<noteq> None" "WithUserID ctx u \<noteq> None"
    using assms(1) by (auto simp: WithRequestID_def WithUserID_def with_value_def)
  then show "log_line p now lv (WithUserID (WithRequestID ctx r) u) msg
      = fmt_datetime now @ '' ['' @ level_text lv @ ''] '' @ p @ '': '' @ msg @ '' [req_id='' @ r @ '' user_id='' @ show_int (sint u) @ '']''"
    "log_line p now lv (WithRequestID (WithUserID ctx u) r) msg = log_line p now lv (WithUserID (WithRequestID ctx r) u) msg"
    using assms by (simp_all add: log_line_def context_info_def)
qed

lemma log_line_background: "log_line p now lv (Some []) msg = fmt_datetime now @ '' ['' @ level_text lv @ ''] '' @ p @ '': '' @ msg"
  by (simp add: log_line_def context_info_def extractRequestID_def extractUserID_def)

end
