(* ===== verification/Spec2Isabelle.thy ===== *)
theory Spec2Isabelle
  imports EndToEnd NodeSystem Logging
begin

text \<open>
  A verification library of the FideX edge node, a Go program that exchanges business documents
  with trading partners over the AS5 protocol: an ERP system hands a document to the node, a
  queue worker signs, encrypts and posts it to the partner's node, which decrypts, verifies and
  stores it and sends a signed receipt (J-MDN) back.

  \<^bold>\<open>How the program is put together.\<close> \<open>cmd/fidex-node/main.go\<close> loads the configuration, makes a key
  pair on the first start, builds the container of \<open>internal/container\<close> (database, repositories,
  crypto engine, discovery service, queue worker, WebSocket hub), creates a default user, and
  starts the file watcher, the session cleanup and two HTTP servers: an internal one for the ERP
  system and the web user interface, and a public one for the partners. All of them meet in the
  SQLite tables \<open>messages\<close>, \<open>trading_partners\<close>, \<open>users\<close> and \<open>sessions\<close>.

  \<^bold>\<open>Which theory models what\<close> (paths under \<open>src/\<close>).
  \<^item> Shared ground: \<open>Prelude\<close> (packages \<open>strings\<close>, \<open>strconv\<close>, \<open>time\<close>, \<open>base64\<close>, list lemmas, the
    theorem collections \<open>row_simps\<close> and \<open>inv_intros\<close>, the locale \<open>invariant_machine\<close>), \<open>Json\<close> and
    \<open>Json_Facts\<close> (package \<open>encoding/json\<close>: printer, scanner, struct decoding; the locale \<open>codec\<close>),
    \<open>Sha256\<close>, \<open>NetIP\<close> (\<open>net.ParseIP\<close>, \<open>net.ParseCIDR\<close>), \<open>Extern\<close> (third-party code as the record
    \<open>libs\<close>), \<open>AppErrors\<close> (\<open>internal/errors/errors.go\<close>), \<open>Domain\<close> (\<open>internal/domain/repositories.go\<close>,
    \<open>internal/constants\<close>), \<open>Logging\<close> (\<open>internal/logging/logger.go\<close>).
  \<^item> Storage: \<open>SqlTable\<close> (the effect of the SQL statements; locales \<open>keyed_table\<close>, \<open>rowid_table\<close>),
    \<open>MessageRepo\<close>, \<open>PartnerRepo\<close>, \<open>UserRepo\<close>, \<open>Schema\<close> (\<open>internal/repository/*.go\<close>). \<open>MessageRepo\<close>
    also states its contract as the locale \<open>message_store\<close>.
  \<^item> Cryptography and delivery: \<open>Crypto\<close> (\<open>internal/crypto/as5_engine.go\<close>), \<open>Worker\<close> and
    \<open>Worker_Facts\<close> (\<open>internal/queue/worker.go\<close>), \<open>Discovery\<close> (\<open>internal/discovery/*.go\<close>), \<open>Watcher\<close>
    (\<open>internal/watcher/fs_worker.go\<close>), \<open>Hub\<close> (\<open>internal/dashboard/websocket.go\<close>).
  \<^item> HTTP (\<open>internal/api\<close>, \<open>internal/auth\<close>): \<open>ApiCore\<close> (types, responses, context, middleware), \<open>Auth\<close>
    (passwords, sessions, middleware), \<open>ApiExternal\<close> and \<open>ApiExternal_Facts\<close> (the B2B handlers and
    \<open>transmitHandler\<close>), \<open>ApiDiscovery\<close>, \<open>ApiAuth\<close>, \<open>ApiSettings\<close>, \<open>ApiDashboard\<close> (with
    \<open>internal/dashboard/qrcode.go\<close>), \<open>Router\<close> (route tables and both servers; \<open>handlers.go\<close>,
    \<open>webui_handlers.go\<close>, \<open>constants_handlers.go\<close>).
  \<^item> Composition: \<open>Config\<close> (\<open>internal/config/config.go\<close>), \<open>Boot\<close> (\<open>internal/container/container.go\<close>,
    \<open>cmd/fidex-node/main.go\<close>), \<open>EndToEnd\<close> (two nodes), \<open>NodeSystem\<close> (one running node as a transition
    system).

  \<^bold>\<open>State and operations.\<close> A definition carries the name of the Go function it models; a repository
  method has the prefix of its repository. A Go struct is a record, an \<open>error\<close> a value of \<open>goerr\<close>, a
  function that may fail a sum or an option, a table the list of its rows with the next row id. An
  operation takes the table and returns it changed. What the program cannot decide is an
  argument: an error of the driver or the file system (\<open>fault\<close>), a clock, random bytes, the answer of
  a network peer, and what the rest of the node does to the table while a request is out. Records
  named \<open>..._env\<close> collect these arguments per operation. Retry counters are 64-bit words, with their
  wrap-around; so are the ids read from a URL. Strings are byte strings.

  \<^bold>\<open>What the theorems show.\<close> Each text that begins with C and a number states a property.
  \<^item> Documents: what is signed and encrypted comes out of the peer unchanged, for every algorithm;
    a queued document arrives at the partner, decrypted byte for byte, and its receipt marks the
    sender's row (\<open>Crypto\<close>, \<open>EndToEnd\<close>).
  \<^item> The worker: a pass refines a function on single rows, retries are bounded and end, the outcome
    of an attempt and the delay are exactly characterised (\<open>Worker_Facts\<close>).
  \<^item> Receiving: authenticity of what is accepted, replay, quarantine, receipts (\<open>ApiExternal_Facts\<close>).
  \<^item> Discovery: single use of tokens, the published document is read as written, registration and
    handshake (\<open>ApiDiscovery\<close>, \<open>ApiDashboard\<close>).
  \<^item> Users: login, sessions, middleware, deletion (\<open>Auth\<close>, \<open>ApiAuth\<close>, \<open>ApiSettings\<close>).
  \<^item> Entry points: which requests queue a message, which need a session, that published routes are
    served (\<open>Router\<close>); files of the outbox (\<open>Watcher\<close>); events to the browsers (\<open>Hub\<close>).
  \<^item> Life of a node: precedence of settings, migration, key files, shutdown (\<open>Config\<close>, \<open>Schema\<close>, \<open>Boot\<close>).
  \<^item> The whole node, over any interleaving of its activities: its tables stay well formed, no message
    is lost or altered or requeued, nothing but stored outbound messages is sent, no partner enters
    through the public server, a pass of the worker is a run of the system, and a node stopped at any
    point resumes over its database, at the price that a delivery may be repeated (\<open>NodeSystem\<close>).
  Several properties show behaviour that the code or its documents do not intend; they are stated
  the way the code behaves.

  \<^bold>\<open>Interfaces.\<close> The locales are \<open>keyed_table\<close> and \<open>rowid_table\<close> (interpreted for the messages,
  partners, users and sessions), \<open>message_store\<close> (for \<open>MessageRepo\<close>), \<open>codec\<close> (for the texts of
  envelopes, receipts, flat receipts and both kinds of queued payload) and \<open>invariant_machine\<close> (for the
  hub and the node). What the code relies on in go-jose, \<open>crypto/x509\<close>, \<open>encoding/pem\<close> and bcrypt is
  stated as \<open>jose_ok\<close>, \<open>bcrypt_ok\<close> and the key-file laws of \<open>first_start_keys\<close>; \<open>demo_libs\<close> satisfies them.

  \<^bold>\<open>Bounds and fuel.\<close> The JSON scanner recurses with fuel \<open>2 * length s + 2\<close>, and \<open>Json_Facts\<close> shows that
  no more is ever needed. The loops of the worker, the watcher and the hub run over lists of
  events or as step relations of any length; the retry bound is the configured one. The channels
  of the hub hold 256 messages, as in the code.

  \<^bold>\<open>Grain of the steps.\<close> A request is handled in one step of \<open>NodeSystem\<close>, though its statements are
  separate transactions; the interference that matters most, between a delivery and its outcome,
  is split. A reader of the model who needs finer steps has the statements of \<open>msg_evolves\<close>.

  \<^bold>\<open>Not modelled.\<close> Third-party code: go-jose, SQLite and its driver, chi with its own middleware,
  gorilla/websocket, fsnotify, bcrypt, the QR encoder and the accept loops of \<open>net/http\<close>; these are
  parameters or faults. Log lines (but for their form, in \<open>Logging\<close>), ping timers and deadlines, which
  appear as failing reads and writes. JSON input that is not valid UTF-8, and the replacement of
  bad runes. The interfaces in \<open>internal/domain/services.go\<close>. The web frontend under \<open>ui\<close>, the tests
  and the documents.
\<close>

end
